(* ===== verification/Prelude.thy ===== *)
theory Prelude
  imports Main "HOL-Library.Char_ord" "HOL-Library.List_Lexorder" "HOL-Library.Product_Lexorder"
begin

section \<open>Prelude: Go errors, the fallible state monad, its weakest preconditions\<close>

text \<open>
  What every component shares. A Go function that may fail and that works on the database is a
  value of type \<open>('o, 'w, 'a) go\<close>: it takes an oracle \<open>'o\<close> (everything the environment
  decides: whether the n-th database statement fails, what the n-th clock reading and the n-th
  generated identifier are) and a world \<open>'w\<close> (the state), and returns either a Go error
  (\<open>Inl\<close>) or a result (\<open>Inr\<close>), together with the new world. The world survives an error, as it does
  in the code: only \<open>transactionG\<close> rolls it back.

  Properties of such programs are stated with \<open>wp m Q E\<close>: after running \<open>m\<close> the result satisfies
  \<open>Q\<close>, or the error satisfies \<open>E\<close>. The collection \<open>wp\<close> holds the equations that push \<open>wp\<close> through
  the constructs, \<open>go_defs\<close> the definitions of the code's operations that are unfolded on demand.
\<close>

named_theorems wp_simps "equations that compute the weakest precondition of a construct"
named_theorems keeps_intros "rules that show that a program keeps a relation between worlds"

subsection \<open>Errors\<close>

text \<open>
  The sentinel errors the code compares with \<open>errors.Is\<close>: those of fosite, of its OpenID handler and
  \<open>sql.ErrNoRows\<close>. An error carries a debug text and the error it wraps
  (\<open>fosite.ErrServerError.WithWrap(err).WithDebug(text)\<close>); \<open>errors.New\<close> and \<open>fmt.Errorf\<close> build an
  \<open>ErrText\<close>, with the wrapped error for \<open>%w\<close>.
\<close>

datatype sentinel =
    ErrNotFound
  | ErrInactiveToken
  | ErrServerError
  | ErrSerializationFailure
  | ErrJTIKnown
  | ErrInvalidatedAuthorizeCode
  | ErrNoSessionFound
  | ErrInvalidTokenFormat
  | ErrLoginRequired
  | ErrAccessDenied
  | ErrConsentRequired
  | ErrInteractionRequired
  | ErrNoRows

datatype goerr =
    Err sentinel string "goerr option"
  | ErrText string "goerr option"

abbreviation plainErr :: "sentinel \<Rightarrow> goerr" where
  "plainErr k \<equiv> Err k [] None"

abbreviation serverErr :: "goerr \<Rightarrow> string \<Rightarrow> goerr" where
  "serverErr cause dbg \<equiv> Err ErrServerError dbg (Some cause)"

abbreviation textErr :: "string \<Rightarrow> goerr" where
  "textErr t \<equiv> ErrText t None"

text \<open>\<open>errors.Is(e, sentinel)\<close> walks the chain of wrapped errors.\<close>

fun errorsIs :: "goerr \<Rightarrow> sentinel \<Rightarrow> bool" where
  "errorsIs (Err k _ None) t = (k = t)"
| "errorsIs (Err k _ (Some c)) t = (k = t \<or> errorsIs c t)"
| "errorsIs (ErrText _ None) t = False"
| "errorsIs (ErrText _ (Some c)) t = errorsIs c t"

text \<open>The error a database driver reports (anything but \<open>sql.ErrNoRows\<close>) and a violated index.\<close>

definition driverErr :: goerr where
  "driverErr = textErr ''sql: driver error''"

definition constraintErr :: goerr where
  "constraintErr = textErr ''sql: UNIQUE constraint failed''"

lemma errorsIs_driverErr [simp]: "\<not> errorsIs driverErr k"
  by (simp add: driverErr_def)

lemma errorsIs_constraintErr [simp]: "\<not> errorsIs constraintErr k"
  by (simp add: constraintErr_def)

text \<open>An error that no sentinel matches: a driver, constraint or text error.\<close>

definition opaque :: "goerr \<Rightarrow> bool" where
  "opaque e \<longleftrightarrow> (\<forall>k. \<not> errorsIs e k)"

lemma opaque_simps [simp]:
  "opaque driverErr" "opaque constraintErr" "opaque (textErr t)" "\<not> opaque (Err k d c)"
proof -
  show "\<not> opaque (Err k d c)" by (cases c) (auto simp: opaque_def)
qed (simp_all add: opaque_def)

lemma opaqueD: "opaque e \<Longrightarrow> \<not> errorsIs e k"
  by (simp add: opaque_def)

lemma driverErr_neq [simp]: "driverErr \<noteq> Err k d c" "Err k d c \<noteq> driverErr"
  by (simp_all add: driverErr_def)

subsection \<open>The monad\<close>

type_synonym ('o, 'w, 'a) go = "'o \<Rightarrow> 'w \<Rightarrow> (goerr + 'a) \<times> 'w"

definition returnG :: "'a \<Rightarrow> ('o, 'w, 'a) go" where
  "returnG a = (\<lambda>\<omega> w. (Inr a, w))"

definition throwG :: "goerr \<Rightarrow> ('o, 'w, 'a) go" where
  "throwG e = (\<lambda>\<omega> w. (Inl e, w))"

definition bindG :: "('o, 'w, 'a) go \<Rightarrow> ('a \<Rightarrow> ('o, 'w, 'b) go) \<Rightarrow> ('o, 'w, 'b) go" where
  "bindG m f = (\<lambda>\<omega> w. case m \<omega> w of (Inl e, w') \<Rightarrow> (Inl e, w') | (Inr a, w') \<Rightarrow> f a \<omega> w')"

text \<open>\<open>tryG m h\<close> is Go's \<open>v, err := m(); if err != nil { h }\<close>: the handler sees the error.\<close>

definition tryG :: "('o, 'w, 'a) go \<Rightarrow> (goerr \<Rightarrow> ('o, 'w, 'a) go) \<Rightarrow> ('o, 'w, 'a) go" where
  "tryG m h = (\<lambda>\<omega> w. case m \<omega> w of (Inl e, w') \<Rightarrow> h e \<omega> w' | (Inr a, w') \<Rightarrow> (Inr a, w'))"

text \<open>\<open>attemptG m\<close> makes the outcome of \<open>m\<close> a value, for code that inspects both.\<close>

definition attemptG :: "('o, 'w, 'a) go \<Rightarrow> ('o, 'w, goerr + 'a) go" where
  "attemptG m = (\<lambda>\<omega> w. case m \<omega> w of (r, w') \<Rightarrow> (Inr r, w'))"

text \<open>\<open>mapErrG g m\<close> rewraps the error, as \<open>if err != nil { return g(err) }\<close> does.\<close>

definition mapErrG :: "(goerr \<Rightarrow> goerr) \<Rightarrow> ('o, 'w, 'a) go \<Rightarrow> ('o, 'w, 'a) go" where
  "mapErrG g m = tryG m (\<lambda>e. throwG (g e))"

definition readG :: "('w \<Rightarrow> 'a) \<Rightarrow> ('o, 'w, 'a) go" where
  "readG f = (\<lambda>\<omega> w. (Inr (f w), w))"

definition modifyG :: "('w \<Rightarrow> 'w) \<Rightarrow> ('o, 'w, unit) go" where
  "modifyG f = (\<lambda>\<omega> w. (Inr (), f w))"

definition askG :: "('o \<Rightarrow> 'a) \<Rightarrow> ('o, 'w, 'a) go" where
  "askG f = (\<lambda>\<omega> w. (Inr (f \<omega>), w))"

text \<open>A range loop whose body returns at the first error.\<close>

primrec forG :: "'x list \<Rightarrow> ('x \<Rightarrow> ('o, 'w, unit) go) \<Rightarrow> ('o, 'w, unit) go" where
  "forG [] f = returnG ()"
| "forG (x # xs) f = bindG (f x) (\<lambda>_. forG xs f)"

text \<open>A range loop that carries an accumulator.\<close>

primrec foldG :: "'x list \<Rightarrow> ('x \<Rightarrow> 'acc \<Rightarrow> ('o, 'w, 'acc) go) \<Rightarrow> 'acc \<Rightarrow> ('o, 'w, 'acc) go" where
  "foldG [] f acc = returnG acc"
| "foldG (x # xs) f acc = bindG (f x acc) (\<lambda>acc'. foldG xs f acc')"

subsection \<open>Weakest preconditions\<close>

definition wp :: "('o, 'w, 'a) go \<Rightarrow> ('a \<Rightarrow> 'w \<Rightarrow> bool) \<Rightarrow> (goerr \<Rightarrow> 'w \<Rightarrow> bool) \<Rightarrow> 'o \<Rightarrow> 'w \<Rightarrow> bool"
  where "wp m Q E \<omega> w = (case m \<omega> w of (Inl e, w') \<Rightarrow> E e w' | (Inr a, w') \<Rightarrow> Q a w')"

lemma wp_returnG [wp_simps]: "wp (returnG a) Q E \<omega> w = Q a w"
  by (simp add: wp_def returnG_def)

lemma wp_throwG [wp_simps]: "wp (throwG e) Q E \<omega> w = E e w"
  by (simp add: wp_def throwG_def)

lemma wp_bindG [wp_simps]: "wp (bindG m f) Q E \<omega> w = wp m (\<lambda>a. wp (f a) Q E \<omega>) E \<omega> w"
  by (simp add: wp_def bindG_def split: prod.splits sum.splits)

lemma wp_tryG [wp_simps]: "wp (tryG m h) Q E \<omega> w = wp m Q (\<lambda>e. wp (h e) Q E \<omega>) \<omega> w"
  by (simp add: wp_def tryG_def split: prod.splits sum.splits)

lemma wp_attemptG [wp_simps]:
  "wp (attemptG m) Q E \<omega> w = wp m (\<lambda>a. Q (Inr a)) (\<lambda>e. Q (Inl e)) \<omega> w"
  by (simp add: wp_def attemptG_def split: prod.splits sum.splits)

lemma wp_mapErrG [wp_simps]: "wp (mapErrG g m) Q E \<omega> w = wp m Q (\<lambda>e. E (g e)) \<omega> w"
  by (simp add: wp_def mapErrG_def tryG_def throwG_def split: prod.splits sum.splits)

lemma wp_readG [wp_simps]: "wp (readG f) Q E \<omega> w = Q (f w) w"
  by (simp add: wp_def readG_def)

lemma wp_modifyG [wp_simps]: "wp (modifyG f) Q E \<omega> w = Q () (f w)"
  by (simp add: wp_def modifyG_def)

lemma wp_askG [wp_simps]: "wp (askG f) Q E \<omega> w = Q (f \<omega>) w"
  by (simp add: wp_def askG_def)

lemma wp_if [wp_simps]:
  "wp (if b then m else n) Q E \<omega> w = (if b then wp m Q E \<omega> w else wp n Q E \<omega> w)"
  by simp

lemma wp_mono:
  assumes "wp m Q E \<omega> w" "\<And>a w'. Q a w' \<Longrightarrow> Q' a w'" "\<And>e w'. E e w' \<Longrightarrow> E' e w'"
  shows "wp m Q' E' \<omega> w"
  using assms by (auto simp: wp_def split: prod.splits sum.splits)

lemma wp_conj:
  assumes "wp m Q E \<omega> w" "wp m Q' E' \<omega> w"
  shows "wp m (\<lambda>a w'. Q a w' \<and> Q' a w') (\<lambda>e w'. E e w' \<and> E' e w') \<omega> w"
  using assms by (auto simp: wp_def split: prod.splits sum.splits)

text \<open>Reading a \<open>wp\<close> fact at a known outcome of the program.\<close>

lemma wp_outcome_Inr: "wp m Q E \<omega> w \<Longrightarrow> m \<omega> w = (Inr a, w') \<Longrightarrow> Q a w'"
  by (simp add: wp_def)

lemma wp_outcome_Inl: "wp m Q E \<omega> w \<Longrightarrow> m \<omega> w = (Inl e, w') \<Longrightarrow> E e w'"
  by (simp add: wp_def)

lemma wp_outcome: "wp m Q E \<omega> w \<Longrightarrow> m \<omega> w = (r, w') \<Longrightarrow> case r of Inl e \<Rightarrow> E e w' | Inr a \<Rightarrow> Q a w'"
  by (simp add: wp_def)

lemma wp_iff_outcome:
  "wp m Q E \<omega> w \<longleftrightarrow> (\<forall>a w'. m \<omega> w = (Inr a, w') \<longrightarrow> Q a w') \<and> (\<forall>e w'. m \<omega> w = (Inl e, w') \<longrightarrow> E e w')"
  by (auto simp: wp_def split: prod.splits sum.splits)

lemma wpI:
  assumes "\<And>a w'. m \<omega> w = (Inr a, w') \<Longrightarrow> Q a w'" "\<And>e w'. m \<omega> w = (Inl e, w') \<Longrightarrow> E e w'"
  shows "wp m Q E \<omega> w"
  using assms by (simp add: wp_iff_outcome)

text \<open>A program that cannot fail and determines its result runs to it.\<close>

lemma wp_run:
  assumes "wp m (\<lambda>a' w'. a' = a \<and> P w') (\<lambda>_ _. False) \<omega> w"
  shows "\<exists>w'. m \<omega> w = (Inr a, w') \<and> P w'"
  using assms by (auto simp: wp_def split: prod.splits sum.splits)

text \<open>A loop keeps an invariant \<open>J\<close> indexed by the elements still to do; an error exits with \<open>E\<close>.\<close>

lemma wp_forG:
  assumes "\<And>x xs w. J (x # xs) w \<Longrightarrow> wp (f x) (\<lambda>_. J xs) E \<omega> w" and "J xs w"
  shows "wp (forG xs f) (\<lambda>_. J []) E \<omega> w"
  using assms(2)
proof (induction xs arbitrary: w)
  case Nil
  then show ?case by (simp add: wp_returnG)
next
  case (Cons x xs)
  have "wp (f x) (\<lambda>_. J xs) E \<omega> w" using assms(1) Cons.prems .
  then show ?case unfolding forG.simps wp_bindG by (rule wp_mono) (auto intro: Cons.IH)
qed

lemma wp_foldG:
  assumes "\<And>x xs acc w. J (x # xs) acc w \<Longrightarrow> wp (f x acc) (\<lambda>acc'. J xs acc') E \<omega> w" and "J xs acc w"
  shows "wp (foldG xs f acc) (\<lambda>acc'. J [] acc') E \<omega> w"
  using assms(2)
proof (induction xs arbitrary: acc w)
  case Nil
  then show ?case by (simp add: wp_returnG)
next
  case (Cons x xs)
  have "wp (f x acc) (\<lambda>acc'. J xs acc') E \<omega> w" using assms(1) Cons.prems .
  then show ?case unfolding foldG.simps wp_bindG by (rule wp_mono) (auto intro: Cons.IH)
qed

subsection \<open>Programs that keep a relation between the worlds before and after\<close>

text \<open>
  \<open>keeps R m\<close>: whatever the oracle and whatever the outcome, the world before and the world after
  \<open>m\<close> are related by \<open>R\<close>. Invariants are the case \<open>R w w' = (I w \<longrightarrow> I w')\<close>; monotone facts ("a
  tombstone stays") are used with reflexive and transitive relations, for which the rules compose.
\<close>

definition keeps :: "('w \<Rightarrow> 'w \<Rightarrow> bool) \<Rightarrow> ('o, 'w, 'a) go \<Rightarrow> bool" where
  "keeps R m \<longleftrightarrow> (\<forall>\<omega> w. R w (snd (m \<omega> w)))"

definition preorderR :: "('w \<Rightarrow> 'w \<Rightarrow> bool) \<Rightarrow> bool" where
  "preorderR R \<longleftrightarrow> (\<forall>w. R w w) \<and> (\<forall>u v w. R u v \<longrightarrow> R v w \<longrightarrow> R u w)"

lemma preorderR_refl: "preorderR R \<Longrightarrow> R w w"
  by (simp add: preorderR_def)

lemma preorderR_trans: "preorderR R \<Longrightarrow> R u v \<Longrightarrow> R v w \<Longrightarrow> R u w"
  unfolding preorderR_def by blast

lemma preorderR_invariant: "preorderR (\<lambda>w w'. I w \<longrightarrow> I w')"
  by (simp add: preorderR_def)

lemma keepsD: "keeps R m \<Longrightarrow> R w (snd (m \<omega> w))"
  by (simp add: keeps_def)

lemma keeps_outcome: "keeps R m \<Longrightarrow> m \<omega> w = (r, w') \<Longrightarrow> R w w'"
  by (metis keeps_def snd_conv)

lemma keepsI: "(\<And>\<omega> w r w'. m \<omega> w = (r, w') \<Longrightarrow> R w w') \<Longrightarrow> keeps R m"
  unfolding keeps_def by (metis prod.collapse)

lemma keepsI_wp: "(\<And>\<omega> w. wp m (\<lambda>_ w'. R w w') (\<lambda>_ w'. R w w') \<omega> w) \<Longrightarrow> keeps R m"
  unfolding keeps_def wp_def by (simp add: case_prod_unfold split: sum.splits)

lemma keeps_wp: "keeps R m \<Longrightarrow> wp m (\<lambda>_ w'. R w w') (\<lambda>_ w'. R w w') \<omega> w"
  by (rule wpI) (auto dest: keeps_outcome)

lemma wp_bind_keeps:
  assumes "preorderR R" "wp m (\<lambda>_. R w) (\<lambda>_. R w) \<omega> w" "\<And>a. keeps R (f a)"
  shows "wp (bindG m f) (\<lambda>_. R w) (\<lambda>_. R w) \<omega> w"
  unfolding wp_bindG
proof (rule wp_mono [OF assms(2)])
  fix a v assume v: "R w v"
  show "wp (f a) (\<lambda>_. R w) (\<lambda>_. R w) \<omega> v"
    by (rule wp_mono [OF keeps_wp [OF assms(3)]]) (rule preorderR_trans [OF assms(1) v], assumption)+
qed

lemma wp_trivial: "(\<And>a w'. Q a w') \<Longrightarrow> (\<And>e w'. E e w') \<Longrightarrow> wp m Q E \<omega> w"
  by (rule wpI)

lemma keeps_returnG [keeps_intros]: "preorderR R \<Longrightarrow> keeps R (returnG a)"
  by (simp add: keeps_def returnG_def preorderR_refl)

lemma keeps_throwG [keeps_intros]: "preorderR R \<Longrightarrow> keeps R (throwG e)"
  by (simp add: keeps_def throwG_def preorderR_refl)

lemma keeps_readG [keeps_intros]: "preorderR R \<Longrightarrow> keeps R (readG f)"
  by (simp add: keeps_def readG_def preorderR_refl)

lemma keeps_askG [keeps_intros]: "preorderR R \<Longrightarrow> keeps R (askG f)"
  by (simp add: keeps_def askG_def preorderR_refl)

lemma keeps_bindG [keeps_intros]:
  assumes "preorderR R" "keeps R m" "\<And>a. keeps R (f a)"
  shows "keeps R (bindG m f)"
proof (rule keepsI)
  fix \<omega> w r w'
  assume run: "bindG m f \<omega> w = (r, w')"
  obtain q v where q: "m \<omega> w = (q, v)" by force
  have "R w v" using assms(2) q by (rule keeps_outcome)
  moreover have "R v w'"
  proof (cases q)
    case (Inl e)
    then show ?thesis using run q assms(1) by (simp add: bindG_def preorderR_refl)
  next
    case (Inr a)
    then have "f a \<omega> v = (r, w')" using run q by (simp add: bindG_def)
    with assms(3) show ?thesis by (rule keeps_outcome)
  qed
  ultimately show "R w w'" by (rule preorderR_trans [OF assms(1)])
qed

lemma keeps_tryG [keeps_intros]:
  assumes "preorderR R" "keeps R m" "\<And>e. keeps R (h e)"
  shows "keeps R (tryG m h)"
proof (rule keepsI)
  fix \<omega> w r w'
  assume run: "tryG m h \<omega> w = (r, w')"
  obtain q v where q: "m \<omega> w = (q, v)" by force
  have "R w v" using assms(2) q by (rule keeps_outcome)
  moreover have "R v w'"
  proof (cases q)
    case (Inr a)
    then show ?thesis using run q assms(1) by (simp add: tryG_def preorderR_refl)
  next
    case (Inl e)
    then have "h e \<omega> v = (r, w')" using run q by (simp add: tryG_def)
    with assms(3) show ?thesis by (rule keeps_outcome)
  qed
  ultimately show "R w w'" by (rule preorderR_trans [OF assms(1)])
qed

lemma keeps_attemptG [keeps_intros]: "keeps R m \<Longrightarrow> keeps R (attemptG m)"
  by (simp add: keeps_def attemptG_def case_prod_unfold)

lemma keeps_mapErrG [keeps_intros]: "preorderR R \<Longrightarrow> keeps R m \<Longrightarrow> keeps R (mapErrG g m)"
  unfolding mapErrG_def by (intro keeps_intros)

lemma keeps_if [keeps_intros]: "(b \<Longrightarrow> keeps R m) \<Longrightarrow> (\<not> b \<Longrightarrow> keeps R n) \<Longrightarrow> keeps R (if b then m else n)"
  by simp

lemma keeps_forG [keeps_intros]:
  assumes "preorderR R" "\<And>x. keeps R (f x)"
  shows "keeps R (forG xs f)"
  by (induction xs) (auto intro!: keeps_intros assms)

lemma keeps_foldG [keeps_intros]:
  assumes "preorderR R" "\<And>x acc. keeps R (f x acc)"
  shows "keeps R (foldG xs f acc)"
  by (induction xs arbitrary: acc) (auto intro!: keeps_intros assms)

lemma keeps_modifyG: "(\<And>w. R w (f w)) \<Longrightarrow> keeps R (modifyG f)"
  by (simp add: keeps_def modifyG_def)

lemma keeps_case_option [keeps_intros]:
  "keeps R m \<Longrightarrow> (\<And>a. keeps R (f a)) \<Longrightarrow> keeps R (case x of None \<Rightarrow> m | Some a \<Rightarrow> f a)"
  by (cases x) auto

lemma keeps_case_sum [keeps_intros]:
  "(\<And>e. keeps R (f e)) \<Longrightarrow> (\<And>a. keeps R (g a)) \<Longrightarrow> keeps R (case x of Inl e \<Rightarrow> f e | Inr a \<Rightarrow> g a)"
  by (cases x) auto

lemma keeps_case_list [keeps_intros]:
  "keeps R m \<Longrightarrow> (\<And>y ys. keeps R (f y ys)) \<Longrightarrow> keeps R (case xs of [] \<Rightarrow> m | y # ys \<Rightarrow> f y ys)"
  by (cases xs) auto

lemma keeps_case_prod [keeps_intros]:
  "(\<And>a b. keeps R (f a b)) \<Longrightarrow> keeps R (case x of (a, b) \<Rightarrow> f a b)"
  by (cases x) auto

subsection \<open>The oracle, the tick counter and database statements\<close>

text \<open>
  One counter numbers everything the environment decides. \<open>dbfail n\<close>: the statement issued at tick
  \<open>n\<close> fails; \<open>clock n\<close>: the reading of \<open>time.Now()\<close> at tick \<open>n\<close>, in microseconds since the epoch;
  \<open>uuid n\<close>: the identifier generated at tick \<open>n\<close>.
\<close>

record envir =
  dbfail :: "nat \<Rightarrow> bool"
  clock :: "nat \<Rightarrow> int"
  uuid :: "nat \<Rightarrow> string"

record base_world =
  tick :: nat

definition nextTick :: "('o, 'w base_world_scheme, nat) go" where
  "nextTick = (\<lambda>\<omega> w. (Inr (tick w), w\<lparr>tick := Suc (tick w)\<rparr>))"

definition dbCall :: "('o envir_scheme, 'w base_world_scheme, unit) go" where
  "dbCall = (\<lambda>\<omega> w. if dbfail \<omega> (tick w) then (Inl driverErr, w\<lparr>tick := Suc (tick w)\<rparr>)
                   else (Inr (), w\<lparr>tick := Suc (tick w)\<rparr>))"

definition timeNow :: "('o envir_scheme, 'w base_world_scheme, int) go" where
  "timeNow = (\<lambda>\<omega> w. (Inr (clock \<omega> (tick w)), w\<lparr>tick := Suc (tick w)\<rparr>))"

definition newUUID :: "('o envir_scheme, 'w base_world_scheme, string) go" where
  "newUUID = (\<lambda>\<omega> w. (Inr (uuid \<omega> (tick w)), w\<lparr>tick := Suc (tick w)\<rparr>))"

text \<open>\<open>Time.Unix()\<close> of a time in microseconds: the seconds, rounded towards minus infinity.\<close>

definition unixSec :: "int \<Rightarrow> int" where
  "unixSec t = t div 1000000"

text \<open>
  \<open>RunInTransaction\<close>: begin and commit are statements that may fail; an error of the body, or of the
  commit, restores every table. The tick counter is not a table: it keeps running.
\<close>

definition transactionG ::
  "('o envir_scheme, 'w base_world_scheme, 'a) go \<Rightarrow> ('o envir_scheme, 'w base_world_scheme, 'a) go"
  where
  "transactionG m = (\<lambda>\<omega> w0. case dbCall \<omega> w0 of
      (Inl e, w1) \<Rightarrow> (Inl e, w1)
    | (Inr _, w1) \<Rightarrow> (case m \<omega> w1 of
          (Inl e, w2) \<Rightarrow> (Inl e, w0\<lparr>tick := tick w2\<rparr>)
        | (Inr a, w2) \<Rightarrow> (case dbCall \<omega> w2 of
              (Inl e, w3) \<Rightarrow> (Inl e, w0\<lparr>tick := tick w3\<rparr>)
            | (Inr _, w3) \<Rightarrow> (Inr a, w3))))"

lemma wp_nextTick [wp_simps]: "wp nextTick Q E \<omega> w = Q (tick w) (w\<lparr>tick := Suc (tick w)\<rparr>)"
  by (simp add: wp_def nextTick_def)

lemma wp_dbCall [wp_simps]:
  "wp dbCall Q E \<omega> w = (if dbfail \<omega> (tick w) then E driverErr (w\<lparr>tick := Suc (tick w)\<rparr>)
                        else Q () (w\<lparr>tick := Suc (tick w)\<rparr>))"
  by (simp add: wp_def dbCall_def)

lemma wp_timeNow [wp_simps]: "wp timeNow Q E \<omega> w = Q (clock \<omega> (tick w)) (w\<lparr>tick := Suc (tick w)\<rparr>)"
  by (simp add: wp_def timeNow_def)

lemma wp_newUUID [wp_simps]: "wp newUUID Q E \<omega> w = Q (uuid \<omega> (tick w)) (w\<lparr>tick := Suc (tick w)\<rparr>)"
  by (simp add: wp_def newUUID_def)

lemma wp_transactionG [wp_simps]:
  "wp (transactionG m) Q E \<omega> w =
     (if dbfail \<omega> (tick w) then E driverErr (w\<lparr>tick := Suc (tick w)\<rparr>)
      else wp m
        (\<lambda>a v. if dbfail \<omega> (tick v) then E driverErr (w\<lparr>tick := Suc (tick v)\<rparr>)
               else Q a (v\<lparr>tick := Suc (tick v)\<rparr>))
        (\<lambda>e v. E e (w\<lparr>tick := tick v\<rparr>)) \<omega> (w\<lparr>tick := Suc (tick w)\<rparr>))"
  by (simp add: wp_def transactionG_def dbCall_def split: prod.splits sum.splits)

lemma wp_transactionI:
  assumes "\<And>n. E driverErr (w\<lparr>tick := n\<rparr>)"
    and "wp m (\<lambda>a v. \<forall>n. Q a (v\<lparr>tick := n\<rparr>)) (\<lambda>e v. \<forall>n. E e (w\<lparr>tick := n\<rparr>)) \<omega> (w\<lparr>tick := Suc (tick w)\<rparr>)"
  shows "wp (transactionG m) Q E \<omega> w"
  unfolding wp_transactionG using assms by (auto elim!: wp_mono)

text \<open>
  A relation that ignores the tick counter (every relation on the tables does) is kept by the
  statements that touch no table, and by a transaction whose body keeps it.
\<close>

definition tickfree :: "('w base_world_scheme \<Rightarrow> 'w base_world_scheme \<Rightarrow> bool) \<Rightarrow> bool" where
  "tickfree R \<longleftrightarrow> (\<forall>w n. R w (w\<lparr>tick := n\<rparr>))"

lemma keeps_nextTick [keeps_intros]: "tickfree R \<Longrightarrow> keeps R nextTick"
  by (simp add: keeps_def nextTick_def tickfree_def)

lemma keeps_dbCall [keeps_intros]: "tickfree R \<Longrightarrow> keeps R dbCall"
  by (simp add: keeps_def dbCall_def tickfree_def)

lemma keeps_timeNow [keeps_intros]: "tickfree R \<Longrightarrow> keeps R timeNow"
  by (simp add: keeps_def timeNow_def tickfree_def)

lemma keeps_newUUID [keeps_intros]: "tickfree R \<Longrightarrow> keeps R newUUID"
  by (simp add: keeps_def newUUID_def tickfree_def)

lemma keeps_transactionG [keeps_intros]:
  assumes "preorderR R" "tickfree R" "keeps R m"
  shows "keeps R (transactionG m)"
proof (rule keepsI_wp)
  fix \<omega> w
  have t: "R v (v\<lparr>tick := n\<rparr>)" for v n using assms(2) by (simp add: tickfree_def)
  have body: "wp m (\<lambda>_ v. R (w\<lparr>tick := Suc (tick w)\<rparr>) v) (\<lambda>_ v. R (w\<lparr>tick := Suc (tick w)\<rparr>) v)
    \<omega> (w\<lparr>tick := Suc (tick w)\<rparr>)" using assms(3) by (rule keeps_wp)
  have "R w v" if "R (w\<lparr>tick := Suc (tick w)\<rparr>) v" for v
    using preorderR_trans [OF assms(1) t that] .
  then have "R w (v\<lparr>tick := n\<rparr>)" if "R (w\<lparr>tick := Suc (tick w)\<rparr>) v" for v n
    using that preorderR_trans [OF assms(1) _ t] by blast
  then show "wp (transactionG m) (\<lambda>_. R w) (\<lambda>_. R w) \<omega> w"
    unfolding wp_transactionG using body by (auto intro: t elim!: wp_mono)
qed

subsection \<open>Running a program on concrete inputs\<close>

text \<open>
  The equations that run a program by rewriting, and congruences that keep the simplifier out of the
  continuations until they are reached: together they evaluate a call on closed arguments.
\<close>

lemma bindG_run: "bindG m f \<omega> w = (case m \<omega> w of (r, w') \<Rightarrow> (case r of Inl e \<Rightarrow> (Inl e, w') | Inr a \<Rightarrow> f a \<omega> w'))"
  by (auto simp: bindG_def split: prod.splits sum.splits)

lemma tryG_run: "tryG m h \<omega> w = (case m \<omega> w of (r, w') \<Rightarrow> (case r of Inl e \<Rightarrow> h e \<omega> w' | Inr a \<Rightarrow> (Inr a, w')))"
  by (auto simp: tryG_def split: prod.splits sum.splits)

lemma attemptG_run: "attemptG m \<omega> w = (case m \<omega> w of (r, w') \<Rightarrow> (Inr r, w'))"
  by (simp add: attemptG_def)

lemma transactionG_run: "transactionG m \<omega> w0 = (case dbCall \<omega> w0 of (r, w1) \<Rightarrow> (case r of
      Inl e \<Rightarrow> (Inl e, w1)
    | Inr _ \<Rightarrow> (case m \<omega> w1 of (r, w2) \<Rightarrow> (case r of
          Inl e \<Rightarrow> (Inl e, w0\<lparr>tick := tick w2\<rparr>)
        | Inr a \<Rightarrow> (case dbCall \<omega> w2 of (r, w3) \<Rightarrow> (case r of
              Inl e \<Rightarrow> (Inl e, w0\<lparr>tick := tick w3\<rparr>)
            | Inr _ \<Rightarrow> (Inr a, w3)))))))"
  by (auto simp: transactionG_def split: prod.splits sum.splits)

lemma basic_run: "returnG a \<omega> w = (Inr a, w)" "throwG e \<omega> w = (Inl e, w)" "readG f \<omega> w = (Inr (f w), w)"
  "askG g \<omega> w = (Inr (g \<omega>), w)" "modifyG h \<omega> w = (Inr (), h w)"
  by (simp_all add: returnG_def throwG_def readG_def askG_def modifyG_def)

lemma clock_run:
  "timeNow \<omega> v = (Inr (clock \<omega> (tick v)), v\<lparr>tick := Suc (tick v)\<rparr>)"
  "newUUID \<omega> v = (Inr (uuid \<omega> (tick v)), v\<lparr>tick := Suc (tick v)\<rparr>)"
  "dbCall \<omega> v = (if dbfail \<omega> (tick v) then (Inl driverErr, v\<lparr>tick := Suc (tick v)\<rparr>)
                  else (Inr (), v\<lparr>tick := Suc (tick v)\<rparr>))"
  by (simp_all add: timeNow_def newUUID_def dbCall_def)

lemmas run_simps = bindG_run tryG_run attemptG_run transactionG_run basic_run clock_run mapErrG_def

lemma bindG_lazy: "bindG m f = bindG m f" by (rule refl)
lemma tryG_lazy: "tryG m f = tryG m f" by (rule refl)
lemma attemptG_lazy: "attemptG m = attemptG m" by (rule refl)
lemma transactionG_lazy: "transactionG m = transactionG m" by (rule refl)
lemma mapErrG_lazy: "mapErrG g m = mapErrG g m" by (rule refl)

lemmas run_congs = bindG_lazy tryG_lazy attemptG_lazy transactionG_lazy mapErrG_lazy

subsection \<open>Lists\<close>

text \<open>Replacing the row with a given key, as an update by id does, keeps the list of keys.\<close>

lemma map_key_replace: "map k (map (\<lambda>x. if k x = k y then y else x) xs) = map k xs"
  by (induction xs) auto

lemma key_replace_in: "z \<in> set (map (\<lambda>x. if k x = k y then y else x) xs) \<Longrightarrow> z = y \<or> z \<in> set xs"
  by (auto split: if_splits)

lemma filter_False_conv: "(\<And>x. x \<in> set xs \<Longrightarrow> \<not> P x) \<Longrightarrow> filter P xs = []"
  by (simp add: filter_empty_conv)

lemma length_filter_mono: "(\<And>x. x \<in> set xs \<Longrightarrow> P x \<Longrightarrow> Q x) \<Longrightarrow> length (filter P xs) \<le> length (filter Q xs)"
  by (induction xs) (auto intro: le_SucI)

end
