(* ===== verification/Go_Strings.thy ===== *)
theory Go_Strings
  imports Prelude
begin

section \<open>The parts of Go's package strings that the code uses\<close>

text \<open>
  A Go string is a byte sequence; a HOL \<open>string\<close> is a list of 8-bit characters, so the two agree byte
  for byte. The functions below are those of Go's standard library that the code calls:
  \<open>strings.TrimSpace\<close>, \<open>HasPrefix\<close>, \<open>TrimRight\<close>, \<open>Trim\<close>, \<open>Split\<close>, \<open>Join\<close>, \<open>Fields\<close>, \<open>Contains\<close>,
  \<open>ToLower\<close> and \<open>slices.Contains\<close>. White space is that of \<open>unicode.IsSpace\<close>, in UTF-8.
\<close>

subsection \<open>White space\<close>

text \<open>
  The white-space runes in UTF-8: tab, line feed, vertical tab, form feed, carriage return, space,
  U+0085, U+00A0, U+1680, U+2000 to U+200A, U+2028, U+2029, U+202F, U+205F and U+3000.
\<close>

definition spaceRunes :: "string list" where
  "spaceRunes = map (\<lambda>c. [c]) [CHR 0x09, CHR 0x0A, CHR 0x0B, CHR 0x0C, CHR 0x0D, CHR 0x20]
     @ map (\<lambda>c. [CHR 0xC2, c]) [CHR 0x85, CHR 0xA0]
     @ [[CHR 0xE1, CHR 0x9A, CHR 0x80]]
     @ map (\<lambda>c. [CHR 0xE2, CHR 0x80, c])
         [CHR 0x80, CHR 0x81, CHR 0x82, CHR 0x83, CHR 0x84, CHR 0x85, CHR 0x86, CHR 0x87, CHR 0x88, CHR 0x89, CHR 0x8A,
          CHR 0xA8, CHR 0xA9, CHR 0xAF]
     @ [[CHR 0xE2, CHR 0x81, CHR 0x9F], [CHR 0xE3, CHR 0x80, CHR 0x80]]"

text \<open>The length in bytes of the white-space rune at the start of a string, 0 when there is none.\<close>

definition hasPrefix :: "string \<Rightarrow> string \<Rightarrow> bool" where
  "hasPrefix s p \<longleftrightarrow> take (length p) s = p"

definition leadSpace :: "string list \<Rightarrow> string \<Rightarrow> nat" where
  "leadSpace runes s = (case filter (hasPrefix s) runes of [] \<Rightarrow> 0 | r # _ \<Rightarrow> length r)"

function dropSpace :: "string list \<Rightarrow> string \<Rightarrow> string" where
  "dropSpace runes s =
     (if leadSpace runes s = 0 \<or> s = [] then s else dropSpace runes (drop (leadSpace runes s) s))"
  by pat_completeness auto
termination
  by (relation "measure (\<lambda>(runes, s). length s)") auto

declare dropSpace.simps [simp del]

definition trimSpace :: "string \<Rightarrow> string" where
  "trimSpace s = rev (dropSpace (map rev spaceRunes) (rev (dropSpace spaceRunes s)))"

text \<open>A string with no byte that can start or end a white-space rune is left alone.\<close>

definition spaceBytes :: "char list" where
  "spaceBytes = remdups (concat spaceRunes)"

lemma leadSpace_0:
  assumes "\<And>r. r \<in> set runes \<Longrightarrow> r \<noteq> [] \<and> set r \<subseteq> set spaceBytes" "set s \<inter> set spaceBytes = {}"
  shows "leadSpace runes s = 0"
proof -
  have "\<not> hasPrefix s r" if r: "r \<in> set runes" for r
  proof
    assume "hasPrefix s r"
    then have "set r \<subseteq> set s" unfolding hasPrefix_def by (metis set_take_subset)
    moreover obtain c where "c \<in> set r" using assms(1) [OF r] by (cases r) auto
    ultimately show False using assms(1) [OF r] assms(2) by auto
  qed
  then have "filter (hasPrefix s) runes = []" by (simp add: filter_empty_conv)
  then show ?thesis by (simp add: leadSpace_def)
qed

lemma spaceRunes_bytes: "r \<in> set spaceRunes \<Longrightarrow> r \<noteq> [] \<and> set r \<subseteq> set spaceBytes"
  unfolding spaceBytes_def by (auto simp: spaceRunes_def)

lemma trimSpace_id:
  assumes "set s \<inter> set spaceBytes = {}"
  shows "trimSpace s = s"
proof -
  have "dropSpace spaceRunes s = s"
    by (subst dropSpace.simps) (simp add: leadSpace_0 [OF spaceRunes_bytes assms])
  moreover have "leadSpace (map rev spaceRunes) (rev s) = 0"
    by (rule leadSpace_0) (use spaceRunes_bytes assms in force)+
  then have "dropSpace (map rev spaceRunes) (rev s) = rev s"
    by (subst dropSpace.simps) simp
  ultimately show ?thesis by (simp add: trimSpace_def)
qed

lemma trimSpace_Nil [simp]: "trimSpace [] = []"
  by (simp add: trimSpace_def dropSpace.simps)

subsection \<open>Trimming a character\<close>

definition trimRight :: "string \<Rightarrow> char \<Rightarrow> string" where
  "trimRight s c = rev (dropWhile (\<lambda>x. x = c) (rev s))"

definition trimLeft :: "string \<Rightarrow> char \<Rightarrow> string" where
  "trimLeft s c = dropWhile (\<lambda>x. x = c) s"

definition trimBoth :: "string \<Rightarrow> char \<Rightarrow> string" where
  "trimBoth s c = trimRight (trimLeft s c) c"

lemma trimRight_last: "trimRight s c = [] \<or> last (trimRight s c) \<noteq> c"
proof (cases "trimRight s c")
  case Nil
  then show ?thesis by simp
next
  case Cons
  then have ne: "dropWhile (\<lambda>x. x = c) (rev s) \<noteq> []" by (auto simp: trimRight_def)
  then have "hd (dropWhile (\<lambda>x. x = c) (rev s)) \<noteq> c" by (rule hd_dropWhile)
  with ne show ?thesis by (simp add: trimRight_def last_rev)
qed

lemma trimRight_id: "s = [] \<or> last s \<noteq> c \<Longrightarrow> trimRight s c = s"
  by (cases s rule: rev_cases) (auto simp: trimRight_def)

lemma trimRight_set: "set (trimRight s c) \<subseteq> set s"
  unfolding trimRight_def using set_dropWhileD by fastforce

lemma trimRight_prefix: "\<exists>t. s = trimRight s c @ t"
proof -
  have "rev s = takeWhile (\<lambda>x. x = c) (rev s) @ dropWhile (\<lambda>x. x = c) (rev s)" by simp
  then have "s = rev (dropWhile (\<lambda>x. x = c) (rev s)) @ rev (takeWhile (\<lambda>x. x = c) (rev s))"
    by (metis rev_append rev_rev_ident)
  then show ?thesis unfolding trimRight_def by blast
qed

subsection \<open>Split, Join, Fields, Contains\<close>

fun splitOn :: "char \<Rightarrow> string \<Rightarrow> string list" where
  "splitOn c [] = [[]]"
| "splitOn c (x # xs) =
     (if x = c then [] # splitOn c xs
      else (case splitOn c xs of [] \<Rightarrow> [[x]] | p # ps \<Rightarrow> (x # p) # ps))"

fun joinWith :: "string \<Rightarrow> string list \<Rightarrow> string" where
  "joinWith sep [] = []"
| "joinWith sep [x] = x"
| "joinWith sep (x # y # ys) = x @ sep @ joinWith sep (y # ys)"

lemma splitOn_nonempty [simp]: "splitOn c s \<noteq> []"
  by (induction s) (auto split: list.splits)

lemma splitOn_append:
  "c \<notin> set p \<Longrightarrow> splitOn c (p @ c # s) = p # splitOn c s"
  by (induction p) auto

lemma splitOn_no_sep: "c \<notin> set p \<Longrightarrow> splitOn c p = [p]"
  by (induction p) auto

lemma splitOn_join:
  "xs \<noteq> [] \<Longrightarrow> \<forall>x \<in> set xs. c \<notin> set x \<Longrightarrow> splitOn c (joinWith [c] xs) = xs"
  by (induction "[c]" xs rule: joinWith.induct) (auto simp: splitOn_append splitOn_no_sep)

lemma splitOn_parts: "\<forall>x \<in> set (splitOn c s). c \<notin> set x"
  by (induction s) (auto split: list.splits)

lemma joinWith_Cons: "xs \<noteq> [] \<Longrightarrow> joinWith sep (x # xs) = x @ sep @ joinWith sep xs"
  by (cases xs) auto

lemma join_splitOn: "joinWith [c] (splitOn c s) = s"
proof (induction s)
  case Nil
  then show ?case by simp
next
  case (Cons x s)
  show ?case
  proof (cases "x = c")
    case True
    with Cons.IH show ?thesis by (simp add: joinWith_Cons)
  next
    case False
    obtain p ps where ps: "splitOn c s = p # ps" by (cases "splitOn c s") auto
    then have "joinWith [c] ((x # p) # ps) = x # joinWith [c] (p # ps)" by (cases ps) auto
    with False ps Cons.IH show ?thesis by simp
  qed
qed

lemma joinWith_eq_Nil: "joinWith [c] xs = [] \<longleftrightarrow> xs = [] \<or> xs = [[]]"
  by (induction "[c]" xs rule: joinWith.induct) auto

text \<open>\<open>strings.Fields\<close>: the maximal runs of bytes that are not white space.\<close>

function takeField :: "string \<Rightarrow> string \<times> string" where
  "takeField s =
     (case s of [] \<Rightarrow> ([], [])
      | x # xs \<Rightarrow> if 0 < leadSpace spaceRunes s then ([], s)
                  else (case takeField xs of (f, r) \<Rightarrow> (x # f, r)))"
  by pat_completeness auto
termination
  by (relation "measure length") auto

declare takeField.simps [simp del]

lemma takeField_length: "length (snd (takeField s)) \<le> length s"
proof (induction s)
  case Nil
  then show ?case by (subst takeField.simps) simp
next
  case (Cons x xs)
  then show ?case by (subst takeField.simps) (auto split: prod.splits)
qed

lemma takeField_shorter:
  "s \<noteq> [] \<Longrightarrow> leadSpace spaceRunes s = 0 \<Longrightarrow> length (snd (takeField s)) < length s"
  using takeField_length [of "tl s"]
  by (subst takeField.simps) (auto split: list.splits prod.splits)

lemma dropSpace_length: "length (dropSpace runes s) \<le> length s"
proof (induction runes s rule: dropSpace.induct)
  case (1 runes s)
  then show ?case by (subst dropSpace.simps) (auto intro: le_trans)
qed

lemma dropSpace_no_lead: "dropSpace runes s \<noteq> [] \<Longrightarrow> leadSpace runes (dropSpace runes s) = 0"
proof (induction runes s rule: dropSpace.induct)
  case (1 runes s)
  then show ?case
    by (cases "leadSpace runes s = 0 \<or> s = []") (auto simp: dropSpace.simps [of runes s])
qed

function fields :: "string \<Rightarrow> string list" where
  "fields s = (let t = dropSpace spaceRunes s in
     if t = [] then [] else (case takeField t of (f, r) \<Rightarrow> f # fields r))"
  by pat_completeness auto
termination
proof (relation "measure length", goal_cases)
  case 1
  then show ?case by simp
next
  case (2 s t f r)
  then have "length r < length t"
    using takeField_shorter [of t] dropSpace_no_lead [of spaceRunes s] by (metis snd_conv)
  moreover have "length t \<le> length s" using 2 dropSpace_length by simp
  ultimately show ?case by simp
qed

declare fields.simps [simp del]

lemma takeField_nonempty:
  "s \<noteq> [] \<Longrightarrow> leadSpace spaceRunes s = 0 \<Longrightarrow> fst (takeField s) \<noteq> []"
  by (subst takeField.simps) (auto split: list.splits prod.splits)

lemma fields_nonempty_parts: "\<forall>f \<in> set (fields s). f \<noteq> []"
proof (induction s rule: fields.induct)
  case (1 s)
  then show ?case
    using takeField_nonempty dropSpace_no_lead
    by (subst fields.simps) (auto simp: Let_def split: prod.splits, metis fst_conv)
qed

fun containsChar :: "string \<Rightarrow> char \<Rightarrow> bool" where
  "containsChar [] c = False"
| "containsChar (x # xs) c = (x = c \<or> containsChar xs c)"

lemma containsChar_iff [simp]: "containsChar s c \<longleftrightarrow> c \<in> set s"
  by (induction s) auto

text \<open>\<open>strings.ToLower\<close> and \<open>strings.EqualFold\<close> on the ASCII letters.\<close>

definition lowerChar :: "char \<Rightarrow> char" where
  "lowerChar c = (let n = of_char c :: nat in if 65 \<le> n \<and> n \<le> 90 then char_of (n + 32) else c)"

definition toLower :: "string \<Rightarrow> string" where
  "toLower s = map lowerChar s"

definition equalFold :: "string \<Rightarrow> string \<Rightarrow> bool" where
  "equalFold s t \<longleftrightarrow> toLower s = toLower t"

text \<open>\<open>slices.Contains\<close>.\<close>

fun slicesContains :: "'a list \<Rightarrow> 'a \<Rightarrow> bool" where
  "slicesContains [] y = False"
| "slicesContains (x # xs) y = (x = y \<or> slicesContains xs y)"

lemma slicesContains_iff [simp]: "slicesContains xs y \<longleftrightarrow> y \<in> set xs"
  by (induction xs) auto

end
