(* ===== verification/Go_Url.thy ===== *)
theory Go_Url
  imports Go_Strings
begin

section \<open>Form values: the parts of Go's package net/url that the storage layer uses\<close>

text \<open>
  \<open>url.Values\<close> is a Go map from keys to value lists. It is modelled as an association list with
  distinct keys (\<open>valuesOk\<close>), on which \<open>Get\<close>, \<open>Set\<close>, \<open>Add\<close>, \<open>Del\<close>, \<open>Has\<close> work by key; \<open>Encode\<close> sorts the
  keys, as Go does, so the order of the association list cannot be observed through it.
  \<open>parseQuery\<close> is \<open>url.ParseQuery\<close>, with the error Go returns when a pair is malformed as \<open>None\<close>;
  \<open>queryValues\<close> is \<open>URL.Query()\<close>, which drops malformed pairs silently. The storage layer writes
  request forms with \<open>Encode\<close> and reads them back with \<open>ParseQuery\<close>.
\<close>

type_synonym url_values = "(string \<times> string list) list"

definition valuesOk :: "url_values \<Rightarrow> bool" where
  "valuesOk f \<longleftrightarrow> distinct (map fst f)"

definition valuesGet :: "url_values \<Rightarrow> string \<Rightarrow> string" where
  "valuesGet f k = (case map_of f k of Some (v # _) \<Rightarrow> v | _ \<Rightarrow> [])"

definition valuesHas :: "url_values \<Rightarrow> string \<Rightarrow> bool" where
  "valuesHas f k \<longleftrightarrow> map_of f k \<noteq> None"

definition valuesDel :: "url_values \<Rightarrow> string \<Rightarrow> url_values" where
  "valuesDel f k = filter (\<lambda>(k', _). k' \<noteq> k) f"

fun valuesSet :: "url_values \<Rightarrow> string \<Rightarrow> string \<Rightarrow> url_values" where
  "valuesSet [] k v = [(k, [v])]"
| "valuesSet ((k', vs) # f) k v = (if k' = k then (k, [v]) # f else (k', vs) # valuesSet f k v)"

fun valuesAdd :: "url_values \<Rightarrow> string \<Rightarrow> string \<Rightarrow> url_values" where
  "valuesAdd [] k v = [(k, [v])]"
| "valuesAdd ((k', vs) # f) k v = (if k' = k then (k, vs @ [v]) # f else (k', vs) # valuesAdd f k v)"

lemma keys_valuesSet: "set (map fst (valuesSet f k v)) = insert k (set (map fst f))"
  by (induction f k v rule: valuesSet.induct) auto

lemma keys_valuesAdd: "set (map fst (valuesAdd f k v)) = insert k (set (map fst f))"
  by (induction f k v rule: valuesAdd.induct) auto

lemma valuesOk_ops:
  assumes "valuesOk f"
  shows "valuesOk (valuesSet f k v)" "valuesOk (valuesAdd f k v)" "valuesOk (valuesDel f k)"
proof -
  have "k' \<notin> fst ` set g \<Longrightarrow> k' \<noteq> k \<Longrightarrow> k' \<notin> fst ` set (valuesSet g k v)" for g k'
    using keys_valuesSet [of g k v] by auto
  then show "valuesOk (valuesSet f k v)"
    using assms unfolding valuesOk_def by (induction f k v rule: valuesSet.induct) auto
  have "k' \<notin> fst ` set g \<Longrightarrow> k' \<noteq> k \<Longrightarrow> k' \<notin> fst ` set (valuesAdd g k v)" for g k'
    using keys_valuesAdd [of g k v] by auto
  then show "valuesOk (valuesAdd f k v)"
    using assms unfolding valuesOk_def by (induction f k v rule: valuesAdd.induct) auto
  show "valuesOk (valuesDel f k)"
    using assms unfolding valuesOk_def valuesDel_def by (induction f) auto
qed

lemma map_of_valuesSet: "map_of (valuesSet f k v) = (map_of f)(k \<mapsto> [v])"
  by (induction f k v rule: valuesSet.induct) (auto simp: fun_eq_iff)

lemma valuesGet_valuesSet [simp]: "valuesGet (valuesSet f k v) k' = (if k' = k then v else valuesGet f k')"
  by (simp add: valuesGet_def map_of_valuesSet)

lemma map_of_valuesDel: "map_of (valuesDel f k) = (map_of f)(k := None)"
  by (induction f) (auto simp: valuesDel_def fun_eq_iff)

lemma valuesGet_valuesDel [simp]: "valuesGet (valuesDel f k) k' = (if k' = k then [] else valuesGet f k')"
  by (simp add: valuesGet_def map_of_valuesDel)

lemma valuesHas_valuesDel [simp]: "valuesHas (valuesDel f k) k' \<longleftrightarrow> k' \<noteq> k \<and> valuesHas f k'"
  by (auto simp: valuesHas_def map_of_valuesDel)

lemma valuesHas_valuesSet [simp]: "valuesHas (valuesSet f k v) k' \<longleftrightarrow> k' = k \<or> valuesHas f k'"
  by (auto simp: valuesHas_def map_of_valuesSet)

subsection \<open>Escaping\<close>

definition hexDigitUpper :: "nat \<Rightarrow> char" where
  "hexDigitUpper n = (if n < 10 then char_of (48 + n) else char_of (55 + n))"

definition hexVal :: "char \<Rightarrow> nat option" where
  "hexVal c = (let n = of_char c :: nat in
     if 48 \<le> n \<and> n \<le> 57 then Some (n - 48)
     else if 65 \<le> n \<and> n \<le> 70 then Some (n - 55)
     else if 97 \<le> n \<and> n \<le> 102 then Some (n - 87)
     else None)"

definition unreserved :: "char \<Rightarrow> bool" where
  "unreserved c \<longleftrightarrow> (let n = of_char c :: nat in
     (48 \<le> n \<and> n \<le> 57) \<or> (65 \<le> n \<and> n \<le> 90) \<or> (97 \<le> n \<and> n \<le> 122)
     \<or> c \<in> {CHR ''-'', CHR ''_'', CHR ''.'', CHR ''~''})"

definition escapeChar :: "char \<Rightarrow> string" where
  "escapeChar c =
     (if unreserved c then [c]
      else if c = CHR '' '' then ''+''
      else [CHR ''%'', hexDigitUpper (of_char c div 16), hexDigitUpper (of_char c mod 16)])"

definition queryEscape :: "string \<Rightarrow> string" where
  "queryEscape s = concat (map escapeChar s)"

fun queryUnescape :: "string \<Rightarrow> string option" where
  "queryUnescape [] = Some []"
| "queryUnescape (c # s) =
     (if c = CHR ''%'' then
        (case s of
           a # b # r \<Rightarrow>
             (case (hexVal a, hexVal b) of
                (Some x, Some y) \<Rightarrow> map_option (Cons (char_of (16 * x + y))) (queryUnescape r)
              | _ \<Rightarrow> None)
         | _ \<Rightarrow> None)
      else if c = CHR ''+'' then map_option (Cons (CHR '' '')) (queryUnescape s)
      else map_option (Cons c) (queryUnescape s))"

lemma hexVal_hexDigitUpper: "n < 16 \<Longrightarrow> hexVal (hexDigitUpper n) = Some n"
  by (auto simp: hexVal_def hexDigitUpper_def Let_def)

lemma of_char_nibble [simp]: "(of_char c :: nat) div 16 < 16"
proof (rule less_mult_imp_div_less)
  have "(of_char c :: nat) < 256" by simp
  then show "(of_char c :: nat) < 16 * 16" by (simp only: numeral_times_numeral semiring_norm)
qed

lemma queryUnescape_escapeChar:
  "queryUnescape (escapeChar c @ r) = map_option (Cons c) (queryUnescape r)"
proof (cases "unreserved c \<or> c = CHR '' ''")
  case True
  then show ?thesis by (auto simp: escapeChar_def unreserved_def)
next
  case False
  have h: "hexVal (hexDigitUpper (of_char c div 16)) = Some (of_char c div 16)"
    "hexVal (hexDigitUpper (of_char c mod 16)) = Some (of_char c mod 16)"
    by (auto intro!: hexVal_hexDigitUpper)
  have "char_of (16 * (of_char c div 16) + of_char c mod 16 :: nat) = c"
    by (simp only: mult_div_mod_eq char_of_char)
  with False h show ?thesis by (simp add: escapeChar_def)
qed

lemma queryUnescape_queryEscape: "queryUnescape (queryEscape s @ r) = map_option ((@) s) (queryUnescape r)"
  by (induction s) (simp_all add: queryEscape_def queryUnescape_escapeChar option.map_comp comp_def
      option.map_ident)

lemma hexDigitUpper_unreserved: "n < 16 \<Longrightarrow> unreserved (hexDigitUpper n)"
  by (auto simp: unreserved_def hexDigitUpper_def Let_def)

lemma escapeChar_chars: "x \<in> set (escapeChar c) \<Longrightarrow> unreserved x \<or> x = CHR ''+'' \<or> x = CHR ''%''"
  by (auto simp: escapeChar_def split: if_splits intro: hexDigitUpper_unreserved)

lemma queryEscape_no_sep:
  "CHR ''&'' \<notin> set (queryEscape s)" "CHR ''='' \<notin> set (queryEscape s)" "CHR '';'' \<notin> set (queryEscape s)"
proof -
  have "\<not> unreserved (CHR ''&'')" "\<not> unreserved (CHR ''='')" "\<not> unreserved (CHR '';'')"
    by (simp_all add: unreserved_def)
  then show "CHR ''&'' \<notin> set (queryEscape s)" "CHR ''='' \<notin> set (queryEscape s)"
    "CHR '';'' \<notin> set (queryEscape s)"
    unfolding queryEscape_def by (auto dest!: escapeChar_chars)
qed

subsection \<open>Encode and ParseQuery\<close>

definition encodePairs :: "url_values \<Rightarrow> string list" where
  "encodePairs f = concat (map (\<lambda>(k, vs). map (\<lambda>v. queryEscape k @ ''='' @ queryEscape v) vs) f)"

definition valuesEncode :: "url_values \<Rightarrow> string" where
  "valuesEncode f = joinWith ''&'' (encodePairs (sort_key fst f))"

datatype segment = Skip | Malformed | Pair string string

text \<open>\<open>strings.Cut(s, "=")\<close>, without the flag.\<close>

definition cutEq :: "string \<Rightarrow> string \<times> string" where
  "cutEq s = (takeWhile (\<lambda>c. c \<noteq> CHR ''='') s, drop 1 (dropWhile (\<lambda>c. c \<noteq> CHR ''='') s))"

definition parseSegment :: "string \<Rightarrow> segment" where
  "parseSegment s =
     (if containsChar s (CHR '';'') then Malformed
      else if s = [] then Skip
      else (case cutEq s of (k, v) \<Rightarrow>
        (case queryUnescape k of None \<Rightarrow> Malformed
         | Some k' \<Rightarrow> (case queryUnescape v of None \<Rightarrow> Malformed | Some v' \<Rightarrow> Pair k' v'))))"

fun collectPairs :: "url_values \<Rightarrow> segment list \<Rightarrow> url_values" where
  "collectPairs f [] = f"
| "collectPairs f (Pair k v # ss) = collectPairs (valuesAdd f k v) ss"
| "collectPairs f (_ # ss) = collectPairs f ss"

definition parseQuery :: "string \<Rightarrow> url_values option" where
  "parseQuery q = (let segs = map parseSegment (splitOn (CHR ''&'') q) in
     if slicesContains segs Malformed then None else Some (collectPairs [] segs))"

definition queryValues :: "string \<Rightarrow> url_values" where
  "queryValues q = collectPairs [] (map parseSegment (splitOn (CHR ''&'') q))"

lemma cutEq_pair: "CHR ''='' \<notin> set k \<Longrightarrow> cutEq (k @ CHR ''='' # v) = (k, v)"
  by (induction k) (auto simp: cutEq_def)

lemma parseSegment_pair: "parseSegment (queryEscape k @ ''='' @ queryEscape v) = Pair k v"
proof -
  have "queryUnescape (queryEscape x) = Some x" for x
    using queryUnescape_queryEscape [of x "[]"] by simp
  then show ?thesis by (simp add: parseSegment_def cutEq_pair queryEscape_no_sep)
qed

lemma valuesAdd_fresh: "k \<notin> fst ` set f \<Longrightarrow> valuesAdd f k v = f @ [(k, [v])]"
  by (induction f k v rule: valuesAdd.induct) auto

lemma valuesAdd_last: "k \<notin> fst ` set f \<Longrightarrow> valuesAdd (f @ [(k, vs)]) k v = f @ [(k, vs @ [v])]"
  by (induction f) auto

lemma collectPairs_append: "collectPairs f (xs @ ys) = collectPairs (collectPairs f xs) ys"
  by (induction f xs rule: collectPairs.induct) auto

lemma collectPairs_last:
  "k \<notin> fst ` set f \<Longrightarrow> collectPairs (f @ [(k, vs)]) (map (Pair k) ws) = f @ [(k, vs @ ws)]"
  by (induction ws arbitrary: vs) (auto simp: valuesAdd_last)

lemma collectPairs_block:
  "k \<notin> fst ` set f \<Longrightarrow> vs \<noteq> [] \<Longrightarrow> collectPairs f (map (Pair k) vs) = f @ [(k, vs)]"
  using collectPairs_last [of k f "[hd vs]" "tl vs"]
  by (cases vs) (auto simp: valuesAdd_fresh)

lemma collectPairs_blocks:
  assumes "distinct (map fst (f @ g))" "\<forall>(k, vs) \<in> set g. vs \<noteq> []"
  shows "collectPairs f (concat (map (\<lambda>(k, vs). map (Pair k) vs) g)) = f @ g"
  using assms
proof (induction g arbitrary: f)
  case Nil
  then show ?case by simp
next
  case (Cons p g)
  obtain k vs where p: "p = (k, vs)" by force
  have "collectPairs f (map (Pair k) vs) = f @ [(k, vs)]"
    using Cons.prems p by (intro collectPairs_block) auto
  then show ?case using Cons.IH [of "f @ [(k, vs)]"] Cons.prems p by (simp add: collectPairs_append)
qed

lemma encodePairs_no_amp: "\<forall>x \<in> set (encodePairs f). CHR ''&'' \<notin> set x"
  unfolding encodePairs_def using queryEscape_no_sep by auto

lemma parse_encodePairs:
  "map parseSegment (encodePairs f) = concat (map (\<lambda>(k, vs). map (Pair k) vs) f)"
  by (induction f) (auto simp: encodePairs_def parseSegment_pair[simplified] comp_def)

lemma keys_sort_key [simp]: "distinct (map fst (sort_key fst f)) \<longleftrightarrow> distinct (map fst f)"
  by (simp add: distinct_map)

text \<open>Round trip: parsing an encoded form gives the form back, with its keys in order.\<close>

lemma parseQuery_valuesEncode:
  assumes "valuesOk f" "\<forall>(k, vs) \<in> set f. vs \<noteq> []"
  shows "parseQuery (valuesEncode f) = Some (sort_key fst f)"
proof (cases "f = []")
  case True
  then show ?thesis by (simp add: parseQuery_def valuesEncode_def encodePairs_def parseSegment_def)
next
  case False
  let ?g = "sort_key fst f"
  obtain p g where g: "?g = p # g" using False by (cases ?g) (auto dest: arg_cong [of _ _ length])
  have ne: "\<forall>(k, vs) \<in> set ?g. vs \<noteq> []" using assms(2) by simp
  with g have "encodePairs ?g \<noteq> []" by (cases p) (auto simp: encodePairs_def)
  then have "splitOn (CHR ''&'') (valuesEncode f) = encodePairs ?g"
    unfolding valuesEncode_def by (intro splitOn_join encodePairs_no_amp)
  moreover have "collectPairs [] (concat (map (\<lambda>(k, vs). map (Pair k) vs) ?g)) = ?g"
    using collectPairs_blocks [of "[]" ?g] assms(1) ne by (simp add: valuesOk_def)
  moreover have "Malformed \<notin> set (concat (map (\<lambda>(k, vs). map (Pair k) vs) ?g))" by auto
  ultimately show ?thesis by (simp add: parseQuery_def parse_encodePairs Let_def)
qed

lemma map_of_sort_key: "distinct (map fst f) \<Longrightarrow> map_of (sort_key fst f) = map_of f"
  by (rule map_of_eqI) (auto simp: map_of_eq_Some_iff intro: map_of_is_SomeI)

end
