(* ===== verification/Provider_Prefix.thy ===== *)
theory Provider_Prefix
  imports Go_Url
begin

section \<open>Collections and provider prefixes (consts/consts.go, instance.go)\<close>

text \<open>
  Every persistent row belongs to one OAuth provider, named by its path prefix. This theory models
  the collection names, the normalisation of a prefix and the keys under which an app's store keeps
  the instance registered at a prefix.
\<close>

datatype collection =
    ClientC | AuthCodeC | AccessC | RefreshC | TombstoneC | PKCEC | OpenIDC | JTIC
  | InteractionC | ConsentC

fun collectionName :: "collection \<Rightarrow> string" where
  "collectionName ClientC = ''_oauth2Clients''"
| "collectionName AuthCodeC = ''_oauth2AuthCode''"
| "collectionName AccessC = ''_oauth2Access''"
| "collectionName RefreshC = ''_oauth2Refresh''"
| "collectionName TombstoneC = ''_oauth2RefreshTombstones''"
| "collectionName PKCEC = ''_oauth2PKCE''"
| "collectionName OpenIDC = ''_oauth2OpenID''"
| "collectionName JTIC = ''_oauth2JTI''"
| "collectionName InteractionC = ''_oauth2Interactions''"
| "collectionName ConsentC = ''_oauth2Consents''"

lemma collectionName_inj: "collectionName c = collectionName d \<longleftrightarrow> c = d"
  by (cases c; cases d) simp_all

text \<open>\<open>providerScopedCollections\<close> of provider_prefix.go, in its order.\<close>

definition providerScopedCollections :: "collection list" where
  "providerScopedCollections =
     [ClientC, AccessC, RefreshC, TombstoneC, AuthCodeC, PKCEC, OpenIDC, JTIC, InteractionC, ConsentC]"

lemma providerScopedCollections_all: "c \<in> set providerScopedCollections"
  by (cases c) (simp_all add: providerScopedCollections_def)

subsection \<open>Normalising a prefix\<close>

definition DefaultPathPrefix :: string where
  "DefaultPathPrefix = ''/oauth2''"

definition storeKeyBase :: string where
  "storeKeyBase = ''github.com/jesposito/pocketbase-ext-oauth2-mt/instance''"

definition registeringKeyBase :: string where
  "registeringKeyBase = storeKeyBase @ ''/registering''"

definition normalizePrefix :: "string \<Rightarrow> string" where
  "normalizePrefix prefix0 =
     (let prefix = trimSpace prefix0 in
      if prefix = [] then DefaultPathPrefix
      else
        let prefix = (if \<not> hasPrefix prefix ''/'' then ''/'' @ prefix else prefix);
            prefix = trimRight prefix (CHR ''/'') in
        if prefix = [] then DefaultPathPrefix else prefix)"

definition instanceStoreKey :: "string \<Rightarrow> string" where
  "instanceStoreKey prefix = storeKeyBase @ '':'' @ normalizePrefix prefix"

definition registeringStoreKey :: "string \<Rightarrow> string" where
  "registeringStoreKey prefix = registeringKeyBase @ '':'' @ normalizePrefix prefix"

text \<open>A prefix that normalisation leaves alone: what every provider is registered and stored under.\<close>

definition canonicalPrefix :: "string \<Rightarrow> bool" where
  "canonicalPrefix p \<longleftrightarrow> normalizePrefix p = p"

lemma trimSpace_DefaultPathPrefix: "set DefaultPathPrefix \<inter> set spaceBytes = {}"
  by code_simp

lemma spaceBytes_slash: "CHR ''/'' \<notin> set spaceBytes"
  by code_simp

lemma normalizePrefix_Nil [simp]: "normalizePrefix [] = DefaultPathPrefix"
  by (simp add: normalizePrefix_def)

lemma trimRight_hd: "trimRight s c \<noteq> [] \<Longrightarrow> hd (trimRight s c) = hd s"
  using trimRight_prefix [of s c] by (metis hd_append2)

lemma normalizePrefix_shape_aux:
  "normalizePrefix p \<noteq> [] \<and> hd (normalizePrefix p) = CHR ''/'' \<and> last (normalizePrefix p) \<noteq> CHR ''/''"
proof -
  let ?t = "trimSpace p"
  let ?q = "if \<not> hasPrefix ?t ''/'' then ''/'' @ ?t else ?t"
  have def: "DefaultPathPrefix \<noteq> [] \<and> hd DefaultPathPrefix = CHR ''/'' \<and> last DefaultPathPrefix \<noteq> CHR ''/''"
    by (simp add: DefaultPathPrefix_def)
  show ?thesis
  proof (cases "?t = [] \<or> trimRight ?q (CHR ''/'') = []")
    case True
    then have "normalizePrefix p = DefaultPathPrefix" by (auto simp: normalizePrefix_def Let_def)
    with def show ?thesis by simp
  next
    case False
    then have n: "normalizePrefix p = trimRight ?q (CHR ''/'')" by (auto simp: normalizePrefix_def Let_def)
    have "hd ?q = CHR ''/''" using False by (cases ?t) (auto simp: hasPrefix_def)
    then show ?thesis using False n trimRight_hd [of ?q "CHR ''/''"] trimRight_last [of ?q "CHR ''/''"] by auto
  qed
qed

lemma normalizePrefix_nospace:
  assumes "set p \<inter> set spaceBytes = {}"
  shows "set (normalizePrefix p) \<inter> set spaceBytes = {}"
proof -
  have t: "trimSpace p = p" using assms by (rule trimSpace_id)
  have "set (trimRight q (CHR ''/'')) \<inter> set spaceBytes = {}" if "set q \<inter> set spaceBytes = {}" for q
    using that trimRight_set [of q "CHR ''/''"] by blast
  then show ?thesis
    using assms trimSpace_DefaultPathPrefix spaceBytes_slash
    by (auto simp: normalizePrefix_def t Let_def)
qed

lemma normalizePrefix_id:
  assumes "p \<noteq> []" "hd p = CHR ''/''" "last p \<noteq> CHR ''/''" "set p \<inter> set spaceBytes = {}"
  shows "normalizePrefix p = p"
proof -
  have "hasPrefix p ''/''" using assms(1,2) by (cases p) (auto simp: hasPrefix_def)
  then show ?thesis
    using assms trimSpace_id [OF assms(4)] trimRight_id [of p "CHR ''/''"]
    by (auto simp: normalizePrefix_def Let_def)
qed

lemma normalizePrefix_idem_nospace:
  "set p \<inter> set spaceBytes = {} \<Longrightarrow> canonicalPrefix (normalizePrefix p)"
  using normalizePrefix_shape_aux [of p] normalizePrefix_nospace [of p]
  by (simp add: canonicalPrefix_def normalizePrefix_id)

lemma canonical_Default [simp]: "canonicalPrefix DefaultPathPrefix"
  unfolding canonicalPrefix_def
  by (rule normalizePrefix_id)
    (use trimSpace_DefaultPathPrefix in \<open>simp_all add: DefaultPathPrefix_def\<close>)

lemma normalizePrefix_Default [simp]: "normalizePrefix DefaultPathPrefix = DefaultPathPrefix"
  using canonical_Default by (simp add: canonicalPrefix_def)

lemma canonicalPrefixD: "canonicalPrefix p \<Longrightarrow> normalizePrefix p = p"
  by (simp add: canonicalPrefix_def)

lemma canonicalPrefix_nonempty: "canonicalPrefix p \<Longrightarrow> p \<noteq> []"
  using normalizePrefix_shape_aux [of p] by (auto simp: canonicalPrefix_def)

lemma instanceStoreKey_eq [simp]:
  "instanceStoreKey p = instanceStoreKey q \<longleftrightarrow> normalizePrefix p = normalizePrefix q"
  by (simp add: instanceStoreKey_def)

lemma registeringStoreKey_eq [simp]:
  "registeringStoreKey p = registeringStoreKey q \<longleftrightarrow> normalizePrefix p = normalizePrefix q"
  by (simp add: registeringStoreKey_def)

lemma storeKeys_disjoint [simp]:
  "instanceStoreKey p \<noteq> registeringStoreKey q" "registeringStoreKey q \<noteq> instanceStoreKey p"
  by (simp_all add: instanceStoreKey_def registeringStoreKey_def registeringKeyBase_def)

end
