(* ===== verification/Session.thy ===== *)
theory Session
  imports Provider_Prefix
begin

section \<open>Clients, sessions and requesters (client/client.go, session.go)\<close>

text \<open>
  The data that travels between fosite and the storage layer: the OAuth client, the session bound to
  an authorization, and the requester (\<open>fosite.Requester\<close>) that fosite passes to every storage call.
  Times are integers in microseconds; \<open>zeroTime\<close> is Go's zero \<open>time.Time\<close>.
\<close>

definition zeroTime :: int where
  "zeroTime = - 62135596800000000"

subsection \<open>The client\<close>

text \<open>
  \<open>client.Client\<close>, field for field. The JSON web key set and the metadata are kept as the raw JSON
  they are stored as (\<open>None\<close> for the nil key set).
\<close>

record client =
  cl_ID :: string
  cl_Name :: string
  cl_Secret :: string
  cl_RedirectURIs :: "string list"
  cl_GrantTypes :: "string list"
  cl_ResponseTypes :: "string list"
  cl_Scope :: string
  cl_Audience :: "string list"
  cl_Owner :: string
  cl_PolicyURI :: string
  cl_AllowedCORSOrigins :: "string list"
  cl_TermsOfServiceURI :: string
  cl_ClientURI :: string
  cl_LogoURI :: string
  cl_Contacts :: "string list"
  cl_SecretExpiresAt :: int
  cl_SubjectType :: string
  cl_SectorIdentifierURI :: string
  cl_JSONWebKeysURI :: string
  cl_JSONWebKeys :: "string option"
  cl_TokenEndpointAuthMethod :: string
  cl_TokenEndpointAuthSigningAlgorithm :: string
  cl_RequestURIs :: "string list"
  cl_RequestObjectSigningAlgorithm :: string
  cl_UserinfoSignedResponseAlgorithm :: string
  cl_Metadata :: string
  cl_AccessTokenStrategy :: string

text \<open>\<open>GetScopes\<close> splits the scope string at single spaces, \<open>IsPublic\<close> tests the auth method.\<close>

definition GetScopes :: "client \<Rightarrow> string list" where
  "GetScopes c = splitOn (CHR '' '') (cl_Scope c)"

definition IsPublic :: "client \<Rightarrow> bool" where
  "IsPublic c \<longleftrightarrow> cl_TokenEndpointAuthMethod c = ''none''"

datatype responseMode = ResponseModeDefault | ResponseModeFragment | ResponseModeFormPost | ResponseModeQuery

definition GetResponseModes :: "client \<Rightarrow> responseMode list" where
  "GetResponseModes c = [ResponseModeDefault, ResponseModeFragment, ResponseModeFormPost, ResponseModeQuery]"

text \<open>The other methods of fosite's client interfaces read one field.\<close>

definition GetAudience :: "client \<Rightarrow> string list" where "GetAudience c = cl_Audience c"
definition GetGrantTypes :: "client \<Rightarrow> string list" where "GetGrantTypes c = cl_GrantTypes c"
definition GetHashedSecret :: "client \<Rightarrow> string" where "GetHashedSecret c = cl_Secret c"
definition GetID :: "client \<Rightarrow> string" where "GetID c = cl_ID c"
definition GetRedirectURIs :: "client \<Rightarrow> string list" where "GetRedirectURIs c = cl_RedirectURIs c"
definition GetResponseTypes :: "client \<Rightarrow> string list" where "GetResponseTypes c = cl_ResponseTypes c"
definition GetJSONWebKeys :: "client \<Rightarrow> string option" where "GetJSONWebKeys c = cl_JSONWebKeys c"
definition GetJSONWebKeysURI :: "client \<Rightarrow> string" where "GetJSONWebKeysURI c = cl_JSONWebKeysURI c"
definition GetRequestObjectSigningAlgorithm :: "client \<Rightarrow> string" where "GetRequestObjectSigningAlgorithm c = cl_RequestObjectSigningAlgorithm c"
definition GetRequestURIs :: "client \<Rightarrow> string list" where "GetRequestURIs c = cl_RequestURIs c"
definition GetTokenEndpointAuthMethod :: "client \<Rightarrow> string" where "GetTokenEndpointAuthMethod c = cl_TokenEndpointAuthMethod c"
definition GetTokenEndpointAuthSigningAlgorithm :: "client \<Rightarrow> string" where "GetTokenEndpointAuthSigningAlgorithm c = cl_TokenEndpointAuthSigningAlgorithm c"

subsection \<open>The session\<close>

datatype token_type = AuthorizeCode | AccessToken | RefreshToken | IDToken | UntypedToken

text \<open>
  The fields of fosite's \<open>IDTokenClaims\<close> that this code reads or writes; an absent time is \<open>zeroTime\<close>.
\<close>

record id_claims =
  ic_Issuer :: string
  ic_Subject :: string
  ic_Audience :: "string list"
  ic_IssuedAt :: int
  ic_RequestedAt :: int
  ic_AuthTime :: int
  ic_ExpiresAt :: int
  ic_AMR :: "string list"
  ic_ACR :: string
  ic_Extra :: "(string \<times> string) list"

record session =
  ses_Claims :: "id_claims option"
  ses_Headers :: "(string \<times> string) list option"
  ses_ExpiresAt :: "(token_type \<times> int) list"
  ses_Username :: string
  ses_Subject :: string
  ses_CollectionId :: string

text \<open>\<open>NewSession\<close>: issuer and subject are set, the expiry is left to fosite's configuration.\<close>

definition NewSession :: "string \<Rightarrow> string \<Rightarrow> string \<Rightarrow> int \<Rightarrow> session" where
  "NewSession appURL recordId collectionId now =
     \<lparr>ses_Claims = Some \<lparr>ic_Issuer = appURL, ic_Subject = recordId, ic_Audience = [],
        ic_IssuedAt = now, ic_RequestedAt = zeroTime, ic_AuthTime = zeroTime,
        ic_ExpiresAt = zeroTime, ic_AMR = [], ic_ACR = [], ic_Extra = []\<rparr>,
      ses_Headers = Some [], ses_ExpiresAt = [], ses_Username = [], ses_Subject = recordId,
      ses_CollectionId = collectionId\<rparr>"

text \<open>
  \<open>GetExpiresAt\<close> and \<open>GetSubject\<close> are methods of the \<open>fosite.Session\<close> interface; the default session
  answers an unset token type with the zero time.
\<close>

definition sessionExpiresAt :: "session \<Rightarrow> token_type \<Rightarrow> int" where
  "sessionExpiresAt s t = (case map_of (ses_ExpiresAt s) t of None \<Rightarrow> zeroTime | Some x \<Rightarrow> x)"

text \<open>\<open>GetJWTClaims\<close> adds the collection to the claims of the ID token.\<close>

definition GetJWTCollectionClaim :: "session \<Rightarrow> string \<times> string" where
  "GetJWTCollectionClaim s = (''collection'', ses_CollectionId s)"

subsection \<open>The requester\<close>

record requester =
  rq_ID :: string
  rq_RequestedAt :: int
  rq_Client :: client
  rq_RequestedScopes :: "string list"
  rq_GrantedScopes :: "string list"
  rq_RequestedAudience :: "string list"
  rq_GrantedAudience :: "string list"
  rq_Form :: url_values
  rq_Session :: "session option"

subsection \<open>The environment of the storage layer\<close>

text \<open>
  The JSON form of a session is fixed by struct tags of fosite's types, which are not part of this
  repository: the encoder and the decoder are parameters of the model. The decoder gets the session
  it decodes into, as \<open>json.Unmarshal\<close> does. \<open>jsonValid\<close> and \<open>jwksValid\<close> say whether a raw JSON column
  decodes (as any JSON value, as a key set).
\<close>

record store_envir = envir +
  marshalSession :: "session \<Rightarrow> string option"
  unmarshalSession :: "string \<Rightarrow> session \<Rightarrow> session option"
  jsonValid :: "string \<Rightarrow> bool"
  jwksValid :: "string \<Rightarrow> bool"

text \<open>What the code relies on: decoding what was encoded gives the session back.\<close>

definition sessionCodecOk :: "'a store_envir_scheme \<Rightarrow> bool" where
  "sessionCodecOk \<omega> \<longleftrightarrow>
     (\<forall>s t x. marshalSession \<omega> s = Some x \<longrightarrow> unmarshalSession \<omega> x t = Some s)"

end
