(* ===== verification/World.thy ===== *)
theory World
  imports Session
begin

section \<open>The database: rows, tables and the statements the code issues\<close>

text \<open>
  The persistent state is one table per collection. A table is a list of rows, in insertion order;
  a statement is what the code sends through PocketBase: a query by an SQL condition, an insert, an
  update by record id, a delete by record id, a conditional UPDATE or DELETE. Every statement may fail
  (\<open>dbCall\<close>), which covers everything PocketBase may reject. What the model takes from PocketBase is
  the SQL meaning of these statements, the generated record id of an insert, and the unique indexes
  that the migrations of this repository create (theory Migration_Properties).
\<close>

subsection \<open>Rows\<close>

text \<open>
  The five session collections share their columns (migrations/1770364898_oauth2_init.go); the refresh
  collection adds the family columns (migrations/1770365000_refresh_family.go), which stay at their
  default in the others.
\<close>

record session_row =
  sr_id :: string
  sr_provider_prefix :: string
  sr_signature :: string
  sr_client_id :: string
  sr_request_id :: string
  sr_requested_at :: int
  sr_expires_at :: "int option"
  sr_scopes :: string
  sr_granted_scopes :: string
  sr_requested_audience :: string
  sr_granted_audience :: string
  sr_form_data :: string
  sr_session_data :: string
  sr_subject :: string
  sr_family_id :: string
  sr_parent_refresh_id :: string
  sr_status :: string
  sr_rotated_at :: int
  sr_reused_at :: int

record tombstone_row =
  tb_id :: string
  tb_provider_prefix :: string
  tb_request_id :: string
  tb_family_id :: string
  tb_expires_at :: int

record jti_row =
  jt_id :: string
  jt_provider_prefix :: string
  jt_jti :: string
  jt_expires_at :: int

record client_row =
  cr_id :: string
  cr_provider_prefix :: string
  cr_client_id :: string
  cr_client_name :: string
  cr_client_secret :: string
  cr_client_secret_expires_at :: int
  cr_redirect_uris :: "string list"
  cr_grant_types :: "string list"
  cr_response_types :: "string list"
  cr_scope :: string
  cr_audience :: "string list"
  cr_owner :: string
  cr_policy_uri :: string
  cr_tos_uri :: string
  cr_client_uri :: string
  cr_logo_uri :: string
  cr_contacts :: "string list"
  cr_allowed_cors_origins :: "string list"
  cr_subject_type :: string
  cr_sector_identifier_uri :: string
  cr_jwks_uri :: string
  cr_jwks :: string
  cr_request_uris :: "string list"
  cr_token_endpoint_auth_method :: string
  cr_token_endpoint_auth_signing_alg :: string
  cr_request_object_signing_alg :: string
  cr_userinfo_signed_response_alg :: string
  cr_metadata :: string
  cr_access_token_strategy :: string

record interaction_row =
  ir_id :: string
  ir_provider_prefix :: string
  ir_client_id :: string
  ir_client_name :: string
  ir_user_collection :: string
  ir_redirect_uri :: string
  ir_request_form :: url_values
  ir_requested_scopes :: "string list"
  ir_requested_acr_values :: "string list"
  ir_requested_at :: int
  ir_expires_at :: int
  ir_prompt :: string

record consent_row =
  co_id :: string
  co_provider_prefix :: string
  co_user_id :: string
  co_user_collection :: string
  co_client_id :: string
  co_granted_scopes :: "string list"
  co_granted_at :: int

text \<open>A row nobody has set a column of: \<open>core.NewRecord(c)\<close>.\<close>

definition emptySessionRow :: session_row where
  "emptySessionRow = \<lparr>sr_id = [], sr_provider_prefix = [], sr_signature = [], sr_client_id = [],
     sr_request_id = [], sr_requested_at = 0, sr_expires_at = Some 0, sr_scopes = [],
     sr_granted_scopes = [], sr_requested_audience = [], sr_granted_audience = [], sr_form_data = [],
     sr_session_data = [], sr_subject = [], sr_family_id = [], sr_parent_refresh_id = [],
     sr_status = [], sr_rotated_at = 0, sr_reused_at = 0\<rparr>"

subsection \<open>The world of one app\<close>

text \<open>
  \<open>w_registered\<close> is what \<open>listRegisteredPrefixes(app)\<close> returns: the prefixes registered on this app.
\<close>

record world = base_world +
  w_registered :: "string list"
  w_sessions :: "collection \<Rightarrow> session_row list"
  w_tombstones :: "tombstone_row list"
  w_jtis :: "jti_row list"
  w_clients :: "client_row list"
  w_interactions :: "interaction_row list"
  w_consents :: "consent_row list"

definition emptyWorld :: "string list \<Rightarrow> world" where
  "emptyWorld ps = \<lparr>tick = 0, w_registered = ps, w_sessions = (\<lambda>_. []), w_tombstones = [],
     w_jtis = [], w_clients = [], w_interactions = [], w_consents = []\<rparr>"

subsection \<open>Rows of a provider (provider_prefix.go)\<close>

definition legacyDefaultAllowed :: "'w world_scheme \<Rightarrow> string \<Rightarrow> bool" where
  "legacyDefaultAllowed w prefix =
     (if normalizePrefix prefix \<noteq> DefaultPathPrefix then False
      else (case w_registered w of
          [p] \<Rightarrow> normalizePrefix p = DefaultPathPrefix
        | _ \<Rightarrow> False))"

text \<open>The SQL condition on the column \<open>provider_prefix\<close>, as a predicate on its value.\<close>

definition providerPrefixExpWithLegacy :: "string \<Rightarrow> bool \<Rightarrow> string \<Rightarrow> bool" where
  "providerPrefixExpWithLegacy prefix allowLegacy column =
     (let prefix = normalizePrefix prefix in
      if allowLegacy then column = prefix \<or> column = [] else column = prefix)"

definition providerPrefixExp :: "'w world_scheme \<Rightarrow> string \<Rightarrow> string \<Rightarrow> bool" where
  "providerPrefixExp w prefix0 =
     (let prefix = normalizePrefix prefix0 in
      providerPrefixExpWithLegacy prefix (legacyDefaultAllowed w prefix))"

lemma legacyDefaultAllowed_tick [simp]:
  "legacyDefaultAllowed (w\<lparr>tick := n\<rparr>) p = legacyDefaultAllowed w p"
  by (simp add: legacyDefaultAllowed_def)

lemma legacyDefaultAllowed_tables [simp]:
  "legacyDefaultAllowed (w\<lparr>w_sessions := ss\<rparr>) p = legacyDefaultAllowed w p"
  "legacyDefaultAllowed (w\<lparr>w_tombstones := ts\<rparr>) p = legacyDefaultAllowed w p"
  "legacyDefaultAllowed (w\<lparr>w_jtis := js\<rparr>) p = legacyDefaultAllowed w p"
  "legacyDefaultAllowed (w\<lparr>w_interactions := is\<rparr>) p = legacyDefaultAllowed w p"
  "legacyDefaultAllowed (w\<lparr>w_consents := cs\<rparr>) p = legacyDefaultAllowed w p"
  by (simp_all add: legacyDefaultAllowed_def)

lemma providerPrefixExp_cong [simp]:
  "providerPrefixExp (w\<lparr>tick := n\<rparr>) p = providerPrefixExp w p"
  "providerPrefixExp (w\<lparr>w_sessions := ss\<rparr>) p = providerPrefixExp w p"
  "providerPrefixExp (w\<lparr>w_tombstones := ts\<rparr>) p = providerPrefixExp w p"
  "providerPrefixExp (w\<lparr>w_jtis := js\<rparr>) p = providerPrefixExp w p"
  "providerPrefixExp (w\<lparr>w_interactions := is\<rparr>) p = providerPrefixExp w p"
  "providerPrefixExp (w\<lparr>w_consents := cs\<rparr>) p = providerPrefixExp w p"
  by (simp_all add: providerPrefixExp_def)

text \<open>A provider sees a row of its own prefix, and an untagged row only as the sole default provider.\<close>

lemma providerPrefixExp_canonical:
  "canonicalPrefix p \<Longrightarrow>
     providerPrefixExp w p col \<longleftrightarrow> col = p \<or> (col = [] \<and> legacyDefaultAllowed w p)"
  by (auto simp: providerPrefixExp_def providerPrefixExpWithLegacy_def canonicalPrefixD Let_def)

lemma providerPrefixExp_own: "canonicalPrefix p \<Longrightarrow> providerPrefixExp w p p"
  by (simp add: providerPrefixExp_canonical)

lemma providerPrefixExp_foreign:
  "canonicalPrefix p \<Longrightarrow> canonicalPrefix q \<Longrightarrow> p \<noteq> q \<Longrightarrow> \<not> providerPrefixExp w p q"
  using canonicalPrefix_nonempty by (auto simp: providerPrefixExp_canonical)

lemma withLegacy_eq:
  "providerPrefixExpWithLegacy p (legacyDefaultAllowed w p) col \<longleftrightarrow> providerPrefixExp w p col"
  if "canonicalPrefix p" for w p col
  using that by (simp add: providerPrefixExp_def canonicalPrefixD Let_def)

subsection \<open>Statements\<close>

type_synonym ('o, 'w, 'a) dbgo = "('o envir_scheme, 'w world_scheme, 'a) go"

text \<open>\<open>FindCachedCollectionByNameOrId\<close>, and the fallback to an invalid collection the code uses.\<close>

definition findCollection :: "collection \<Rightarrow> ('o, 'w, unit) dbgo" where
  "findCollection c = dbCall"

definition collectionOrInvalid :: "collection \<Rightarrow> ('o, 'w, bool) dbgo" where
  "collectionOrInvalid c = tryG (bindG (findCollection c) (\<lambda>_. returnG True)) (\<lambda>_. returnG False)"

text \<open>A query on the invalid collection fails: it has no table.\<close>

definition querySessions ::
  "bool \<Rightarrow> collection \<Rightarrow> ('w world_scheme \<Rightarrow> session_row \<Rightarrow> bool) \<Rightarrow> ('o, 'w, session_row list) dbgo" where
  "querySessions valid c P = bindG dbCall (\<lambda>_.
     if valid then readG (\<lambda>w. filter (P w) (w_sessions w c)) else throwG driverErr)"

text \<open>Insert: a fresh record id, the unique index on (provider_prefix, signature), the primary key.\<close>

definition insertSession :: "collection \<Rightarrow> session_row \<Rightarrow> ('o, 'w, unit) dbgo" where
  "insertSession c row = bindG newUUID (\<lambda>i. bindG dbCall (\<lambda>_.
     bindG (readG (\<lambda>w. w_sessions w c)) (\<lambda>rows.
       if \<exists>r \<in> set rows. sr_id r = i
            \<or> (sr_provider_prefix r = sr_provider_prefix row \<and> sr_signature r = sr_signature row)
       then throwG constraintErr
       else modifyG (\<lambda>w. w\<lparr>w_sessions := (w_sessions w)(c := rows @ [row\<lparr>sr_id := i\<rparr>])\<rparr>))))"

definition updateSession :: "collection \<Rightarrow> session_row \<Rightarrow> ('o, 'w, unit) dbgo" where
  "updateSession c row = bindG dbCall (\<lambda>_.
     modifyG (\<lambda>w. w\<lparr>w_sessions :=
       (w_sessions w)(c := map (\<lambda>r. if sr_id r = sr_id row then row else r) (w_sessions w c))\<rparr>))"

definition deleteSession :: "collection \<Rightarrow> session_row \<Rightarrow> ('o, 'w, unit) dbgo" where
  "deleteSession c row = bindG dbCall (\<lambda>_.
     modifyG (\<lambda>w. w\<lparr>w_sessions :=
       (w_sessions w)(c := filter (\<lambda>r. sr_id r \<noteq> sr_id row) (w_sessions w c))\<rparr>))"

lemma wp_findCollection [wp_simps]: "wp (findCollection c) Q E \<omega> w =
   (if dbfail \<omega> (tick w) then E driverErr (w\<lparr>tick := Suc (tick w)\<rparr>) else Q () (w\<lparr>tick := Suc (tick w)\<rparr>))"
  by (simp add: findCollection_def wp_dbCall)

lemma wp_collectionOrInvalid [wp_simps]:
  "wp (collectionOrInvalid c) Q E \<omega> w = Q (\<not> dbfail \<omega> (tick w)) (w\<lparr>tick := Suc (tick w)\<rparr>)"
  by (simp add: collectionOrInvalid_def wp_simps)

lemma wp_querySessions [wp_simps]: "wp (querySessions valid c P) Q E \<omega> w =
   (let w' = w\<lparr>tick := Suc (tick w)\<rparr> in
    if dbfail \<omega> (tick w) \<or> \<not> valid then E driverErr w' else Q (filter (P w') (w_sessions w c)) w')"
  by (simp add: querySessions_def wp_simps Let_def)

lemma wp_updateSession [wp_simps]: "wp (updateSession c row) Q E \<omega> w =
   (let w' = w\<lparr>tick := Suc (tick w)\<rparr> in
    if dbfail \<omega> (tick w) then E driverErr w'
    else Q () (w'\<lparr>w_sessions :=
      (w_sessions w)(c := map (\<lambda>r. if sr_id r = sr_id row then row else r) (w_sessions w c))\<rparr>))"
  by (simp add: updateSession_def wp_simps Let_def)

lemma wp_deleteSession [wp_simps]: "wp (deleteSession c row) Q E \<omega> w =
   (let w' = w\<lparr>tick := Suc (tick w)\<rparr> in
    if dbfail \<omega> (tick w) then E driverErr w'
    else Q () (w'\<lparr>w_sessions := (w_sessions w)(c := filter (\<lambda>r. sr_id r \<noteq> sr_id row) (w_sessions w c))\<rparr>))"
  by (simp add: deleteSession_def wp_simps Let_def)

lemma keeps_findCollection [keeps_intros]: "tickfree R \<Longrightarrow> keeps R (findCollection c)"
  unfolding findCollection_def by (rule keeps_dbCall)

lemma keeps_collectionOrInvalid [keeps_intros]:
  "preorderR R \<Longrightarrow> tickfree R \<Longrightarrow> keeps R (collectionOrInvalid c)"
  unfolding collectionOrInvalid_def by (intro keeps_intros)

lemma keeps_querySessions [keeps_intros]:
  "preorderR R \<Longrightarrow> tickfree R \<Longrightarrow> keeps R (querySessions valid c P)"
  unfolding querySessions_def by (intro keeps_intros)

end
