(* ===== verification/Session_Model.thy ===== *)
theory Session_Model
  imports World
begin

section \<open>Session models and the generic helpers (storage_session_model.go, storage.go)\<close>

text \<open>
  \<open>SetRequester\<close> writes a requester into a row, \<open>ToRequest\<close> rebuilds the request from a row, and the
  generic helpers of storage.go find and delete rows by signature and by request id within one
  provider. \<open>GetClient\<close> and the JTI helpers are here because \<open>ToRequest\<close> and the code storage use them.
\<close>

type_synonym ('o, 'w, 'a) stgo = "('o store_envir_scheme, 'w world_scheme, 'a) go"

text \<open>\<open>OAuth2Store\<close>: the app is the world, so the store is its prefix.\<close>

record oauth2store =
  st_prefix :: string

definition NewOAuth2StoreAt :: "string \<Rightarrow> oauth2store" where
  "NewOAuth2StoreAt prefix = \<lparr>st_prefix = normalizePrefix prefix\<rparr>"

definition NewOAuth2Store :: oauth2store where
  "NewOAuth2Store = NewOAuth2StoreAt DefaultPathPrefix"

subsection \<open>Clients\<close>

definition ToClient :: "client_row \<Rightarrow> ('o, 'w, client) stgo" where
  "ToClient m = bindG (askG (\<lambda>\<omega>. jwksValid \<omega> (cr_jwks m))) (\<lambda>jwksOk.
     if \<not> jwksOk then throwG (textErr ''failed to unmarshal jwks'')
     else bindG (askG (\<lambda>\<omega>. jsonValid \<omega> (cr_metadata m))) (\<lambda>metaOk.
     if \<not> metaOk then throwG (textErr ''failed to unmarshal metadata'')
     else returnG \<lparr>cl_ID = cr_client_id m, cl_Name = cr_client_name m, cl_Secret = cr_client_secret m,
       cl_RedirectURIs = cr_redirect_uris m, cl_GrantTypes = cr_grant_types m,
       cl_ResponseTypes = cr_response_types m, cl_Scope = cr_scope m, cl_Audience = cr_audience m,
       cl_Owner = cr_owner m, cl_PolicyURI = cr_policy_uri m,
       cl_AllowedCORSOrigins = cr_allowed_cors_origins m, cl_TermsOfServiceURI = cr_tos_uri m,
       cl_ClientURI = cr_client_uri m, cl_LogoURI = cr_logo_uri m, cl_Contacts = cr_contacts m,
       cl_SecretExpiresAt = cr_client_secret_expires_at m, cl_SubjectType = cr_subject_type m,
       cl_SectorIdentifierURI = cr_sector_identifier_uri m, cl_JSONWebKeysURI = cr_jwks_uri m,
       cl_JSONWebKeys = (if cr_jwks m = ''null'' then None else Some (cr_jwks m)),
       cl_TokenEndpointAuthMethod = cr_token_endpoint_auth_method m,
       cl_TokenEndpointAuthSigningAlgorithm = cr_token_endpoint_auth_signing_alg m,
       cl_RequestURIs = cr_request_uris m,
       cl_RequestObjectSigningAlgorithm = cr_request_object_signing_alg m,
       cl_UserinfoSignedResponseAlgorithm = cr_userinfo_signed_response_alg m,
       cl_Metadata = cr_metadata m, cl_AccessTokenStrategy = cr_access_token_strategy m\<rparr>))"

definition mapRFCErr :: "goerr \<Rightarrow> goerr" where
  "mapRFCErr e = (if errorsIs e ErrNoRows then plainErr ErrNotFound else e)"

definition queryClients ::
  "bool \<Rightarrow> ('w world_scheme \<Rightarrow> client_row \<Rightarrow> bool) \<Rightarrow> ('o, 'w, client_row list) dbgo" where
  "queryClients valid P = bindG dbCall (\<lambda>_.
     if valid then readG (\<lambda>w. filter (P w) (w_clients w)) else throwG driverErr)"

definition GetClient :: "oauth2store \<Rightarrow> string \<Rightarrow> ('o, 'w, client) stgo" where
  "GetClient s clientID = bindG (collectionOrInvalid ClientC) (\<lambda>c.
     bindG (attemptG (bindG (queryClients c (\<lambda>w r. cr_client_id r = clientID
                               \<and> providerPrefixExp w (st_prefix s) (cr_provider_prefix r)))
              (\<lambda>rows. case rows of [] \<Rightarrow> throwG (plainErr ErrNoRows) | m # _ \<Rightarrow> returnG m)))
       (\<lambda>r. case r of
           Inl e \<Rightarrow> (if errorsIs e ErrNoRows then throwG (plainErr ErrNotFound) else throwG e)
         | Inr m \<Rightarrow> ToClient m))"

subsection \<open>Writing a requester into a row\<close>

definition SetRequester :: "requester \<Rightarrow> token_type \<Rightarrow> session_row \<Rightarrow> ('o, 'w, session_row) stgo" where
  "SetRequester rq tokenType m =
     (let session = rq_Session rq;
          subject = (case session of None \<Rightarrow> [] | Some s \<Rightarrow> ses_Subject s);
          expires_at = (case session of None \<Rightarrow> 0 | Some s \<Rightarrow> unixSec (sessionExpiresAt s tokenType))
      in bindG (askG (\<lambda>\<omega>. case session of None \<Rightarrow> Some ''null'' | Some s \<Rightarrow> marshalSession \<omega> s))
        (\<lambda>r. case r of
            None \<Rightarrow> throwG (textErr ''json: unsupported session'')
          | Some sessionBytes \<Rightarrow> returnG (m\<lparr>
              sr_client_id := cl_ID (rq_Client rq),
              sr_request_id := rq_ID rq,
              sr_requested_at := unixSec (rq_RequestedAt rq),
              sr_expires_at := Some expires_at,
              sr_scopes := joinWith ''|'' (rq_RequestedScopes rq),
              sr_granted_scopes := joinWith ''|'' (rq_GrantedScopes rq),
              sr_requested_audience := joinWith ''|'' (rq_RequestedAudience rq),
              sr_granted_audience := joinWith ''|'' (rq_GrantedAudience rq),
              sr_form_data := valuesEncode (rq_Form rq),
              sr_session_data := sessionBytes,
              sr_subject := subject\<rparr>)))"

text \<open>\<open>GetScopes\<close> and its three siblings: split at the bar, nil for the empty column.\<close>

definition splitColumn :: "string \<Rightarrow> string list" where
  "splitColumn v = (if 0 < length v then splitOn (CHR ''|'') v else [])"

text \<open>\<open>GetStatus\<close>: a row from before the family migration has no status and counts as active.\<close>

definition RefreshStatusActive :: string where "RefreshStatusActive = ''active''"
definition RefreshStatusRotated :: string where "RefreshStatusRotated = ''rotated''"
definition RefreshStatusRevoked :: string where "RefreshStatusRevoked = ''revoked''"
definition RefreshStatusReused :: string where "RefreshStatusReused = ''reused''"

lemmas status_defs = RefreshStatusActive_def RefreshStatusRotated_def RefreshStatusRevoked_def
  RefreshStatusReused_def

definition GetStatus :: "session_row \<Rightarrow> string" where
  "GetStatus m = (if sr_status m \<noteq> [] then sr_status m else RefreshStatusActive)"

text \<open>\<open>time.Unix(sec, 0)\<close>, and the pointer \<open>GetExpiresAt\<close> returns.\<close>

definition fromUnix :: "int \<Rightarrow> int" where
  "fromUnix sec = sec * 1000000"

definition GetExpiresAt :: "session_row \<Rightarrow> int option" where
  "GetExpiresAt m = map_option fromUnix (sr_expires_at m)"

lemma unixSec_fromUnix [simp]: "unixSec (fromUnix s) = s"
  by (simp add: unixSec_def fromUnix_def)

subsection \<open>Rebuilding a request from a row\<close>

definition ToRequest :: "oauth2store \<Rightarrow> session option \<Rightarrow> session_row \<Rightarrow> ('o, 'w, requester) stgo" where
  "ToRequest s session m =
     bindG (case session of
         None \<Rightarrow> returnG None
       | Some target \<Rightarrow>
           bindG (askG (\<lambda>\<omega>. unmarshalSession \<omega> (sr_session_data m) target)) (\<lambda>r.
             case r of None \<Rightarrow> throwG (textErr ''json: cannot unmarshal session'')
             | Some v \<Rightarrow> returnG (Some v))) (\<lambda>session'.
     bindG (GetClient s (sr_client_id m)) (\<lambda>c.
       case parseQuery (sr_form_data m) of
         None \<Rightarrow> throwG (textErr ''url: invalid query'')
       | Some val \<Rightarrow> returnG \<lparr>rq_ID = sr_request_id m,
           rq_RequestedAt = fromUnix (sr_requested_at m),
           rq_Client = c,
           rq_RequestedScopes = splitColumn (sr_scopes m),
           rq_GrantedScopes = splitColumn (sr_granted_scopes m),
           rq_RequestedAudience = splitColumn (sr_requested_audience m),
           rq_GrantedAudience = splitColumn (sr_granted_audience m),
           rq_Form = val,
           rq_Session = session'\<rparr>))"

subsection \<open>Generic helpers on the session collections\<close>

definition newSessionModel :: "collection \<Rightarrow> ('o, 'w, bool \<times> session_row) dbgo" where
  "newSessionModel c = bindG (collectionOrInvalid c) (\<lambda>valid. returnG (valid, emptySessionRow))"

text \<open>\<open>Save\<close> of a new model: on the invalid collection it fails.\<close>

definition saveNew :: "collection \<Rightarrow> bool \<Rightarrow> session_row \<Rightarrow> ('o, 'w, unit) dbgo" where
  "saveNew c valid m = (if valid then insertSession c m else bindG dbCall (\<lambda>_. throwG driverErr))"

definition findSessionModelBySignature ::
  "collection \<Rightarrow> string \<Rightarrow> string \<Rightarrow> ('o, 'w, session_row) dbgo" where
  "findSessionModelBySignature c prefix signature =
     bindG (collectionOrInvalid c) (\<lambda>valid.
     mapErrG mapRFCErr
       (bindG (querySessions valid c (\<lambda>w r. sr_signature r = signature
                 \<and> providerPrefixExp w prefix (sr_provider_prefix r)))
          (\<lambda>rows. case rows of [] \<Rightarrow> throwG (plainErr ErrNoRows) | m # _ \<Rightarrow> returnG m)))"

definition deleteSessionModelBySignature ::
  "collection \<Rightarrow> string \<Rightarrow> string \<Rightarrow> ('o, 'w, unit) dbgo" where
  "deleteSessionModelBySignature c prefix signature =
     bindG (attemptG (findSessionModelBySignature c prefix signature)) (\<lambda>r.
       case r of
         Inl e \<Rightarrow> (if errorsIs e ErrNotFound then returnG () else throwG e)
       | Inr m \<Rightarrow> deleteSession c m)"

definition deleteSessionModelsByRequestID ::
  "collection \<Rightarrow> string \<Rightarrow> string \<Rightarrow> ('o, 'w, unit) dbgo" where
  "deleteSessionModelsByRequestID c prefix requestID =
     bindG (findCollection c) (\<lambda>_.
     bindG (querySessions True c (\<lambda>w r. sr_request_id r = requestID
              \<and> providerPrefixExp w prefix (sr_provider_prefix r))) (\<lambda>rows.
     forG rows (deleteSession c)))"

subsection \<open>The lemmas that the storage methods rest on\<close>

text \<open>What a lookup by signature sees in a world.\<close>

definition lookupSig :: "'w world_scheme \<Rightarrow> collection \<Rightarrow> string \<Rightarrow> string \<Rightarrow> session_row option" where
  "lookupSig w c prefix signature = List.find (\<lambda>r. sr_signature r = signature
     \<and> providerPrefixExp w prefix (sr_provider_prefix r)) (w_sessions w c)"

definition requestRows :: "'w world_scheme \<Rightarrow> collection \<Rightarrow> string \<Rightarrow> string \<Rightarrow> session_row list" where
  "requestRows w c prefix requestID = filter (\<lambda>r. sr_request_id r = requestID
     \<and> providerPrefixExp w prefix (sr_provider_prefix r)) (w_sessions w c)"

lemma filter_case_find:
  "(case filter P xs of [] \<Rightarrow> a | m # _ \<Rightarrow> f m) = (case List.find P xs of None \<Rightarrow> a | Some m \<Rightarrow> f m)"
  by (induction xs) auto

lemma lookupSig_tick [simp]: "lookupSig (w\<lparr>tick := n\<rparr>) c p s = lookupSig w c p s"
  by (simp add: lookupSig_def)

lemma lookupSig_Some:
  "lookupSig w c p s = Some m \<Longrightarrow>
     m \<in> set (w_sessions w c) \<and> sr_signature m = s \<and> providerPrefixExp w p (sr_provider_prefix m)"
  unfolding lookupSig_def by (auto simp: find_Some_iff)

lemma lookupSig_None:
  "lookupSig w c p s = None \<longleftrightarrow>
     (\<forall>m \<in> set (w_sessions w c). sr_signature m = s \<longrightarrow> \<not> providerPrefixExp w p (sr_provider_prefix m))"
  unfolding lookupSig_def by (auto simp: find_None_iff)

lemma requestRows_tick [simp]: "requestRows (w\<lparr>tick := n\<rparr>) c p q = requestRows w c p q"
  by (simp add: requestRows_def)

lemma in_requestRows:
  "r \<in> set (requestRows w c p q) \<longleftrightarrow> r \<in> set (w_sessions w c) \<and> sr_request_id r = q
     \<and> providerPrefixExp w p (sr_provider_prefix r)"
  by (auto simp: requestRows_def)

lemma mapRFCErr_simps [simp]:
  "mapRFCErr driverErr = driverErr" "mapRFCErr (plainErr ErrNoRows) = plainErr ErrNotFound"
  by (simp_all add: mapRFCErr_def)

lemma wp_findSessionModelBySignature [wp_simps]:
  "wp (findSessionModelBySignature c p s) Q E \<omega> w =
     (let w' = w\<lparr>tick := Suc (Suc (tick w))\<rparr> in
      if dbfail \<omega> (tick w) \<or> dbfail \<omega> (Suc (tick w)) then E driverErr w'
      else (case lookupSig w c p s of None \<Rightarrow> E (plainErr ErrNotFound) w' | Some m \<Rightarrow> Q m w'))"
  unfolding findSessionModelBySignature_def
  by (simp add: wp_simps Let_def filter_case_find lookupSig_def split: option.splits)

lemma wp_deleteSessionModelBySignature [wp_simps]:
  "wp (deleteSessionModelBySignature c p s) Q E \<omega> w =
     (let w' = w\<lparr>tick := Suc (Suc (tick w))\<rparr> in
      if dbfail \<omega> (tick w) \<or> dbfail \<omega> (Suc (tick w)) then E driverErr w'
      else (case lookupSig w c p s of None \<Rightarrow> Q () w' | Some m \<Rightarrow> wp (deleteSession c m) Q E \<omega> w'))"
  unfolding deleteSessionModelBySignature_def
  by (simp add: wp_simps Let_def split: option.splits)

text \<open>Deleting a list of rows one by one: exactly their ids are gone; an error leaves some of them.\<close>

definition delIds :: "collection \<Rightarrow> string set \<Rightarrow> 'w world_scheme \<Rightarrow> 'w world_scheme" where
  "delIds c I w = w\<lparr>w_sessions := (w_sessions w)(c := filter (\<lambda>r. sr_id r \<notin> I) (w_sessions w c))\<rparr>"

lemma delIds_simps [simp]:
  "w_sessions (delIds c I w) d = (if d = c then filter (\<lambda>r. sr_id r \<notin> I) (w_sessions w c) else w_sessions w d)"
  "w_tombstones (delIds c I w) = w_tombstones w" "w_jtis (delIds c I w) = w_jtis w"
  "w_clients (delIds c I w) = w_clients w" "w_registered (delIds c I w) = w_registered w"
  "tick (delIds c I w) = tick w" "(delIds c I w)\<lparr>tick := n\<rparr> = delIds c I (w\<lparr>tick := n\<rparr>)"
  by (simp_all add: delIds_def)

lemma delIds_empty: "delIds c {} w = w"
  by (simp add: delIds_def)

lemma delIds_delIds: "delIds c I (delIds c J w) = delIds c (I \<union> J) w"
  by (simp add: delIds_def conj_commute)

lemma wp_deleteSession_delIds: "wp (deleteSession c m) Q E \<omega> w =
   (let w' = w\<lparr>tick := Suc (tick w)\<rparr> in
    if dbfail \<omega> (tick w) then E driverErr w' else Q () (delIds c {sr_id m} w'))"
  by (simp add: wp_deleteSession delIds_def Let_def)

lemma wp_forG_deleteSession:
  assumes "\<And>n. Q () (delIds c (sr_id ` set rows) (w\<lparr>tick := n\<rparr>))"
    and "\<And>n I. I \<subseteq> sr_id ` set rows \<Longrightarrow> E driverErr (delIds c I (w\<lparr>tick := n\<rparr>))"
  shows "wp (forG rows (deleteSession c)) Q E \<omega> w"
  using assms
proof (induction rows arbitrary: w)
  case Nil
  from Nil.prems(1) [of "tick w"] show ?case by (simp add: wp_simps delIds_empty)
next
  case (Cons m rows)
  let ?v = "delIds c {sr_id m} (w\<lparr>tick := Suc (tick w)\<rparr>)"
  have "wp (forG rows (deleteSession c)) Q E \<omega> ?v"
  proof (rule Cons.IH)
    fix n
    show "Q () (delIds c (sr_id ` set rows) (?v\<lparr>tick := n\<rparr>))"
      using Cons.prems(1) [of n] by (simp add: delIds_delIds)
  next
    fix n I
    assume "I \<subseteq> sr_id ` set rows"
    then show "E driverErr (delIds c I (?v\<lparr>tick := n\<rparr>))"
      using Cons.prems(2) [of "insert (sr_id m) I" n] by (auto simp: delIds_delIds)
  qed
  moreover have "E driverErr (w\<lparr>tick := Suc (tick w)\<rparr>)"
    using Cons.prems(2) [of "{}" "Suc (tick w)"] by (simp add: delIds_empty)
  ultimately show ?case by (simp add: wp_bindG wp_deleteSession_delIds Let_def)
qed

lemma wp_deleteSessionModelsByRequestID:
  assumes "\<And>n. Q () (delIds c (sr_id ` set (requestRows w c p q)) (w\<lparr>tick := n\<rparr>))"
    and "\<And>n I. I \<subseteq> sr_id ` set (requestRows w c p q) \<Longrightarrow> E driverErr (delIds c I (w\<lparr>tick := n\<rparr>))"
  shows "wp (deleteSessionModelsByRequestID c p q) Q E \<omega> w"
proof -
  have "E driverErr (w\<lparr>tick := n\<rparr>)" for n
    using assms(2) [of "{}" n] by (simp add: delIds_empty)
  moreover have "wp (forG (requestRows w c p q) (deleteSession c)) Q E \<omega> (w\<lparr>tick := n\<rparr>)" for n
    by (rule wp_forG_deleteSession) (use assms in simp_all)
  ultimately show ?thesis
    unfolding deleteSessionModelsByRequestID_def
    by (simp add: wp_simps Let_def requestRows_def [symmetric])
qed

text \<open>Which relations the statements on the session tables keep.\<close>

lemma keeps_insertSession:
  assumes "preorderR R" "tickfree R"
    and "\<And>w i. (\<And>r. r \<in> set (w_sessions w c) \<Longrightarrow> sr_id r \<noteq> i
            \<and> (sr_provider_prefix r \<noteq> sr_provider_prefix row \<or> sr_signature r \<noteq> sr_signature row)) \<Longrightarrow>
          R w (w\<lparr>w_sessions := (w_sessions w)(c := w_sessions w c @ [row\<lparr>sr_id := i\<rparr>])\<rparr>)"
  shows "keeps R (insertSession c row)"
proof (rule keepsI_wp)
  fix \<omega> w
  have t: "R w (w\<lparr>tick := n\<rparr>)" for n using assms(2) by (simp add: tickfree_def)
  have i: "R w (w\<lparr>tick := n, w_sessions := (w_sessions w)(c := w_sessions w c @ [row\<lparr>sr_id := i\<rparr>])\<rparr>)"
    if "\<forall>r \<in> set (w_sessions w c). sr_id r \<noteq> i
      \<and> (sr_provider_prefix r = sr_provider_prefix row \<longrightarrow> sr_signature r \<noteq> sr_signature row)" for n i
    using that preorderR_trans [OF assms(1) t assms(3) [of "w\<lparr>tick := n\<rparr>" i]] by auto
  show "wp (insertSession c row) (\<lambda>_. R w) (\<lambda>_. R w) \<omega> w"
    unfolding insertSession_def by (auto simp: wp_simps intro: t i)
qed

lemma keeps_deleteSession:
  assumes "preorderR R" "tickfree R" "\<And>w. R w (delIds c {sr_id m} w)"
  shows "keeps R (deleteSession c m)"
proof (rule keepsI_wp)
  fix \<omega> w
  have t: "R w (w\<lparr>tick := n\<rparr>)" for n using assms(2) by (simp add: tickfree_def)
  show "wp (deleteSession c m) (\<lambda>_. R w) (\<lambda>_. R w) \<omega> w"
    by (auto simp: wp_deleteSession_delIds Let_def intro!: t preorderR_trans [OF assms(1) t assms(3)]
        simp del: delIds_simps)
qed

lemma keeps_updateSession:
  assumes "preorderR R" "tickfree R"
    and "\<And>w. R w (w\<lparr>w_sessions := (w_sessions w)
          (c := map (\<lambda>r. if sr_id r = sr_id row then row else r) (w_sessions w c))\<rparr>)"
  shows "keeps R (updateSession c row)"
  unfolding updateSession_def
  by (intro keeps_bindG keeps_dbCall keeps_modifyG assms)

lemma keeps_findSessionModelBySignature [keeps_intros]:
  "preorderR R \<Longrightarrow> tickfree R \<Longrightarrow> keeps R (findSessionModelBySignature c p s)"
  unfolding findSessionModelBySignature_def by (intro keeps_intros)

lemma keeps_deleteSessionModelBySignature:
  assumes "preorderR R" "tickfree R" "\<And>w I. R w (delIds c I w)"
  shows "keeps R (deleteSessionModelBySignature c p s)"
  unfolding deleteSessionModelBySignature_def
  by (intro keeps_intros keeps_deleteSession assms)

lemma keeps_deleteSessionModelsByRequestID:
  assumes "preorderR R" "tickfree R" "\<And>w I. R w (delIds c I w)"
  shows "keeps R (deleteSessionModelsByRequestID c p q)"
  unfolding deleteSessionModelsByRequestID_def
  by (intro keeps_intros keeps_deleteSession assms)

lemma keeps_newSessionModel [keeps_intros]:
  "preorderR R \<Longrightarrow> tickfree R \<Longrightarrow> keeps R (newSessionModel c)"
  unfolding newSessionModel_def by (intro keeps_intros)

lemma keeps_saveNew:
  assumes "preorderR R" "tickfree R"
    and "\<And>w i. (\<And>r. r \<in> set (w_sessions w c) \<Longrightarrow> sr_id r \<noteq> i
            \<and> (sr_provider_prefix r \<noteq> sr_provider_prefix m \<or> sr_signature r \<noteq> sr_signature m)) \<Longrightarrow>
          R w (w\<lparr>w_sessions := (w_sessions w)(c := w_sessions w c @ [m\<lparr>sr_id := i\<rparr>])\<rparr>)"
  shows "keeps R (saveNew c v m)"
  unfolding saveNew_def
  by (intro keeps_if keeps_insertSession keeps_bindG keeps_dbCall keeps_throwG assms)

lemma keeps_SetRequester [keeps_intros]: "preorderR R \<Longrightarrow> keeps R (SetRequester rq t m)"
  unfolding SetRequester_def Let_def by (intro keeps_intros)

lemma keeps_GetClient [keeps_intros]: "preorderR R \<Longrightarrow> tickfree R \<Longrightarrow> keeps R (GetClient s k)"
  unfolding GetClient_def queryClients_def ToClient_def by (intro keeps_intros)

lemma keeps_ToRequest [keeps_intros]: "preorderR R \<Longrightarrow> tickfree R \<Longrightarrow> keeps R (ToRequest s t m)"
  unfolding ToRequest_def by (intro keeps_intros)

end
