(* ===== verification/Refresh_Authority.thy ===== *)
theory Refresh_Authority
  imports Session_Model
begin

section \<open>The terminal authority of a refresh family (storage.go)\<close>

text \<open>
  A tombstone says that a request id of a provider is terminal: its tokens were reused or revoked.
  \<open>commitRefreshTerminalAuthority\<close> publishes it in a transaction of its own, before any cleanup that
  may fail; \<open>hasRefreshTerminalAuthority\<close> reads it; \<open>scopedRefreshArtifactAuthority\<close> collects the family,
  the latest expiry and the number of the rows a tombstone protects.
\<close>

subsection \<open>Statements on the tombstone table\<close>

definition queryTombstones ::
  "('w world_scheme \<Rightarrow> tombstone_row \<Rightarrow> bool) \<Rightarrow> ('o, 'w, tombstone_row list) dbgo" where
  "queryTombstones P = bindG dbCall (\<lambda>_. readG (\<lambda>w. filter (P w) (w_tombstones w)))"

text \<open>
  The validation of the migration's fields: prefix, request id and expiry are required, that is
  neither empty nor zero (migrations/1770369000_refresh_tombstones.go).
\<close>

definition tombstoneValid :: "tombstone_row \<Rightarrow> bool" where
  "tombstoneValid t \<longleftrightarrow> tb_provider_prefix t \<noteq> [] \<and> tb_request_id t \<noteq> [] \<and> tb_expires_at t \<noteq> 0"

definition insertTombstone :: "tombstone_row \<Rightarrow> ('o, 'w, unit) dbgo" where
  "insertTombstone t = bindG newUUID (\<lambda>i. bindG dbCall (\<lambda>_. bindG (readG w_tombstones) (\<lambda>ts.
     if \<not> tombstoneValid t then throwG (textErr ''validation: cannot be blank'')
     else if \<exists>x \<in> set ts. tb_id x = i
            \<or> (tb_provider_prefix x = tb_provider_prefix t \<and> tb_request_id x = tb_request_id t)
     then throwG constraintErr
     else modifyG (\<lambda>w. w\<lparr>w_tombstones := ts @ [t\<lparr>tb_id := i\<rparr>]\<rparr>))))"

definition updateTombstone :: "tombstone_row \<Rightarrow> ('o, 'w, unit) dbgo" where
  "updateTombstone t = bindG dbCall (\<lambda>_.
     if \<not> tombstoneValid t then throwG (textErr ''validation: cannot be blank'')
     else modifyG (\<lambda>w. w\<lparr>w_tombstones := map (\<lambda>x. if tb_id x = tb_id t then t else x) (w_tombstones w)\<rparr>))"

definition deleteTombstone :: "tombstone_row \<Rightarrow> ('o, 'w, unit) dbgo" where
  "deleteTombstone t = bindG dbCall (\<lambda>_.
     modifyG (\<lambda>w. w\<lparr>w_tombstones := filter (\<lambda>x. tb_id x \<noteq> tb_id t) (w_tombstones w)\<rparr>))"

text \<open>\<open>FindFirstRecordByFilter\<close> on (provider_prefix, request_id).\<close>

definition findTombstone :: "string \<Rightarrow> string \<Rightarrow> ('o, 'w, tombstone_row) dbgo" where
  "findTombstone prefix requestID =
     bindG (queryTombstones (\<lambda>_ t. tb_provider_prefix t = prefix \<and> tb_request_id t = requestID))
       (\<lambda>ts. case ts of [] \<Rightarrow> throwG (plainErr ErrNoRows) | t # _ \<Rightarrow> returnG t)"

subsection \<open>The artifacts of a request\<close>

text \<open>The loop over the refresh rows: one family, the latest expiry, the count.\<close>

fun refreshArtifacts :: "session_row list \<Rightarrow> string \<Rightarrow> int \<Rightarrow> nat \<Rightarrow> goerr + (string \<times> int \<times> nat)" where
  "refreshArtifacts [] familyID expiresAt count = Inr (familyID, expiresAt, count)"
| "refreshArtifacts (row # rows) familyID expiresAt count =
     (let candidate = sr_family_id row in
      if candidate \<noteq> [] \<and> familyID \<noteq> [] \<and> familyID \<noteq> candidate
      then Inl (textErr ''request_id spans multiple refresh families'')
      else refreshArtifacts rows
        (if candidate \<noteq> [] then candidate else familyID)
        (case GetExpiresAt row of
            None \<Rightarrow> expiresAt
          | Some expiry \<Rightarrow> if unixSec expiry > expiresAt then unixSec expiry else expiresAt)
        (count + 1))"

fun accessArtifacts :: "session_row list \<Rightarrow> int \<Rightarrow> nat \<Rightarrow> int \<times> nat" where
  "accessArtifacts [] expiresAt count = (expiresAt, count)"
| "accessArtifacts (row # rows) expiresAt count = accessArtifacts rows
     (case GetExpiresAt row of
         None \<Rightarrow> expiresAt
       | Some expiry \<Rightarrow> if unixSec expiry > expiresAt then unixSec expiry else expiresAt)
     (count + 1)"

definition scopedRefreshArtifactAuthority ::
  "string \<Rightarrow> string \<Rightarrow> ('o, 'w, string \<times> int \<times> nat) dbgo" where
  "scopedRefreshArtifactAuthority prefix requestID =
     bindG (findCollection RefreshC) (\<lambda>_.
     bindG (querySessions True RefreshC (\<lambda>w r. sr_request_id r = requestID
              \<and> providerPrefixExp w prefix (sr_provider_prefix r))) (\<lambda>rows.
     case refreshArtifacts rows [] 0 0 of
       Inl e \<Rightarrow> throwG e
     | Inr (familyID, expiresAt, count) \<Rightarrow>
         bindG (findCollection AccessC) (\<lambda>_.
         bindG (querySessions True AccessC (\<lambda>w r. sr_request_id r = requestID
                  \<and> providerPrefixExp w prefix (sr_provider_prefix r))) (\<lambda>accessRows.
         case accessArtifacts accessRows expiresAt count of
           (expiresAt', count') \<Rightarrow> returnG (familyID, expiresAt', count')))))"

subsection \<open>Committing and reading the authority\<close>

definition missingRefreshTombstoneLifetime :: int where
  "missingRefreshTombstoneLifetime = 24 * 60 * 60 * 1000000"

text \<open>The second half of the transaction: update the tombstone of (prefix, request), or create it.\<close>

definition upsertTombstone :: "string \<Rightarrow> string \<Rightarrow> string \<Rightarrow> int \<Rightarrow> ('o, 'w, unit) dbgo" where
  "upsertTombstone prefix requestID familyID expiresAt =
     bindG (attemptG (findTombstone prefix requestID)) (\<lambda>r. case r of
         Inr record \<Rightarrow>
           let existingFamily = tb_family_id record in
           if existingFamily \<noteq> [] \<and> familyID \<noteq> [] \<and> existingFamily \<noteq> familyID
           then throwG (textErr ''terminal request_id spans multiple refresh families'')
           else
             let record' = (if existingFamily = [] \<and> familyID \<noteq> []
                            then record\<lparr>tb_family_id := familyID\<rparr> else record);
                 record'' = (if tb_expires_at record' < expiresAt
                             then record'\<lparr>tb_expires_at := expiresAt\<rparr> else record') in
             updateTombstone record''
       | Inl e \<Rightarrow>
           if \<not> errorsIs e ErrNoRows then throwG e
           else bindG (findCollection TombstoneC) (\<lambda>_.
             insertTombstone \<lparr>tb_id = [], tb_provider_prefix = prefix, tb_request_id = requestID,
               tb_family_id = familyID, tb_expires_at = expiresAt\<rparr>))"

definition commitRefreshTerminalAuthority ::
  "string \<Rightarrow> string \<Rightarrow> string \<Rightarrow> int \<Rightarrow> ('o, 'w, unit) dbgo" where
  "commitRefreshTerminalAuthority prefix0 requestID familyID0 expiresAt0 =
     (if requestID = [] then throwG (textErr ''terminal refresh authority has no request_id'')
      else let prefix = normalizePrefix prefix0 in
      bindG timeNow (\<lambda>now.
      let minimumExpiry = unixSec (now + missingRefreshTombstoneLifetime);
          expiresAt1 = (if expiresAt0 < minimumExpiry then minimumExpiry else expiresAt0) in
      transactionG (
        bindG (scopedRefreshArtifactAuthority prefix requestID) (\<lambda>(artifactFamily, artifactExpiry, _).
        if familyID0 \<noteq> [] \<and> artifactFamily \<noteq> [] \<and> familyID0 \<noteq> artifactFamily
        then throwG (textErr ''terminal request_id spans multiple refresh families'')
        else upsertTombstone prefix requestID
          (if familyID0 = [] then artifactFamily else familyID0)
          (if expiresAt1 < artifactExpiry then artifactExpiry else expiresAt1)))))"

definition hasRefreshTerminalAuthority :: "string \<Rightarrow> string \<Rightarrow> ('o, 'w, bool) dbgo" where
  "hasRefreshTerminalAuthority prefix requestID =
     (if requestID = [] then returnG False
      else bindG (attemptG (findTombstone (normalizePrefix prefix) requestID)) (\<lambda>r. case r of
          Inr _ \<Rightarrow> returnG True
        | Inl e \<Rightarrow> (if errorsIs e ErrNoRows then returnG False else throwG e)))"

subsection \<open>What the authority means\<close>

definition terminal :: "'w world_scheme \<Rightarrow> string \<Rightarrow> string \<Rightarrow> bool" where
  "terminal w p q \<longleftrightarrow> (\<exists>t \<in> set (w_tombstones w). tb_provider_prefix t = p \<and> tb_request_id t = q)"

lemma terminal_cong [simp]:
  "terminal (w\<lparr>tick := n\<rparr>) p q = terminal w p q"
  "terminal (w\<lparr>w_sessions := ss\<rparr>) p q = terminal w p q"
  "terminal (w\<lparr>w_jtis := js\<rparr>) p q = terminal w p q"
  "terminal (delIds c I w) p q = terminal w p q"
  by (simp_all add: terminal_def)

lemma wp_findTombstone [wp_simps]:
  "wp (findTombstone p q) Q E \<omega> w =
     (let w' = w\<lparr>tick := Suc (tick w)\<rparr> in
      if dbfail \<omega> (tick w) then E driverErr w'
      else (case List.find (\<lambda>t. tb_provider_prefix t = p \<and> tb_request_id t = q) (w_tombstones w) of
          None \<Rightarrow> E (plainErr ErrNoRows) w' | Some t \<Rightarrow> Q t w'))"
  unfolding findTombstone_def queryTombstones_def
  by (simp add: wp_simps Let_def filter_case_find split: option.splits)

lemma terminal_find:
  "terminal w p q \<longleftrightarrow>
     List.find (\<lambda>t. tb_provider_prefix t = p \<and> tb_request_id t = q) (w_tombstones w) \<noteq> None"
  by (auto simp: find_None_iff terminal_def)

lemma find_tombstone_Some:
  "List.find (\<lambda>t. tb_provider_prefix t = p \<and> tb_request_id t = q) (w_tombstones w) = Some t
     \<Longrightarrow> t \<in> set (w_tombstones w) \<and> tb_provider_prefix t = p \<and> tb_request_id t = q"
  by (auto simp: find_Some_iff)

lemma wp_hasRefreshTerminalAuthority [wp_simps]:
  "q \<noteq> [] \<Longrightarrow> canonicalPrefix p \<Longrightarrow>
     wp (hasRefreshTerminalAuthority p q) Q E \<omega> w =
       (let w' = w\<lparr>tick := Suc (tick w)\<rparr> in
        if dbfail \<omega> (tick w) then E driverErr w' else Q (terminal w p q) w')"
  unfolding hasRefreshTerminalAuthority_def
  by (auto simp: wp_simps Let_def canonicalPrefixD terminal_find split: option.splits)

lemma wp_hasRefreshTerminalAuthority_Nil [wp_simps]:
  "wp (hasRefreshTerminalAuthority p []) Q E \<omega> w = Q False w"
  by (simp add: hasRefreshTerminalAuthority_def wp_simps)

lemma keeps_queryTombstones [keeps_intros]: "preorderR R \<Longrightarrow> tickfree R \<Longrightarrow> keeps R (queryTombstones P)"
  unfolding queryTombstones_def by (intro keeps_intros)

lemma keeps_findTombstone [keeps_intros]: "preorderR R \<Longrightarrow> tickfree R \<Longrightarrow> keeps R (findTombstone p q)"
  unfolding findTombstone_def by (intro keeps_intros)

lemma keeps_scoped [keeps_intros]:
  "preorderR R \<Longrightarrow> tickfree R \<Longrightarrow> keeps R (scopedRefreshArtifactAuthority p q)"
  unfolding scopedRefreshArtifactAuthority_def by (intro keeps_intros)

lemma keeps_hasTerminal [keeps_intros]:
  "preorderR R \<Longrightarrow> tickfree R \<Longrightarrow> keeps R (hasRefreshTerminalAuthority p q)"
  unfolding hasRefreshTerminalAuthority_def by (intro keeps_intros)

text \<open>
  A relation that any change of the tombstone table respects as long as tombstones are added, or
  replaced by ones of the same prefix and request, is kept by the commit.
\<close>

lemma keeps_insertTombstone:
  assumes "preorderR R" "tickfree R"
    and "\<And>w i. R w (w\<lparr>w_tombstones := w_tombstones w @ [t\<lparr>tb_id := i\<rparr>]\<rparr>)"
  shows "keeps R (insertTombstone t)"
proof (rule keepsI_wp)
  fix \<omega> w
  have t: "R w (w\<lparr>tick := n\<rparr>)" for n using assms(2) by (simp add: tickfree_def)
  have i: "R w (w\<lparr>tick := n, w_tombstones := w_tombstones w @ [t\<lparr>tb_id := i\<rparr>]\<rparr>)" for n i
    using preorderR_trans [OF assms(1) t assms(3) [of "w\<lparr>tick := n\<rparr>" i]] by simp
  show "wp (insertTombstone t) (\<lambda>_. R w) (\<lambda>_. R w) \<omega> w"
    unfolding insertTombstone_def by (auto simp: wp_simps intro: t i)
qed

lemma keeps_updateTombstone:
  assumes "preorderR R" "tickfree R"
    and "\<And>w. R w (w\<lparr>w_tombstones := map (\<lambda>x. if tb_id x = tb_id t then t else x) (w_tombstones w)\<rparr>)"
  shows "keeps R (updateTombstone t)"
  unfolding updateTombstone_def
  by (intro keeps_bindG keeps_dbCall keeps_if keeps_throwG keeps_modifyG assms)

subsection \<open>The commit\<close>

text \<open>The artifacts of a request, as the code computes them from one consistent read.\<close>

definition artifacts :: "'w world_scheme \<Rightarrow> string \<Rightarrow> string \<Rightarrow> goerr + (string \<times> int \<times> nat)" where
  "artifacts w p q = (case refreshArtifacts (requestRows w RefreshC p q) [] 0 0 of
      Inl e \<Rightarrow> Inl e
    | Inr (f, e, n) \<Rightarrow> Inr (f, accessArtifacts (requestRows w AccessC p q) e n))"

lemma artifacts_tick [simp]: "artifacts (w\<lparr>tick := n\<rparr>) p q = artifacts w p q"
  unfolding artifacts_def by (simp only: requestRows_tick)

lemma refreshArtifacts_opaque: "refreshArtifacts rows f e n = Inl x \<Longrightarrow> opaque x"
  by (induction rows f e n rule: refreshArtifacts.induct) (auto simp: Let_def split: if_splits)

lemma wp_scoped:
  assumes "\<And>n r. artifacts w p q = Inr r \<Longrightarrow> Q r (w\<lparr>tick := n\<rparr>)" "\<And>n e. opaque e \<Longrightarrow> E e (w\<lparr>tick := n\<rparr>)"
  shows "wp (scopedRefreshArtifactAuthority p q) Q E \<omega> w"
  using assms unfolding scopedRefreshArtifactAuthority_def artifacts_def
  by (auto simp: wp_simps Let_def requestRows_def dest: refreshArtifacts_opaque split: sum.splits prod.splits)

text \<open>The latest expiry and the count that the artifact loops report.\<close>

definition expiryOf :: "session_row \<Rightarrow> int" where
  "expiryOf r = (case sr_expires_at r of None \<Rightarrow> 0 | Some x \<Rightarrow> x)"

lemma accessArtifacts_bound:
  "accessArtifacts rows e n = (e', n') \<Longrightarrow>
     e \<le> e' \<and> n' = n + length rows \<and> (\<forall>r \<in> set rows. expiryOf r \<le> max 0 e')"
proof (induction rows e n rule: accessArtifacts.induct)
  case (1 e n)
  then show ?case by simp
next
  case (2 row rows e n)
  show ?case
  proof (cases "sr_expires_at row")
    case None
    with 2 show ?thesis by (simp add: GetExpiresAt_def expiryOf_def)
  next
    case (Some x)
    with 2 show ?thesis by (fastforce simp: GetExpiresAt_def expiryOf_def split: if_splits)
  qed
qed

lemma refreshArtifacts_bound:
  "refreshArtifacts rows f e n = Inr (f', e', n') \<Longrightarrow>
     e \<le> e' \<and> n' = n + length rows \<and> (\<forall>r \<in> set rows. expiryOf r \<le> max 0 e')"
proof (induction rows f e n rule: refreshArtifacts.induct)
  case (1 f e n)
  then show ?case by simp
next
  case (2 row rows f e n)
  show ?case
  proof (cases "sr_expires_at row")
    case None
    with 2 show ?thesis by (simp add: GetExpiresAt_def expiryOf_def Let_def split: if_splits)
  next
    case (Some x)
    with 2 show ?thesis by (fastforce simp: GetExpiresAt_def expiryOf_def Let_def split: if_splits)
  qed
qed

lemma artifacts_bound:
  assumes "artifacts w p q = Inr (f, e, n)"
  shows "0 \<le> e" "n = length (requestRows w RefreshC p q) + length (requestRows w AccessC p q)"
    "\<forall>r \<in> set (requestRows w RefreshC p q) \<union> set (requestRows w AccessC p q). expiryOf r \<le> e"
proof -
  obtain e1 n1 where r: "refreshArtifacts (requestRows w RefreshC p q) [] 0 0 = Inr (f, e1, n1)"
    and a: "accessArtifacts (requestRows w AccessC p q) e1 n1 = (e, n)"
    using assms by (auto simp: artifacts_def split: sum.splits)
  from refreshArtifacts_bound [OF r] accessArtifacts_bound [OF a]
  show "0 \<le> e" "n = length (requestRows w RefreshC p q) + length (requestRows w AccessC p q)"
    "\<forall>r \<in> set (requestRows w RefreshC p q) \<union> set (requestRows w AccessC p q). expiryOf r \<le> e"
    by auto
qed

text \<open>
  The tombstone table is well formed when its record ids are distinct (the primary key). \<open>tbStep p q\<close>
  relates two worlds whose only difference is that (p, q) may have become terminal.
\<close>

definition tbWf :: "'w world_scheme \<Rightarrow> bool" where
  "tbWf w \<longleftrightarrow> distinct (map tb_id (w_tombstones w))"

lemma tbWf_cong [simp]:
  "tbWf (w\<lparr>tick := n\<rparr>) = tbWf w" "tbWf (w\<lparr>w_sessions := ss\<rparr>) = tbWf w" "tbWf (delIds c I w) = tbWf w"
  by (simp_all add: tbWf_def)

definition sameTables :: "'w world_scheme \<Rightarrow> 'w world_scheme \<Rightarrow> bool" where
  "sameTables w w' \<longleftrightarrow> w' = w\<lparr>tick := tick w'\<rparr>"

lemma sameTables_tick [simp]: "sameTables w (w\<lparr>tick := n\<rparr>)"
  by (simp add: sameTables_def)

definition tbStep :: "string \<Rightarrow> string \<Rightarrow> 'w world_scheme \<Rightarrow> 'w world_scheme \<Rightarrow> bool" where
  "tbStep p q w w' \<longleftrightarrow> w' = w\<lparr>tick := tick w', w_tombstones := w_tombstones w'\<rparr> \<and> tbWf w'
     \<and> (\<forall>p' q'. terminal w' p' q' \<longleftrightarrow> terminal w p' q' \<or> (p' = p \<and> q' = q))"

text \<open>The tombstone of (p, q) lives at least until \<open>x\<close>.\<close>

definition tombUntil :: "'w world_scheme \<Rightarrow> string \<Rightarrow> string \<Rightarrow> int \<Rightarrow> bool" where
  "tombUntil w p q x \<longleftrightarrow>
     (\<exists>t \<in> set (w_tombstones w). tb_provider_prefix t = p \<and> tb_request_id t = q \<and> x \<le> tb_expires_at t)"

lemma tombUntil_terminal: "tombUntil w p q x \<Longrightarrow> terminal w p q"
  by (auto simp: tombUntil_def terminal_def)

lemma tbStep_insert:
  assumes "tbWf w" "\<forall>t \<in> set (w_tombstones w). tb_id t \<noteq> i" "tb_provider_prefix t = p" "tb_request_id t = q"
  shows "tbStep p q w (w\<lparr>tick := n, w_tombstones := w_tombstones w @ [t\<lparr>tb_id := i\<rparr>]\<rparr>)"
  using assms by (auto simp: tbStep_def tbWf_def terminal_def)

lemma tbStep_update:
  assumes "tbWf w" "t \<in> set (w_tombstones w)" "tb_provider_prefix t = p" "tb_request_id t = q"
    and "tb_id t' = tb_id t" "tb_provider_prefix t' = p" "tb_request_id t' = q"
  shows "tbStep p q w (w\<lparr>tick := n, w_tombstones := map (\<lambda>x. if tb_id x = tb_id t' then t' else x) (w_tombstones w)\<rparr>)"
proof -
  have u: "x = t" if "x \<in> set (w_tombstones w)" "tb_id x = tb_id t" for x
    using that assms(1,2) by (auto simp: tbWf_def distinct_map dest: inj_onD)
  have "distinct (map tb_id (map (\<lambda>x. if tb_id x = tb_id t' then t' else x) (w_tombstones w)))"
    unfolding map_key_replace using assms(1) by (simp add: tbWf_def)
  moreover have "terminal (w\<lparr>w_tombstones := map (\<lambda>x. if tb_id x = tb_id t' then t' else x) (w_tombstones w)\<rparr>) p' q'
      \<longleftrightarrow> terminal w p' q' \<or> (p' = p \<and> q' = q)" for p' q'
    using assms u by (fastforce simp: terminal_def)
  ultimately show ?thesis by (simp add: tbStep_def tbWf_def terminal_def del: map_map)
qed

lemma tbStep_tick:
  assumes "tbStep p q (w\<lparr>tick := n\<rparr>) w'"
  shows "tbStep p q w (w'\<lparr>tick := k\<rparr>)"
proof -
  have "w' = w\<lparr>tick := tick w', w_tombstones := w_tombstones w'\<rparr>"
    using assms by (simp add: tbStep_def)
  from arg_cong [OF this, of "\<lambda>u. u\<lparr>tick := k\<rparr>"]
  have "w'\<lparr>tick := k\<rparr> = w\<lparr>tick := k, w_tombstones := w_tombstones w'\<rparr>" by simp
  moreover have "tbWf w'" "\<forall>p' q'. terminal w' p' q' \<longleftrightarrow> terminal w p' q' \<or> (p' = p \<and> q' = q)"
    using assms by (simp_all add: tbStep_def)
  ultimately show ?thesis by (simp add: tbStep_def tbWf_def terminal_def)
qed

lemma wp_updateTombstone:
  assumes "tbWf w" "t \<in> set (w_tombstones w)" "tb_provider_prefix t = p" "tb_request_id t = q"
    and "tb_id t' = tb_id t" "tb_provider_prefix t' = p" "tb_request_id t' = q" "x \<le> tb_expires_at t'"
  shows "wp (updateTombstone t') (\<lambda>_ w'. tbStep p q w w' \<and> tombUntil w' p q x) (\<lambda>e _. opaque e) \<omega> (w\<lparr>tick := n\<rparr>)"
proof -
  have "tombUntil (w\<lparr>tick := k, w_tombstones := map (\<lambda>x. if tb_id x = tb_id t' then t' else x) (w_tombstones w)\<rparr>) p q x" for k
    using assms by (auto simp: tombUntil_def)
  then show ?thesis
    unfolding updateTombstone_def using tbStep_update [OF assms(1-7)] by (simp add: wp_simps)
qed

text \<open>The statements on the tombstone of (p, q), with distinct record ids.\<close>

lemma wp_upsertTombstone:
  assumes wf: "tbWf w"
  shows "wp (upsertTombstone p q f x) (\<lambda>_ w'. tbStep p q w w' \<and> tombUntil w' p q x) (\<lambda>e _. opaque e) \<omega> w"
proof -
  have ins: "tbStep p q w (w\<lparr>tick := n, w_tombstones := w_tombstones w @ [t]\<rparr>)
      \<and> tombUntil (w\<lparr>tick := n, w_tombstones := w_tombstones w @ [t]\<rparr>) p q x"
    if "\<forall>t' \<in> set (w_tombstones w). tb_id t' \<noteq> tb_id t" "tb_provider_prefix t = p" "tb_request_id t = q"
      "tb_expires_at t = x" for n t
    using that tbStep_insert [OF wf that(1,2,3), of n] by (auto simp: tombUntil_def)
  show ?thesis
  proof (cases "List.find (\<lambda>t. tb_provider_prefix t = p \<and> tb_request_id t = q) (w_tombstones w)")
    case None
    then show ?thesis
      unfolding upsertTombstone_def insertTombstone_def
      by (auto simp: wp_simps Let_def intro!: ins [THEN conjunct1] ins [THEN conjunct2])
  next
    case (Some t)
    note t = find_tombstone_Some [OF Some]
    show ?thesis
      unfolding upsertTombstone_def wp_bindG wp_attemptG wp_findTombstone
      by (auto simp: wp_throwG Let_def Some t intro!: wp_updateTombstone [OF wf, where t = t])
  qed
qed

text \<open>
  The commit either fails with every table as before, or it leaves exactly (p, q) terminal besides
  what was terminal already, with a tombstone that outlives the requested expiry, the minimum
  lifetime and every artifact of the request.
\<close>

lemma wp_commit:
  assumes cp: "canonicalPrefix p" and q: "q \<noteq> []" and wf: "tbWf w"
  shows "wp (commitRefreshTerminalAuthority p q f e)
    (\<lambda>_ w'. tbStep p q w w'
       \<and> tombUntil w' p q (max e (unixSec (clock \<omega> (tick w) + missingRefreshTombstoneLifetime)))
       \<and> (\<forall>r \<in> set (requestRows w RefreshC p q) \<union> set (requestRows w AccessC p q). tombUntil w' p q (expiryOf r)))
    (\<lambda>x w'. sameTables w w' \<and> opaque x) \<omega> w"
proof -
  define m where "m = unixSec (clock \<omega> (tick w) + missingRefreshTombstoneLifetime)"
  define x1 where "x1 = (if e < m then m else e)"
  define v where "v = w\<lparr>tick := Suc (tick w)\<rparr>"
  let ?rows = "set (requestRows w RefreshC p q) \<union> set (requestRows w AccessC p q)"
  let ?Q = "\<lambda>_ w'. tbStep p q w w' \<and> tombUntil w' p q (max e m) \<and> (\<forall>r \<in> ?rows. tombUntil w' p q (expiryOf r))"
  let ?E = "\<lambda>x w'. sameTables w w' \<and> opaque x"
  have wfn: "tbWf (w\<lparr>tick := n\<rparr>)" for n using wf by simp
  have keep: "tbStep p q w (w'\<lparr>tick := k\<rparr>)" if "tbStep p q (w\<lparr>tick := n\<rparr>) w'" for n k w'
    using that by (rule tbStep_tick)
  have mono: "tombUntil (w'\<lparr>tick := k\<rparr>) p q y" if "tombUntil w' p q (if x1 < z then z else x1)" "y \<le> (if x1 < z then z else x1)" for y w' z and k
    using that by (force simp: tombUntil_def)
  have up: "wp (upsertTombstone p q f' (if x1 < ae then ae else x1)) (\<lambda>a u. \<forall>n. ?Q a (u\<lparr>tick := n\<rparr>))
      (\<lambda>e u. \<forall>n. ?E e (v\<lparr>tick := n\<rparr>)) \<omega> (v\<lparr>tick := n\<rparr>)"
    if "artifacts w p q = Inr (f'', ae, c)" for f' f'' ae c n
  proof (rule wp_mono [OF wp_upsertTombstone])
    fix u assume u: "tbStep p q (v\<lparr>tick := n\<rparr>) u \<and> tombUntil u p q (if x1 < ae then ae else x1)"
    have "expiryOf r \<le> ae" if "r \<in> ?rows" for r using artifacts_bound(3) [OF \<open>artifacts w p q = _\<close>] that by blast
    then have "expiryOf r \<le> (if x1 < ae then ae else x1)" if "r \<in> ?rows" for r using that by force
    moreover have "max e m \<le> (if x1 < ae then ae else x1)" by (auto simp: x1_def)
    moreover have "tombUntil (u\<lparr>tick := k\<rparr>) p q y" if "y \<le> (if x1 < ae then ae else x1)" for y k
      using u that by (intro mono [of u ae]) simp_all
    moreover have "tbStep p q w (u\<lparr>tick := k\<rparr>)" for k
      using u by (intro keep [of n]) (simp add: v_def)
    ultimately show "\<forall>n. ?Q () (u\<lparr>tick := n\<rparr>)" by blast
  qed (use wf in \<open>auto simp: v_def sameTables_def\<close>)
  have "wp (commitRefreshTerminalAuthority p q f e) ?Q ?E \<omega> w"
    unfolding commitRefreshTerminalAuthority_def canonicalPrefixD [OF cp] Let_def if_not_P [OF q]
      wp_bindG wp_timeNow m_def [symmetric] x1_def [symmetric] v_def [symmetric]
  proof (rule wp_transactionI)
    show "?E driverErr (v\<lparr>tick := n\<rparr>)" for n by (simp add: sameTables_def v_def)
    show "wp (bindG (scopedRefreshArtifactAuthority p q) (\<lambda>(af, ae, _).
        if f \<noteq> [] \<and> af \<noteq> [] \<and> f \<noteq> af
        then throwG (textErr ''terminal request_id spans multiple refresh families'')
        else upsertTombstone p q (if f = [] then af else f) (if x1 < ae then ae else x1)))
      (\<lambda>a u. \<forall>n. ?Q a (u\<lparr>tick := n\<rparr>)) (\<lambda>e u. \<forall>n. ?E e (v\<lparr>tick := n\<rparr>)) \<omega> (v\<lparr>tick := Suc (tick v)\<rparr>)"
      unfolding wp_bindG
    proof (rule wp_scoped)
      fix n r
      assume r: "artifacts (v\<lparr>tick := Suc (tick v)\<rparr>) p q = Inr r"
      obtain af ae c where "r = (af, ae, c)" by (cases r)
      with r up [of af ae c] show "wp (case r of (af, ae, _) \<Rightarrow>
          if f \<noteq> [] \<and> af \<noteq> [] \<and> f \<noteq> af
          then throwG (textErr ''terminal request_id spans multiple refresh families'')
          else upsertTombstone p q (if f = [] then af else f) (if x1 < ae then ae else x1))
        (\<lambda>a u. \<forall>n. ?Q a (u\<lparr>tick := n\<rparr>)) (\<lambda>e u. \<forall>n. ?E e (v\<lparr>tick := n\<rparr>)) \<omega> (v\<lparr>tick := Suc (tick v), tick := n\<rparr>)"
        by (simp add: wp_throwG sameTables_def v_def)
    qed (simp add: sameTables_def v_def)
  qed
  then show ?thesis by (simp only: m_def)
qed

end
