(* ===== verification/Refresh_Store.thy ===== *)
theory Refresh_Store
  imports Refresh_Authority
begin

section \<open>Access and refresh tokens (storage.go)\<close>

text \<open>
  The access and refresh token storage that fosite calls. A refresh family is the chain of refresh rows
  of one authorization: rotation leaves the predecessor behind with status \<open>rotated\<close>, so that a replay
  is recognised and the whole family is invalidated. A Go map of strings that only collects keys is a
  list without duplicates in order of insertion; Go visits the keys in an arbitrary order, and the loops
  over them delete or update disjoint sets of rows in one transaction, so the order shows nowhere but in
  which of several database failures is reported.
\<close>

subsection \<open>Access rows\<close>

definition CreateAccessTokenSession ::
  "oauth2store \<Rightarrow> string \<Rightarrow> requester \<Rightarrow> ('o, 'w, unit) stgo" where
  "CreateAccessTokenSession s signature request = transactionG (
     bindG (mapErrG (\<lambda>e. serverErr e ''failed to read terminal refresh-family authority before access issuance'')
              (hasRefreshTerminalAuthority (st_prefix s) (rq_ID request))) (\<lambda>terminal.
     if terminal then throwG (plainErr ErrInactiveToken)
     else bindG (newSessionModel AccessC) (\<lambda>(valid, m0).
       let m1 = m0\<lparr>sr_provider_prefix := st_prefix s, sr_signature := signature\<rparr> in
       bindG (SetRequester request AccessToken m1) (\<lambda>m. saveNew AccessC valid m))))"

definition DeleteAccessTokenSession :: "oauth2store \<Rightarrow> string \<Rightarrow> ('o, 'w, unit) stgo" where
  "DeleteAccessTokenSession s signature = deleteSessionModelBySignature AccessC (st_prefix s) signature"

definition RevokeAccessToken :: "oauth2store \<Rightarrow> string \<Rightarrow> ('o, 'w, unit) stgo" where
  "RevokeAccessToken s requestID = deleteSessionModelsByRequestID AccessC (st_prefix s) requestID"

text \<open>The loop of \<open>assertRefreshFamilyAllowsAccess\<close> over the refresh rows of the request.\<close>

fun familyStatuses :: "session_row list \<Rightarrow> goerr option" where
  "familyStatuses [] = None"
| "familyStatuses (row # rows) =
     (if GetStatus row = RefreshStatusActive \<or> GetStatus row = RefreshStatusRotated
      then familyStatuses rows
      else if GetStatus row = RefreshStatusReused \<or> GetStatus row = RefreshStatusRevoked
      then Some (plainErr ErrInactiveToken)
      else Some (Err ErrServerError ''refresh-family row has an invalid status'' None))"

definition assertRefreshFamilyAllowsAccess :: "string \<Rightarrow> string \<Rightarrow> ('o, 'w, unit) dbgo" where
  "assertRefreshFamilyAllowsAccess prefix requestID =
     (if requestID = [] then returnG ()
      else bindG (mapErrG (\<lambda>e. serverErr e []) (hasRefreshTerminalAuthority prefix requestID)) (\<lambda>terminal.
      if terminal then throwG (plainErr ErrInactiveToken)
      else bindG (mapErrG (\<lambda>e. serverErr e []) (findCollection RefreshC)) (\<lambda>_.
      bindG (mapErrG (\<lambda>e. serverErr e [])
               (querySessions True RefreshC (\<lambda>w r. sr_request_id r = requestID
                  \<and> providerPrefixExp w prefix (sr_provider_prefix r)))) (\<lambda>rows.
      case familyStatuses rows of None \<Rightarrow> returnG () | Some e \<Rightarrow> throwG e))))"

definition GetAccessTokenSession ::
  "oauth2store \<Rightarrow> string \<Rightarrow> session option \<Rightarrow> ('o, 'w, requester) stgo" where
  "GetAccessTokenSession s signature session =
     bindG (findSessionModelBySignature AccessC (st_prefix s) signature) (\<lambda>m.
     bindG (assertRefreshFamilyAllowsAccess (st_prefix s) (sr_request_id m)) (\<lambda>_.
     ToRequest s session m))"

subsection \<open>Invalidating a family\<close>

text \<open>The deletion loop over the request ids a family was issued under.\<close>

definition deleteAccessOf :: "(string \<Rightarrow> bool) \<Rightarrow> string list \<Rightarrow> ('o, 'w, unit) dbgo" where
  "deleteAccessOf visible requestIDs = forG requestIDs (\<lambda>reqID.
     bindG (querySessions True AccessC (\<lambda>_ r. sr_request_id r = reqID \<and> visible (sr_provider_prefix r)))
       (\<lambda>accessRows. forG accessRows (deleteSession AccessC)))"

definition seeRequestID :: "session_row \<Rightarrow> string list \<Rightarrow> string list" where
  "seeRequestID row seen =
     (if sr_request_id row \<noteq> [] then List.insert (sr_request_id row) seen else seen)"

text \<open>What the loop sets on a row: the status, and for a reuse the time it was first seen.\<close>

definition stampStatus :: "string \<Rightarrow> int \<Rightarrow> session_row \<Rightarrow> session_row" where
  "stampStatus status now row0 =
     (let row = row0\<lparr>sr_status := status\<rparr> in
      if status = RefreshStatusReused \<and> sr_reused_at row = 0 then row\<lparr>sr_reused_at := now\<rparr> else row)"

definition mutateRefreshFamily :: "string \<Rightarrow> string \<Rightarrow> string \<Rightarrow> ('o, 'w, unit) dbgo" where
  "mutateRefreshFamily prefix familyID status =
     (if familyID = [] then returnG ()
      else bindG (readG (\<lambda>w. legacyDefaultAllowed w prefix)) (\<lambda>allowLegacy.
      let visible = providerPrefixExpWithLegacy prefix allowLegacy in
      transactionG (
        bindG (findCollection RefreshC) (\<lambda>_.
        bindG (querySessions True RefreshC (\<lambda>_ r. sr_family_id r = familyID
                 \<and> visible (sr_provider_prefix r))) (\<lambda>rows.
        bindG timeNow (\<lambda>now.
        bindG (foldG rows (\<lambda>row seen.
                 bindG (updateSession RefreshC (stampStatus status now row))
                   (\<lambda>_. returnG (seeRequestID row seen))) []) (\<lambda>seen.
        bindG (findCollection AccessC) (\<lambda>_.
        deleteAccessOf visible seen))))))))"

definition invalidateRefreshFamily :: "string \<Rightarrow> string \<Rightarrow> ('o, 'w, unit) dbgo" where
  "invalidateRefreshFamily prefix familyID = mutateRefreshFamily prefix familyID RefreshStatusReused"

text \<open>A row of before the family migration has no family: the row itself and its own access rows.\<close>

definition invalidateLegacyRefreshRow :: "string \<Rightarrow> session_row \<Rightarrow> ('o, 'w, unit) dbgo" where
  "invalidateLegacyRefreshRow prefix row =
     bindG (readG (\<lambda>w. legacyDefaultAllowed w prefix)) (\<lambda>allowLegacy.
     let visible = providerPrefixExpWithLegacy prefix allowLegacy in
     transactionG (
       bindG (findCollection RefreshC) (\<lambda>_.
       bindG (querySessions True RefreshC (\<lambda>_ r. sr_id r = sr_id row \<and> visible (sr_provider_prefix r)))
         (\<lambda>found. case found of
             [] \<Rightarrow> throwG (plainErr ErrNoRows)
           | current0 # _ \<Rightarrow>
               let current1 = current0\<lparr>sr_status := RefreshStatusReused\<rparr> in
               bindG (if sr_reused_at current1 = 0
                      then bindG timeNow (\<lambda>now. returnG (current1\<lparr>sr_reused_at := now\<rparr>))
                      else returnG current1) (\<lambda>current.
               bindG (updateSession RefreshC current) (\<lambda>_.
               bindG (findCollection AccessC) (\<lambda>_.
               bindG (querySessions True AccessC (\<lambda>_ r. sr_request_id r = sr_request_id current
                        \<and> visible (sr_provider_prefix r))) (\<lambda>accessRows.
               forG accessRows (deleteSession AccessC)))))))))"

fun familiesOf :: "session_row list \<Rightarrow> string list \<Rightarrow> goerr + string list" where
  "familiesOf [] families = Inr families"
| "familiesOf (row # rows) families =
     (if sr_family_id row = [] then Inl (textErr ''refresh row has no family_id'')
      else familiesOf rows (List.insert (sr_family_id row) families))"

definition revokeRefreshFamilyByRequestID :: "string \<Rightarrow> string \<Rightarrow> ('o, 'w, unit) dbgo" where
  "revokeRefreshFamilyByRequestID prefix requestID =
     bindG (readG (\<lambda>w. legacyDefaultAllowed w prefix)) (\<lambda>allowLegacy.
     let visible = providerPrefixExpWithLegacy prefix allowLegacy in
     transactionG (
       bindG (findCollection RefreshC) (\<lambda>_.
       bindG (querySessions True RefreshC (\<lambda>_ r. sr_request_id r = requestID
                \<and> visible (sr_provider_prefix r))) (\<lambda>seeds.
       if seeds = [] then returnG ()
       else case familiesOf seeds [] of
         Inl e \<Rightarrow> throwG e
       | Inr families \<Rightarrow>
           bindG (foldG families (\<lambda>familyID seen0.
                    bindG (querySessions True RefreshC (\<lambda>_ r. sr_family_id r = familyID
                             \<and> visible (sr_provider_prefix r))) (\<lambda>familyRows.
                    foldG familyRows (\<lambda>row seen.
                      bindG (updateSession RefreshC (row\<lparr>sr_status := RefreshStatusRevoked\<rparr>))
                        (\<lambda>_. returnG (seeRequestID row seen))) seen0)) []) (\<lambda>seen.
           bindG (findCollection AccessC) (\<lambda>_.
           deleteAccessOf visible seen))))))"

subsection \<open>Lineage of a new refresh row\<close>

record lineage =
  li_family :: string
  li_parent :: "session_row option"
  li_terminal :: bool
  li_active :: bool
  li_corrupt :: "goerr option"

definition noLineage :: lineage where
  "noLineage = \<lparr>li_family = [], li_parent = None, li_terminal = False, li_active = False, li_corrupt = None\<rparr>"

definition lineageFamily :: "session_row \<Rightarrow> lineage \<Rightarrow> lineage" where
  "lineageFamily row l =
     (if sr_family_id row = []
      then l\<lparr>li_corrupt := Some (textErr ''refresh-family row has no family_id'')\<rparr>
      else if li_family l = [] then l\<lparr>li_family := sr_family_id row\<rparr>
      else if li_family l \<noteq> sr_family_id row
      then l\<lparr>li_corrupt := Some (textErr ''request_id spans multiple refresh families'')\<rparr>
      else l)"

definition lineageStatus :: "session_row \<Rightarrow> lineage \<Rightarrow> lineage" where
  "lineageStatus row l =
     (if GetStatus row = RefreshStatusReused \<or> GetStatus row = RefreshStatusRevoked
      then l\<lparr>li_terminal := True\<rparr>
      else if GetStatus row = RefreshStatusRotated
      then (if li_parent l = None then l\<lparr>li_parent := Some row\<rparr> else l)
      else if GetStatus row = RefreshStatusActive then l\<lparr>li_active := True\<rparr>
      else l\<lparr>li_corrupt := Some (textErr ''refresh-family row has an invalid status'')\<rparr>)"

fun scanLineage :: "session_row list \<Rightarrow> lineage \<Rightarrow> lineage" where
  "scanLineage [] l = l"
| "scanLineage (row # rows) l = scanLineage rows (lineageStatus row (lineageFamily row l))"

text \<open>\<open>ORDER BY rotated_at DESC, id DESC\<close>.\<close>

definition latestRotationFirst :: "session_row list \<Rightarrow> session_row list" where
  "latestRotationFirst rows = rev (sort_key (\<lambda>r. (sr_rotated_at r, sr_id r)) rows)"

text \<open>The decision after the scan, in the order of the code's tests.\<close>

definition lineageDecision :: "lineage \<Rightarrow> goerr + (string \<times> string)" where
  "lineageDecision l =
     (if li_terminal l then Inl (plainErr ErrInactiveToken)
      else case li_corrupt l of
        Some e \<Rightarrow> Inl e
      | None \<Rightarrow>
          if li_active l
          then Inl (Err ErrSerializationFailure ''request already has an active refresh token'' None)
          else (case li_parent l of
              None \<Rightarrow> Inl (textErr ''refresh-family request has no rotated predecessor'')
            | Some parent \<Rightarrow> Inr (li_family l, sr_id parent)))"

definition resolveRefreshLineage :: "oauth2store \<Rightarrow> requester \<Rightarrow> ('o, 'w, string \<times> string) stgo" where
  "resolveRefreshLineage s request =
     (let requestID = rq_ID request in
      if requestID = [] then throwG (textErr ''refresh request has no request_id'')
      else bindG (hasRefreshTerminalAuthority (st_prefix s) requestID) (\<lambda>terminal.
      if terminal then throwG (plainErr ErrInactiveToken)
      else bindG (findCollection RefreshC) (\<lambda>_.
      bindG (querySessions True RefreshC (\<lambda>w r. sr_request_id r = requestID
               \<and> providerPrefixExp w (st_prefix s) (sr_provider_prefix r))) (\<lambda>rows.
      if rows = [] then bindG newUUID (\<lambda>u. returnG (u, []))
      else case lineageDecision (scanLineage (latestRotationFirst rows) noLineage) of
          Inl e \<Rightarrow> throwG e
        | Inr r \<Rightarrow> returnG r))))"

text \<open>
  The transaction yields \<open>abortErr\<close>: a refused lineage removes the orphaned access rows, commits, and
  is reported after the commit.
\<close>

definition CreateRefreshTokenSession ::
  "oauth2store \<Rightarrow> string \<Rightarrow> string \<Rightarrow> requester \<Rightarrow> ('o, 'w, unit) stgo" where
  "CreateRefreshTokenSession s signature accessSignature request =
     bindG (transactionG (
       bindG (newSessionModel RefreshC) (\<lambda>(valid, m0).
       let m1 = m0\<lparr>sr_provider_prefix := st_prefix s, sr_signature := signature\<rparr> in
       bindG (SetRequester request RefreshToken m1) (\<lambda>m.
       bindG (attemptG (resolveRefreshLineage s request)) (\<lambda>lineage. case lineage of
           Inl lineageErr \<Rightarrow>
             bindG (if errorsIs lineageErr ErrInactiveToken
                    then mapErrG (\<lambda>e. serverErr e ''failed to remove access rows after terminal refresh-family state'')
                           (deleteSessionModelsByRequestID AccessC (st_prefix s) (rq_ID request))
                    else if accessSignature \<noteq> []
                    then mapErrG (\<lambda>e. serverErr e ''failed to remove rejected refresh replacement access row'')
                           (deleteSessionModelBySignature AccessC (st_prefix s) accessSignature)
                    else returnG ()) (\<lambda>_. returnG (Some lineageErr))
         | Inr (familyID, parentID) \<Rightarrow>
             bindG (saveNew RefreshC valid (m\<lparr>sr_family_id := familyID, sr_parent_refresh_id := parentID,
                 sr_status := RefreshStatusActive, sr_rotated_at := 0, sr_reused_at := 0\<rparr>))
               (\<lambda>_. returnG None))))))
     (\<lambda>abortErr. case abortErr of None \<Rightarrow> returnG () | Some e \<Rightarrow> throwG e)"

definition DeleteRefreshTokenSession :: "oauth2store \<Rightarrow> string \<Rightarrow> ('o, 'w, unit) stgo" where
  "DeleteRefreshTokenSession s signature =
     bindG (attemptG (findSessionModelBySignature RefreshC (st_prefix s) signature)) (\<lambda>r. case r of
         Inl e \<Rightarrow> (if errorsIs e ErrNotFound then returnG () else throwG e)
       | Inr m \<Rightarrow>
           if GetStatus m = RefreshStatusReused \<or> GetStatus m = RefreshStatusRevoked then returnG ()
           else deleteSession RefreshC m)"

subsection \<open>Reading, revoking and rotating a refresh token\<close>

definition expiryUnix :: "session_row \<Rightarrow> int" where
  "expiryUnix m = (case GetExpiresAt m of None \<Rightarrow> 0 | Some expiry \<Rightarrow> unixSec expiry)"

text \<open>
  The result pairs the request with the error that Go returns beside it: \<open>(req, ErrInactiveToken)\<close> for a
  replayed token. \<open>Inl e\<close> is \<open>(nil, e)\<close>.
\<close>

definition GetRefreshTokenSession ::
  "oauth2store \<Rightarrow> string \<Rightarrow> session option \<Rightarrow> ('o, 'w, requester \<times> goerr option) stgo" where
  "GetRefreshTokenSession s signature session =
     bindG (findSessionModelBySignature RefreshC (st_prefix s) signature) (\<lambda>m.
     bindG (mapErrG (\<lambda>e. serverErr e ''failed to read terminal refresh-family authority'')
              (hasRefreshTerminalAuthority (st_prefix s) (sr_request_id m))) (\<lambda>terminal.
     if terminal
     then bindG (mapErrG (\<lambda>e. serverErr e ''invalid terminal refresh session'') (ToRequest s session m))
            (\<lambda>req. returnG (req, Some (plainErr ErrInactiveToken)))
     else if GetStatus m \<noteq> RefreshStatusActive
     then bindG (attemptG (ToRequest s session m)) (\<lambda>req.
          bindG (mapErrG (\<lambda>e. serverErr e ''failed to commit reused refresh-family authority'')
                   (commitRefreshTerminalAuthority (st_prefix s) (sr_request_id m) (sr_family_id m) (expiryUnix m)))
            (\<lambda>_.
          bindG (if sr_family_id m \<noteq> []
                 then mapErrG (\<lambda>e. serverErr e ''failed to invalidate reused refresh family'')
                        (invalidateRefreshFamily (st_prefix s) (sr_family_id m))
                 else mapErrG (\<lambda>e. serverErr e ''failed to invalidate legacy reused refresh token'')
                        (invalidateLegacyRefreshRow (st_prefix s) m)) (\<lambda>_.
          case req of
            Inl reqErr \<Rightarrow> throwG (serverErr reqErr ''invalid reused refresh session'')
          | Inr req' \<Rightarrow> returnG (req', Some (plainErr ErrInactiveToken)))))
     else bindG (ToRequest s session m) (\<lambda>req. returnG (req, None))))"

definition RevokeRefreshToken :: "oauth2store \<Rightarrow> string \<Rightarrow> ('o, 'w, unit) stgo" where
  "RevokeRefreshToken s requestID =
     bindG (commitRefreshTerminalAuthority (st_prefix s) requestID [] 0) (\<lambda>_.
     revokeRefreshFamilyByRequestID (st_prefix s) requestID)"

text \<open>
  The conditional UPDATE: one statement that sets the status of the row with this signature if its
  status column is \<open>active\<close>, and reports how many rows it changed.
\<close>

definition rotates :: "string \<Rightarrow> bool \<Rightarrow> string \<Rightarrow> session_row \<Rightarrow> bool" where
  "rotates prefix allowLegacy signature r \<longleftrightarrow> sr_signature r = signature
     \<and> sr_status r = RefreshStatusActive
     \<and> (if allowLegacy then sr_provider_prefix r = prefix \<or> sr_provider_prefix r = []
        else sr_provider_prefix r = prefix)"

definition execRotate :: "string \<Rightarrow> bool \<Rightarrow> string \<Rightarrow> int \<Rightarrow> ('o, 'w, nat) dbgo" where
  "execRotate prefix allowLegacy signature rotatedAt = bindG dbCall (\<lambda>_.
     bindG (readG (\<lambda>w. length (filter (rotates prefix allowLegacy signature) (w_sessions w RefreshC)))) (\<lambda>n.
     bindG (modifyG (\<lambda>w. w\<lparr>w_sessions := (w_sessions w)(RefreshC :=
        map (\<lambda>r. if rotates prefix allowLegacy signature r
                 then r\<lparr>sr_status := RefreshStatusRotated, sr_rotated_at := rotatedAt\<rparr> else r)
          (w_sessions w RefreshC))\<rparr>)) (\<lambda>_. returnG n)))"

text \<open>The branch of \<open>markRefreshRotated\<close> after no row was changed.\<close>

definition rotationLost :: "string \<Rightarrow> string \<Rightarrow> string \<Rightarrow> ('o, 'w, unit) dbgo" where
  "rotationLost prefix requestID signature =
     bindG (attemptG (findSessionModelBySignature RefreshC prefix signature)) (\<lambda>r. case r of
         Inl lookupErr \<Rightarrow>
           if errorsIs lookupErr ErrNotFound
           then bindG (mapErrG (\<lambda>e. serverErr e ''failed to tombstone missing refresh predecessor'')
                         (commitRefreshTerminalAuthority prefix requestID [] 0))
                  (\<lambda>_. throwG (plainErr ErrInactiveToken))
           else throwG lookupErr
       | Inr m \<Rightarrow>
           let commitTerminal = (\<lambda>debug. mapErrG (\<lambda>e. serverErr e debug)
                 (commitRefreshTerminalAuthority prefix requestID (sr_family_id m) (expiryUnix m))) in
           if GetStatus m = RefreshStatusRotated
           then bindG (commitTerminal ''failed to commit concurrently reused refresh-family authority'') (\<lambda>_.
                bindG (if sr_family_id m = []
                       then mapErrG (\<lambda>e. serverErr e
                                ''failed to invalidate concurrently reused legacy refresh token'')
                              (invalidateLegacyRefreshRow prefix m)
                       else mapErrG (\<lambda>e. serverErr e
                                ''failed to invalidate concurrently reused refresh family'')
                              (invalidateRefreshFamily prefix (sr_family_id m)))
                (\<lambda>_. throwG (plainErr ErrInactiveToken)))
           else if GetStatus m = RefreshStatusReused \<or> GetStatus m = RefreshStatusRevoked
           then bindG (commitTerminal ''failed to commit existing terminal refresh-family authority'')
                  (\<lambda>_. throwG (plainErr ErrInactiveToken))
           else bindG (commitTerminal ''failed to tombstone invalid refresh-family state'')
                  (\<lambda>_. throwG (plainErr ErrInactiveToken)))"

definition markRefreshRotated :: "string \<Rightarrow> string \<Rightarrow> string \<Rightarrow> ('o, 'w, unit) dbgo" where
  "markRefreshRotated prefix0 requestID signature =
     bindG (mapErrG (\<lambda>e. serverErr e ''failed to read terminal refresh-family authority before rotation'')
              (hasRefreshTerminalAuthority prefix0 requestID)) (\<lambda>terminal.
     if terminal then throwG (plainErr ErrInactiveToken)
     else bindG timeNow (\<lambda>rotatedAt.
       let prefix = normalizePrefix prefix0 in
       bindG (readG (\<lambda>w. legacyDefaultAllowed w prefix)) (\<lambda>allowLegacy.
       bindG (execRotate prefix allowLegacy signature rotatedAt) (\<lambda>n.
       if n > 0 then returnG () else rotationLost prefix requestID signature))))"

definition RotateRefreshToken :: "oauth2store \<Rightarrow> string \<Rightarrow> string \<Rightarrow> ('o, 'w, unit) stgo" where
  "RotateRefreshToken s requestID signature =
     bindG (attemptG (markRefreshRotated (st_prefix s) requestID signature)) (\<lambda>r. case r of
         Inl e \<Rightarrow>
           bindG (if errorsIs e ErrInactiveToken
                  then mapErrG (\<lambda>c. serverErr c ''failed to remove access rows for inactive refresh rotation'')
                         (deleteSessionModelsByRequestID AccessC (st_prefix s) requestID)
                  else returnG ()) (\<lambda>_. throwG e)
       | Inr _ \<Rightarrow> deleteSessionModelsByRequestID AccessC (st_prefix s) requestID)"

end
