(* ===== verification/Code_Store.thy ===== *)
theory Code_Store
  imports Refresh_Store
begin

section \<open>Authorization codes, PKCE, OpenID sessions and JTIs (storage.go)\<close>

text \<open>
  The one-shot artifacts: an authorization code is stored as a session row and spent by writing its code
  into the JTI table, whose unique index on (provider_prefix, jti) makes the second attempt fail.
\<close>

subsection \<open>JTIs\<close>

definition insertJTI :: "bool \<Rightarrow> jti_row \<Rightarrow> ('o, 'w, unit) dbgo" where
  "insertJTI valid row = bindG newUUID (\<lambda>i. bindG dbCall (\<lambda>_.
     if \<not> valid then throwG driverErr
     else bindG (readG w_jtis) (\<lambda>js.
       if \<exists>x \<in> set js. jt_id x = i
            \<or> (jt_provider_prefix x = jt_provider_prefix row \<and> jt_jti x = jt_jti row)
       then throwG constraintErr
       else modifyG (\<lambda>w. w\<lparr>w_jtis := js @ [row\<lparr>jt_id := i\<rparr>]\<rparr>))))"

definition newJTIModel :: "string \<Rightarrow> string \<Rightarrow> int \<Rightarrow> ('o, 'w, unit) dbgo" where
  "newJTIModel prefix jti exp = bindG (collectionOrInvalid JTIC) (\<lambda>valid.
     insertJTI valid \<lparr>jt_id = [], jt_provider_prefix = normalizePrefix prefix, jt_jti = jti,
       jt_expires_at = unixSec exp\<rparr>)"

definition hasJTIModel :: "string \<Rightarrow> string \<Rightarrow> ('o, 'w, unit) dbgo" where
  "hasJTIModel prefix jti =
     bindG (mapErrG (\<lambda>e. serverErr e []) (findCollection JTIC)) (\<lambda>_.
     bindG (mapErrG (\<lambda>e. serverErr e []) (bindG dbCall (\<lambda>_.
              readG (\<lambda>w. filter (\<lambda>r. jt_jti r = jti \<and> providerPrefixExp w prefix (jt_provider_prefix r))
                           (w_jtis w))))) (\<lambda>rows.
     if length rows > 0 then throwG (plainErr ErrJTIKnown) else returnG ()))"

definition ClientAssertionJWTValid :: "oauth2store \<Rightarrow> string \<Rightarrow> ('o, 'w, unit) stgo" where
  "ClientAssertionJWTValid s jti = hasJTIModel (st_prefix s) jti"

definition SetClientAssertionJWT :: "oauth2store \<Rightarrow> string \<Rightarrow> int \<Rightarrow> ('o, 'w, unit) stgo" where
  "SetClientAssertionJWT s jti exp = newJTIModel (st_prefix s) jti exp"

subsection \<open>Session rows of the one-shot artifacts\<close>

text \<open>What \<open>CreateAuthorizeCodeSession\<close> and its PKCE and OpenID siblings have in common.\<close>

definition createSession ::
  "collection \<Rightarrow> token_type \<Rightarrow> oauth2store \<Rightarrow> string \<Rightarrow> requester \<Rightarrow> ('o, 'w, unit) stgo" where
  "createSession c tokenType s signature request =
     bindG (newSessionModel c) (\<lambda>(valid, m0).
     let m1 = m0\<lparr>sr_provider_prefix := st_prefix s, sr_signature := signature\<rparr> in
     bindG (SetRequester request tokenType m1) (\<lambda>m. saveNew c valid m))"

definition CreateAuthorizeCodeSession :: "oauth2store \<Rightarrow> string \<Rightarrow> requester \<Rightarrow> ('o, 'w, unit) stgo" where
  "CreateAuthorizeCodeSession s code request = createSession AuthCodeC AuthorizeCode s code request"

text \<open>As for a refresh token, the result is the request and the error Go returns beside it.\<close>

definition GetAuthorizeCodeSession ::
  "oauth2store \<Rightarrow> string \<Rightarrow> session option \<Rightarrow> ('o, 'w, requester \<times> goerr option) stgo" where
  "GetAuthorizeCodeSession s code session =
     bindG (findSessionModelBySignature AuthCodeC (st_prefix s) code) (\<lambda>m.
     bindG (ToRequest s session m) (\<lambda>req.
     bindG (attemptG (hasJTIModel (st_prefix s) code)) (\<lambda>r. case r of
         Inr _ \<Rightarrow> returnG (req, None)
       | Inl e \<Rightarrow>
           if errorsIs e ErrJTIKnown then returnG (req, Some (plainErr ErrInvalidatedAuthorizeCode))
           else returnG (req, Some (serverErr e
                  ''Failed to check if the authorization code has been invalidated'')))))"

definition InvalidateAuthorizeCodeSession :: "oauth2store \<Rightarrow> string \<Rightarrow> ('o, 'w, unit) stgo" where
  "InvalidateAuthorizeCodeSession s code =
     bindG (attemptG (findSessionModelBySignature AuthCodeC (st_prefix s) code)) (\<lambda>r. case r of
         Inl e \<Rightarrow> (if errorsIs e ErrNotFound then returnG () else throwG e)
       | Inr m \<Rightarrow> (case GetExpiresAt m of
             None \<Rightarrow> throwG (textErr ''authorization code session has no expiry'')
           | Some expiresAt \<Rightarrow> newJTIModel (st_prefix s) code expiresAt))"

definition CreatePKCERequestSession :: "oauth2store \<Rightarrow> string \<Rightarrow> requester \<Rightarrow> ('o, 'w, unit) stgo" where
  "CreatePKCERequestSession s signature request = createSession PKCEC UntypedToken s signature request"

definition DeletePKCERequestSession :: "oauth2store \<Rightarrow> string \<Rightarrow> ('o, 'w, unit) stgo" where
  "DeletePKCERequestSession s signature = deleteSessionModelBySignature PKCEC (st_prefix s) signature"

definition GetPKCERequestSession ::
  "oauth2store \<Rightarrow> string \<Rightarrow> session option \<Rightarrow> ('o, 'w, requester) stgo" where
  "GetPKCERequestSession s signature session =
     bindG (findSessionModelBySignature PKCEC (st_prefix s) signature) (\<lambda>m. ToRequest s session m)"

definition CreateOpenIDConnectSession :: "oauth2store \<Rightarrow> string \<Rightarrow> requester \<Rightarrow> ('o, 'w, unit) stgo" where
  "CreateOpenIDConnectSession s authorizeCode request =
     createSession OpenIDC IDToken s authorizeCode request"

definition DeleteOpenIDConnectSession :: "oauth2store \<Rightarrow> string \<Rightarrow> ('o, 'w, unit) stgo" where
  "DeleteOpenIDConnectSession s authorizeCode =
     deleteSessionModelBySignature OpenIDC (st_prefix s) authorizeCode"

definition GetOpenIDConnectSession ::
  "oauth2store \<Rightarrow> string \<Rightarrow> requester \<Rightarrow> ('o, 'w, requester) stgo" where
  "GetOpenIDConnectSession s authorizeCode request =
     bindG (attemptG (findSessionModelBySignature OpenIDC (st_prefix s) authorizeCode)) (\<lambda>r. case r of
         Inl e \<Rightarrow> (if errorsIs e ErrNotFound then throwG (plainErr ErrNoSessionFound) else throwG e)
       | Inr m \<Rightarrow> ToRequest s (rq_Session request) m)"

end
