(* ===== verification/Family.thy ===== *)
theory Family
  imports Code_Store
begin

section \<open>What invalidating a family does to the tables\<close>

text \<open>
  The loops of \<open>mutateRefreshFamily\<close>, \<open>revokeRefreshFamilyByRequestID\<close> and
  \<open>invalidateLegacyRefreshRow\<close> update and delete row by row. Against an abstract specification they are
  one atomic step: \<open>markRows\<close> stamps every member of the family, \<open>dropRows\<close> removes the access rows of
  the request ids the family was issued under. The refinement needs the record ids of a table to be
  distinct, which is the primary key.
\<close>

definition idsOk :: "'w world_scheme \<Rightarrow> bool" where
  "idsOk w \<longleftrightarrow> (\<forall>c. distinct (map sr_id (w_sessions w c))) \<and> tbWf w"

definition markRows ::
  "(session_row \<Rightarrow> bool) \<Rightarrow> (session_row \<Rightarrow> session_row) \<Rightarrow> 'w world_scheme \<Rightarrow> 'w world_scheme" where
  "markRows P g w = w\<lparr>w_sessions := (w_sessions w)(RefreshC :=
     map (\<lambda>r. if P r then g r else r) (w_sessions w RefreshC))\<rparr>"

definition dropRows :: "collection \<Rightarrow> (session_row \<Rightarrow> bool) \<Rightarrow> 'w world_scheme \<Rightarrow> 'w world_scheme" where
  "dropRows c P w = w\<lparr>w_sessions := (w_sessions w)(c := filter (\<lambda>r. \<not> P r) (w_sessions w c))\<rparr>"

lemma idsOk_tick [simp]: "idsOk (w\<lparr>tick := n\<rparr>) = idsOk w"
  by (simp add: idsOk_def)

lemma idsOkD: "idsOk w \<Longrightarrow> distinct (map sr_id (w_sessions w c))" "idsOk w \<Longrightarrow> tbWf w"
  by (simp_all add: idsOk_def)

lemma same_id: "idsOk w \<Longrightarrow> r \<in> set (w_sessions w c) \<Longrightarrow> r' \<in> set (w_sessions w c) \<Longrightarrow> sr_id r = sr_id r' \<Longrightarrow> r = r'"
  using idsOkD(1) [of w c] by (auto simp: distinct_map dest: inj_onD)

lemma markRows_simps [simp]:
  "w_sessions (markRows P g w) c = (if c = RefreshC
     then map (\<lambda>r. if P r then g r else r) (w_sessions w RefreshC) else w_sessions w c)"
  "w_tombstones (markRows P g w) = w_tombstones w" "w_jtis (markRows P g w) = w_jtis w"
  "w_clients (markRows P g w) = w_clients w" "w_registered (markRows P g w) = w_registered w"
  "tick (markRows P g w) = tick w" "(markRows P g w)\<lparr>tick := n\<rparr> = markRows P g (w\<lparr>tick := n\<rparr>)"
  by (simp_all add: markRows_def)

lemma dropRows_simps [simp]:
  "w_sessions (dropRows c P w) d = (if d = c then filter (\<lambda>r. \<not> P r) (w_sessions w c) else w_sessions w d)"
  "w_tombstones (dropRows c P w) = w_tombstones w" "w_jtis (dropRows c P w) = w_jtis w"
  "w_clients (dropRows c P w) = w_clients w" "w_registered (dropRows c P w) = w_registered w"
  "tick (dropRows c P w) = tick w" "(dropRows c P w)\<lparr>tick := n\<rparr> = dropRows c P (w\<lparr>tick := n\<rparr>)"
  by (simp_all add: dropRows_def)

lemma terminal_markRows [simp]: "terminal (markRows P g w) p q = terminal w p q"
  by (simp add: terminal_def)

lemma terminal_dropRows [simp]: "terminal (dropRows c P w) p q = terminal w p q"
  by (simp add: terminal_def)

lemma idsOk_markRows:
  assumes "idsOk w" "\<And>r. sr_id (g r) = sr_id r"
  shows "idsOk (markRows P g w)"
proof -
  have "map sr_id (map (\<lambda>r. if P r then g r else r) rs) = map sr_id rs" for rs
    using assms(2) by (induction rs) auto
  then show ?thesis using assms(1) by (simp add: idsOk_def tbWf_def del: map_map)
qed

lemma idsOk_dropRows: "idsOk w \<Longrightarrow> idsOk (dropRows c P w)"
  by (auto simp: idsOk_def tbWf_def distinct_map_filter)

lemma dropRows_dropRows: "dropRows c P (dropRows c Q w) = dropRows c (\<lambda>r. Q r \<or> P r) w"
  by (simp add: dropRows_def)

lemma dropRows_cong: "(\<And>r. P r = Q r) \<Longrightarrow> dropRows c P w = dropRows c Q w"
  by (simp add: dropRows_def)

lemma delIds_dropRows:
  assumes "idsOk w" shows "delIds c (sr_id ` set (filter P (w_sessions w c))) w = dropRows c P w"
proof -
  have "filter (\<lambda>r. sr_id r \<notin> sr_id ` set (filter P (w_sessions w c))) (w_sessions w c)
      = filter (\<lambda>r. \<not> P r) (w_sessions w c)"
    by (rule filter_cong) (auto dest: same_id [OF assms])
  then show ?thesis by (simp add: delIds_def dropRows_def)
qed

subsection \<open>The loops\<close>

lemma set_seeRequestID: "set (seeRequestID row seen) = set seen \<union> ({sr_request_id row} - {[]})"
  by (auto simp: seeRequestID_def)

definition requestIDs :: "session_row set \<Rightarrow> string set" where
  "requestIDs R = sr_request_id ` R - {[]}"

lemma updateSession_markRows:
  assumes "idsOk w" "row \<in> set (w_sessions w RefreshC)" "sr_id (g row) = sr_id row"
  shows "w\<lparr>w_sessions := (w_sessions w)(RefreshC :=
      map (\<lambda>r. if sr_id r = sr_id (g row) then g row else r) (w_sessions w RefreshC))\<rparr>
    = markRows (\<lambda>r. r = row) g w"
proof -
  have "map (\<lambda>r. if sr_id r = sr_id (g row) then g row else r) (w_sessions w RefreshC)
      = map (\<lambda>r. if r = row then g r else r) (w_sessions w RefreshC)"
    using assms by (auto dest: same_id)
  then show ?thesis unfolding markRows_def by (simp only:)
qed

lemma markRows_insert:
  assumes "\<not> P (g row)"
  shows "markRows P g (markRows (\<lambda>r. r = row) g w) = markRows (\<lambda>r. r = row \<or> P r) g w"
proof -
  have "map (\<lambda>r. if P r then g r else r) (map (\<lambda>r. if r = row then g r else r) rs)
    = map (\<lambda>r. if r = row \<or> P r then g r else r) rs" for rs
    using assms by (induction rs) auto
  then show ?thesis by (simp add: markRows_def del: map_map)
qed

lemma wp_updateLoop:
  assumes "idsOk w" "set rows \<subseteq> set (w_sessions w RefreshC)" "distinct rows"
    and g: "\<And>r. sr_id (g r) = sr_id r" and E: "\<And>u. E driverErr u"
    and "\<And>n seen'. set seen' = set seen \<union> requestIDs (set rows) \<Longrightarrow>
          Q seen' (markRows (\<lambda>r. r \<in> set rows) g (w\<lparr>tick := n\<rparr>))"
  shows "wp (foldG rows (\<lambda>row seen. bindG (updateSession RefreshC (g row))
      (\<lambda>_. returnG (seeRequestID row seen))) seen) Q E \<omega> w"
  using assms(1-3,6)
proof (induction rows arbitrary: w seen)
  case Nil
  have "markRows (\<lambda>r. False) g w = w" by (simp add: markRows_def)
  then show ?case using Nil.prems(4) [of seen "tick w"] by (simp add: wp_returnG requestIDs_def)
next
  case (Cons row rows)
  define v where "v = markRows (\<lambda>r. r = row) g (w\<lparr>tick := Suc (tick w)\<rparr>)"
  have wf: "idsOk (w\<lparr>tick := Suc (tick w)\<rparr>)" using Cons.prems(1) by simp
  have neq: "g row \<noteq> r" if "r \<in> set rows" for r
    using that Cons.prems same_id [OF Cons.prems(1), of r RefreshC row] g [of row] by auto
  have step: "wp (foldG rows (\<lambda>row seen. bindG (updateSession RefreshC (g row))
      (\<lambda>_. returnG (seeRequestID row seen))) (seeRequestID row seen)) Q E \<omega> v"
  proof (rule Cons.IH)
    show "idsOk v" unfolding v_def by (rule idsOk_markRows [OF wf g])
    have "r \<noteq> row" if "r \<in> set rows" for r using that Cons.prems(3) by auto
    then show "set rows \<subseteq> set (w_sessions v RefreshC)" using Cons.prems(2) by (force simp: v_def image_iff)
    show "distinct rows" using Cons.prems(3) by simp
    fix n seen'
    assume seen': "set seen' = set (seeRequestID row seen) \<union> requestIDs (set rows)"
    have "markRows (\<lambda>r. r \<in> set rows) g (v\<lparr>tick := n\<rparr>) = markRows (\<lambda>r. r \<in> set (row # rows)) g (w\<lparr>tick := n\<rparr>)"
      using neq markRows_insert [of "\<lambda>r. r \<in> set rows" g row "w\<lparr>tick := n\<rparr>"] by (auto simp: v_def)
    moreover have "Q seen' (markRows (\<lambda>r. r \<in> set (row # rows)) g (w\<lparr>tick := n\<rparr>))"
      by (rule Cons.prems(4)) (use seen' in \<open>auto simp: set_seeRequestID requestIDs_def\<close>)
    ultimately show "Q seen' (markRows (\<lambda>r. r \<in> set rows) g (v\<lparr>tick := n\<rparr>))" by simp
  qed
  have "w\<lparr>tick := Suc (tick w), w_sessions := (w_sessions w)(RefreshC :=
      map (\<lambda>r. if sr_id r = sr_id (g row) then g row else r) (w_sessions w RefreshC))\<rparr> = v"
    using updateSession_markRows [where row = row and g = g, OF wf _ g] Cons.prems(2) by (simp add: v_def)
  with step E show ?case by (simp add: wp_bindG wp_updateSession wp_returnG Let_def)
qed

lemma wp_deleteAccessOf:
  assumes "idsOk w" and E: "\<And>u. E driverErr u"
    and "\<And>n. Q () (dropRows AccessC (\<lambda>r. sr_request_id r \<in> set reqs \<and> V (sr_provider_prefix r)) (w\<lparr>tick := n\<rparr>))"
  shows "wp (deleteAccessOf V reqs) Q E \<omega> w"
  using assms(1,3)
proof (induction reqs arbitrary: w)
  case Nil
  then show ?case using Nil.prems(2) [of "tick w"] by (simp add: deleteAccessOf_def wp_simps dropRows_def)
next
  case (Cons q qs)
  let ?P = "\<lambda>r. sr_request_id r = q \<and> V (sr_provider_prefix r)"
  have nxt: "wp (deleteAccessOf V qs) Q E \<omega> (delIds AccessC (sr_id ` set (filter ?P (w_sessions w AccessC))) (w\<lparr>tick := n\<rparr>))" for n
  proof -
    have e: "delIds AccessC (sr_id ` set (filter ?P (w_sessions w AccessC))) (w\<lparr>tick := n\<rparr>) = dropRows AccessC ?P (w\<lparr>tick := n\<rparr>)"
      using delIds_dropRows [of "w\<lparr>tick := n\<rparr>" AccessC ?P] Cons.prems(1) by simp
    show ?thesis unfolding e
    proof (rule Cons.IH)
      show "idsOk (dropRows AccessC ?P (w\<lparr>tick := n\<rparr>))" using Cons.prems(1) by (simp add: idsOk_dropRows)
      fix k
      have "dropRows AccessC (\<lambda>r. sr_request_id r \<in> set qs \<and> V (sr_provider_prefix r)) (dropRows AccessC ?P (w\<lparr>tick := k\<rparr>))
        = dropRows AccessC (\<lambda>r. sr_request_id r \<in> set (q # qs) \<and> V (sr_provider_prefix r)) (w\<lparr>tick := k\<rparr>)"
        unfolding dropRows_dropRows by (rule dropRows_cong) auto
      then show "Q () (dropRows AccessC (\<lambda>r. sr_request_id r \<in> set qs \<and> V (sr_provider_prefix r)) ((dropRows AccessC ?P (w\<lparr>tick := n\<rparr>))\<lparr>tick := k\<rparr>))"
        using Cons.prems(2) [of k] by simp
    qed
  qed
  have "wp (forG (filter ?P (w_sessions w AccessC)) (deleteSession AccessC)) (\<lambda>_. wp (deleteAccessOf V qs) Q E \<omega>) E \<omega> (w\<lparr>tick := Suc (tick w)\<rparr>)"
    by (rule wp_forG_deleteSession) (use nxt E in simp_all)
  then show ?case using E unfolding deleteAccessOf_def
    by (simp add: wp_bindG wp_querySessions Let_def)
qed

subsection \<open>The three mutations as atomic steps\<close>

lemma markRows_cong:
  assumes "\<And>r. r \<in> set (w_sessions w RefreshC) \<Longrightarrow> P r = P' r"
  shows "markRows P g w = markRows P' g w"
proof -
  have "map (\<lambda>r. if P r then g r else r) (w_sessions w RefreshC)
      = map (\<lambda>r. if P' r then g r else r) (w_sessions w RefreshC)"
    using assms by simp
  then show ?thesis unfolding markRows_def by (simp only:)
qed

definition inFamily :: "(string \<Rightarrow> bool) \<Rightarrow> string set \<Rightarrow> session_row \<Rightarrow> bool" where
  "inFamily V F r \<longleftrightarrow> sr_family_id r \<in> F \<and> V (sr_provider_prefix r)"

definition familyRequests :: "(string \<Rightarrow> bool) \<Rightarrow> string set \<Rightarrow> 'w world_scheme \<Rightarrow> string set" where
  "familyRequests V F w = requestIDs {r \<in> set (w_sessions w RefreshC). inFamily V F r}"

text \<open>The specification: stamp the families, drop the access rows of their request ids.\<close>

definition familyDone ::
  "(string \<Rightarrow> bool) \<Rightarrow> string set \<Rightarrow> (session_row \<Rightarrow> session_row) \<Rightarrow> 'w world_scheme \<Rightarrow> 'w world_scheme" where
  "familyDone V F g w = dropRows AccessC
     (\<lambda>a. sr_request_id a \<in> familyRequests V F w \<and> V (sr_provider_prefix a)) (markRows (inFamily V F) g w)"

lemma familyRequests_tick [simp]: "familyRequests V F (w\<lparr>tick := n\<rparr>) = familyRequests V F w"
  by (simp add: familyRequests_def)

lemma sr_id_stampStatus [simp]: "sr_id (stampStatus st now r) = sr_id r"
  by (simp add: stampStatus_def Let_def)

abbreviation visibleTo :: "'w world_scheme \<Rightarrow> string \<Rightarrow> string \<Rightarrow> bool" where
  "visibleTo w p \<equiv> providerPrefixExpWithLegacy p (legacyDefaultAllowed w p)"

lemma wp_mutateRefreshFamily:
  assumes wf: "idsOk w" and fam: "fam \<noteq> []"
    and E: "\<And>n. E driverErr (w\<lparr>tick := n\<rparr>)"
    and Q: "\<And>n now. Q () (familyDone (visibleTo w p) {fam} (stampStatus status now) (w\<lparr>tick := n\<rparr>))"
  shows "wp (mutateRefreshFamily p fam status) Q E \<omega> w"
proof -
  define V where "V = visibleTo w p"
  define rows where "rows = filter (\<lambda>r. sr_family_id r = fam \<and> V (sr_provider_prefix r)) (w_sessions w RefreshC)"
  have rows: "set rows \<subseteq> set (w_sessions w RefreshC)" "distinct rows"
    using idsOkD(1) [OF wf, of RefreshC] by (auto simp: rows_def distinct_map)
  have members: "set rows = {r \<in> set (w_sessions w RefreshC). inFamily V {fam} r}"
    by (auto simp: rows_def inFamily_def)
  have del: "wp (deleteAccessOf V seen) (\<lambda>a v. \<forall>n. Q a (v\<lparr>tick := n\<rparr>)) (\<lambda>e v. \<forall>n. E e (w\<lparr>tick := n\<rparr>)) \<omega>
      (markRows (\<lambda>r. r \<in> set rows) (stampStatus status now) (w\<lparr>tick := n\<rparr>))"
    if "set seen = requestIDs (set rows)" for seen now n
  proof (rule wp_deleteAccessOf)
    show "idsOk (markRows (\<lambda>r. r \<in> set rows) (stampStatus status now) (w\<lparr>tick := n\<rparr>))"
      using wf by (simp add: idsOk_markRows)
    fix k
    have "markRows (\<lambda>r. r \<in> set rows) (stampStatus status now) (w\<lparr>tick := m\<rparr>)
      = markRows (inFamily V {fam}) (stampStatus status now) (w\<lparr>tick := m\<rparr>)" for m
      by (rule markRows_cong) (simp add: members)
    then show "\<forall>m. Q () ((dropRows AccessC (\<lambda>r. sr_request_id r \<in> set seen \<and> V (sr_provider_prefix r))
        ((markRows (\<lambda>r. r \<in> set rows) (stampStatus status now) (w\<lparr>tick := n\<rparr>))\<lparr>tick := k\<rparr>))\<lparr>tick := m\<rparr>)"
      using Q [where now = now] that by (simp add: familyDone_def familyRequests_def members V_def)
  qed (use E in simp)
  have loop: "wp (foldG rows (\<lambda>row seen. bindG (updateSession RefreshC (stampStatus status now row))
        (\<lambda>_. returnG (seeRequestID row seen))) [])
      (\<lambda>seen. wp (bindG (findCollection AccessC) (\<lambda>_. deleteAccessOf V seen))
         (\<lambda>a v. \<forall>n. Q a (v\<lparr>tick := n\<rparr>)) (\<lambda>e v. \<forall>n. E e (w\<lparr>tick := n\<rparr>)) \<omega>)
      (\<lambda>e v. \<forall>n. E e (w\<lparr>tick := n\<rparr>)) \<omega> (w\<lparr>tick := n\<rparr>)" for now n
    by (rule wp_updateLoop) (use wf rows E del in \<open>simp_all add: wp_bindG wp_findCollection\<close>)
  show ?thesis
    unfolding mutateRefreshFamily_def if_not_P [OF fam] wp_bindG wp_readG Let_def V_def [symmetric]
  proof (rule wp_transactionI)
    show "E driverErr (w\<lparr>tick := n\<rparr>)" for n by (rule E)
    show "wp (bindG (findCollection RefreshC) (\<lambda>_.
        bindG (querySessions True RefreshC (\<lambda>_ r. sr_family_id r = fam \<and> V (sr_provider_prefix r))) (\<lambda>rows.
        bindG timeNow (\<lambda>now.
        bindG (foldG rows (\<lambda>row seen. bindG (updateSession RefreshC (stampStatus status now row))
                 (\<lambda>_. returnG (seeRequestID row seen))) []) (\<lambda>seen.
        bindG (findCollection AccessC) (\<lambda>_. deleteAccessOf V seen))))))
      (\<lambda>a v. \<forall>n. Q a (v\<lparr>tick := n\<rparr>)) (\<lambda>e v. \<forall>n. E e (w\<lparr>tick := n\<rparr>)) \<omega> (w\<lparr>tick := Suc (tick w)\<rparr>)"
      unfolding wp_bindG [of "foldG x y z" for x y z] wp_bindG [of "findCollection RefreshC"]
        wp_bindG [of "querySessions x y z" for x y z] wp_bindG [of timeNow]
      using loop E by (simp add: wp_findCollection wp_querySessions wp_timeNow Let_def rows_def [symmetric])
  qed
qed

text \<open>\<open>revokeRefreshFamilyByRequestID\<close>: the same for all the families of the request at once.\<close>

definition keepsKeys :: "(session_row \<Rightarrow> session_row) \<Rightarrow> bool" where
  "keepsKeys g \<longleftrightarrow> (\<forall>r. sr_id (g r) = sr_id r \<and> sr_family_id (g r) = sr_family_id r
     \<and> sr_provider_prefix (g r) = sr_provider_prefix r \<and> sr_request_id (g r) = sr_request_id r)"

lemma keepsKeysD: "keepsKeys g \<Longrightarrow> sr_id (g r) = sr_id r" "keepsKeys g \<Longrightarrow> sr_family_id (g r) = sr_family_id r"
  "keepsKeys g \<Longrightarrow> sr_provider_prefix (g r) = sr_provider_prefix r" "keepsKeys g \<Longrightarrow> sr_request_id (g r) = sr_request_id r"
  by (simp_all add: keepsKeys_def)

lemma keepsKeys_set [simp]: "keepsKeys (\<lambda>r. r\<lparr>sr_status := st\<rparr>)" "keepsKeys (stampStatus st now)"
  by (simp_all add: keepsKeys_def stampStatus_def Let_def)

lemma markRows_families:
  assumes g: "keepsKeys g" and f: "fam \<notin> F"
  shows "markRows (inFamily V F) g (markRows (inFamily V {fam}) g w) = markRows (inFamily V (insert fam F)) g w"
    "familyRequests V F (markRows (inFamily V {fam}) g w) = familyRequests V F w"
proof -
  have "map (\<lambda>r. if inFamily V F r then g r else r) (map (\<lambda>r. if inFamily V {fam} r then g r else r) rs)
    = map (\<lambda>r. if inFamily V (insert fam F) r then g r else r) rs" for rs
    using f by (induction rs) (auto simp: inFamily_def keepsKeysD [OF g])
  then show "markRows (inFamily V F) g (markRows (inFamily V {fam}) g w) = markRows (inFamily V (insert fam F)) g w"
    by (simp add: markRows_def del: map_map)
  have "{r \<in> set (w_sessions (markRows (inFamily V {fam}) g w) RefreshC). inFamily V F r}
    = {r \<in> set (w_sessions w RefreshC). inFamily V F r}"
    using f by (force simp: inFamily_def keepsKeysD [OF g])
  then show "familyRequests V F (markRows (inFamily V {fam}) g w) = familyRequests V F w"
    by (simp add: familyRequests_def)
qed

lemma familyRequests_insert:
  "familyRequests V (insert fam F) w = familyRequests V {fam} w \<union> familyRequests V F w"
  by (auto simp: familyRequests_def requestIDs_def inFamily_def)

lemma wp_familiesLoop:
  assumes "idsOk w" "distinct families" and g: "keepsKeys g" and E: "\<And>u. E driverErr u"
    and "\<And>n seen'. set seen' = set seen \<union> familyRequests V (set families) w \<Longrightarrow>
          Q seen' (markRows (inFamily V (set families)) g (w\<lparr>tick := n\<rparr>))"
  shows "wp (foldG families (\<lambda>fam seen0.
      bindG (querySessions True RefreshC (\<lambda>_ r. sr_family_id r = fam \<and> V (sr_provider_prefix r))) (\<lambda>rows.
      foldG rows (\<lambda>row seen. bindG (updateSession RefreshC (g row))
        (\<lambda>_. returnG (seeRequestID row seen))) seen0)) seen) Q E \<omega> w"
  using assms(1,2,5)
proof (induction families arbitrary: w seen)
  case Nil
  have "markRows (inFamily V {}) g w = w" by (simp add: markRows_def inFamily_def)
  moreover have "familyRequests V {} w = {}" by (simp add: familyRequests_def inFamily_def requestIDs_def)
  ultimately show ?case using Nil.prems(3) [of seen "tick w"] by (simp add: wp_returnG)
next
  case (Cons fam fams)
  define w1 where "w1 = w\<lparr>tick := Suc (tick w)\<rparr>"
  define rows where "rows = filter (\<lambda>r. sr_family_id r = fam \<and> V (sr_provider_prefix r)) (w_sessions w RefreshC)"
  have members: "set rows = {r \<in> set (w_sessions w RefreshC). inFamily V {fam} r}"
    by (auto simp: rows_def inFamily_def)
  have "wp (foldG rows (\<lambda>row seen. bindG (updateSession RefreshC (g row))
        (\<lambda>_. returnG (seeRequestID row seen))) seen)
      (\<lambda>seen1. wp (foldG fams (\<lambda>fam seen0.
        bindG (querySessions True RefreshC (\<lambda>_ r. sr_family_id r = fam \<and> V (sr_provider_prefix r))) (\<lambda>rows.
        foldG rows (\<lambda>row seen. bindG (updateSession RefreshC (g row))
          (\<lambda>_. returnG (seeRequestID row seen))) seen0)) seen1) Q E \<omega>) E \<omega> w1"
  proof (rule wp_updateLoop)
    show "idsOk w1" using Cons.prems(1) by (simp add: w1_def)
    show "set rows \<subseteq> set (w_sessions w1 RefreshC)" by (auto simp: rows_def w1_def)
    show "distinct rows" using idsOkD(1) [OF Cons.prems(1), of RefreshC] by (simp add: rows_def distinct_map)
    fix n seen1
    assume seen1: "set seen1 = set seen \<union> requestIDs (set rows)"
    have m: "markRows (\<lambda>r. r \<in> set rows) g (w1\<lparr>tick := n\<rparr>) = markRows (inFamily V {fam}) g (w\<lparr>tick := n\<rparr>)"
      by (simp add: w1_def) (rule markRows_cong, simp add: members)
    show "wp (foldG fams (\<lambda>fam seen0.
        bindG (querySessions True RefreshC (\<lambda>_ r. sr_family_id r = fam \<and> V (sr_provider_prefix r))) (\<lambda>rows.
        foldG rows (\<lambda>row seen. bindG (updateSession RefreshC (g row))
          (\<lambda>_. returnG (seeRequestID row seen))) seen0)) seen1) Q E \<omega> (markRows (\<lambda>r. r \<in> set rows) g (w1\<lparr>tick := n\<rparr>))"
      unfolding m
    proof (rule Cons.IH)
      show "idsOk (markRows (inFamily V {fam}) g (w\<lparr>tick := n\<rparr>))"
        using Cons.prems(1) by (simp add: idsOk_markRows keepsKeysD [OF g])
      show "distinct fams" using Cons.prems(2) by simp
      fix k seen'
      assume "set seen' = set seen1 \<union> familyRequests V (set fams) (markRows (inFamily V {fam}) g (w\<lparr>tick := n\<rparr>))"
      moreover have "familyRequests V (set (fam # fams)) w = requestIDs (set rows) \<union> familyRequests V (set fams) w"
        unfolding list.set familyRequests_insert [of V fam "set fams"] by (simp add: members familyRequests_def)
      ultimately have "set seen' = set seen \<union> familyRequests V (set (fam # fams)) w"
        using seen1 Cons.prems(2) markRows_families(2) [OF g, of fam "set fams" V "w\<lparr>tick := n\<rparr>"] by auto
      then have "Q seen' (markRows (inFamily V (set (fam # fams))) g (w\<lparr>tick := k\<rparr>))" by (rule Cons.prems(3))
      then show "Q seen' (markRows (inFamily V (set fams)) g ((markRows (inFamily V {fam}) g (w\<lparr>tick := n\<rparr>))\<lparr>tick := k\<rparr>))"
        using Cons.prems(2) markRows_families(1) [OF g, of fam "set fams" V "w\<lparr>tick := k\<rparr>"] by simp
    qed
  qed (use keepsKeysD [OF g] E in simp_all)
  then show ?case using E by (simp add: wp_bindG wp_querySessions Let_def rows_def w1_def)
qed

lemma familiesOf_Inr:
  "familiesOf rows fs = Inr fs' \<Longrightarrow> distinct fs \<Longrightarrow>
     distinct fs' \<and> set fs' = set fs \<union> sr_family_id ` set rows \<and> [] \<notin> sr_family_id ` set rows"
  by (induction rows fs rule: familiesOf.induct) (auto split: if_splits)

lemma familiesOf_Inl:
  "familiesOf rows fs = Inl e \<Longrightarrow> e = textErr ''refresh row has no family_id'' \<and> [] \<in> sr_family_id ` set rows"
  by (induction rows fs rule: familiesOf.induct) (auto split: if_splits)

lemma familyDone_none: "familyDone V {} g w = w"
  by (simp add: familyDone_def familyRequests_def inFamily_def requestIDs_def dropRows_def markRows_def)

text \<open>The families that the rows of a request belong to.\<close>

definition familiesOfRequest :: "'w world_scheme \<Rightarrow> string \<Rightarrow> string \<Rightarrow> string set" where
  "familiesOfRequest w p q = sr_family_id ` set (requestRows w RefreshC p q)"

lemma familiesOfRequest_tick [simp]: "familiesOfRequest (w\<lparr>tick := n\<rparr>) p q = familiesOfRequest w p q"
  by (simp add: familiesOfRequest_def)

lemma wp_revokeRefreshFamilyByRequestID:
  assumes wf: "idsOk w" and cp: "canonicalPrefix p"
    and E: "\<And>n e. opaque e \<Longrightarrow> E e (w\<lparr>tick := n\<rparr>)"
    and Q: "\<And>n. [] \<notin> familiesOfRequest w p q \<Longrightarrow> Q () (familyDone (visibleTo w p) (familiesOfRequest w p q)
          (\<lambda>r. r\<lparr>sr_status := RefreshStatusRevoked\<rparr>) (w\<lparr>tick := n\<rparr>))"
  shows "wp (revokeRefreshFamilyByRequestID p q) Q E \<omega> w"
proof -
  define V where "V = visibleTo w p"
  define g where "g = (\<lambda>r::session_row. r\<lparr>sr_status := RefreshStatusRevoked\<rparr>)"
  define seeds where "seeds = filter (\<lambda>r. sr_request_id r = q \<and> V (sr_provider_prefix r)) (w_sessions w RefreshC)"
  have seeds: "seeds = requestRows w RefreshC p q"
    by (simp add: seeds_def requestRows_def V_def withLegacy_eq [OF cp])
  have g: "keepsKeys g" by (simp add: g_def)
  let ?Q = "\<lambda>a v. \<forall>n. Q a (v\<lparr>tick := n\<rparr>)"
  let ?E = "\<lambda>e v. \<forall>n. E e (w\<lparr>tick := n\<rparr>)"
  have del: "wp (bindG (findCollection AccessC) (\<lambda>_. deleteAccessOf V seen)) ?Q ?E \<omega>
      (markRows (inFamily V (set families)) g (w\<lparr>tick := n\<rparr>))"
    if "set seen = familyRequests V (set families) w" "set families = familiesOfRequest w p q"
      "[] \<notin> familiesOfRequest w p q" for seen n families
  proof -
    have "wp (deleteAccessOf V seen) ?Q ?E \<omega> (markRows (inFamily V (set families)) g (w\<lparr>tick := k\<rparr>))" for k
      by (rule wp_deleteAccessOf)
        (use E wf g Q that in \<open>simp_all add: idsOk_markRows keepsKeysD [OF g] familyDone_def V_def g_def\<close>)
    then show ?thesis using E by (simp add: wp_bindG wp_findCollection)
  qed
  have loop: "wp (bindG (foldG families (\<lambda>familyID seen0.
        bindG (querySessions True RefreshC (\<lambda>_ r. sr_family_id r = familyID \<and> V (sr_provider_prefix r))) (\<lambda>familyRows.
        foldG familyRows (\<lambda>row seen. bindG (updateSession RefreshC (g row))
          (\<lambda>_. returnG (seeRequestID row seen))) seen0)) [])
      (\<lambda>seen. bindG (findCollection AccessC) (\<lambda>_. deleteAccessOf V seen))) ?Q ?E \<omega> (w\<lparr>tick := n\<rparr>)"
    if "distinct families" "set families = familiesOfRequest w p q" "[] \<notin> familiesOfRequest w p q" for families n
    unfolding wp_bindG [of "foldG x y z" for x y z]
    by (rule wp_familiesLoop) (use wf that g E del in simp_all)
  have cases: "wp (if seeds = [] then returnG ()
       else case familiesOf seeds [] of
         Inl e \<Rightarrow> throwG e
       | Inr families \<Rightarrow> bindG (foldG families (\<lambda>familyID seen0.
           bindG (querySessions True RefreshC (\<lambda>_ r. sr_family_id r = familyID \<and> V (sr_provider_prefix r))) (\<lambda>familyRows.
           foldG familyRows (\<lambda>row seen. bindG (updateSession RefreshC (g row))
             (\<lambda>_. returnG (seeRequestID row seen))) seen0)) [])
         (\<lambda>seen. bindG (findCollection AccessC) (\<lambda>_. deleteAccessOf V seen))) ?Q ?E \<omega> (w\<lparr>tick := n\<rparr>)" for n
  proof (cases "seeds = []")
    case True
    then have "familiesOfRequest w p q = {}" by (simp add: familiesOfRequest_def seeds)
    then show ?thesis using Q True by (simp add: wp_returnG familyDone_none)
  next
    case False
    show ?thesis
    proof (cases "familiesOf seeds []")
      case (Inl e)
      then show ?thesis using E familiesOf_Inl [OF Inl] False by (simp add: wp_throwG)
    next
      case (Inr families)
      then show ?thesis using loop [of families] familiesOf_Inr [OF Inr] False
        by (simp add: familiesOfRequest_def seeds)
    qed
  qed
  show ?thesis
    unfolding revokeRefreshFamilyByRequestID_def wp_bindG wp_readG Let_def V_def [symmetric] g_def [symmetric]
  proof (rule wp_transactionI)
    show "E driverErr (w\<lparr>tick := n\<rparr>)" for n by (simp add: E)
    show "wp (bindG (findCollection RefreshC) (\<lambda>_.
       bindG (querySessions True RefreshC (\<lambda>_ r. sr_request_id r = q \<and> V (sr_provider_prefix r))) (\<lambda>seeds.
       if seeds = [] then returnG ()
       else case familiesOf seeds [] of
         Inl e \<Rightarrow> throwG e
       | Inr families \<Rightarrow> bindG (foldG families (\<lambda>familyID seen0.
           bindG (querySessions True RefreshC (\<lambda>_ r. sr_family_id r = familyID \<and> V (sr_provider_prefix r))) (\<lambda>familyRows.
           foldG familyRows (\<lambda>row seen. bindG (updateSession RefreshC (g row))
             (\<lambda>_. returnG (seeRequestID row seen))) seen0)) [])
         (\<lambda>seen. bindG (findCollection AccessC) (\<lambda>_. deleteAccessOf V seen))))) ?Q ?E \<omega> (w\<lparr>tick := Suc (tick w)\<rparr>)"
      unfolding wp_bindG [of "findCollection RefreshC"] wp_bindG [of "querySessions x y z" for x y z]
      using cases [of "Suc (Suc (Suc (tick w)))", unfolded wp_if] E
      by (cases "seeds = []") (simp_all add: wp_findCollection wp_querySessions Let_def seeds_def [symmetric])
  qed
qed

text \<open>\<open>invalidateLegacyRefreshRow\<close>: one row, and the access rows of its request.\<close>

definition legacyDone :: "(string \<Rightarrow> bool) \<Rightarrow> session_row \<Rightarrow> int \<Rightarrow> 'w world_scheme \<Rightarrow> 'w world_scheme" where
  "legacyDone V r now w = dropRows AccessC (\<lambda>a. sr_request_id a = sr_request_id r \<and> V (sr_provider_prefix a))
     (markRows (\<lambda>x. x = r) (stampStatus RefreshStatusReused now) w)"

lemma wp_deleteAccessRows:
  assumes "idsOk w" "\<And>u. E driverErr u"
    and "\<And>n. Q () (dropRows AccessC (\<lambda>a. sr_request_id a = q \<and> V (sr_provider_prefix a)) (w\<lparr>tick := n\<rparr>))"
  shows "wp (bindG (findCollection AccessC) (\<lambda>_.
      bindG (querySessions True AccessC (\<lambda>_ a. sr_request_id a = q \<and> V (sr_provider_prefix a))) (\<lambda>rows.
      forG rows (deleteSession AccessC)))) Q E \<omega> w"
proof -
  let ?P = "\<lambda>a. sr_request_id a = q \<and> V (sr_provider_prefix a)"
  have "wp (forG (filter ?P (w_sessions w AccessC)) (deleteSession AccessC)) Q E \<omega> (w\<lparr>tick := n\<rparr>)" for n
  proof (rule wp_forG_deleteSession)
    fix k
    have "delIds AccessC (sr_id ` set (filter ?P (w_sessions w AccessC))) (w\<lparr>tick := k\<rparr>) = dropRows AccessC ?P (w\<lparr>tick := k\<rparr>)"
      using delIds_dropRows [of "w\<lparr>tick := k\<rparr>" AccessC ?P] assms(1) by simp
    then show "Q () (delIds AccessC (sr_id ` set (filter ?P (w_sessions w AccessC))) ((w\<lparr>tick := n\<rparr>)\<lparr>tick := k\<rparr>))"
      using assms(3) [of k] by simp
  qed (rule assms(2))
  then show ?thesis using assms(2) by (simp add: wp_bindG wp_findCollection wp_querySessions Let_def)
qed

lemma wp_invalidateLegacyRefreshRow:
  assumes wf: "idsOk w" and E: "\<And>n e. e = plainErr ErrNoRows \<or> opaque e \<Longrightarrow> E e (w\<lparr>tick := n\<rparr>)"
    and Q: "\<And>n now r. r \<in> set (w_sessions w RefreshC) \<Longrightarrow> sr_id r = sr_id row \<Longrightarrow>
        visibleTo w p (sr_provider_prefix r) \<Longrightarrow> Q () (legacyDone (visibleTo w p) r now (w\<lparr>tick := n\<rparr>))"
  shows "wp (invalidateLegacyRefreshRow p row) Q E \<omega> w"
proof -
  define V where "V = visibleTo w p"
  let ?Q = "\<lambda>a v. \<forall>n. Q a (v\<lparr>tick := n\<rparr>)"
  let ?E = "\<lambda>e v. \<forall>n. E e (w\<lparr>tick := n\<rparr>)"
  define K :: "session_row \<Rightarrow> ('b, 'a, unit) dbgo" where "K = (\<lambda>current. bindG (updateSession RefreshC current) (\<lambda>_. bindG (findCollection AccessC) (\<lambda>_.
      bindG (querySessions True AccessC (\<lambda>_ a. sr_request_id a = sr_request_id current \<and> V (sr_provider_prefix a))) (\<lambda>rows.
      forG rows (deleteSession AccessC)))))"
  have upd: "wp (K current) ?Q ?E \<omega> (w\<lparr>tick := n\<rparr>)"
    if r: "r \<in> set (w_sessions w RefreshC)" "sr_id r = sr_id row" "V (sr_provider_prefix r)"
      and c: "current = stampStatus RefreshStatusReused now r" for r current now n
  proof -
    have "wp (bindG (findCollection AccessC) (\<lambda>_.
        bindG (querySessions True AccessC (\<lambda>_ a. sr_request_id a = sr_request_id current \<and> V (sr_provider_prefix a))) (\<lambda>rows.
        forG rows (deleteSession AccessC)))) ?Q ?E \<omega> (markRows (\<lambda>x. x = r) (stampStatus RefreshStatusReused now) (w\<lparr>tick := k\<rparr>))" for k
      by (rule wp_deleteAccessRows)
        (use E wf r Q [folded V_def] in \<open>simp_all add: idsOk_markRows legacyDone_def c keepsKeysD\<close>)
    moreover have "w\<lparr>tick := k, w_sessions := (w_sessions w)(RefreshC :=
        map (\<lambda>x. if sr_id x = sr_id current then current else x) (w_sessions w RefreshC))\<rparr>
      = markRows (\<lambda>x. x = r) (stampStatus RefreshStatusReused now) (w\<lparr>tick := k\<rparr>)" for k
      unfolding c
      using updateSession_markRows [where row = r and g = "stampStatus RefreshStatusReused now" and w = "w\<lparr>tick := k\<rparr>"]
        r(1) wf by simp
    ultimately show ?thesis using E by (simp add: K_def wp_bindG wp_updateSession Let_def)
  qed
  have body: "wp (case filter (\<lambda>r. sr_id r = sr_id row \<and> V (sr_provider_prefix r)) (w_sessions w RefreshC) of
       [] \<Rightarrow> throwG (plainErr ErrNoRows)
     | current0 # _ \<Rightarrow>
         bindG (if sr_reused_at (current0\<lparr>sr_status := RefreshStatusReused\<rparr>) = 0
                then bindG timeNow (\<lambda>now. returnG (current0\<lparr>sr_status := RefreshStatusReused, sr_reused_at := now\<rparr>))
                else returnG (current0\<lparr>sr_status := RefreshStatusReused\<rparr>)) K) ?Q ?E \<omega> (w\<lparr>tick := n\<rparr>)" for n
  proof (cases "filter (\<lambda>r. sr_id r = sr_id row \<and> V (sr_provider_prefix r)) (w_sessions w RefreshC)")
    case Nil
    then show ?thesis using E by (simp add: wp_throwG)
  next
    case (Cons r rs)
    then have "r \<in> set (filter (\<lambda>r. sr_id r = sr_id row \<and> V (sr_provider_prefix r)) (w_sessions w RefreshC))" by simp
    then have r: "r \<in> set (w_sessions w RefreshC)" "sr_id r = sr_id row" "V (sr_provider_prefix r)" by auto
    show ?thesis using upd [OF r refl]
      by (cases "sr_reused_at r = 0") (simp_all add: Cons wp_bindG wp_timeNow wp_returnG stampStatus_def Let_def)
  qed
  show ?thesis
    unfolding invalidateLegacyRefreshRow_def wp_bindG wp_readG Let_def V_def [symmetric] K_def [symmetric]
  proof (rule wp_transactionI)
    show "E driverErr (w\<lparr>tick := n\<rparr>)" for n by (simp add: E)
    show "wp (bindG (findCollection RefreshC) (\<lambda>_.
       bindG (querySessions True RefreshC (\<lambda>_ r. sr_id r = sr_id row \<and> V (sr_provider_prefix r))) (\<lambda>found. case found of
       [] \<Rightarrow> throwG (plainErr ErrNoRows)
     | current0 # _ \<Rightarrow>
         bindG (if sr_reused_at (current0\<lparr>sr_status := RefreshStatusReused\<rparr>) = 0
                then bindG timeNow (\<lambda>now. returnG (current0\<lparr>sr_status := RefreshStatusReused, sr_reused_at := now\<rparr>))
                else returnG (current0\<lparr>sr_status := RefreshStatusReused\<rparr>)) K))) ?Q ?E \<omega> (w\<lparr>tick := Suc (tick w)\<rparr>)"
      unfolding wp_bindG [of "findCollection RefreshC"] wp_bindG [of "querySessions x y z" for x y z]
      using body E by (simp add: wp_findCollection wp_querySessions Let_def)
  qed
qed

end
