(* ===== verification/Lineage.thy ===== *)
theory Lineage
  imports Family
begin

section \<open>The lineage decision of a new refresh row\<close>

text \<open>
  \<open>resolveRefreshLineage\<close> lets a refresh row be created as a root only when the request has no row at
  all, and as a child only when every row of the request is rotated and of one family; the parent is then
  the most recently rotated row. The scan is characterised by what it has seen, whatever the order.
\<close>

lemma scanLineage_flags:
  "li_terminal (scanLineage rows l) \<longleftrightarrow> li_terminal l
     \<or> (\<exists>r \<in> set rows. GetStatus r = RefreshStatusReused \<or> GetStatus r = RefreshStatusRevoked)"
  "li_active (scanLineage rows l) \<longleftrightarrow> li_active l \<or> (\<exists>r \<in> set rows. GetStatus r = RefreshStatusActive)"
  by (induction rows l rule: scanLineage.induct)
    (auto simp: lineageStatus_def lineageFamily_def status_defs)

lemma scanLineage_corrupt_stays: "li_corrupt l \<noteq> None \<Longrightarrow> li_corrupt (scanLineage rows l) \<noteq> None"
  by (induction rows l rule: scanLineage.induct) (auto simp: lineageStatus_def lineageFamily_def)

text \<open>Without corruption every row names the family and has one of the four statuses.\<close>

lemma scanLineage_clean:
  assumes "li_corrupt (scanLineage rows l) = None"
  shows "(\<forall>r \<in> set rows. sr_family_id r = li_family (scanLineage rows l) \<and> sr_family_id r \<noteq> []
      \<and> GetStatus r \<in> {RefreshStatusActive, RefreshStatusRotated, RefreshStatusReused, RefreshStatusRevoked})
    \<and> (li_family l \<noteq> [] \<longrightarrow> li_family (scanLineage rows l) = li_family l)"
  using assms
proof (induction rows l rule: scanLineage.induct)
  case (1 l)
  then show ?case by simp
next
  case (2 row rows l)
  let ?l' = "lineageStatus row (lineageFamily row l)"
  have "li_corrupt ?l' = None" using scanLineage_corrupt_stays [of ?l' rows] 2(2) by (cases "li_corrupt ?l'") auto
  then have row: "sr_family_id row \<noteq> []" "li_family l = [] \<or> li_family l = sr_family_id row"
      "li_family ?l' = sr_family_id row"
      "GetStatus row \<in> {RefreshStatusActive, RefreshStatusRotated, RefreshStatusReused, RefreshStatusRevoked}"
    by (auto simp: lineageStatus_def lineageFamily_def split: if_splits)
  with 2 show ?case by auto
qed

lemma scanLineage_parent:
  "li_parent (scanLineage rows l) = (case li_parent l of Some m \<Rightarrow> Some m
     | None \<Rightarrow> List.find (\<lambda>r. GetStatus r = RefreshStatusRotated) rows)"
  by (induction rows l rule: scanLineage.induct)
    (auto simp: lineageStatus_def lineageFamily_def status_defs split: option.splits)

lemma lineageDecision_Inr:
  assumes "lineageDecision (scanLineage rows noLineage) = Inr (f, pid)"
  shows "(\<forall>r \<in> set rows. GetStatus r = RefreshStatusRotated \<and> sr_family_id r = f \<and> f \<noteq> [])
    \<and> rows \<noteq> [] \<and> pid = sr_id (hd rows)"
proof -
  let ?l = "scanLineage rows noLineage"
  obtain m where d: "\<not> li_terminal ?l" "li_corrupt ?l = None" "\<not> li_active ?l" "li_parent ?l = Some m"
    "f = li_family ?l" "pid = sr_id m"
    using assms by (auto simp: lineageDecision_def split: if_splits option.splits)
  have all: "GetStatus r = RefreshStatusRotated \<and> sr_family_id r = f \<and> f \<noteq> []" if "r \<in> set rows" for r
    using scanLineage_clean [OF d(2)] d(1,3,5) that by (auto simp: scanLineage_flags)
  moreover have "List.find (\<lambda>r. GetStatus r = RefreshStatusRotated) rows = Some m"
    using d(4) scanLineage_parent [of rows noLineage] by (simp add: noLineage_def)
  then have "rows \<noteq> []" and "m = hd rows" using all by (cases rows; auto)+
  ultimately show ?thesis using d(6) by blast
qed

lemma set_latestRotationFirst [simp]: "set (latestRotationFirst rows) = set rows"
  by (simp add: latestRotationFirst_def)

lemma latestRotationFirst_Nil [simp]: "latestRotationFirst rows = [] \<longleftrightarrow> rows = []"
  by (metis set_empty set_latestRotationFirst)

lemma hd_latestRotationFirst:
  assumes "r \<in> set rows"
  shows "(sr_rotated_at r, sr_id r) \<le> (sr_rotated_at (hd (latestRotationFirst rows)), sr_id (hd (latestRotationFirst rows)))"
proof -
  let ?k = "\<lambda>r. (sr_rotated_at r, sr_id r)"
  let ?s = "sort_key ?k rows"
  have r: "r \<in> set ?s" using assms by simp
  then have ne: "?s \<noteq> []" by (cases ?s) auto
  obtain i where i: "i < length ?s" "?s ! i = r" using r unfolding in_set_conv_nth by blast
  have "map ?k ?s ! i \<le> map ?k ?s ! (length ?s - 1)"
    by (rule sorted_nth_mono) (use i in auto)
  moreover have "length ?s - 1 < length ?s" using ne by (cases ?s) auto
  ultimately have "?k r \<le> ?k (last ?s)"
    using i by (simp add: last_conv_nth [OF ne] del: length_sort)
  then show ?thesis using ne by (simp add: latestRotationFirst_def hd_rev)
qed

text \<open>What the creation of a refresh row may rely on.\<close>

definition lineageOk :: "'w world_scheme \<Rightarrow> string \<Rightarrow> string \<Rightarrow> string \<Rightarrow> string \<Rightarrow> bool" where
  "lineageOk w p q f pid \<longleftrightarrow> q \<noteq> [] \<and> \<not> terminal w p q
     \<and> (let rows = requestRows w RefreshC p q in
        if rows = [] then pid = []
        else pid = sr_id (hd (latestRotationFirst rows))
          \<and> (\<forall>r \<in> set rows. GetStatus r = RefreshStatusRotated \<and> sr_family_id r = f \<and> f \<noteq> []))"

lemma lineageOk_tick [simp]: "lineageOk (w\<lparr>tick := n\<rparr>) p q f pid = lineageOk w p q f pid"
  by (simp add: lineageOk_def)

lemma wp_resolveRefreshLineage:
  assumes cp: "canonicalPrefix (st_prefix s)"
    and Q: "\<And>n f pid. lineageOk w (st_prefix s) (rq_ID rq) f pid \<Longrightarrow> Q (f, pid) (w\<lparr>tick := n\<rparr>)"
    and E: "\<And>n e. e = plainErr ErrInactiveToken \<or> \<not> errorsIs e ErrInactiveToken \<Longrightarrow> E e (w\<lparr>tick := n\<rparr>)"
  shows "wp (resolveRefreshLineage s rq) Q E \<omega> w"
proof (cases "rq_ID rq = []")
  case True
  then show ?thesis using E [of _ "tick w"] by (simp add: resolveRefreshLineage_def wp_simps)
next
  case False
  define rows where "rows = requestRows w RefreshC (st_prefix s) (rq_ID rq)"
  have dec: "e = plainErr ErrInactiveToken \<or> \<not> errorsIs e ErrInactiveToken"
    if "lineageDecision (scanLineage rs noLineage) = Inl e" for e rs
  proof -
    have "opaque e" if "li_corrupt (scanLineage rs l) = Some e" "\<forall>e. li_corrupt l = Some e \<longrightarrow> opaque e" for l
      using that by (induction rs l rule: scanLineage.induct)
        (auto simp: lineageStatus_def lineageFamily_def split: if_splits)
    from this [of noLineage] show ?thesis
      using that by (auto simp: lineageDecision_def noLineage_def dest: opaqueD split: if_splits option.splits)
  qed
  have child: "lineageOk w (st_prefix s) (rq_ID rq) f pid"
    if "\<not> terminal w (st_prefix s) (rq_ID rq)" "rows \<noteq> []"
      "lineageDecision (scanLineage (latestRotationFirst rows) noLineage) = Inr (f, pid)" for f pid
    using lineageDecision_Inr [OF that(3)] that(1,2) False by (simp add: lineageOk_def rows_def Let_def)
  have root: "lineageOk w (st_prefix s) (rq_ID rq) u []"
    if "\<not> terminal w (st_prefix s) (rq_ID rq)" "rows = []" for u
    using that False by (simp add: lineageOk_def rows_def Let_def)
  show ?thesis
  proof (cases "lineageDecision (scanLineage (latestRotationFirst rows) noLineage)")
    case (Inl e)
    then show ?thesis unfolding resolveRefreshLineage_def
      using E Q root dec [OF Inl] False
      by (simp add: wp_simps Let_def cp requestRows_def [symmetric] rows_def [symmetric])
  next
    case (Inr r)
    obtain f pid where r: "r = (f, pid)" by (cases r)
    show ?thesis unfolding resolveRefreshLineage_def
      using Inr E Q root child [of f pid] False r
      by (simp add: wp_simps Let_def cp requestRows_def [symmetric] rows_def [symmetric])
  qed
qed

end
