(* ===== verification/Provider_Frame.thy ===== *)
theory Provider_Frame
  imports Lineage
begin

section \<open>The interface between the storage methods and the tables\<close>

text \<open>
  Every storage method of one provider changes the tables by a few kinds of atomic steps: it adds a row
  of its own prefix, deletes rows it sees, retires refresh rows it sees, adds or extends a tombstone of
  its own prefix, adds a JTI of its own prefix. The locale states these steps as the obligations of a
  relation between worlds, with everything the code has checked before the step as their premises; under
  them each storage method keeps the relation. The properties of the system interpret the locale with the
  relation they are about.
\<close>

definition addRow :: "collection \<Rightarrow> session_row \<Rightarrow> 'w world_scheme \<Rightarrow> 'w world_scheme" where
  "addRow c r w = w\<lparr>w_sessions := (w_sessions w)(c := w_sessions w c @ [r])\<rparr>"

definition freshRow :: "'w world_scheme \<Rightarrow> collection \<Rightarrow> session_row \<Rightarrow> bool" where
  "freshRow w c r \<longleftrightarrow> (\<forall>x \<in> set (w_sessions w c). sr_id x \<noteq> sr_id r
     \<and> (sr_provider_prefix x = sr_provider_prefix r \<longrightarrow> sr_signature x \<noteq> sr_signature r))"

text \<open>A step of the refresh state machine on a row: active to rotated, anything to reused or revoked.\<close>

definition retires :: "(session_row \<Rightarrow> bool) \<Rightarrow> (session_row \<Rightarrow> session_row) \<Rightarrow> bool" where
  "retires P g \<longleftrightarrow> keepsKeys g \<and> (\<forall>r. sr_signature (g r) = sr_signature r
       \<and> sr_session_data (g r) = sr_session_data r \<and> sr_expires_at (g r) = sr_expires_at r)
     \<and> (\<forall>r. P r \<longrightarrow> sr_status (g r) \<in> {RefreshStatusReused, RefreshStatusRevoked}
          \<or> (sr_status (g r) = RefreshStatusRotated \<and> sr_status r = RefreshStatusActive))"

definition terminalStatus :: "session_row \<Rightarrow> bool" where
  "terminalStatus r \<longleftrightarrow> GetStatus r = RefreshStatusReused \<or> GetStatus r = RefreshStatusRevoked"

text \<open>The relation under the invariant that record ids are distinct, which every step preserves.\<close>

definition guarded :: "('w world_scheme \<Rightarrow> 'w world_scheme \<Rightarrow> bool) \<Rightarrow> 'w world_scheme \<Rightarrow> 'w world_scheme \<Rightarrow> bool" where
  "guarded R w w' \<longleftrightarrow> (idsOk w \<longrightarrow> idsOk w' \<and> w_registered w' = w_registered w \<and> R w w')"

lemma freshRow_tick [simp]: "freshRow (w\<lparr>tick := n\<rparr>) c r = freshRow w c r"
  by (simp add: freshRow_def)

lemma addRow_simps [simp]:
  "w_sessions (addRow c r w) d = (if d = c then w_sessions w c @ [r] else w_sessions w d)"
  "w_tombstones (addRow c r w) = w_tombstones w" "w_jtis (addRow c r w) = w_jtis w"
  "w_clients (addRow c r w) = w_clients w" "w_registered (addRow c r w) = w_registered w"
  "tick (addRow c r w) = tick w" "(addRow c r w)\<lparr>tick := n\<rparr> = addRow c r (w\<lparr>tick := n\<rparr>)"
  by (simp_all add: addRow_def)

lemma terminal_addRow [simp]: "terminal (addRow c r w) p q = terminal w p q"
  by (simp add: terminal_def)

lemma idsOk_addRow: "idsOk w \<Longrightarrow> freshRow w c r \<Longrightarrow> idsOk (addRow c r w)"
  by (auto simp: idsOk_def tbWf_def freshRow_def)

lemma retires_status:
  "retires P g \<Longrightarrow> P r \<Longrightarrow> GetStatus (g r) \<noteq> RefreshStatusActive"
  by (fastforce simp: retires_def GetStatus_def status_defs)

lemma retires_stamp: "retires P (stampStatus RefreshStatusReused now)"
  by (simp add: retires_def stampStatus_def Let_def)

lemma retires_revoke: "retires P (\<lambda>r. r\<lparr>sr_status := RefreshStatusRevoked\<rparr>)"
  by (simp add: retires_def)

lemma retires_rotate:
  "(\<And>r. P r \<Longrightarrow> sr_status r = RefreshStatusActive) \<Longrightarrow>
     retires P (\<lambda>r. r\<lparr>sr_status := RefreshStatusRotated, sr_rotated_at := t\<rparr>)"
  by (simp add: retires_def keepsKeys_def)

subsection \<open>Statements that create rows\<close>

lemma wp_SetRequester:
  assumes "\<And>m'. sr_provider_prefix m' = sr_provider_prefix m \<Longrightarrow> sr_signature m' = sr_signature m \<Longrightarrow>
      sr_request_id m' = rq_ID rq \<Longrightarrow> sr_client_id m' = cl_ID (rq_Client rq) \<Longrightarrow> Q m' w"
    and "\<And>e. opaque e \<Longrightarrow> E e w"
  shows "wp (SetRequester rq t m) Q E \<omega> w"
  unfolding SetRequester_def Let_def using assms
  by (simp add: wp_bindG wp_askG wp_throwG wp_returnG split: option.splits)

lemma wp_saveNew:
  assumes "\<And>n i. freshRow w c (m\<lparr>sr_id := i\<rparr>) \<Longrightarrow> Q () (addRow c (m\<lparr>sr_id := i\<rparr>) (w\<lparr>tick := n\<rparr>))"
    and "\<And>n e. opaque e \<Longrightarrow> E e (w\<lparr>tick := n\<rparr>)"
  shows "wp (saveNew c v m) Q E \<omega> w"
  using assms unfolding saveNew_def insertSession_def
  by (auto simp: wp_simps freshRow_def addRow_def)

subsection \<open>The locale\<close>

locale provider_frame =
  fixes p :: string and R :: "'w world_scheme \<Rightarrow> 'w world_scheme \<Rightarrow> bool"
  assumes canonical: "canonicalPrefix p"
    and pre: "preorderR R" and ticks: "tickfree R"
    and add_access: "\<lbrakk>idsOk w; freshRow w AccessC r; sr_provider_prefix r = p;
        sr_request_id r \<noteq> [] \<longrightarrow> \<not> terminal w p (sr_request_id r)\<rbrakk> \<Longrightarrow> R w (addRow AccessC r w)"
    and add_refresh: "\<lbrakk>idsOk w; freshRow w RefreshC r; sr_provider_prefix r = p; sr_status r = RefreshStatusActive;
        lineageOk w p (sr_request_id r) (sr_family_id r) (sr_parent_refresh_id r)\<rbrakk> \<Longrightarrow> R w (addRow RefreshC r w)"
    and add_other: "\<lbrakk>idsOk w; freshRow w c r; sr_provider_prefix r = p; c \<noteq> AccessC; c \<noteq> RefreshC\<rbrakk>
        \<Longrightarrow> R w (addRow c r w)"
    and drop: "\<lbrakk>idsOk w; \<And>r. r \<in> set (w_sessions w c) \<Longrightarrow> P r \<Longrightarrow>
          providerPrefixExp w p (sr_provider_prefix r) \<and> (c = RefreshC \<longrightarrow> \<not> terminalStatus r)\<rbrakk> \<Longrightarrow> R w (dropRows c P w)"
    and retire: "\<lbrakk>idsOk w; retires P g; \<And>r. r \<in> set (w_sessions w RefreshC) \<Longrightarrow> P r \<Longrightarrow>
          providerPrefixExp w p (sr_provider_prefix r)\<rbrakk> \<Longrightarrow> R w (markRows P g w)"
    and entomb: "\<lbrakk>idsOk w; tb_provider_prefix t = p; tb_request_id t \<noteq> []; \<not> terminal w p (tb_request_id t)\<rbrakk>
        \<Longrightarrow> R w (w\<lparr>w_tombstones := w_tombstones w @ [t]\<rparr>)"
    and extend: "\<lbrakk>idsOk w; t \<in> set (w_tombstones w); tb_provider_prefix t = p; tb_id t' = tb_id t;
        tb_provider_prefix t' = p; tb_request_id t' = tb_request_id t; tb_expires_at t \<le> tb_expires_at t';
        tb_family_id t \<noteq> [] \<longrightarrow> tb_family_id t' = tb_family_id t\<rbrakk>
        \<Longrightarrow> R w (w\<lparr>w_tombstones := map (\<lambda>x. if tb_id x = tb_id t then t' else x) (w_tombstones w)\<rparr>)"
    and spend: "\<lbrakk>idsOk w; jt_provider_prefix j = p\<rbrakk> \<Longrightarrow> R w (w\<lparr>w_jtis := w_jtis w @ [j]\<rparr>)"
begin

lemma g_pre: "preorderR (guarded R)"
  using pre unfolding preorderR_def guarded_def by metis

lemma g_tick: "tickfree (guarded R)"
  using ticks unfolding tickfree_def guarded_def by simp

lemmas g_intros = keeps_intros g_pre g_tick

lemma R_tick: "R (w\<lparr>tick := n\<rparr>) w' \<Longrightarrow> R w w'" "R w w' \<Longrightarrow> R w (w'\<lparr>tick := n\<rparr>)"
proof -
  have "R w (w\<lparr>tick := n\<rparr>)" for w n using ticks by (simp add: tickfree_def)
  then show "R (w\<lparr>tick := n\<rparr>) w' \<Longrightarrow> R w w'" "R w w' \<Longrightarrow> R w (w'\<lparr>tick := n\<rparr>)"
    using preorderR_trans [OF pre] by blast+
qed

lemma g_tickI: "guarded R w (w\<lparr>tick := n\<rparr>)"
  using g_tick by (simp add: tickfree_def)

lemma g_step: "guarded R (w\<lparr>tick := n\<rparr>) w' \<Longrightarrow> guarded R w w'"
  unfolding guarded_def using R_tick(1) by auto

lemma g_stepI: "(idsOk w \<Longrightarrow> idsOk w' \<and> w_registered w' = w_registered w \<and> R w w') \<Longrightarrow> guarded R w w'"
  by (simp add: guarded_def)

text \<open>The steps, under the guard and whatever the tick is.\<close>

lemma g_add_access:
  assumes "freshRow w AccessC r" "sr_provider_prefix r = p" "sr_request_id r \<noteq> [] \<longrightarrow> \<not> terminal w p (sr_request_id r)"
  shows "guarded R w (addRow AccessC r (w\<lparr>tick := n\<rparr>))"
  by (rule g_step [where n = n], rule g_stepI) (use assms in \<open>simp add: idsOk_addRow add_access\<close>)

lemma g_add_refresh:
  assumes "freshRow w RefreshC r" "sr_provider_prefix r = p" "sr_status r = RefreshStatusActive"
    "lineageOk w p (sr_request_id r) (sr_family_id r) (sr_parent_refresh_id r)"
  shows "guarded R w (addRow RefreshC r (w\<lparr>tick := n\<rparr>))"
  by (rule g_step [where n = n], rule g_stepI) (use assms in \<open>simp add: idsOk_addRow add_refresh\<close>)

lemma g_add_other:
  assumes "freshRow w c r" "sr_provider_prefix r = p" "c \<noteq> AccessC" "c \<noteq> RefreshC"
  shows "guarded R w (addRow c r (w\<lparr>tick := n\<rparr>))"
  by (rule g_step [where n = n], rule g_stepI) (use assms in \<open>simp add: idsOk_addRow add_other\<close>)

lemma g_drop:
  assumes "\<And>r. idsOk w \<Longrightarrow> r \<in> set (w_sessions w c) \<Longrightarrow> P r \<Longrightarrow>
      providerPrefixExp w p (sr_provider_prefix r) \<and> (c = RefreshC \<longrightarrow> \<not> terminalStatus r)"
  shows "guarded R w (dropRows c P (w\<lparr>tick := n\<rparr>))"
proof (rule g_step [where n = n], rule g_stepI)
  assume "idsOk (w\<lparr>tick := n\<rparr>)"
  moreover from this have "R (w\<lparr>tick := n\<rparr>) (dropRows c P (w\<lparr>tick := n\<rparr>))"
    by (rule drop) (use assms \<open>idsOk (w\<lparr>tick := n\<rparr>)\<close> in auto)
  ultimately show "idsOk (dropRows c P (w\<lparr>tick := n\<rparr>)) \<and> w_registered (dropRows c P (w\<lparr>tick := n\<rparr>))
      = w_registered (w\<lparr>tick := n\<rparr>) \<and> R (w\<lparr>tick := n\<rparr>) (dropRows c P (w\<lparr>tick := n\<rparr>))"
    by (simp add: idsOk_dropRows)
qed

lemma g_retire:
  assumes "retires P g" "\<And>r. idsOk w \<Longrightarrow> r \<in> set (w_sessions w RefreshC) \<Longrightarrow> P r \<Longrightarrow>
      providerPrefixExp w p (sr_provider_prefix r)"
  shows "guarded R w (markRows P g (w\<lparr>tick := n\<rparr>))"
proof (rule g_step [where n = n], rule g_stepI)
  assume "idsOk (w\<lparr>tick := n\<rparr>)"
  moreover from this assms(1) have "R (w\<lparr>tick := n\<rparr>) (markRows P g (w\<lparr>tick := n\<rparr>))"
    by (rule retire) (use assms \<open>idsOk (w\<lparr>tick := n\<rparr>)\<close> in simp)
  moreover have "sr_id (g r) = sr_id r" for r using assms(1) by (simp add: retires_def keepsKeysD)
  ultimately show "idsOk (markRows P g (w\<lparr>tick := n\<rparr>)) \<and> w_registered (markRows P g (w\<lparr>tick := n\<rparr>))
      = w_registered (w\<lparr>tick := n\<rparr>) \<and> R (w\<lparr>tick := n\<rparr>) (markRows P g (w\<lparr>tick := n\<rparr>))"
    by (simp add: idsOk_markRows)
qed

text \<open>Deletions by id are deletions of the rows the code has read.\<close>

lemma g_delIds:
  assumes "\<And>r. idsOk w \<Longrightarrow> r \<in> set (w_sessions w c) \<Longrightarrow> sr_id r \<in> I \<Longrightarrow>
      providerPrefixExp w p (sr_provider_prefix r) \<and> (c = RefreshC \<longrightarrow> \<not> terminalStatus r)"
  shows "guarded R w (delIds c I (w\<lparr>tick := n\<rparr>))"
proof -
  have "delIds c I (w\<lparr>tick := n\<rparr>) = dropRows c (\<lambda>r. sr_id r \<in> I) (w\<lparr>tick := n\<rparr>)"
    by (simp add: delIds_def dropRows_def)
  then show ?thesis using g_drop [of w c "\<lambda>r. sr_id r \<in> I", OF assms] by simp
qed

lemma keeps_deleteBySignature [keeps_intros]:
  assumes "c \<noteq> RefreshC" shows "keeps (guarded R) (deleteSessionModelBySignature c p s)"
proof (rule keepsI_wp)
  fix \<omega> :: "'c envir_scheme" and w :: "'w world_scheme"
  have "guarded R w (delIds c {sr_id m} (w\<lparr>tick := n\<rparr>))" if "lookupSig w c p s = Some m" for m n
  proof (rule g_delIds)
    fix r assume "idsOk w" "r \<in> set (w_sessions w c)" "sr_id r \<in> {sr_id m}"
    then have "r = m" using lookupSig_Some [OF that] same_id [of w r c m] by simp
    then show "providerPrefixExp w p (sr_provider_prefix r) \<and> (c = RefreshC \<longrightarrow> \<not> terminalStatus r)"
      using lookupSig_Some [OF that] assms by simp
  qed
  then show "wp (deleteSessionModelBySignature c p s) (\<lambda>_. guarded R w) (\<lambda>_. guarded R w) \<omega> w"
    by (auto simp: wp_deleteSessionModelBySignature wp_deleteSession_delIds Let_def g_tickI
        simp del: delIds_simps split: option.splits)
qed

lemma keeps_deleteByRequestID [keeps_intros]:
  assumes "c \<noteq> RefreshC" shows "keeps (guarded R) (deleteSessionModelsByRequestID c p q)"
proof (rule keepsI_wp)
  fix \<omega> :: "'c envir_scheme" and w :: "'w world_scheme"
  have "guarded R w (delIds c I (w\<lparr>tick := n\<rparr>))" if "I \<subseteq> sr_id ` set (requestRows w c p q)" for I n
  proof (rule g_delIds)
    fix r assume "idsOk w" "r \<in> set (w_sessions w c)" "sr_id r \<in> I"
    moreover from this that obtain x where "x \<in> set (requestRows w c p q)" "sr_id r = sr_id x" by blast
    ultimately have "r \<in> set (requestRows w c p q)" using same_id [of w r c x] by (simp add: in_requestRows)
    then show "providerPrefixExp w p (sr_provider_prefix r) \<and> (c = RefreshC \<longrightarrow> \<not> terminalStatus r)"
      using assms by (simp add: in_requestRows)
  qed
  then show "wp (deleteSessionModelsByRequestID c p q) (\<lambda>_. guarded R w) (\<lambda>_. guarded R w) \<omega> w"
    by (intro wp_deleteSessionModelsByRequestID) auto
qed

end

end
