(* ===== verification/Provider_Steps.thy ===== *)
theory Provider_Steps
  imports Provider_Frame
begin

section \<open>Every storage method of a provider keeps an admissible relation\<close>

text \<open>
  One lemma per storage method, in the locale: the method takes only the steps that the locale lists,
  after the checks that the locale states as premises.
\<close>

lemma wp_newSessionModel: "wp (newSessionModel c) Q E \<omega> w =
    Q (\<not> dbfail \<omega> (tick w), emptySessionRow) (w\<lparr>tick := Suc (tick w)\<rparr>)"
  by (simp add: newSessionModel_def wp_simps)

context provider_frame
begin

lemma keeps_guardedI:
  "(\<And>\<omega> w. idsOk w \<Longrightarrow> wp m (\<lambda>_. guarded R w) (\<lambda>_. guarded R w) \<omega> w) \<Longrightarrow> keeps (guarded R) m"
proof (rule keepsI_wp)
  fix \<omega> w
  assume a: "\<And>\<omega> w. idsOk w \<Longrightarrow> wp m (\<lambda>_. guarded R w) (\<lambda>_. guarded R w) \<omega> w"
  show "wp m (\<lambda>_. guarded R w) (\<lambda>_. guarded R w) \<omega> w"
    by (cases "idsOk w") (auto intro: a wp_trivial simp: guarded_def)
qed

lemma keeps_createSession [keeps_intros]:
  assumes "st_prefix s = p" "c \<noteq> AccessC" "c \<noteq> RefreshC"
  shows "keeps (guarded R) (createSession c t s sig rq)"
proof (rule keepsI_wp)
  fix \<omega> :: "'c store_envir_scheme" and w :: "'w world_scheme"
  show "wp (createSession c t s sig rq) (\<lambda>_. guarded R w) (\<lambda>_. guarded R w) \<omega> w"
    unfolding createSession_def wp_bindG wp_newSessionModel Let_def prod.case
    by (rule wp_SetRequester, rule wp_saveNew)
      (use assms in \<open>auto simp: emptySessionRow_def intro: g_add_other g_tickI\<close>)
qed

lemma keeps_CreateAccessTokenSession [keeps_intros]:
  assumes "st_prefix s = p" shows "keeps (guarded R) (CreateAccessTokenSession s sig rq)"
proof (rule keepsI_wp)
  fix \<omega> :: "'c store_envir_scheme" and w :: "'w world_scheme"
  have ins: "wp (bindG (newSessionModel AccessC) (\<lambda>(valid, m0).
      bindG (SetRequester rq AccessToken (m0\<lparr>sr_provider_prefix := p, sr_signature := sig\<rparr>)) (saveNew AccessC valid)))
      (\<lambda>_ v. \<forall>n. guarded R w (v\<lparr>tick := n\<rparr>)) (\<lambda>_ v. \<forall>n. guarded R w (w\<lparr>tick := n\<rparr>)) \<omega> (w\<lparr>tick := n\<rparr>)"
    if "rq_ID rq \<noteq> [] \<longrightarrow> \<not> terminal w p (rq_ID rq)" for n
    unfolding wp_bindG wp_newSessionModel prod.case
    by (rule wp_SetRequester, rule wp_saveNew)
      (use that in \<open>auto simp: emptySessionRow_def intro: g_add_access g_tickI\<close>)
  show "wp (CreateAccessTokenSession s sig rq) (\<lambda>_. guarded R w) (\<lambda>_. guarded R w) \<omega> w"
    unfolding CreateAccessTokenSession_def assms
  proof (rule wp_transactionI)
    show "wp (bindG (mapErrG (\<lambda>e. serverErr e ''failed to read terminal refresh-family authority before access issuance'')
              (hasRefreshTerminalAuthority p (rq_ID rq))) (\<lambda>terminal.
       if terminal then throwG (plainErr ErrInactiveToken)
       else bindG (newSessionModel AccessC) (\<lambda>(valid, m0).
         let m1 = m0\<lparr>sr_provider_prefix := p, sr_signature := sig\<rparr> in
         bindG (SetRequester rq AccessToken m1) (saveNew AccessC valid))))
      (\<lambda>_ v. \<forall>n. guarded R w (v\<lparr>tick := n\<rparr>)) (\<lambda>_ v. \<forall>n. guarded R w (w\<lparr>tick := n\<rparr>)) \<omega> (w\<lparr>tick := Suc (tick w)\<rparr>)"
      unfolding wp_bindG [of "mapErrG g m" for g m] wp_mapErrG
      by (cases "rq_ID rq = []")
        (use ins in \<open>auto simp: Let_def wp_throwG wp_hasRefreshTerminalAuthority canonical
            wp_hasRefreshTerminalAuthority_Nil intro: g_tickI\<close>)
  qed (rule g_tickI)
qed

lemma keeps_CreateRefreshTokenSession [keeps_intros]:
  assumes "st_prefix s = p" shows "keeps (guarded R) (CreateRefreshTokenSession s sig asig rq :: ('c, 'w, unit) stgo)"
proof -
  define K :: "bool \<Rightarrow> session_row \<Rightarrow> goerr + string \<times> string \<Rightarrow> ('c store_envir_scheme, 'w world_scheme, goerr option) go"
    where "K = (\<lambda>valid m lineage. case lineage of
           Inl lineageErr \<Rightarrow>
             bindG (if errorsIs lineageErr ErrInactiveToken
                    then mapErrG (\<lambda>e. serverErr e ''failed to remove access rows after terminal refresh-family state'')
                           (deleteSessionModelsByRequestID AccessC p (rq_ID rq))
                    else if asig \<noteq> []
                    then mapErrG (\<lambda>e. serverErr e ''failed to remove rejected refresh replacement access row'')
                           (deleteSessionModelBySignature AccessC p asig)
                    else returnG ()) (\<lambda>_. returnG (Some lineageErr))
         | Inr (familyID, parentID) \<Rightarrow>
             bindG (saveNew RefreshC valid (m\<lparr>sr_family_id := familyID, sr_parent_refresh_id := parentID,
                 sr_status := RefreshStatusActive, sr_rotated_at := 0, sr_reused_at := 0\<rparr>))
               (\<lambda>_. returnG None))"
  have abort: "keeps (guarded R) (K valid m (Inl e))" for valid m e
    unfolding K_def sum.case by (intro g_intros keeps_deleteByRequestID keeps_deleteBySignature) simp_all
  have "keeps (guarded R) (bindG (newSessionModel RefreshC) (\<lambda>(valid, m0).
      bindG (SetRequester rq RefreshToken (m0\<lparr>sr_provider_prefix := p, sr_signature := sig\<rparr>)) (\<lambda>m.
      bindG (attemptG (resolveRefreshLineage s rq)) (K valid m))))"
  proof (rule keepsI_wp)
    fix \<omega> :: "'c store_envir_scheme" and w :: "'w world_scheme"
    have after: "wp (K valid m (Inl e)) (\<lambda>_. guarded R w) (\<lambda>_. guarded R w) \<omega> (w\<lparr>tick := n\<rparr>)" for valid m e n
      by (rule wp_mono [OF keeps_wp [OF abort]]) (auto intro: g_step)
    show "wp (bindG (newSessionModel RefreshC) (\<lambda>(valid, m0).
      bindG (SetRequester rq RefreshToken (m0\<lparr>sr_provider_prefix := p, sr_signature := sig\<rparr>)) (\<lambda>m.
      bindG (attemptG (resolveRefreshLineage s rq)) (K valid m)))) (\<lambda>_. guarded R w) (\<lambda>_. guarded R w) \<omega> w"
      unfolding wp_bindG wp_newSessionModel prod.case wp_attemptG
    proof (rule wp_SetRequester, rule wp_resolveRefreshLineage)
      show "canonicalPrefix (st_prefix s)" by (simp add: assms canonical)
      fix m :: session_row and n f pid
      assume m: "sr_provider_prefix m = sr_provider_prefix (emptySessionRow\<lparr>sr_provider_prefix := p, sr_signature := sig\<rparr>)"
        "sr_request_id m = rq_ID rq"
        and l: "lineageOk (w\<lparr>tick := Suc (tick w)\<rparr>) (st_prefix s) (rq_ID rq) f pid"
      show "wp (K (\<not> dbfail \<omega> (tick w)) m (Inr (f, pid))) (\<lambda>_. guarded R w) (\<lambda>_. guarded R w) \<omega>
          (w\<lparr>tick := Suc (tick w)\<rparr>\<lparr>tick := n\<rparr>)"
        unfolding K_def sum.case prod.case wp_bindG wp_returnG
        by (rule wp_saveNew) (use m l assms in \<open>auto intro: g_add_refresh g_tickI\<close>)
    next
      show "wp (K (\<not> dbfail \<omega> (tick w)) m (Inl e)) (\<lambda>_. guarded R w) (\<lambda>_. guarded R w) \<omega>
          (w\<lparr>tick := Suc (tick w)\<rparr>\<lparr>tick := n\<rparr>)" for n m e using after by simp
    qed (rule g_tickI)
  qed
  note body = this [unfolded K_def]
  show ?thesis
    unfolding CreateRefreshTokenSession_def Let_def assms
    by (rule keeps_bindG [OF g_pre keeps_transactionG [OF g_pre g_tick body]]) (intro g_intros)
qed

lemma keeps_DeleteRefreshTokenSession [keeps_intros]:
  assumes "st_prefix s = p" shows "keeps (guarded R) (DeleteRefreshTokenSession s sig)"
proof (rule keepsI_wp)
  fix \<omega> :: "'c store_envir_scheme" and w :: "'w world_scheme"
  have "guarded R w (delIds RefreshC {sr_id m} (w\<lparr>tick := n\<rparr>))"
    if "lookupSig w RefreshC p sig = Some m" "\<not> terminalStatus m" for m n
  proof (rule g_delIds)
    fix r assume "idsOk w" "r \<in> set (w_sessions w RefreshC)" "sr_id r \<in> {sr_id m}"
    then have "r = m" using lookupSig_Some [OF that(1)] same_id [of w r RefreshC m] by simp
    then show "providerPrefixExp w p (sr_provider_prefix r) \<and> (RefreshC = RefreshC \<longrightarrow> \<not> terminalStatus r)"
      using lookupSig_Some [OF that(1)] that(2) by simp
  qed
  then show "wp (DeleteRefreshTokenSession s sig) (\<lambda>_. guarded R w) (\<lambda>_. guarded R w) \<omega> w"
    unfolding DeleteRefreshTokenSession_def assms
    by (auto simp: wp_simps wp_deleteSession_delIds Let_def terminalStatus_def intro: g_tickI
        simp del: delIds_simps wp_deleteSession split: option.splits)
qed

subsection \<open>Tombstones\<close>

lemma g_tomb:
  assumes "\<And>n. R (w\<lparr>tick := n\<rparr>) (w\<lparr>tick := n, w_tombstones := ts\<rparr>)" "distinct (map tb_id ts)"
  shows "guarded R w (w\<lparr>tick := n, w_tombstones := ts\<rparr>)"
  by (rule g_step [where n = n], rule g_stepI) (use assms in \<open>simp add: idsOk_def tbWf_def\<close>)

lemma keeps_upsertTombstone [keeps_intros]:
  assumes q: "q \<noteq> []" shows "keeps (guarded R) (upsertTombstone p q f x)"
proof (rule keeps_guardedI)
  fix \<omega> :: "'c envir_scheme" and w :: "'w world_scheme"
  assume wf: "idsOk w"
  have new: "guarded R w (w\<lparr>tick := n, w_tombstones := w_tombstones w @ [t]\<rparr>)"
    if "tb_provider_prefix t = p" "tb_request_id t = q" "\<not> terminal w p q" "\<forall>y \<in> set (w_tombstones w). tb_id y \<noteq> tb_id t" for t n
  proof (rule g_tomb)
    show "R (w\<lparr>tick := m\<rparr>) (w\<lparr>tick := m, w_tombstones := w_tombstones w @ [t]\<rparr>)" for m
      using entomb [of "w\<lparr>tick := m\<rparr>" t] wf that q by simp
    show "distinct (map tb_id (w_tombstones w @ [t]))"
      using idsOkD(2) [OF wf] that by (auto simp: tbWf_def)
  qed
  have old: "wp (updateTombstone t') (\<lambda>_. guarded R w) (\<lambda>_. guarded R w) \<omega> (w\<lparr>tick := n\<rparr>)"
    if t: "t \<in> set (w_tombstones w) \<and> tb_provider_prefix t = p \<and> tb_request_id t = q" and t': "tb_id t' = tb_id t"
      "tb_provider_prefix t' = p" "tb_request_id t' = q" "tb_expires_at t \<le> tb_expires_at t'"
      "tb_family_id t \<noteq> [] \<longrightarrow> tb_family_id t' = tb_family_id t" for t t' n
  proof -
    have "guarded R w (w\<lparr>tick := k, w_tombstones := map (\<lambda>x. if tb_id x = tb_id t then t' else x) (w_tombstones w)\<rparr>)" for k
    proof (rule g_tomb)
      show "R (w\<lparr>tick := m\<rparr>) (w\<lparr>tick := m, w_tombstones := map (\<lambda>x. if tb_id x = tb_id t then t' else x) (w_tombstones w)\<rparr>)" for m
        using extend [of "w\<lparr>tick := m\<rparr>" t t'] wf t t' by simp
      show "distinct (map tb_id (map (\<lambda>x. if tb_id x = tb_id t then t' else x) (w_tombstones w)))"
        using idsOkD(2) [OF wf] unfolding t'(1) [symmetric] map_key_replace by (simp add: tbWf_def)
    qed
    then show ?thesis unfolding updateTombstone_def by (simp add: wp_simps t' g_tickI)
  qed
  show "wp (upsertTombstone p q f x) (\<lambda>_. guarded R w) (\<lambda>_. guarded R w) \<omega> w"
  proof (cases "List.find (\<lambda>t. tb_provider_prefix t = p \<and> tb_request_id t = q) (w_tombstones w)")
    case None
    then have "\<not> terminal w p q" by (simp add: terminal_find)
    with None show ?thesis unfolding upsertTombstone_def insertTombstone_def
      by (auto simp: wp_simps Let_def intro!: new g_tickI)
  next
    case (Some t)
    note t = find_tombstone_Some [OF Some]
    show ?thesis
      unfolding upsertTombstone_def wp_bindG wp_attemptG wp_findTombstone
      by (auto simp: wp_throwG Let_def Some t intro!: old [OF t] g_tickI)
  qed
qed

lemma keeps_commitRefreshTerminalAuthority [keeps_intros]:
  "keeps (guarded R) (commitRefreshTerminalAuthority p q f x)"
proof (cases "q = []")
  case True
  then show ?thesis by (simp add: commitRefreshTerminalAuthority_def keeps_throwG g_pre)
next
  case False
  then show ?thesis
    unfolding commitRefreshTerminalAuthority_def canonicalPrefixD [OF canonical] Let_def if_not_P [OF False]
    by (intro g_intros keeps_upsertTombstone)
qed

subsection \<open>Invalidation, revocation, rotation\<close>

lemma visible_p: "visibleTo w p col \<longleftrightarrow> providerPrefixExp w p col"
  by (rule withLegacy_eq [OF canonical])

lemma visible_tables [simp]:
  "visibleTo (w\<lparr>tick := n\<rparr>) p = visibleTo w p" "providerPrefixExp (markRows P g w) p = providerPrefixExp w p"
  by (simp_all add: fun_eq_iff markRows_def)

lemma g_familyDone:
  assumes "retires (inFamily V F) g" "V = visibleTo w p"
  shows "guarded R w (familyDone V F g (w\<lparr>tick := n\<rparr>))"
proof -
  let ?m = "markRows (inFamily V F) g (w\<lparr>tick := n\<rparr>)"
  have "guarded R w ?m" by (rule g_retire) (use assms in \<open>simp_all add: inFamily_def visible_p\<close>)
  moreover have "guarded R ?m (dropRows AccessC (\<lambda>a. sr_request_id a \<in> familyRequests V F (w\<lparr>tick := n\<rparr>)
      \<and> V (sr_provider_prefix a)) (?m\<lparr>tick := n\<rparr>))"
    by (rule g_drop) (use assms(2) in \<open>simp add: visible_p\<close>)
  ultimately show ?thesis unfolding familyDone_def using preorderR_trans [OF g_pre] by simp
qed

lemma g_legacyDone:
  assumes "V = visibleTo w p" "V (sr_provider_prefix r)"
  shows "guarded R w (legacyDone V r now (w\<lparr>tick := n\<rparr>))"
proof -
  let ?m = "markRows (\<lambda>x. x = r) (stampStatus RefreshStatusReused now) (w\<lparr>tick := n\<rparr>)"
  have "guarded R w ?m" by (rule g_retire) (use assms in \<open>simp_all add: retires_stamp visible_p\<close>)
  moreover have "guarded R ?m (dropRows AccessC (\<lambda>a. sr_request_id a = sr_request_id r
      \<and> V (sr_provider_prefix a)) (?m\<lparr>tick := n\<rparr>))"
    by (rule g_drop) (use assms(1) in \<open>simp add: visible_p\<close>)
  ultimately show ?thesis unfolding legacyDone_def using preorderR_trans [OF g_pre] by simp
qed

lemma keeps_invalidateRefreshFamily [keeps_intros]: "keeps (guarded R) (invalidateRefreshFamily p f)"
proof (rule keeps_guardedI)
  fix \<omega> :: "'c envir_scheme" and w :: "'w world_scheme"
  assume wf: "idsOk w"
  show "wp (invalidateRefreshFamily p f) (\<lambda>_. guarded R w) (\<lambda>_. guarded R w) \<omega> w"
  proof (cases "f = []")
    case True
    then show ?thesis by (simp add: invalidateRefreshFamily_def mutateRefreshFamily_def wp_returnG preorderR_refl [OF g_pre])
  next
    case False
    show ?thesis unfolding invalidateRefreshFamily_def
      by (rule wp_mutateRefreshFamily [OF wf False]) (rule g_tickI, rule g_familyDone [OF retires_stamp refl])
  qed
qed

lemma keeps_invalidateLegacyRefreshRow [keeps_intros]: "keeps (guarded R) (invalidateLegacyRefreshRow p row)"
  by (rule keeps_guardedI, rule wp_invalidateLegacyRefreshRow) (auto intro: g_tickI g_legacyDone)

lemma keeps_revokeRefreshFamilyByRequestID [keeps_intros]: "keeps (guarded R) (revokeRefreshFamilyByRequestID p q)"
  by (rule keeps_guardedI, rule wp_revokeRefreshFamilyByRequestID)
    (auto intro: g_tickI g_familyDone retires_revoke canonical)

lemma rotates_visible:
  "rotates p (legacyDefaultAllowed w p) sig r \<Longrightarrow> providerPrefixExp w p (sr_provider_prefix r)"
  using canonical by (auto simp: rotates_def providerPrefixExp_canonical split: if_splits)

lemma wp_execRotate_g:
  "wp (execRotate p (legacyDefaultAllowed w p) sig t) (\<lambda>_. guarded R w) (\<lambda>_. guarded R w) \<omega> (w\<lparr>tick := n\<rparr>)"
proof -
  have "guarded R w (markRows (rotates p (legacyDefaultAllowed w p) sig)
      (\<lambda>r. r\<lparr>sr_status := RefreshStatusRotated, sr_rotated_at := t\<rparr>) (w\<lparr>tick := k\<rparr>))" for k
    by (rule g_retire, rule retires_rotate) (auto simp: rotates_def intro: rotates_visible)
  then show ?thesis unfolding execRotate_def by (simp add: wp_simps g_tickI markRows_def)
qed

lemma keeps_rotationLost [keeps_intros]: "keeps (guarded R) (rotationLost p q sig)"
  unfolding rotationLost_def Let_def
  by (intro g_intros keeps_commitRefreshTerminalAuthority keeps_invalidateLegacyRefreshRow
      keeps_invalidateRefreshFamily)

lemma keeps_markRefreshRotated [keeps_intros]: "keeps (guarded R) (markRefreshRotated p q sig)"
proof -
  have "keeps (guarded R) (bindG (readG (\<lambda>w. legacyDefaultAllowed w p)) (\<lambda>allowLegacy.
       bindG (execRotate p allowLegacy sig t) (\<lambda>n. if n > 0 then returnG () else rotationLost p q sig)))" for t
  proof (rule keepsI_wp)
    fix \<omega> :: "'c envir_scheme" and w :: "'w world_scheme"
    show "wp (bindG (readG (\<lambda>w. legacyDefaultAllowed w p)) (\<lambda>allowLegacy.
       bindG (execRotate p allowLegacy sig t) (\<lambda>n. if n > 0 then returnG () else rotationLost p q sig)))
       (\<lambda>_. guarded R w) (\<lambda>_. guarded R w) \<omega> w"
      unfolding wp_bindG [of "readG f" for f] wp_readG
      by (rule wp_bind_keeps [OF g_pre])
        (use wp_execRotate_g [of w sig t \<omega> "tick w"] in \<open>auto intro: g_intros keeps_rotationLost\<close>)
  qed
  note update = this
  have read: "keeps (guarded R) (mapErrG h (hasRefreshTerminalAuthority p q))" for h
    by (intro g_intros)
  show ?thesis
    unfolding markRefreshRotated_def Let_def canonicalPrefixD [OF canonical]
    by (rule keeps_bindG [OF g_pre read keeps_if [OF keeps_throwG [OF g_pre]
          keeps_bindG [OF g_pre keeps_timeNow [OF g_tick] update]]])
qed

lemma keeps_newJTIModel [keeps_intros]: "keeps (guarded R) (newJTIModel p j t)"
proof (rule keepsI_wp)
  fix \<omega> :: "'c envir_scheme" and w :: "'w world_scheme"
  have "guarded R w (w\<lparr>tick := n, w_jtis := w_jtis w @ [j]\<rparr>)" if "jt_provider_prefix j = p" for j n
    by (rule g_step [where n = n], rule g_stepI)
      (use spend [of "w\<lparr>tick := n\<rparr>" j] that in \<open>simp add: idsOk_def tbWf_def\<close>)
  then show "wp (newJTIModel p j t) (\<lambda>_. guarded R w) (\<lambda>_. guarded R w) \<omega> w"
    unfolding newJTIModel_def insertJTI_def
    by (simp add: wp_simps g_tickI canonicalPrefixD [OF canonical])
qed

lemma keeps_hasJTIModel [keeps_intros]: "keeps (guarded R) (hasJTIModel p j)"
  unfolding hasJTIModel_def by (intro g_intros)

end

end
