(* ===== verification/Store_Machine.thy ===== *)
theory Store_Machine
  imports Provider_Steps
begin

section \<open>The storage layer as a state machine\<close>

text \<open>
  fosite drives the storage by separate calls, and the calls of concurrent requests interleave: between
  \<open>RotateRefreshToken\<close> and \<open>CreateRefreshTokenSession\<close> of one request any call of another may run. A run
  is any sequence of storage calls, of any of the acting providers, each with its own environment (any
  statement may fail, any clock, any identifiers) and with any outcome. What holds along runs holds under
  every such interleaving.
\<close>

datatype store_op =
    CreateAuthorizeCodeOp string requester
  | GetAuthorizeCodeOp string "session option"
  | InvalidateAuthorizeCodeOp string
  | CreateAccessTokenOp string requester
  | GetAccessTokenOp string "session option"
  | DeleteAccessTokenOp string
  | RevokeAccessTokenOp string
  | CreateRefreshTokenOp string string requester
  | GetRefreshTokenOp string "session option"
  | DeleteRefreshTokenOp string
  | RevokeRefreshTokenOp string
  | RotateRefreshTokenOp string string
  | CreatePKCEOp string requester
  | GetPKCEOp string "session option"
  | DeletePKCEOp string
  | CreateOpenIDOp string requester
  | GetOpenIDOp string requester
  | DeleteOpenIDOp string
  | ClientAssertionJWTValidOp string
  | SetClientAssertionJWTOp string int
  | GetClientOp string

definition ignoreG :: "('o, 'w, 'a) go \<Rightarrow> ('o, 'w, unit) go" where
  "ignoreG m = bindG m (\<lambda>_. returnG ())"

fun execOp :: "oauth2store \<Rightarrow> store_op \<Rightarrow> ('o, 'w, unit) stgo" where
  "execOp s (CreateAuthorizeCodeOp c rq) = CreateAuthorizeCodeSession s c rq"
| "execOp s (GetAuthorizeCodeOp c ses) = ignoreG (GetAuthorizeCodeSession s c ses)"
| "execOp s (InvalidateAuthorizeCodeOp c) = InvalidateAuthorizeCodeSession s c"
| "execOp s (CreateAccessTokenOp sig rq) = CreateAccessTokenSession s sig rq"
| "execOp s (GetAccessTokenOp sig ses) = ignoreG (GetAccessTokenSession s sig ses)"
| "execOp s (DeleteAccessTokenOp sig) = DeleteAccessTokenSession s sig"
| "execOp s (RevokeAccessTokenOp q) = RevokeAccessToken s q"
| "execOp s (CreateRefreshTokenOp sig asig rq) = CreateRefreshTokenSession s sig asig rq"
| "execOp s (GetRefreshTokenOp sig ses) = ignoreG (GetRefreshTokenSession s sig ses)"
| "execOp s (DeleteRefreshTokenOp sig) = DeleteRefreshTokenSession s sig"
| "execOp s (RevokeRefreshTokenOp q) = RevokeRefreshToken s q"
| "execOp s (RotateRefreshTokenOp q sig) = RotateRefreshToken s q sig"
| "execOp s (CreatePKCEOp sig rq) = CreatePKCERequestSession s sig rq"
| "execOp s (GetPKCEOp sig ses) = ignoreG (GetPKCERequestSession s sig ses)"
| "execOp s (DeletePKCEOp sig) = DeletePKCERequestSession s sig"
| "execOp s (CreateOpenIDOp c rq) = CreateOpenIDConnectSession s c rq"
| "execOp s (GetOpenIDOp c rq) = ignoreG (GetOpenIDConnectSession s c rq)"
| "execOp s (DeleteOpenIDOp c) = DeleteOpenIDConnectSession s c"
| "execOp s (ClientAssertionJWTValidOp j) = ClientAssertionJWTValid s j"
| "execOp s (SetClientAssertionJWTOp j t) = SetClientAssertionJWT s j t"
| "execOp s (GetClientOp k) = ignoreG (GetClient s k)"

text \<open>Runs of the providers in \<open>A\<close>.\<close>

inductive store_run :: "string set \<Rightarrow> world \<Rightarrow> world \<Rightarrow> bool" for A :: "string set" where
  run_refl: "store_run A w w"
| run_step: "store_run A w u \<Longrightarrow> st_prefix s \<in> A \<Longrightarrow> canonicalPrefix (st_prefix s) \<Longrightarrow>
    execOp s op (\<omega> :: store_envir) u = (r, v) \<Longrightarrow> store_run A w v"

inductive_cases store_runE: "store_run A w v"

lemma store_run_trans:
  assumes "store_run A v u" "store_run A w v" shows "store_run A w u"
  using assms by (induction rule: store_run.induct) (auto intro: store_run.intros)

lemma store_run_one:
  "st_prefix s \<in> A \<Longrightarrow> canonicalPrefix (st_prefix s) \<Longrightarrow> execOp s op (\<omega> :: store_envir) w = (r, v) \<Longrightarrow>
     store_run A w v"
  by (rule run_step [OF run_refl])

context provider_frame
begin

lemma keeps_ignoreG [keeps_intros]: "keeps (guarded R) m \<Longrightarrow> keeps (guarded R) (ignoreG m)"
  unfolding ignoreG_def by (intro keeps_bindG keeps_returnG g_pre)

lemma keeps_GetRefreshTokenSession:
  assumes "st_prefix s = p" shows "keeps (guarded R) (GetRefreshTokenSession s sig ses)"
  unfolding GetRefreshTokenSession_def assms
  by (intro g_intros keeps_commitRefreshTerminalAuthority keeps_invalidateRefreshFamily
      keeps_invalidateLegacyRefreshRow)

lemma keeps_GetAccessTokenSession:
  assumes "st_prefix s = p" shows "keeps (guarded R) (GetAccessTokenSession s sig ses)"
  unfolding GetAccessTokenSession_def assertRefreshFamilyAllowsAccess_def assms
  by (intro g_intros)

lemma keeps_RotateRefreshToken:
  assumes "st_prefix s = p" shows "keeps (guarded R) (RotateRefreshToken s q sig)"
  unfolding RotateRefreshToken_def assms
  by (intro g_intros keeps_markRefreshRotated keeps_deleteByRequestID) simp_all

lemma keeps_execOp:
  assumes "st_prefix s = p" shows "keeps (guarded R) (execOp s op)"
proof (cases op)
  case (CreateAuthorizeCodeOp c rq)
  then show ?thesis by (simp add: CreateAuthorizeCodeSession_def keeps_createSession assms)
next
  case (GetAuthorizeCodeOp c ses)
  then show ?thesis unfolding GetAuthorizeCodeOp execOp.simps GetAuthorizeCodeSession_def assms
    by (intro g_intros keeps_ignoreG keeps_hasJTIModel)
next
  case (InvalidateAuthorizeCodeOp c)
  then show ?thesis unfolding InvalidateAuthorizeCodeOp execOp.simps InvalidateAuthorizeCodeSession_def assms
    by (intro g_intros keeps_newJTIModel)
next
  case (GetPKCEOp sig ses)
  then show ?thesis unfolding GetPKCEOp execOp.simps GetPKCERequestSession_def by (intro g_intros keeps_ignoreG)
next
  case (GetOpenIDOp c rq)
  then show ?thesis unfolding GetOpenIDOp execOp.simps GetOpenIDConnectSession_def by (intro g_intros keeps_ignoreG)
next
  case (GetClientOp k)
  then show ?thesis unfolding GetClientOp execOp.simps by (intro g_intros keeps_ignoreG)
next
  case (RevokeRefreshTokenOp q)
  then show ?thesis unfolding RevokeRefreshTokenOp execOp.simps RevokeRefreshToken_def assms
    by (intro g_intros keeps_commitRefreshTerminalAuthority keeps_revokeRefreshFamilyByRequestID)
next
  case (GetAccessTokenOp sig ses)
  then show ?thesis by (simp add: keeps_ignoreG keeps_GetAccessTokenSession assms)
next
  case (GetRefreshTokenOp sig ses)
  then show ?thesis by (simp add: keeps_ignoreG keeps_GetRefreshTokenSession assms)
qed (simp_all add: assms keeps_CreateAccessTokenSession keeps_CreateRefreshTokenSession
    keeps_DeleteRefreshTokenSession keeps_RotateRefreshToken DeleteAccessTokenSession_def RevokeAccessToken_def
    CreatePKCERequestSession_def DeletePKCERequestSession_def CreateOpenIDConnectSession_def
    DeleteOpenIDConnectSession_def ClientAssertionJWTValid_def SetClientAssertionJWT_def
    keeps_createSession keeps_deleteBySignature keeps_deleteByRequestID keeps_newJTIModel keeps_hasJTIModel)

end

text \<open>A relation that is admissible for every acting provider holds along every run.\<close>

lemma store_run_guarded:
  assumes "store_run A w w'" and frame: "\<And>p. p \<in> A \<Longrightarrow> canonicalPrefix p \<Longrightarrow> provider_frame p R"
    and R: "preorderR R"
  shows "guarded R w w'"
  using assms(1)
proof (induction rule: store_run.induct)
  case (run_refl w)
  then show ?case using R by (simp add: guarded_def preorderR_refl)
next
  case (run_step w u s op \<omega> r v)
  have "keeps (guarded R) (execOp s op :: (store_envir, world, unit) go)"
    by (rule provider_frame.keeps_execOp [OF frame [OF run_step(2,3)] refl])
  then have "guarded R u v" using run_step(4) by (rule keeps_outcome)
  with run_step.IH show ?case
    using preorderR_trans [OF provider_frame.g_pre [OF frame [OF run_step(2,3)]]] by blast
qed

lemma store_run_idsOk:
  assumes "guarded R w w'" "idsOk w" shows "idsOk w'" "w_registered w' = w_registered w" "R w w'"
  using assms by (simp_all add: guarded_def)

end
