(* ===== verification/Store_Safety.thy ===== *)
theory Store_Safety
  imports Store_Machine
begin

section \<open>Safety of the storage layer under every interleaving\<close>

text \<open>
  Five relations that every step respects, and what they give along runs: terminal authority stays; once
  a request is terminal nothing is issued for it any more; a request has at most one active refresh
  token; providers do not touch each other's rows; a reused or revoked refresh row stays as it is known.
\<close>

subsection \<open>Terminal authority stays\<close>

definition tombStays :: "'w world_scheme \<Rightarrow> 'w world_scheme \<Rightarrow> bool" where
  "tombStays w w' \<longleftrightarrow> (\<forall>t \<in> set (w_tombstones w). \<exists>t' \<in> set (w_tombstones w').
     tb_provider_prefix t' = tb_provider_prefix t \<and> tb_request_id t' = tb_request_id t
     \<and> tb_expires_at t \<le> tb_expires_at t' \<and> (tb_family_id t \<noteq> [] \<longrightarrow> tb_family_id t' = tb_family_id t))"

lemma tombStays_refl: "w_tombstones w' = w_tombstones w \<Longrightarrow> tombStays w w'"
  by (auto simp: tombStays_def)

lemma tombStays_pre: "preorderR tombStays"
proof -
  have "tombStays u w" if uv: "tombStays u v" and vw: "tombStays v w" for u v w
    unfolding tombStays_def
  proof
    fix t assume "t \<in> set (w_tombstones u)"
    then obtain t1 where t1: "t1 \<in> set (w_tombstones v)" "tb_provider_prefix t1 = tb_provider_prefix t"
      "tb_request_id t1 = tb_request_id t" "tb_expires_at t \<le> tb_expires_at t1"
      "tb_family_id t \<noteq> [] \<longrightarrow> tb_family_id t1 = tb_family_id t"
      using uv unfolding tombStays_def by blast
    then obtain t2 where "t2 \<in> set (w_tombstones w)" "tb_provider_prefix t2 = tb_provider_prefix t1"
      "tb_request_id t2 = tb_request_id t1" "tb_expires_at t1 \<le> tb_expires_at t2"
      "tb_family_id t1 \<noteq> [] \<longrightarrow> tb_family_id t2 = tb_family_id t1"
      using vw unfolding tombStays_def by blast
    with t1 show "\<exists>t' \<in> set (w_tombstones w). tb_provider_prefix t' = tb_provider_prefix t
      \<and> tb_request_id t' = tb_request_id t \<and> tb_expires_at t \<le> tb_expires_at t'
      \<and> (tb_family_id t \<noteq> [] \<longrightarrow> tb_family_id t' = tb_family_id t)"
      by (intro bexI [of _ t2]) auto
  qed
  then show ?thesis unfolding preorderR_def using tombStays_refl by blast
qed

lemma same_tomb: "idsOk w \<Longrightarrow> t \<in> set (w_tombstones w) \<Longrightarrow> t' \<in> set (w_tombstones w) \<Longrightarrow> tb_id t = tb_id t' \<Longrightarrow> t = t'"
  using idsOkD(2) [of w] by (auto simp: tbWf_def distinct_map dest: inj_onD)

lemma tombStays_extend:
  assumes "idsOk w" "t \<in> set (w_tombstones w)" "tb_id t' = tb_id t" "tb_provider_prefix t' = tb_provider_prefix t"
    "tb_request_id t' = tb_request_id t" "tb_expires_at t \<le> tb_expires_at t'"
    "tb_family_id t \<noteq> [] \<longrightarrow> tb_family_id t' = tb_family_id t"
  shows "tombStays w (w\<lparr>w_tombstones := map (\<lambda>x. if tb_id x = tb_id t then t' else x) (w_tombstones w)\<rparr>)"
proof -
  have "x = t" if "x \<in> set (w_tombstones w)" "tb_id x = tb_id t" for x
    using same_tomb [OF assms(1) that(1) assms(2) that(2)] .
  then show ?thesis using assms(3-) by (auto simp: tombStays_def)
qed

lemma frame_tombStays: "canonicalPrefix p \<Longrightarrow> provider_frame p tombStays"
  by unfold_locales
    (auto intro: tombStays_refl tombStays_pre tombStays_extend simp: tickfree_def, auto simp: tombStays_def)

interpretation tombs: provider_frame DefaultPathPrefix "tombStays :: world \<Rightarrow> world \<Rightarrow> bool"
  by (rule frame_tombStays [OF canonical_Default])

lemma store_run_tombStays:
  "store_run A w w' \<Longrightarrow> guarded tombStays w w'"
  by (rule store_run_guarded) (auto intro: frame_tombStays tombStays_pre)

lemma tombStays_terminal: "tombStays w w' \<Longrightarrow> terminal w p q \<Longrightarrow> terminal w' p q"
  by (fastforce simp: tombStays_def terminal_def)

subsection \<open>Nothing is issued for a terminal request\<close>

definition noIssue :: "string \<Rightarrow> string \<Rightarrow> 'w world_scheme \<Rightarrow> 'w world_scheme \<Rightarrow> bool" where
  "noIssue p q w w' \<longleftrightarrow> (terminal w p q \<longrightarrow> terminal w' p q
     \<and> (\<forall>r \<in> set (w_sessions w' AccessC). sr_provider_prefix r = p \<and> sr_request_id r = q \<longrightarrow> r \<in> set (w_sessions w AccessC))
     \<and> (\<forall>r \<in> set (w_sessions w' RefreshC). sr_provider_prefix r = p \<and> sr_request_id r = q \<and> GetStatus r = RefreshStatusActive
          \<longrightarrow> r \<in> set (w_sessions w RefreshC)))"

lemma noIssue_refl: "w_tombstones w' = w_tombstones w \<Longrightarrow> w_sessions w' AccessC = w_sessions w AccessC \<Longrightarrow>
    w_sessions w' RefreshC = w_sessions w RefreshC \<Longrightarrow> noIssue p q w w'"
  by (simp add: noIssue_def terminal_def)

lemma noIssue_pre: "preorderR (noIssue p q)"
  unfolding preorderR_def noIssue_def by blast

lemma noIssue_tomb:
  assumes "terminal w p q \<Longrightarrow> terminal (w\<lparr>w_tombstones := ts\<rparr>) p q"
  shows "noIssue p q w (w\<lparr>w_tombstones := ts\<rparr>)"
  using assms by (simp add: noIssue_def)

lemma frame_noIssue:
  assumes "canonicalPrefix p" "q0 \<noteq> []" shows "provider_frame p (noIssue p0 q0)"
proof unfold_locales
  show "preorderR (noIssue p0 q0)" by (rule noIssue_pre)
  show "tickfree (noIssue p0 q0)" by (simp add: tickfree_def noIssue_refl)
  show "noIssue p0 q0 w (dropRows c P w)" for w :: "'a world_scheme" and c P by (auto simp: noIssue_def)
  show "noIssue p0 q0 w (markRows P g w)" if "retires P g" for w :: "'a world_scheme" and P g
    using that retires_status [OF that] by (auto simp: noIssue_def)
  show "noIssue p0 q0 w (w\<lparr>w_tombstones := map (\<lambda>x. if tb_id x = tb_id t then t' else x) (w_tombstones w)\<rparr>)"
    if "idsOk w" "t \<in> set (w_tombstones w)" "tb_provider_prefix t = p" "tb_id t' = tb_id t"
      "tb_provider_prefix t' = p" "tb_request_id t' = tb_request_id t" "tb_expires_at t \<le> tb_expires_at t'"
      "tb_family_id t \<noteq> [] \<longrightarrow> tb_family_id t' = tb_family_id t" for w :: "'a world_scheme" and t t'
    by (rule noIssue_tomb, rule tombStays_terminal, rule tombStays_extend) (use that in auto)
qed (use assms in \<open>auto simp: noIssue_def lineageOk_def terminal_def\<close>)

interpretation no_issue: provider_frame DefaultPathPrefix "noIssue DefaultPathPrefix ''r'' :: world \<Rightarrow> world \<Rightarrow> bool"
  by (rule frame_noIssue [OF canonical_Default]) simp

lemma store_run_noIssue: "store_run A w w' \<Longrightarrow> q \<noteq> [] \<Longrightarrow> guarded (noIssue p q) w w'"
  by (rule store_run_guarded) (auto intro: frame_noIssue noIssue_pre)

subsection \<open>At most one active refresh token per request\<close>

definition activeRows :: "'w world_scheme \<Rightarrow> string \<Rightarrow> string \<Rightarrow> session_row list" where
  "activeRows w p q = filter (\<lambda>r. sr_provider_prefix r = p \<and> sr_request_id r = q
     \<and> GetStatus r = RefreshStatusActive) (w_sessions w RefreshC)"

definition oneActive :: "'w world_scheme \<Rightarrow> bool" where
  "oneActive w \<longleftrightarrow> (\<forall>p q. length (activeRows w p q) \<le> 1)"

definition oneActiveR :: "'w world_scheme \<Rightarrow> 'w world_scheme \<Rightarrow> bool" where
  "oneActiveR w w' \<longleftrightarrow> (oneActive w \<longrightarrow> oneActive w')"

lemma oneActiveR_le:
  assumes "\<And>p q. length (activeRows w' p q) \<le> length (activeRows w p q)" shows "oneActiveR w w'"
  using assms le_trans unfolding oneActiveR_def oneActive_def by blast

lemma oneActiveR_same: "w_sessions w' RefreshC = w_sessions w RefreshC \<Longrightarrow> oneActiveR w w'"
  by (rule oneActiveR_le) (simp add: activeRows_def)

lemma oneActiveR_pre: "preorderR oneActiveR"
  unfolding oneActiveR_def by (rule preorderR_invariant)

lemma activeRows_map_le:
  assumes "\<And>r. P r \<Longrightarrow> GetStatus (g r) \<noteq> RefreshStatusActive"
  shows "length (filter (\<lambda>r. sr_provider_prefix r = p \<and> sr_request_id r = q \<and> GetStatus r = RefreshStatusActive)
      (map (\<lambda>r. if P r then g r else r) rs))
    \<le> length (filter (\<lambda>r. sr_provider_prefix r = p \<and> sr_request_id r = q \<and> GetStatus r = RefreshStatusActive) rs)"
  using assms by (induction rs) auto

lemma oneActiveR_add:
  assumes "canonicalPrefix p" "sr_provider_prefix r = p"
    "lineageOk w p (sr_request_id r) (sr_family_id r) (sr_parent_refresh_id r)"
  shows "oneActiveR w (addRow RefreshC r w)"
proof -
  have none: "activeRows w p (sr_request_id r) = []"
  proof -
    have "x \<in> set (requestRows w RefreshC p (sr_request_id r))"
      if "x \<in> set (w_sessions w RefreshC)" "sr_provider_prefix x = p" "sr_request_id x = sr_request_id r" for x
      using that providerPrefixExp_own [OF assms(1)] by (simp add: in_requestRows)
    then show ?thesis using assms(3)
      by (fastforce simp: activeRows_def filter_empty_conv lineageOk_def Let_def status_defs split: if_splits)
  qed
  have "length (activeRows (addRow RefreshC r w) p' q') \<le> 1" if "oneActive w" for p' q'
  proof (cases "p' = p \<and> q' = sr_request_id r")
    case True
    with none show ?thesis by (simp add: activeRows_def)
  next
    case False
    then have "activeRows (addRow RefreshC r w) p' q' = activeRows w p' q'"
      using assms(2) by (auto simp: activeRows_def)
    with that show ?thesis by (simp add: oneActive_def)
  qed
  then show ?thesis by (simp add: oneActiveR_def oneActive_def)
qed

lemma frame_oneActive: "canonicalPrefix p \<Longrightarrow> provider_frame p oneActiveR"
proof unfold_locales
  assume cp: "canonicalPrefix p"
  then show "canonicalPrefix p" .
  show "preorderR oneActiveR" by (rule oneActiveR_pre)
  show "oneActiveR w (addRow RefreshC r w)" if "sr_provider_prefix r = p"
    "lineageOk w p (sr_request_id r) (sr_family_id r) (sr_parent_refresh_id r)" for w :: "'a world_scheme" and r
    using cp that by (rule oneActiveR_add)
  show "oneActiveR w (dropRows c P w)" for w :: "'a world_scheme" and c P
    by (rule oneActiveR_le) (auto simp: activeRows_def intro: length_filter_mono)
  show "oneActiveR w (markRows P g w)" if "retires P g" for w :: "'a world_scheme" and P g
    by (rule oneActiveR_le) (use activeRows_map_le [OF retires_status [OF that]] in \<open>simp add: activeRows_def\<close>)
qed (auto simp: tickfree_def intro: oneActiveR_same)

interpretation one_active: provider_frame DefaultPathPrefix "oneActiveR :: world \<Rightarrow> world \<Rightarrow> bool"
  by (rule frame_oneActive [OF canonical_Default])

subsection \<open>Providers are isolated\<close>

definition ownRows :: "'w world_scheme \<Rightarrow> collection \<Rightarrow> string \<Rightarrow> session_row list" where
  "ownRows w c p = filter (\<lambda>r. sr_provider_prefix r = p) (w_sessions w c)"

definition untouched :: "string \<Rightarrow> 'w world_scheme \<Rightarrow> 'w world_scheme \<Rightarrow> bool" where
  "untouched p w w' \<longleftrightarrow> (\<forall>c. ownRows w' c p = ownRows w c p)
     \<and> filter (\<lambda>t. tb_provider_prefix t = p) (w_tombstones w') = filter (\<lambda>t. tb_provider_prefix t = p) (w_tombstones w)
     \<and> filter (\<lambda>j. jt_provider_prefix j = p) (w_jtis w') = filter (\<lambda>j. jt_provider_prefix j = p) (w_jtis w)"

lemma untouched_pre: "preorderR (untouched p)"
  by (simp add: preorderR_def untouched_def)

lemma filter_map_untouched:
  "(\<And>x. x \<in> set xs \<Longrightarrow> f x \<noteq> x \<Longrightarrow> \<not> P x \<and> \<not> P (f x)) \<Longrightarrow> filter P (map f xs) = filter P xs"
proof (induction xs)
  case (Cons x xs)
  then have "filter P (map f xs) = filter P xs" by simp
  then show ?case using Cons.prems [of x] by (cases "f x = x") auto
qed simp

lemma frame_untouched:
  assumes cp: "canonicalPrefix p" and cp0: "canonicalPrefix p0" and neq: "p \<noteq> p0"
  shows "provider_frame p (untouched p0)"
proof unfold_locales
  note foreign = providerPrefixExp_foreign [OF cp cp0 neq]
  show "preorderR (untouched p0)" by (rule untouched_pre)
  show "tickfree (untouched p0)" by (simp add: tickfree_def untouched_def ownRows_def)
  show "untouched p0 w (dropRows c P w)"
    if "\<And>r. r \<in> set (w_sessions w c) \<Longrightarrow> P r \<Longrightarrow> providerPrefixExp w p (sr_provider_prefix r) \<and> (c = RefreshC \<longrightarrow> \<not> terminalStatus r)"
    for w :: "'a world_scheme" and c P
    using that foreign by (fastforce simp: untouched_def ownRows_def intro!: filter_cong)
  show "untouched p0 w (markRows P g w)"
    if "retires P g" "\<And>r. r \<in> set (w_sessions w RefreshC) \<Longrightarrow> P r \<Longrightarrow> providerPrefixExp w p (sr_provider_prefix r)"
    for w :: "'a world_scheme" and P g
  proof -
    have "sr_provider_prefix (g r) = sr_provider_prefix r" for r using that(1) by (simp add: retires_def keepsKeysD)
    then have "filter (\<lambda>r. sr_provider_prefix r = p0) (map (\<lambda>r. if P r then g r else r) (w_sessions w RefreshC))
      = filter (\<lambda>r. sr_provider_prefix r = p0) (w_sessions w RefreshC)"
      by (intro filter_map_untouched) (use that(2) foreign in \<open>auto split: if_splits\<close>)
    then show ?thesis by (simp add: untouched_def ownRows_def del: filter_map)
  qed
  show "untouched p0 w (w\<lparr>w_tombstones := map (\<lambda>x. if tb_id x = tb_id t then t' else x) (w_tombstones w)\<rparr>)"
    if "idsOk w" "t \<in> set (w_tombstones w)" "tb_provider_prefix t = p" "tb_id t' = tb_id t"
      "tb_provider_prefix t' = p" for w :: "'a world_scheme" and t t'
  proof -
    have "x = t" if "x \<in> set (w_tombstones w)" "tb_id x = tb_id t" for x
      using same_tomb [OF \<open>idsOk w\<close> that(1) \<open>t \<in> set (w_tombstones w)\<close> that(2)] .
    then have "filter (\<lambda>t. tb_provider_prefix t = p0) (map (\<lambda>x. if tb_id x = tb_id t then t' else x) (w_tombstones w))
      = filter (\<lambda>t. tb_provider_prefix t = p0) (w_tombstones w)"
      by (intro filter_map_untouched) (use that neq in \<open>auto split: if_splits\<close>)
    then show ?thesis by (simp add: untouched_def ownRows_def del: filter_map)
  qed
qed (use assms in \<open>auto simp: untouched_def ownRows_def\<close>)

interpretation isolated: provider_frame DefaultPathPrefix "untouched ''/mcp'' :: world \<Rightarrow> world \<Rightarrow> bool"
proof (rule frame_untouched [OF canonical_Default])
  show "canonicalPrefix ''/mcp''" by code_simp
  show "DefaultPathPrefix \<noteq> ''/mcp''" by (simp add: DefaultPathPrefix_def)
qed

subsection \<open>A retired row stays known, a signature is unique, a spent code stays spent\<close>

definition breadcrumbs :: "'w world_scheme \<Rightarrow> 'w world_scheme \<Rightarrow> bool" where
  "breadcrumbs w w' \<longleftrightarrow> (\<forall>r \<in> set (w_sessions w RefreshC). terminalStatus r \<longrightarrow>
     (\<exists>r' \<in> set (w_sessions w' RefreshC). sr_id r' = sr_id r \<and> sr_signature r' = sr_signature r
        \<and> sr_provider_prefix r' = sr_provider_prefix r \<and> sr_request_id r' = sr_request_id r \<and> terminalStatus r'))"

lemma breadcrumbs_pre: "preorderR breadcrumbs"
  unfolding preorderR_def breadcrumbs_def by (rule conjI, blast, intro allI impI, metis (no_types, lifting))

lemma frame_breadcrumbs: "canonicalPrefix p \<Longrightarrow> provider_frame p breadcrumbs"
proof unfold_locales
  show "preorderR breadcrumbs" by (rule breadcrumbs_pre)
  show "breadcrumbs w (dropRows c P w)"
    if "\<And>r. r \<in> set (w_sessions w c) \<Longrightarrow> P r \<Longrightarrow> providerPrefixExp w p (sr_provider_prefix r) \<and> (c = RefreshC \<longrightarrow> \<not> terminalStatus r)"
    for w :: "'a world_scheme" and c P
    using that by (auto simp: breadcrumbs_def)
  show "breadcrumbs w (markRows P g w)" if "retires P g" for w :: "'a world_scheme" and P g
    unfolding breadcrumbs_def
  proof (intro ballI impI)
    fix r assume r: "r \<in> set (w_sessions w RefreshC)" "terminalStatus r"
    have "terminalStatus (g r)" if "P r"
      using \<open>retires P g\<close> that r(2) by (fastforce simp: retires_def terminalStatus_def GetStatus_def status_defs)
    then show "\<exists>r' \<in> set (w_sessions (markRows P g w) RefreshC). sr_id r' = sr_id r \<and> sr_signature r' = sr_signature r
        \<and> sr_provider_prefix r' = sr_provider_prefix r \<and> sr_request_id r' = sr_request_id r \<and> terminalStatus r'"
      using r that by (intro bexI [of _ "if P r then g r else r"]) (auto simp: retires_def keepsKeysD)
  qed
qed (auto simp: breadcrumbs_def tickfree_def)

interpretation crumbs: provider_frame DefaultPathPrefix "breadcrumbs :: world \<Rightarrow> world \<Rightarrow> bool"
  by (rule frame_breadcrumbs [OF canonical_Default])

definition sigUnique :: "'w world_scheme \<Rightarrow> bool" where
  "sigUnique w \<longleftrightarrow> (\<forall>c. distinct (map (\<lambda>r. (sr_provider_prefix r, sr_signature r)) (w_sessions w c)))"

definition sigUniqueR :: "'w world_scheme \<Rightarrow> 'w world_scheme \<Rightarrow> bool" where
  "sigUniqueR w w' \<longleftrightarrow> (sigUnique w \<longrightarrow> sigUnique w')"

lemma sigUniqueR_pre: "preorderR sigUniqueR"
  unfolding sigUniqueR_def by (rule preorderR_invariant)

lemma sigUnique_add: "sigUnique w \<Longrightarrow> freshRow w c r \<Longrightarrow> sigUnique (addRow c r w)"
  by (fastforce simp: sigUnique_def freshRow_def)

lemma frame_sigUnique: "canonicalPrefix p \<Longrightarrow> provider_frame p sigUniqueR"
proof unfold_locales
  show "preorderR sigUniqueR" by (rule sigUniqueR_pre)
  show "sigUniqueR w (markRows P g w)" if "retires P g" for w :: "'a world_scheme" and P g
  proof -
    have "map (\<lambda>r. (sr_provider_prefix r, sr_signature r)) (map (\<lambda>r. if P r then g r else r) rs)
      = map (\<lambda>r. (sr_provider_prefix r, sr_signature r)) rs" for rs
      using that by (induction rs) (auto simp: retires_def keepsKeysD)
    then show ?thesis by (simp add: sigUniqueR_def sigUnique_def del: map_map)
  qed
  show "sigUniqueR w (dropRows c P w)" for w :: "'a world_scheme" and c P
    by (auto simp: sigUniqueR_def sigUnique_def distinct_map_filter)
qed (auto simp: sigUniqueR_def tickfree_def sigUnique_add, auto simp: sigUnique_def)

interpretation sig_unique: provider_frame DefaultPathPrefix "sigUniqueR :: world \<Rightarrow> world \<Rightarrow> bool"
  by (rule frame_sigUnique [OF canonical_Default])

definition jtisStay :: "'w world_scheme \<Rightarrow> 'w world_scheme \<Rightarrow> bool" where
  "jtisStay w w' \<longleftrightarrow> set (w_jtis w) \<subseteq> set (w_jtis w')"

lemma jtisStay_pre: "preorderR jtisStay"
  by (auto simp: preorderR_def jtisStay_def)

lemma frame_jtisStay: "canonicalPrefix p \<Longrightarrow> provider_frame p jtisStay"
  by unfold_locales (auto simp: jtisStay_def tickfree_def preorderR_def)

interpretation jtis: provider_frame DefaultPathPrefix "jtisStay :: world \<Rightarrow> world \<Rightarrow> bool"
  by (rule frame_jtisStay [OF canonical_Default])

end
