(* ===== verification/Refresh_Outcomes.thy ===== *)
theory Refresh_Outcomes
  imports Store_Safety
begin

section \<open>Outcomes of the refresh operations\<close>

text \<open>
  What each operation returns and leaves behind: a terminal request is refused everywhere, revocation and
  reuse detection do what they promise, a rotation has one winner.
\<close>

subsection \<open>A terminal request is refused\<close>

lemma wp_False_Inl: "wp m (\<lambda>_ _. False) (\<lambda>_ _. True) \<omega> w \<longleftrightarrow> (\<exists>e v. m \<omega> w = (Inl e, v))"
  by (auto simp: wp_def split: prod.splits sum.splits)

lemma refused_CreateAccess:
  assumes "canonicalPrefix (st_prefix s)" "rq_ID rq \<noteq> []" "terminal w (st_prefix s) (rq_ID rq)"
  shows "wp (CreateAccessTokenSession s sig rq) (\<lambda>_ _. False) (\<lambda>_ _. True) \<omega> w"
  unfolding CreateAccessTokenSession_def using assms by (simp add: wp_simps Let_def)

lemma refused_CreateRefresh:
  assumes "canonicalPrefix (st_prefix s)" "terminal w (st_prefix s) (rq_ID rq)"
  shows "wp (CreateRefreshTokenSession s sig asig rq) (\<lambda>_ _. False) (\<lambda>_ _. True) \<omega> w"
  unfolding CreateRefreshTokenSession_def wp_bindG [of "transactionG x" for x]
proof (rule wp_transactionI)
  show "wp (bindG (newSessionModel RefreshC) (\<lambda>(valid, m0).
       let m1 = m0\<lparr>sr_provider_prefix := st_prefix s, sr_signature := sig\<rparr> in
       bindG (SetRequester rq RefreshToken m1) (\<lambda>m.
       bindG (attemptG (resolveRefreshLineage s rq)) (\<lambda>lineage. case lineage of
           Inl lineageErr \<Rightarrow>
             bindG (if errorsIs lineageErr ErrInactiveToken
                    then mapErrG (\<lambda>e. serverErr e ''failed to remove access rows after terminal refresh-family state'')
                           (deleteSessionModelsByRequestID AccessC (st_prefix s) (rq_ID rq))
                    else if asig \<noteq> []
                    then mapErrG (\<lambda>e. serverErr e ''failed to remove rejected refresh replacement access row'')
                           (deleteSessionModelBySignature AccessC (st_prefix s) asig)
                    else returnG ()) (\<lambda>_. returnG (Some lineageErr))
         | Inr (familyID, parentID) \<Rightarrow>
             bindG (saveNew RefreshC valid (m\<lparr>sr_family_id := familyID, sr_parent_refresh_id := parentID,
                 sr_status := RefreshStatusActive, sr_rotated_at := 0, sr_reused_at := 0\<rparr>))
               (\<lambda>_. returnG None)))))
    (\<lambda>a v. \<forall>n. wp (case a of None \<Rightarrow> returnG () | Some e \<Rightarrow> throwG e) (\<lambda>_ _. False) (\<lambda>_ _. True) \<omega> (v\<lparr>tick := n\<rparr>))
    (\<lambda>_ _. \<forall>n. True) \<omega> (w\<lparr>tick := Suc (tick w)\<rparr>)"
    unfolding wp_bindG [of "newSessionModel c" for c] wp_newSessionModel prod.case Let_def
      wp_bindG [of "SetRequester x y z" for x y z] wp_bindG [of "attemptG x" for x] wp_attemptG
    by (rule wp_SetRequester, rule wp_resolveRefreshLineage)
      (use assms in \<open>auto simp: lineageOk_def wp_bindG [of "if x then y else z" for x y z] wp_returnG wp_throwG
         intro: wp_trivial\<close>)
qed simp

lemma refused_Rotate:
  assumes "canonicalPrefix (st_prefix s)" "q \<noteq> []" "terminal w (st_prefix s) q"
  shows "wp (RotateRefreshToken s q sig) (\<lambda>_ _. False) (\<lambda>_ _. True) \<omega> w"
proof -
  have m: "wp (markRefreshRotated (st_prefix s) q sig) (\<lambda>_ _. False) (\<lambda>_ _. True) \<omega> w"
    unfolding markRefreshRotated_def using assms by (simp add: wp_simps Let_def)
  have "wp (bindG (if b then mapErrG g m' else returnG ()) (\<lambda>_. throwG e)) (\<lambda>_ _. False) (\<lambda>_ _. True) \<omega> v" for b g m' e v
    unfolding wp_bindG wp_throwG by (rule wp_trivial) simp_all
  note after = this
  show ?thesis
    unfolding RotateRefreshToken_def wp_bindG [of "attemptG x" for x] wp_attemptG
    by (rule wp_mono [OF m]) (simp_all add: after)
qed

lemma refused_GetAccess:
  assumes "canonicalPrefix (st_prefix s)" "q \<noteq> []" "terminal w (st_prefix s) q"
    and "\<And>m. lookupSig w AccessC (st_prefix s) sig = Some m \<Longrightarrow> sr_request_id m = q"
  shows "wp (GetAccessTokenSession s sig ses) (\<lambda>_ _. False) (\<lambda>_ _. True) \<omega> w"
  unfolding GetAccessTokenSession_def assertRefreshFamilyAllowsAccess_def
  using assms by (auto simp: wp_simps Let_def split: option.splits)

lemma refused_GetRefresh:
  assumes "canonicalPrefix (st_prefix s)" "q \<noteq> []" "terminal w (st_prefix s) q"
    and "\<And>m. lookupSig w RefreshC (st_prefix s) sig = Some m \<Longrightarrow> sr_request_id m = q"
  shows "wp (GetRefreshTokenSession s sig ses) (\<lambda>r _. snd r = Some (plainErr ErrInactiveToken)) (\<lambda>_ _. True) \<omega> w"
  unfolding GetRefreshTokenSession_def
  using assms by (auto simp: wp_simps Let_def intro: wp_trivial split: option.splits)

subsection \<open>Terminal authority of a finished call\<close>

lemma commit_terminal:
  assumes "canonicalPrefix p" "q \<noteq> []" "tbWf w"
  shows "wp (commitRefreshTerminalAuthority p q f e)
    (\<lambda>_ w'. tbStep p q w w' \<and> terminal w' p q) (\<lambda>x w'. sameTables w w' \<and> opaque x) \<omega> w"
  by (rule wp_mono [OF wp_commit [OF assms]]) (auto intro: tombUntil_terminal)

lemma commit_Nil: "wp (commitRefreshTerminalAuthority p [] f e) Q E \<omega> w =
    E (textErr ''terminal refresh authority has no request_id'') w"
  by (simp add: commitRefreshTerminalAuthority_def wp_throwG)

lemma tbStep_tables:
  assumes "tbStep p q w w'"
  shows "w_sessions w' = w_sessions w" "w_registered w' = w_registered w" "w_jtis w' = w_jtis w"
    "tbWf w'" "terminal w p' q' \<Longrightarrow> terminal w' p' q'" "terminal w' p q"
proof -
  have e: "w' = w\<lparr>tick := tick w', w_tombstones := w_tombstones w'\<rparr>" using assms by (simp add: tbStep_def)
  show "w_sessions w' = w_sessions w" using arg_cong [OF e, of w_sessions] by simp
  show "w_registered w' = w_registered w" using arg_cong [OF e, of w_registered] by simp
  show "w_jtis w' = w_jtis w" using arg_cong [OF e, of w_jtis] by simp
qed (use assms in \<open>simp_all add: tbStep_def\<close>)

lemma tbStep_idsOk: "tbStep p q w w' \<Longrightarrow> idsOk w \<Longrightarrow> idsOk w'"
  by (simp add: idsOk_def tbStep_tables)

lemma tbStep_views:
  assumes "tbStep p q w w'"
  shows "requestRows w' c p' q' = requestRows w c p' q'" "lookupSig w' c p' sg = lookupSig w c p' sg"
    "visibleTo w' p' = visibleTo w p'" "familiesOfRequest w' p' q' = familiesOfRequest w p' q'"
    "familyRequests V F w' = familyRequests V F w"
proof -
  note t = tbStep_tables [OF assms]
  have l: "legacyDefaultAllowed w' = legacyDefaultAllowed w" by (simp add: fun_eq_iff legacyDefaultAllowed_def t(2))
  have v: "providerPrefixExp w' = providerPrefixExp w" by (simp add: fun_eq_iff providerPrefixExp_def l)
  show r: "requestRows w' c p' q' = requestRows w c p' q'" for c p' q' by (simp add: requestRows_def t(1) v)
  show "lookupSig w' c p' sg = lookupSig w c p' sg" by (simp add: lookupSig_def t(1) v)
  show "visibleTo w' p' = visibleTo w p'" by (simp only: l)
  show "familiesOfRequest w' p' q' = familiesOfRequest w p' q'" by (simp add: familiesOfRequest_def r)
  show "familyRequests V F w' = familyRequests V F w" by (simp add: familyRequests_def t(1))
qed

subsection \<open>Revocation\<close>

abbreviation revokeRow :: "session_row \<Rightarrow> session_row" where
  "revokeRow r \<equiv> r\<lparr>sr_status := RefreshStatusRevoked\<rparr>"

lemma familyDone_simps:
  "w_tombstones (familyDone V F g w) = w_tombstones w" "w_registered (familyDone V F g w) = w_registered w"
  "terminal (familyDone V F g w) p q = terminal w p q" "visibleTo (familyDone V F g w) p = visibleTo w p"
  "w_sessions (familyDone V F g w) RefreshC = map (\<lambda>r. if inFamily V F r then g r else r) (w_sessions w RefreshC)"
  "w_sessions (familyDone V F g w) AccessC = filter (\<lambda>a. \<not> (sr_request_id a \<in> familyRequests V F w
      \<and> V (sr_provider_prefix a))) (w_sessions w AccessC)"
  by (simp_all add: familyDone_def fun_eq_iff legacyDefaultAllowed_def)

text \<open>After a family is done, its rows carry the new status and its requests have no access row left.\<close>

definition familyDead :: "'w world_scheme \<Rightarrow> 'w world_scheme \<Rightarrow> string \<Rightarrow> string set \<Rightarrow> string \<Rightarrow> bool" where
  "familyDead w w' p F status \<longleftrightarrow>
     (\<forall>r \<in> set (w_sessions w' RefreshC). inFamily (visibleTo w' p) F r \<longrightarrow> sr_status r = status)
     \<and> (\<forall>a \<in> set (w_sessions w' AccessC). visibleTo w' p (sr_provider_prefix a) \<longrightarrow>
          sr_request_id a \<notin> familyRequests (visibleTo w p) F w)"

lemma familyDead_familyDone:
  assumes "keepsKeys g" "\<And>r. sr_status (g r) = status" "visibleTo v p = visibleTo w p"
    "w_sessions v = w_sessions w"
  shows "familyDead w (familyDone (visibleTo w p) F g v) p F status"
proof -
  have "familyRequests (visibleTo w p) F v = familyRequests (visibleTo w p) F w"
    by (simp add: familyRequests_def assms(4))
  then show ?thesis
    by (auto simp: familyDead_def familyDone_simps assms(2-4) inFamily_def keepsKeysD [OF assms(1)] split: if_splits)
qed

lemma legacyDefaultAllowed_upd [simp]:
  "legacyDefaultAllowed (w\<lparr>tick := n\<rparr>) = legacyDefaultAllowed w"
  by (simp add: fun_eq_iff)

lemma revoke_outcome:
  assumes wf: "idsOk w" and cp: "canonicalPrefix (st_prefix s)" and q: "q \<noteq> []"
  shows "wp (RevokeRefreshToken s q)
    (\<lambda>_ w'. terminal w' (st_prefix s) q \<and> familyDead w w' (st_prefix s) (familiesOfRequest w (st_prefix s) q) RefreshStatusRevoked)
    (\<lambda>_ w'. sameTables w w' \<or> tbStep (st_prefix s) q w w') \<omega> w"
  unfolding RevokeRefreshToken_def wp_bindG
proof (rule wp_mono [OF commit_terminal [OF cp q idsOkD(2) [OF wf]]])
  fix v
  assume v: "tbStep (st_prefix s) q w v \<and> terminal v (st_prefix s) q"
  note views = tbStep_views [OF conjunct1 [OF v]] and tables = tbStep_tables [OF conjunct1 [OF v]]
  have keep: "tbStep (st_prefix s) q w (v\<lparr>tick := n\<rparr>)" for n
    using v tbStep_tick [where w = w and n = "tick w" and w' = v and k = n] by simp
  show "wp (revokeRefreshFamilyByRequestID (st_prefix s) q)
      (\<lambda>_ w'. terminal w' (st_prefix s) q \<and> familyDead w w' (st_prefix s) (familiesOfRequest w (st_prefix s) q) RefreshStatusRevoked)
      (\<lambda>_ w'. sameTables w w' \<or> tbStep (st_prefix s) q w w') \<omega> v"
  proof (rule wp_revokeRefreshFamilyByRequestID [OF tbStep_idsOk [OF conjunct1 [OF v] wf] cp])
    fix n
    have "visibleTo (v\<lparr>tick := n\<rparr>) (st_prefix s) = visibleTo w (st_prefix s)" using views(3) by simp
    then show "terminal (familyDone (visibleTo v (st_prefix s)) (familiesOfRequest v (st_prefix s) q) revokeRow (v\<lparr>tick := n\<rparr>)) (st_prefix s) q
        \<and> familyDead w (familyDone (visibleTo v (st_prefix s)) (familiesOfRequest v (st_prefix s) q) revokeRow (v\<lparr>tick := n\<rparr>))
            (st_prefix s) (familiesOfRequest w (st_prefix s) q) RefreshStatusRevoked"
      unfolding views(3,4) using v by (simp add: familyDone_simps familyDead_familyDone tables(1))
  qed (use keep in simp)
qed simp

subsection \<open>Reuse detection\<close>

lemma sameTablesE:
  assumes "sameTables w w'" "\<And>n. P (w\<lparr>tick := n\<rparr>)" shows "P w'"
  using assms(1) assms(2) [of "tick w'"] unfolding sameTables_def by (rule ssubst)

lemma wp_ToRequest_tables:
  assumes "\<And>r n. Q r (w\<lparr>tick := n\<rparr>)" "\<And>e n. E e (w\<lparr>tick := n\<rparr>)"
  shows "wp (ToRequest s ses m) Q E \<omega> w"
proof -
  have "keeps sameTables (ToRequest s ses m)"
  proof (rule keeps_ToRequest)
    show "preorderR sameTables"
      unfolding preorderR_def sameTables_def
      by (metis (no_types, lifting) base_world.surjective base_world.update_convs(1))
    show "tickfree sameTables" by (simp add: tickfree_def)
  qed
  from keeps_wp [OF this] show ?thesis
    by (rule wp_mono) (auto intro: sameTablesE assms)
qed

lemma stampStatus_status [simp]: "sr_status (stampStatus st now r) = st"
  by (simp add: stampStatus_def Let_def)

text \<open>What a replay leaves behind: the whole family, or the legacy row and its access tokens, is dead.\<close>

definition replayDead :: "'w world_scheme \<Rightarrow> 'w world_scheme \<Rightarrow> string \<Rightarrow> session_row \<Rightarrow> bool" where
  "replayDead w w' p m \<longleftrightarrow>
     (if sr_family_id m \<noteq> [] then familyDead w w' p {sr_family_id m} RefreshStatusReused
      else (\<forall>r \<in> set (w_sessions w' RefreshC). sr_id r = sr_id m \<longrightarrow> sr_status r = RefreshStatusReused)
        \<and> (\<forall>a \<in> set (w_sessions w' AccessC). visibleTo w' p (sr_provider_prefix a) \<longrightarrow>
             sr_request_id a \<noteq> sr_request_id m))"

lemma legacyDone_simps:
  "w_tombstones (legacyDone V r now w) = w_tombstones w"
  "terminal (legacyDone V r now w) p q = terminal w p q" "visibleTo (legacyDone V r now w) p = visibleTo w p"
  "w_sessions (legacyDone V r now w) RefreshC
     = map (\<lambda>x. if x = r then stampStatus RefreshStatusReused now x else x) (w_sessions w RefreshC)"
  "w_sessions (legacyDone V r now w) AccessC = filter (\<lambda>a. \<not> (sr_request_id a = sr_request_id r
      \<and> V (sr_provider_prefix a))) (w_sessions w AccessC)"
  by (simp_all add: legacyDone_def fun_eq_iff legacyDefaultAllowed_def)

lemma replay_invalidate:
  assumes wf: "idsOk w" and cp: "canonicalPrefix p" and m: "m \<in> set (w_sessions w RefreshC)" and v: "tbStep p q w v"
  shows "wp (if sr_family_id m \<noteq> [] then mapErrG g (invalidateRefreshFamily p (sr_family_id m))
             else mapErrG h (invalidateLegacyRefreshRow p m))
    (\<lambda>_ w'. terminal w' p q \<and> replayDead w w' p m) (\<lambda>_ w'. terminal w' p q) \<omega> v"
proof (cases "sr_family_id m = []")
  case False
  note views = tbStep_views [OF v] and tables = tbStep_tables [OF v]
  have "wp (mutateRefreshFamily p (sr_family_id m) RefreshStatusReused)
    (\<lambda>_ w'. terminal w' p q \<and> replayDead w w' p m) (\<lambda>_ w'. terminal w' p q) \<omega> v"
  proof (rule wp_mutateRefreshFamily [OF tbStep_idsOk [OF v wf] False])
    fix n now
    have "visibleTo (v\<lparr>tick := n\<rparr>) p = visibleTo w p" using views(3) by simp
    then show "terminal (familyDone (visibleTo v p) {sr_family_id m} (stampStatus RefreshStatusReused now) (v\<lparr>tick := n\<rparr>)) p q
      \<and> replayDead w (familyDone (visibleTo v p) {sr_family_id m} (stampStatus RefreshStatusReused now) (v\<lparr>tick := n\<rparr>)) p m"
      unfolding views(3) replayDead_def if_P [OF False]
      using tables(6) by (simp add: familyDone_simps familyDead_familyDone tables(1))
  qed (use tables(6) in simp)
  then show ?thesis using False by (simp add: invalidateRefreshFamily_def wp_mapErrG)
next
  case True
  note views = tbStep_views [OF v] and tables = tbStep_tables [OF v]
  have "wp (invalidateLegacyRefreshRow p m)
    (\<lambda>_ w'. terminal w' p q \<and> replayDead w w' p m) (\<lambda>_ w'. terminal w' p q) \<omega> v"
  proof (rule wp_invalidateLegacyRefreshRow [OF tbStep_idsOk [OF v wf]])
    fix n now r
    assume r: "r \<in> set (w_sessions v RefreshC)" "sr_id r = sr_id m"
    then have rm: "r = m" using same_id [OF wf _ m] tables(1) by simp
    have "r' = m" if "r' \<in> set (w_sessions w RefreshC)" "sr_id r' = sr_id m" for r'
      using same_id [OF wf that(1) m that(2)] .
    then show "terminal (legacyDone (visibleTo v p) r now (v\<lparr>tick := n\<rparr>)) p q
        \<and> replayDead w (legacyDone (visibleTo v p) r now (v\<lparr>tick := n\<rparr>)) p m"
      using tables(6) True by (auto simp: legacyDone_simps replayDead_def rm tables(1))
  qed (use tables(6) in simp)
  then show ?thesis using True by (simp add: wp_mapErrG)
qed

lemma reuse_outcome:
  assumes wf: "idsOk w" and cp: "canonicalPrefix (st_prefix s)"
    and m: "lookupSig w RefreshC (st_prefix s) sig = Some m" and st: "GetStatus m \<noteq> RefreshStatusActive"
    and nt: "\<not> terminal w (st_prefix s) (sr_request_id m)"
  shows "wp (GetRefreshTokenSession s sig ses)
    (\<lambda>r w'. snd r = Some (plainErr ErrInactiveToken) \<and> terminal w' (st_prefix s) (sr_request_id m)
       \<and> replayDead w w' (st_prefix s) m)
    (\<lambda>_ w'. sameTables w w' \<or> terminal w' (st_prefix s) (sr_request_id m)) \<omega> w"
proof -
  let ?p = "st_prefix s" and ?q = "sr_request_id m"
  let ?Q = "\<lambda>r w'. snd r = Some (plainErr ErrInactiveToken) \<and> terminal w' ?p ?q \<and> replayDead w w' ?p m"
  let ?E = "\<lambda>_ w'. sameTables w w' \<or> terminal w' ?p ?q"
  have mem: "m \<in> set (w_sessions w RefreshC)" using lookupSig_Some [OF m] by simp
  have tail: "wp (bindG (mapErrG (\<lambda>e. serverErr e ''failed to commit reused refresh-family authority'')
                   (commitRefreshTerminalAuthority ?p ?q (sr_family_id m) (expiryUnix m))) (\<lambda>_.
          bindG (if sr_family_id m \<noteq> []
                 then mapErrG (\<lambda>e. serverErr e ''failed to invalidate reused refresh family'')
                        (invalidateRefreshFamily ?p (sr_family_id m))
                 else mapErrG (\<lambda>e. serverErr e ''failed to invalidate legacy reused refresh token'')
                        (invalidateLegacyRefreshRow ?p m)) (\<lambda>_.
          case req of
            Inl reqErr \<Rightarrow> throwG (serverErr reqErr ''invalid reused refresh session'')
          | Inr req' \<Rightarrow> returnG (req', Some (plainErr ErrInactiveToken))))) ?Q ?E \<omega> (w\<lparr>tick := n\<rparr>)" for req n
  proof (cases "?q = []")
    case True
    then show ?thesis by (simp add: wp_bindG wp_mapErrG commit_Nil)
  next
    case False
    have wf': "tbWf (w\<lparr>tick := n\<rparr>)" using idsOkD(2) [OF wf] by simp
    show ?thesis unfolding wp_bindG wp_mapErrG
    proof (rule wp_mono [OF commit_terminal [OF cp False wf']])
      fix v
      assume "tbStep ?p ?q (w\<lparr>tick := n\<rparr>) v \<and> terminal v ?p ?q"
      then have "tbStep ?p ?q w v" using tbStep_tick [where w = w and n = n and w' = v and k = "tick v"] by simp
      from replay_invalidate [OF wf cp mem this]
      show "wp (if sr_family_id m \<noteq> []
                 then mapErrG (\<lambda>e. serverErr e ''failed to invalidate reused refresh family'')
                        (invalidateRefreshFamily ?p (sr_family_id m))
                 else mapErrG (\<lambda>e. serverErr e ''failed to invalidate legacy reused refresh token'')
                        (invalidateLegacyRefreshRow ?p m))
          (\<lambda>a. wp (case req of Inl reqErr \<Rightarrow> throwG (serverErr reqErr ''invalid reused refresh session'')
             | Inr req' \<Rightarrow> returnG (req', Some (plainErr ErrInactiveToken))) ?Q ?E \<omega>) ?E \<omega> v"
        by (rule wp_mono) (auto simp: wp_throwG wp_returnG split: sum.splits)
    qed (auto simp: sameTables_def)
  qed
  have req: "wp (bindG (attemptG (ToRequest s ses m)) (\<lambda>req. K req)) ?Q ?E \<omega> (w\<lparr>tick := n\<rparr>)"
    if "\<And>req n. wp (K req) ?Q ?E \<omega> (w\<lparr>tick := n\<rparr>)" for K n
    unfolding wp_bindG wp_attemptG by (rule wp_ToRequest_tables) (use that in simp_all)
  have replay: "wp (bindG (attemptG (ToRequest s ses m)) (\<lambda>req.
      bindG (mapErrG (\<lambda>e. serverErr e ''failed to commit reused refresh-family authority'')
               (commitRefreshTerminalAuthority ?p ?q (sr_family_id m) (expiryUnix m))) (\<lambda>_.
          bindG (if sr_family_id m \<noteq> []
                 then mapErrG (\<lambda>e. serverErr e ''failed to invalidate reused refresh family'')
                        (invalidateRefreshFamily ?p (sr_family_id m))
                 else mapErrG (\<lambda>e. serverErr e ''failed to invalidate legacy reused refresh token'')
                        (invalidateLegacyRefreshRow ?p m)) (\<lambda>_.
          case req of
            Inl reqErr \<Rightarrow> throwG (serverErr reqErr ''invalid reused refresh session'')
          | Inr req' \<Rightarrow> returnG (req', Some (plainErr ErrInactiveToken)))))) ?Q ?E \<omega> (w\<lparr>tick := n\<rparr>)" for n
    by (rule req) (rule tail)
  show ?thesis
    unfolding GetRefreshTokenSession_def wp_bindG [of "findSessionModelBySignature a b c" for a b c]
      wp_findSessionModelBySignature wp_bindG [of "mapErrG g (hasRefreshTerminalAuthority a b)" for g a b] wp_mapErrG
    using m st nt replay
    by (cases "?q = []") (simp_all add: Let_def wp_hasRefreshTerminalAuthority wp_hasRefreshTerminalAuthority_Nil cp
        split del: if_split cong: if_cong)
qed

subsection \<open>Rotation\<close>

lemma wp_execRotate:
  assumes "\<And>n. Q n (markRows (rotates p a sig) (\<lambda>r. r\<lparr>sr_status := RefreshStatusRotated, sr_rotated_at := t\<rparr>)
      (w\<lparr>tick := Suc (tick w)\<rparr>)) \<or> n \<noteq> length (filter (rotates p a sig) (w_sessions w RefreshC))"
    and "E driverErr (w\<lparr>tick := Suc (tick w)\<rparr>)"
  shows "wp (execRotate p a sig t) Q E \<omega> w"
  unfolding execRotate_def using assms by (auto simp: wp_simps markRows_def)

lemma errorsIs_serverErr_opaque: "opaque c \<Longrightarrow> \<not> errorsIs (serverErr c d) ErrInactiveToken"
  by (simp add: opaqueD)

lemma rotationLost_outcome:
  assumes wf: "idsOk w" and cp: "canonicalPrefix p"
  shows "wp (rotationLost p q sig) (\<lambda>_ _. False) (\<lambda>e w'. errorsIs e ErrInactiveToken \<longrightarrow> terminal w' p q) \<omega> w"
proof -
  let ?E = "\<lambda>e w'. errorsIs e ErrInactiveToken \<longrightarrow> terminal w' p q"
  have commit: "wp (mapErrG (\<lambda>e. serverErr e d) (commitRefreshTerminalAuthority p q f x))
      (\<lambda>_ v. tbStep p q w v) ?E \<omega> (w\<lparr>tick := n\<rparr>)" for d f x n
  proof (cases "q = []")
    case True
    then show ?thesis by (simp add: wp_mapErrG commit_Nil)
  next
    case False
    have wf': "tbWf (w\<lparr>tick := n\<rparr>)" using idsOkD(2) [OF wf] by simp
    have "tbStep p q w v" if "tbStep p q (w\<lparr>tick := n\<rparr>) v" for v
      using tbStep_tick [where w = w and n = n and w' = v and k = "tick v"] that by simp
    then show ?thesis unfolding wp_mapErrG
      by (intro wp_mono [OF commit_terminal [OF cp False wf']]) (auto simp: opaqueD)
  qed
  have then_throw: "wp (bindG (mapErrG (\<lambda>e. serverErr e d) (commitRefreshTerminalAuthority p q f x))
      (\<lambda>_. throwG (plainErr ErrInactiveToken))) (\<lambda>_ _. False) ?E \<omega> (w\<lparr>tick := n\<rparr>)" for d f x n
    unfolding wp_bindG wp_throwG by (rule wp_mono [OF commit]) (auto simp: tbStep_tables)
  have replay: "wp (bindG (mapErrG (\<lambda>e. serverErr e d) (commitRefreshTerminalAuthority p q f x)) (\<lambda>_.
       bindG (if sr_family_id m = [] then mapErrG g (invalidateLegacyRefreshRow p m)
              else mapErrG h (invalidateRefreshFamily p (sr_family_id m)))
       (\<lambda>_. throwG (plainErr ErrInactiveToken)))) (\<lambda>_ _. False) ?E \<omega> (w\<lparr>tick := n\<rparr>)"
    if "m \<in> set (w_sessions w RefreshC)" for d f x m g h n
    unfolding wp_bindG wp_throwG
  proof (rule wp_mono [OF commit])
    fix v assume v: "tbStep p q w v"
    have "(if sr_family_id m = [] then mapErrG g (invalidateLegacyRefreshRow p m)
              else mapErrG h (invalidateRefreshFamily p (sr_family_id m)))
      = (if sr_family_id m \<noteq> [] then mapErrG h (invalidateRefreshFamily p (sr_family_id m))
             else mapErrG g (invalidateLegacyRefreshRow p m))" by simp
    note swap = this
    show "wp (if sr_family_id m = [] then mapErrG g (invalidateLegacyRefreshRow p m)
              else mapErrG h (invalidateRefreshFamily p (sr_family_id m))) (\<lambda>_. ?E (plainErr ErrInactiveToken)) ?E \<omega> v"
      unfolding swap by (rule wp_mono [OF replay_invalidate [OF wf cp that v]]) auto
  qed simp
  show ?thesis
  proof (cases "lookupSig w RefreshC p sig")
    case None
    then show ?thesis unfolding rotationLost_def wp_bindG [of "attemptG x" for x] wp_attemptG
      using then_throw by (auto simp: wp_findSessionModelBySignature Let_def wp_throwG)
  next
    case (Some m)
    then have "m \<in> set (w_sessions w RefreshC)" using lookupSig_Some by blast
    note r = replay [OF this]
    show ?thesis
    proof (cases "sr_family_id m = []")
      case True
      show ?thesis unfolding rotationLost_def wp_bindG [of "attemptG x" for x] wp_attemptG
        by (auto simp: wp_findSessionModelBySignature Let_def wp_throwG Some True
            intro!: r [unfolded if_P [OF True]] then_throw)
    next
      case False
      show ?thesis unfolding rotationLost_def wp_bindG [of "attemptG x" for x] wp_attemptG
        by (auto simp: wp_findSessionModelBySignature Let_def wp_throwG Some False
            intro!: r [unfolded if_not_P [OF False]] then_throw)
    qed
  qed
qed

abbreviation rotateRow :: "int \<Rightarrow> session_row \<Rightarrow> session_row" where
  "rotateRow t r \<equiv> r\<lparr>sr_status := RefreshStatusRotated, sr_rotated_at := t\<rparr>"

lemma legacyDefaultAllowed_markRows: "legacyDefaultAllowed (markRows P g w) = legacyDefaultAllowed w"
  by (simp add: fun_eq_iff legacyDefaultAllowed_def)

lemma mark_outcome:
  assumes wf: "idsOk w" and cp: "canonicalPrefix p" and P: "P = rotates p (legacyDefaultAllowed w p) sig"
  shows "wp (markRefreshRotated p q sig)
    (\<lambda>_ v. (\<exists>n t. v = markRows P (rotateRow t) (w\<lparr>tick := n\<rparr>)) \<and> (\<exists>r \<in> set (w_sessions w RefreshC). P r)
       \<and> (q \<noteq> [] \<longrightarrow> \<not> terminal w p q))
    (\<lambda>e v. errorsIs e ErrInactiveToken \<longrightarrow> terminal v p q) \<omega> w"
proof -
  let ?Q = "\<lambda>_ v. (\<exists>n t. v = markRows P (rotateRow t) (w\<lparr>tick := n\<rparr>)) \<and> (\<exists>r \<in> set (w_sessions w RefreshC). P r)
       \<and> (q \<noteq> [] \<longrightarrow> \<not> terminal w p q)"
  let ?E = "\<lambda>e v. errorsIs e ErrInactiveToken \<longrightarrow> terminal v p q"
  have lost: "wp (rotationLost p q sig) ?Q ?E \<omega> (w\<lparr>tick := n\<rparr>)" for n
    by (rule wp_mono [OF rotationLost_outcome [of "w\<lparr>tick := n\<rparr>", OF _ cp]]) (use wf in auto)
  have same: "markRows P (rotateRow t) (w\<lparr>tick := n\<rparr>) = w\<lparr>tick := n\<rparr>"
    if "filter P (w_sessions w RefreshC) = []" for t n
  proof -
    have "map (\<lambda>r. if P r then rotateRow t r else r) (w_sessions w RefreshC) = w_sessions w RefreshC"
      using that by (intro map_idI) (auto simp: filter_empty_conv)
    then show ?thesis by (simp add: markRows_def)
  qed
  have upd: "wp (bindG (execRotate p (legacyDefaultAllowed w p) sig t)
      (\<lambda>n. if n > 0 then returnG () else rotationLost p q sig)) ?Q ?E \<omega> (w\<lparr>tick := n\<rparr>)"
    if nt: "q \<noteq> [] \<longrightarrow> \<not> terminal w p q" for t n
    unfolding wp_bindG
  proof (rule wp_execRotate)
    fix k
    let ?v = "markRows (rotates p (legacyDefaultAllowed w p) sig) (rotateRow t) (w\<lparr>tick := n, tick := Suc (tick (w\<lparr>tick := n\<rparr>))\<rparr>)"
    show "wp (if 0 < k then returnG () else rotationLost p q sig) ?Q ?E \<omega> ?v
      \<or> k \<noteq> length (filter (rotates p (legacyDefaultAllowed w p) sig) (w_sessions (w\<lparr>tick := n\<rparr>) RefreshC))"
    proof (cases "filter P (w_sessions w RefreshC) = []")
      case True
      then show ?thesis using lost same [OF True] by (simp add: P [symmetric])
    next
      case False
      then have "\<exists>r \<in> set (w_sessions w RefreshC). P r" by (auto simp: filter_empty_conv)
      with False nt show ?thesis by (auto simp: P [symmetric] wp_returnG)
    qed
  qed simp
  show ?thesis
    unfolding markRefreshRotated_def wp_bindG [of "mapErrG g m" for g m] wp_mapErrG
    using upd by (cases "q = []") (auto simp: wp_hasRefreshTerminalAuthority_Nil wp_hasRefreshTerminalAuthority cp Let_def
        wp_bindG [of timeNow] wp_timeNow wp_bindG [of "readG f" for f] wp_readG wp_throwG canonicalPrefixD [OF cp])
qed

lemma rotate_outcome:
  assumes wf: "idsOk w" and cp: "canonicalPrefix (st_prefix s)"
    and P: "P = rotates (st_prefix s) (legacyDefaultAllowed w (st_prefix s)) sig"
  shows "wp (RotateRefreshToken s q sig)
    (\<lambda>_ w'. (\<exists>r \<in> set (w_sessions w RefreshC). P r) \<and> (\<forall>r \<in> set (w_sessions w' RefreshC). \<not> P r)
       \<and> (q \<noteq> [] \<longrightarrow> \<not> terminal w (st_prefix s) q)
       \<and> (\<forall>a \<in> set (w_sessions w' AccessC). sr_request_id a = q \<longrightarrow> \<not> visibleTo w (st_prefix s) (sr_provider_prefix a)))
    (\<lambda>e w'. errorsIs e ErrInactiveToken \<longrightarrow> terminal w' (st_prefix s) q) \<omega> w"
  unfolding RotateRefreshToken_def wp_bindG [of "attemptG x" for x] wp_attemptG
proof (rule wp_mono [OF mark_outcome [OF wf cp P]])
  let ?p = "st_prefix s"
  let ?Q = "\<lambda>_ w'. (\<exists>r \<in> set (w_sessions w RefreshC). P r) \<and> (\<forall>r \<in> set (w_sessions w' RefreshC). \<not> P r)
       \<and> (q \<noteq> [] \<longrightarrow> \<not> terminal w ?p q)
       \<and> (\<forall>a \<in> set (w_sessions w' AccessC). sr_request_id a = q \<longrightarrow> \<not> visibleTo w ?p (sr_provider_prefix a))"
  let ?E = "\<lambda>e w'. errorsIs e ErrInactiveToken \<longrightarrow> terminal w' ?p q"
  fix a v
  assume v: "(\<exists>n t. v = markRows P (rotateRow t) (w\<lparr>tick := n\<rparr>)) \<and> (\<exists>r \<in> set (w_sessions w RefreshC). P r)
       \<and> (q \<noteq> [] \<longrightarrow> \<not> terminal w ?p q)"
  then obtain n t where vn: "v = markRows P (rotateRow t) (w\<lparr>tick := n\<rparr>)" by blast
  have "\<not> P (rotateRow t r)" for r by (simp add: P rotates_def status_defs)
  then have none: "\<forall>r \<in> set (w_sessions v RefreshC). \<not> P r" by (auto simp: vn)
  have vis: "visibleTo w ?p col \<longleftrightarrow> providerPrefixExp v ?p col" for col
    using withLegacy_eq [OF cp, of v col] by (simp add: vn legacyDefaultAllowed_markRows)
  show "wp (case Inr a of
         Inl e \<Rightarrow> bindG (if errorsIs e ErrInactiveToken
                  then mapErrG (\<lambda>c. serverErr c ''failed to remove access rows for inactive refresh rotation'')
                         (deleteSessionModelsByRequestID AccessC ?p q)
                  else returnG ()) (\<lambda>_. throwG e)
       | Inr _ \<Rightarrow> deleteSessionModelsByRequestID AccessC ?p q) ?Q ?E \<omega> v"
    unfolding sum.case
  proof (rule wp_deleteSessionModelsByRequestID)
    fix k
    have "\<not> visibleTo w ?p (sr_provider_prefix b)"
      if b: "b \<in> set (w_sessions v AccessC)" "sr_id b \<notin> sr_id ` set (requestRows v AccessC ?p q)" "sr_request_id b = q" for b
    proof -
      have "b \<notin> set (requestRows v AccessC ?p q)" using b(2) by blast
      with b(1,3) vis show ?thesis by (simp add: in_requestRows)
    qed
    then show "?Q () (delIds AccessC (sr_id ` set (requestRows v AccessC ?p q)) (v\<lparr>tick := k\<rparr>))"
      using v none by simp
  qed simp
next
  let ?p = "st_prefix s"
  fix e v
  assume v: "errorsIs e ErrInactiveToken \<longrightarrow> terminal v ?p q"
  have del: "wp (deleteSessionModelsByRequestID AccessC ?p q) (\<lambda>_ w'. terminal v ?p q \<longrightarrow> terminal w' ?p q) (\<lambda>x _. x = driverErr) \<omega> v"
    by (rule wp_deleteSessionModelsByRequestID) simp_all
  show "wp (case Inl e of
         Inl e \<Rightarrow> bindG (if errorsIs e ErrInactiveToken
                  then mapErrG (\<lambda>c. serverErr c ''failed to remove access rows for inactive refresh rotation'')
                         (deleteSessionModelsByRequestID AccessC ?p q)
                  else returnG ()) (\<lambda>_. throwG e)
       | Inr _ \<Rightarrow> deleteSessionModelsByRequestID AccessC ?p q)
      (\<lambda>_ w'. (\<exists>r \<in> set (w_sessions w RefreshC). P r) \<and> (\<forall>r \<in> set (w_sessions w' RefreshC). \<not> P r)
       \<and> (q \<noteq> [] \<longrightarrow> \<not> terminal w ?p q)
       \<and> (\<forall>a \<in> set (w_sessions w' AccessC). sr_request_id a = q \<longrightarrow> \<not> visibleTo w ?p (sr_provider_prefix a)))
      (\<lambda>e w'. errorsIs e ErrInactiveToken \<longrightarrow> terminal w' ?p q) \<omega> v"
    unfolding sum.case wp_bindG wp_throwG wp_if wp_returnG wp_mapErrG
    using v by (auto intro: wp_mono [OF del])
qed

end
