(* ===== verification/Demo.thy ===== *)
theory Demo
  imports Refresh_Outcomes
begin

section \<open>A concrete environment and concrete worlds\<close>

text \<open>
  The inputs at which the properties are instantiated: an environment in which no statement fails, the
  default provider, one confidential client, and a world that holds one refresh family: a rotated
  ancestor, an active leaf and the access token of the request.
\<close>

definition demoEnv :: store_envir where
  "demoEnv = \<lparr>dbfail = (\<lambda>_. False), clock = (\<lambda>n. 1700000000000000 + int n), uuid = (\<lambda>n. replicate n (CHR ''u'')),
     marshalSession = (\<lambda>s. Some (ses_Subject s)), unmarshalSession = (\<lambda>_ t. Some t),
     jsonValid = (\<lambda>_. True), jwksValid = (\<lambda>_. True)\<rparr>"

definition demoStore :: oauth2store where
  "demoStore = \<lparr>st_prefix = DefaultPathPrefix\<rparr>"

definition demoClientRow :: client_row where
  "demoClientRow = \<lparr>cr_id = ''c1'', cr_provider_prefix = DefaultPathPrefix, cr_client_id = ''app'',
     cr_client_name = ''App'', cr_client_secret = [], cr_client_secret_expires_at = 0,
     cr_redirect_uris = [''https://app/cb''], cr_grant_types = [''authorization_code''],
     cr_response_types = [''code''], cr_scope = ''openid'', cr_audience = [], cr_owner = [], cr_policy_uri = [],
     cr_tos_uri = [], cr_client_uri = [], cr_logo_uri = [], cr_contacts = [], cr_allowed_cors_origins = [],
     cr_subject_type = ''public'', cr_sector_identifier_uri = [], cr_jwks_uri = [], cr_jwks = ''null'',
     cr_request_uris = [], cr_token_endpoint_auth_method = ''none'', cr_token_endpoint_auth_signing_alg = [],
     cr_request_object_signing_alg = [], cr_userinfo_signed_response_alg = [], cr_metadata = ''null'',
     cr_access_token_strategy = []\<rparr>"

definition demoClient :: client where
  "demoClient = \<lparr>cl_ID = ''app'', cl_Name = ''App'', cl_Secret = [], cl_RedirectURIs = [''https://app/cb''],
     cl_GrantTypes = [''authorization_code''], cl_ResponseTypes = [''code''], cl_Scope = ''openid'', cl_Audience = [],
     cl_Owner = [], cl_PolicyURI = [], cl_AllowedCORSOrigins = [], cl_TermsOfServiceURI = [], cl_ClientURI = [],
     cl_LogoURI = [], cl_Contacts = [], cl_SecretExpiresAt = 0, cl_SubjectType = ''public'',
     cl_SectorIdentifierURI = [], cl_JSONWebKeysURI = [], cl_JSONWebKeys = None,
     cl_TokenEndpointAuthMethod = ''none'', cl_TokenEndpointAuthSigningAlgorithm = [], cl_RequestURIs = [],
     cl_RequestObjectSigningAlgorithm = [], cl_UserinfoSignedResponseAlgorithm = [], cl_Metadata = ''null'',
     cl_AccessTokenStrategy = []\<rparr>"

definition demoRequest :: "string \<Rightarrow> requester" where
  "demoRequest q = \<lparr>rq_ID = q, rq_RequestedAt = 0, rq_Client = demoClient, rq_RequestedScopes = [''openid''],
     rq_GrantedScopes = [''openid''], rq_RequestedAudience = [], rq_GrantedAudience = [], rq_Form = [],
     rq_Session = None\<rparr>"

definition demoRow :: "string \<Rightarrow> string \<Rightarrow> string \<Rightarrow> string \<Rightarrow> session_row" where
  "demoRow i sg q status = emptySessionRow\<lparr>sr_id := i, sr_provider_prefix := DefaultPathPrefix, sr_signature := sg,
     sr_client_id := ''app'', sr_request_id := q, sr_expires_at := Some 1800000000, sr_family_id := ''fam'',
     sr_status := status\<rparr>"

definition demoWorld :: world where
  "demoWorld = (emptyWorld [DefaultPathPrefix])\<lparr>w_clients := [demoClientRow],
     w_sessions := (\<lambda>c. if c = RefreshC then [demoRow ''r1'' ''s1'' ''q'' ''rotated'', demoRow ''r2'' ''s2'' ''q'' ''active'']
        else if c = AccessC then [demoRow ''a1'' ''t1'' ''q'' '''']
        else if c = AuthCodeC then [demoRow ''k1'' ''code'' ''q'' ''''] else [])\<rparr>"

text \<open>The same world after the request has become terminal.\<close>

definition demoTomb :: tombstone_row where
  "demoTomb = \<lparr>tb_id = ''x1'', tb_provider_prefix = DefaultPathPrefix, tb_request_id = ''q'',
     tb_family_id = ''fam'', tb_expires_at = 1900000000\<rparr>"

definition demoTerminal :: world where
  "demoTerminal = demoWorld\<lparr>w_tombstones := [demoTomb]\<rparr>"

text \<open>The world that a storage call of the default provider leaves behind.\<close>

definition demoAfter :: "store_op \<Rightarrow> world \<Rightarrow> world" where
  "demoAfter op w = snd (execOp demoStore op demoEnv w)"

lemma demo_run: "DefaultPathPrefix \<in> A \<Longrightarrow> store_run A w (demoAfter op w)"
  unfolding demoAfter_def
  by (rule store_run_one [of demoStore A op demoEnv w "fst (execOp demoStore op demoEnv w)"])
    (simp_all add: demoStore_def)

lemma demo_canonical [simp]: "canonicalPrefix (st_prefix demoStore)"
  by (simp add: demoStore_def)

lemma demo_idsOk [simp]: "idsOk demoWorld"
  by (simp add: idsOk_def tbWf_def demoWorld_def emptyWorld_def demoRow_def)

lemmas op_defs = RevokeRefreshToken_def commitRefreshTerminalAuthority_def scopedRefreshArtifactAuthority_def
  upsertTombstone_def findTombstone_def queryTombstones_def insertTombstone_def updateTombstone_def
  revokeRefreshFamilyByRequestID_def deleteAccessOf_def deleteSession_def updateSession_def querySessions_def
  findCollection_def seeRequestID_def Let_def findSessionModelBySignature_def collectionOrInvalid_def
  lookupSig_def ToRequest_def GetClient_def queryClients_def ToClient_def GetRefreshTokenSession_def
  invalidateRefreshFamily_def invalidateLegacyRefreshRow_def mutateRefreshFamily_def RotateRefreshToken_def
  markRefreshRotated_def rotationLost_def execRotate_def rotates_def deleteSessionModelsByRequestID_def
  deleteSessionModelBySignature_def GetStatus_def mapRFCErr_def expiryUnix_def stampStatus_def unixSec_def missingRefreshTombstoneLifetime_def
  hasRefreshTerminalAuthority_def requestRows_def providerPrefixExp_def providerPrefixExpWithLegacy_def
  legacyDefaultAllowed_def status_defs GetExpiresAt_def fromUnix_def tombstoneValid_def

lemma parseQuery_Nil [simp]: "parseQuery [] = Some []"
  by code_simp

lemmas demo_defs = demoClientRow_def demoWorld_def emptyWorld_def demoEnv_def demoStore_def demoRow_def emptySessionRow_def

lemma DefaultPathPrefix_ne [simp]: "DefaultPathPrefix \<noteq> []"
  by (simp add: DefaultPathPrefix_def)

lemma demo_idsOk_terminal [simp]: "idsOk demoTerminal"
  by (simp add: demoTerminal_def idsOk_def tbWf_def demoWorld_def emptyWorld_def demoRow_def)

lemma demo_terminal [simp]: "terminal demoTerminal DefaultPathPrefix ''q''"
  by (simp add: terminal_def demoTerminal_def demoTomb_def)

text \<open>The three calls at the concrete world, run by rewriting.\<close>

lemma demo_revoke: "fst (RevokeRefreshToken demoStore ''q'' demoEnv demoWorld) = Inr ()"
  by (simp add: op_defs run_simps demo_defs cong: run_congs)

lemma demo_rotate: "fst (RotateRefreshToken demoStore ''q'' ''s2'' demoEnv demoWorld) = Inr ()"
  by (simp add: op_defs run_simps demo_defs cong: run_congs)

lemma demo_replay:
  "\<exists>r. fst (GetRefreshTokenSession demoStore ''s1'' None demoEnv demoWorld) = Inr (r, Some (plainErr ErrInactiveToken))"
  by (simp add: op_defs run_simps demo_defs cong: run_congs)

lemma run_result: "fst x = r \<Longrightarrow> x = (r, snd x)"
  by (cases x) simp

end
