(* ===== verification/Refresh_Properties.thy ===== *)
theory Refresh_Properties
  imports Demo
begin

section \<open>Properties of refresh families\<close>

text \<open>
  The properties of the token storage: what holds along every interleaving of storage calls, and what
  each security-critical call guarantees about its outcome. Every property with hypotheses is
  instantiated at a concrete world.
\<close>

text \<open>C1: terminal authority is permanent: whatever storage calls run, of any providers, in any order and
  with any failures, a tombstone stays, its expiry never moves back, and its family is never changed.\<close>

theorem terminal_authority_persists:
  assumes "store_run A w w'" "idsOk w" "t \<in> set (w_tombstones w)"
  shows "\<exists>t' \<in> set (w_tombstones w'). tb_provider_prefix t' = tb_provider_prefix t
    \<and> tb_request_id t' = tb_request_id t \<and> tb_expires_at t \<le> tb_expires_at t'
    \<and> (tb_family_id t \<noteq> [] \<longrightarrow> tb_family_id t' = tb_family_id t)"
  using store_run_idsOk(3) [OF store_run_tombStays [OF assms(1)] assms(2)] assms(3)
  unfolding tombStays_def by blast

theorem terminal_authority_persists_witness:
  "\<exists>t' \<in> set (w_tombstones (demoAfter (RotateRefreshTokenOp ''q'' ''s2'') demoTerminal)).
     tb_provider_prefix t' = tb_provider_prefix demoTomb \<and> tb_request_id t' = tb_request_id demoTomb
    \<and> tb_expires_at demoTomb \<le> tb_expires_at t'
    \<and> (tb_family_id demoTomb \<noteq> [] \<longrightarrow> tb_family_id t' = tb_family_id demoTomb)"
  by (rule terminal_authority_persists [OF demo_run [of UNIV] demo_idsOk_terminal])
    (simp_all add: demoTerminal_def)

text \<open>C2: once a request of a provider is terminal, no interleaving of storage calls ever creates an access
  row for it, and no refresh row of it becomes or is created active: it stays dead.\<close>

theorem nothing_issued_after_termination:
  assumes "store_run A w w'" "idsOk w" "q \<noteq> []" "terminal w p q"
  shows "terminal w' p q
    \<and> (\<forall>r \<in> set (w_sessions w' AccessC). sr_provider_prefix r = p \<and> sr_request_id r = q \<longrightarrow> r \<in> set (w_sessions w AccessC))
    \<and> (\<forall>r \<in> set (w_sessions w' RefreshC). sr_provider_prefix r = p \<and> sr_request_id r = q
      \<and> GetStatus r = RefreshStatusActive \<longrightarrow> r \<in> set (w_sessions w RefreshC))"
  using store_run_idsOk(3) [OF store_run_noIssue [OF assms(1,3)] assms(2), of p] assms(4)
  unfolding noIssue_def by blast

theorem nothing_issued_after_termination_witness:
  "let w' = demoAfter (CreateAccessTokenOp ''t2'' (demoRequest ''q'')) demoTerminal in
   terminal w' DefaultPathPrefix ''q''
    \<and> (\<forall>r \<in> set (w_sessions w' AccessC). sr_provider_prefix r = DefaultPathPrefix \<and> sr_request_id r = ''q'' \<longrightarrow>
         r \<in> set (w_sessions demoTerminal AccessC))
    \<and> (\<forall>r \<in> set (w_sessions w' RefreshC). sr_provider_prefix r = DefaultPathPrefix \<and> sr_request_id r = ''q''
      \<and> GetStatus r = RefreshStatusActive \<longrightarrow> r \<in> set (w_sessions demoTerminal RefreshC))"
  unfolding Let_def
  by (rule nothing_issued_after_termination [OF demo_run [of UNIV] demo_idsOk_terminal _ demo_terminal]) simp_all

text \<open>C3: a request of a provider never has two active refresh rows: under every interleaving of storage
  calls (concurrent rotations, creations, replays) the number of active rows stays at most one.\<close>

theorem at_most_one_active_refresh:
  assumes "store_run A w w'" "idsOk w" "oneActive w"
  shows "length (filter (\<lambda>r. sr_provider_prefix r = p \<and> sr_request_id r = q \<and> GetStatus r = RefreshStatusActive)
    (w_sessions w' RefreshC)) \<le> 1"
proof -
  have "guarded oneActiveR w w'"
    by (rule store_run_guarded [OF assms(1)]) (auto intro: frame_oneActive oneActiveR_pre)
  from store_run_idsOk(3) [OF this assms(2)] assms(3) show ?thesis
    by (simp add: oneActiveR_def oneActive_def activeRows_def)
qed

theorem at_most_one_active_refresh_witness:
  "length (filter (\<lambda>r. sr_provider_prefix r = DefaultPathPrefix \<and> sr_request_id r = ''q'' \<and> GetStatus r = RefreshStatusActive)
    (w_sessions (demoAfter (CreateRefreshTokenOp ''s3'' ''t3'' (demoRequest ''q'')) demoWorld) RefreshC)) \<le> 1"
  by (rule at_most_one_active_refresh [OF demo_run [of UNIV] demo_idsOk])
    (simp_all add: oneActive_def activeRows_def demoWorld_def demoRow_def GetStatus_def status_defs)

text \<open>C8: providers are isolated: storage calls of other providers leave the session rows, the tombstones and
  the JTIs of a provider untouched, in content and order, whatever they do.\<close>

theorem providers_isolated:
  assumes "store_run A w w'" "idsOk w" "canonicalPrefix p" "p \<notin> A"
  shows "(\<forall>c. ownRows w' c p = ownRows w c p)
    \<and> filter (\<lambda>t. tb_provider_prefix t = p) (w_tombstones w') = filter (\<lambda>t. tb_provider_prefix t = p) (w_tombstones w)
    \<and> filter (\<lambda>j. jt_provider_prefix j = p) (w_jtis w') = filter (\<lambda>j. jt_provider_prefix j = p) (w_jtis w)"
proof -
  have "guarded (untouched p) w w'"
    by (rule store_run_guarded [OF assms(1)]) (use assms(3,4) in \<open>auto intro: frame_untouched untouched_pre\<close>)
  from store_run_idsOk(3) [OF this assms(2)] show ?thesis by (simp add: untouched_def)
qed

theorem providers_isolated_witness:
  "let w' = demoAfter (RevokeAccessTokenOp ''q'') demoWorld in
   (\<forall>c. ownRows w' c ''/mcp'' = ownRows demoWorld c ''/mcp'')
    \<and> filter (\<lambda>t. tb_provider_prefix t = ''/mcp'') (w_tombstones w') = filter (\<lambda>t. tb_provider_prefix t = ''/mcp'') (w_tombstones demoWorld)
    \<and> filter (\<lambda>j. jt_provider_prefix j = ''/mcp'') (w_jtis w') = filter (\<lambda>j. jt_provider_prefix j = ''/mcp'') (w_jtis demoWorld)"
  unfolding Let_def
proof (rule providers_isolated [OF demo_run [of "{DefaultPathPrefix}"] demo_idsOk])
  show "canonicalPrefix ''/mcp''" by code_simp
qed (simp_all add: DefaultPathPrefix_def)

text \<open>A refresh row that was reused or revoked stays in the table with a terminal status and its signature,
  so that a later replay is still recognised; no storage call deletes or reactivates it.\<close>

theorem terminal_rows_stay:
  assumes "store_run A w w'" "idsOk w" "r \<in> set (w_sessions w RefreshC)" "terminalStatus r"
  shows "\<exists>r' \<in> set (w_sessions w' RefreshC). sr_id r' = sr_id r \<and> sr_signature r' = sr_signature r
    \<and> sr_provider_prefix r' = sr_provider_prefix r \<and> sr_request_id r' = sr_request_id r \<and> terminalStatus r'"
proof -
  have "guarded breadcrumbs w w'"
    by (rule store_run_guarded [OF assms(1)]) (auto intro: frame_breadcrumbs breadcrumbs_pre)
  from store_run_idsOk(3) [OF this assms(2)] assms(3,4) show ?thesis unfolding breadcrumbs_def by blast
qed

definition demoReusedWorld :: world where
  "demoReusedWorld = demoWorld\<lparr>w_sessions := (w_sessions demoWorld)(RefreshC := [demoRow ''r1'' ''s1'' ''q'' ''reused''])\<rparr>"

theorem terminal_rows_stay_witness:
  "\<exists>r' \<in> set (w_sessions (demoAfter (DeleteRefreshTokenOp ''s1'') demoReusedWorld) RefreshC). sr_id r' = ''r1''
    \<and> sr_signature r' = ''s1'' \<and> sr_provider_prefix r' = DefaultPathPrefix \<and> sr_request_id r' = ''q'' \<and> terminalStatus r'"
  using terminal_rows_stay [OF demo_run [of UNIV], of demoReusedWorld "demoRow ''r1'' ''s1'' ''q'' ''reused''" "DeleteRefreshTokenOp ''s1''"]
  by (simp add: demoReusedWorld_def idsOk_def tbWf_def demoWorld_def emptyWorld_def demoRow_def terminalStatus_def
      GetStatus_def status_defs)

text \<open>Within a collection and a provider a signature names at most one row, under every interleaving.\<close>

theorem signatures_stay_unique:
  assumes "store_run A w w'" "idsOk w" "sigUnique w"
  shows "sigUnique w' \<and> idsOk w'"
proof -
  have "guarded sigUniqueR w w'"
    by (rule store_run_guarded [OF assms(1)])
      (auto intro: frame_sigUnique sigUniqueR_pre)
  from store_run_idsOk(1,3) [OF this assms(2)] assms(3) show ?thesis by (simp add: sigUniqueR_def)
qed

theorem signatures_stay_unique_witness:
  "sigUnique (demoAfter (CreatePKCEOp ''pk'' (demoRequest ''q'')) demoWorld)
    \<and> idsOk (demoAfter (CreatePKCEOp ''pk'' (demoRequest ''q'')) demoWorld)"
  by (rule signatures_stay_unique [OF demo_run [of UNIV] demo_idsOk])
    (simp_all add: sigUnique_def demoWorld_def emptyWorld_def demoRow_def)

subsection \<open>Outcomes\<close>

text \<open>C7: a terminal request is refused by every operation: no access token and no refresh token is created for
  it, no rotation succeeds, its access tokens do not read, and reading its refresh tokens never succeeds
  without ErrInactiveToken, whatever the environment does.\<close>

theorem terminal_request_refused:
  assumes "canonicalPrefix (st_prefix s)" "q \<noteq> []" "terminal w (st_prefix s) q" "rq_ID rq = q"
    and "\<And>m. lookupSig w AccessC (st_prefix s) asig = Some m \<Longrightarrow> sr_request_id m = q"
    and "\<And>m. lookupSig w RefreshC (st_prefix s) rsig = Some m \<Longrightarrow> sr_request_id m = q"
  shows "(\<exists>e v. CreateAccessTokenSession s sig rq \<omega> w = (Inl e, v))
    \<and> (\<exists>e v. CreateRefreshTokenSession s sig asig' rq \<omega> w = (Inl e, v))
    \<and> (\<exists>e v. RotateRefreshToken s q sig \<omega> w = (Inl e, v))
    \<and> (\<exists>e v. GetAccessTokenSession s asig ses \<omega> w = (Inl e, v))
    \<and> (\<exists>r v. GetRefreshTokenSession s rsig ses \<omega> w = (r, v)
         \<and> (case r of Inl _ \<Rightarrow> True | Inr (_, e) \<Rightarrow> e = Some (plainErr ErrInactiveToken)))"
proof (intro conjI)
  show "\<exists>e v. CreateAccessTokenSession s sig rq \<omega> w = (Inl e, v)"
    using refused_CreateAccess [of s rq w sig \<omega>] assms(1-4) by (simp add: wp_False_Inl)
  show "\<exists>e v. CreateRefreshTokenSession s sig asig' rq \<omega> w = (Inl e, v)"
    using refused_CreateRefresh [of s w rq sig asig' \<omega>] assms(1-4) by (simp add: wp_False_Inl)
  show "\<exists>e v. RotateRefreshToken s q sig \<omega> w = (Inl e, v)"
    using refused_Rotate [OF assms(1-3), of sig \<omega>] by (simp add: wp_False_Inl)
  show "\<exists>e v. GetAccessTokenSession s asig ses \<omega> w = (Inl e, v)"
    using refused_GetAccess [where \<omega> = \<omega> and ses = ses, OF assms(1-3,5)] by (simp add: wp_False_Inl)
  obtain r v where r: "GetRefreshTokenSession s rsig ses \<omega> w = (r, v)" by force
  have "case r of Inl _ \<Rightarrow> True | Inr (_, e) \<Rightarrow> e = Some (plainErr ErrInactiveToken)"
  proof (cases r)
    case (Inr a)
    then show ?thesis using wp_outcome_Inr [OF refused_GetRefresh [where \<omega> = \<omega> and ses = ses, OF assms(1-3,6)]] r
      by (cases a) auto
  qed simp
  with r show "\<exists>r v. GetRefreshTokenSession s rsig ses \<omega> w = (r, v)
         \<and> (case r of Inl _ \<Rightarrow> True | Inr (_, e) \<Rightarrow> e = Some (plainErr ErrInactiveToken))" by blast
qed

theorem terminal_request_refused_witness:
  "(\<exists>e v. CreateAccessTokenSession demoStore ''t2'' (demoRequest ''q'') demoEnv demoTerminal = (Inl e, v))
    \<and> (\<exists>e v. CreateRefreshTokenSession demoStore ''t2'' ''t1'' (demoRequest ''q'') demoEnv demoTerminal = (Inl e, v))
    \<and> (\<exists>e v. RotateRefreshToken demoStore ''q'' ''t2'' demoEnv demoTerminal = (Inl e, v))
    \<and> (\<exists>e v. GetAccessTokenSession demoStore ''t1'' None demoEnv demoTerminal = (Inl e, v))
    \<and> (\<exists>r v. GetRefreshTokenSession demoStore ''s2'' None demoEnv demoTerminal = (r, v)
         \<and> (case r of Inl _ \<Rightarrow> True | Inr (_, e) \<Rightarrow> e = Some (plainErr ErrInactiveToken)))"
  by (rule terminal_request_refused)
    (auto simp: demoStore_def demoRequest_def lookupSig_def demoTerminal_def demoWorld_def demoRow_def
      split: if_splits, simp add: terminal_def demoTomb_def)

text \<open>C6: a revocation that reports success has made the request terminal, every refresh row of the families the
  request belongs to is revoked, and no access row is left for any request id of those families; one that
  reports failure has either changed nothing or committed exactly the terminal authority.\<close>

theorem revocation_kills_the_family:
  assumes "idsOk w" "canonicalPrefix (st_prefix s)" "q \<noteq> []" "RevokeRefreshToken s q \<omega> w = (r, w')"
  shows "case r of
      Inr _ \<Rightarrow> terminal w' (st_prefix s) q
        \<and> familyDead w w' (st_prefix s) (familiesOfRequest w (st_prefix s) q) RefreshStatusRevoked
    | Inl _ \<Rightarrow> sameTables w w' \<or> tbStep (st_prefix s) q w w'"
  using wp_outcome [OF revoke_outcome [OF assms(1-3)] assms(4)] by (simp split: sum.splits)

theorem revocation_kills_the_family_witness:
  "\<exists>w'. RevokeRefreshToken demoStore ''q'' demoEnv demoWorld = (Inr (), w') \<and> terminal w' DefaultPathPrefix ''q''
     \<and> familyDead demoWorld w' DefaultPathPrefix (familiesOfRequest demoWorld DefaultPathPrefix ''q'') RefreshStatusRevoked"
  using revocation_kills_the_family [OF demo_idsOk demo_canonical _ run_result [OF demo_revoke]] run_result [OF demo_revoke]
  by (auto simp: demoStore_def)

text \<open>C4: replaying a refresh token that is no longer active is detected: the call never hands the request out
  without ErrInactiveToken, and when it reports the replay the request is terminal, every row of the
  family is marked reused and no access row of the family is left; if it fails on the way, either nothing
  happened or the terminal authority has been committed all the same.\<close>

theorem replay_is_detected:
  assumes "idsOk w" "canonicalPrefix (st_prefix s)" "lookupSig w RefreshC (st_prefix s) sig = Some m"
    "GetStatus m \<noteq> RefreshStatusActive" "\<not> terminal w (st_prefix s) (sr_request_id m)"
    "GetRefreshTokenSession s sig ses \<omega> w = (r, w')"
  shows "case r of
      Inr (_, e) \<Rightarrow> e = Some (plainErr ErrInactiveToken) \<and> terminal w' (st_prefix s) (sr_request_id m)
        \<and> replayDead w w' (st_prefix s) m
    | Inl _ \<Rightarrow> sameTables w w' \<or> terminal w' (st_prefix s) (sr_request_id m)"
  using wp_outcome [OF reuse_outcome [OF assms(1-5)] assms(6)] by (auto split: sum.splits)

theorem replay_is_detected_witness:
  "\<exists>r w'. GetRefreshTokenSession demoStore ''s1'' None demoEnv demoWorld = (Inr (r, Some (plainErr ErrInactiveToken)), w')
     \<and> terminal w' DefaultPathPrefix ''q'' \<and> replayDead demoWorld w' DefaultPathPrefix (demoRow ''r1'' ''s1'' ''q'' ''rotated'')"
proof -
  have l: "lookupSig demoWorld RefreshC (st_prefix demoStore) ''s1'' = Some (demoRow ''r1'' ''s1'' ''q'' ''rotated'')"
    using providerPrefixExp_own [OF canonical_Default]
    by (simp add: lookupSig_def demoWorld_def demoRow_def demoStore_def)
  obtain r where r: "fst (GetRefreshTokenSession demoStore ''s1'' None demoEnv demoWorld) = Inr (r, Some (plainErr ErrInactiveToken))"
    using demo_replay by blast
  from replay_is_detected [OF demo_idsOk demo_canonical l _ _ run_result [OF r]] run_result [OF r] show ?thesis
    by (auto simp: demoStore_def demoRow_def GetStatus_def status_defs terminal_def demoWorld_def emptyWorld_def)
qed

text \<open>C5: a rotation that succeeds has found an active row of the signature, leaves no active row of it, has not
  been given a terminal request, and leaves no access row of the request; so of two rotations of one token,
  the second can never succeed. A rotation refused with ErrInactiveToken leaves the request terminal.\<close>

theorem rotation_has_one_winner:
  assumes "idsOk w" "canonicalPrefix (st_prefix s)"
    "RotateRefreshToken s q sig \<omega> w = (r, w')" "P = rotates (st_prefix s) (legacyDefaultAllowed w (st_prefix s)) sig"
  shows "case r of
      Inr _ \<Rightarrow> (\<exists>x \<in> set (w_sessions w RefreshC). P x) \<and> (\<forall>x \<in> set (w_sessions w' RefreshC). \<not> P x)
        \<and> (q \<noteq> [] \<longrightarrow> \<not> terminal w (st_prefix s) q)
        \<and> (\<forall>a \<in> set (w_sessions w' AccessC). sr_request_id a = q \<longrightarrow>
             \<not> visibleTo w (st_prefix s) (sr_provider_prefix a))
    | Inl e \<Rightarrow> errorsIs e ErrInactiveToken \<longrightarrow> terminal w' (st_prefix s) q"
  using wp_outcome [OF rotate_outcome [OF assms(1,2,4)] assms(3)] by (simp split: sum.splits)

theorem rotation_has_one_winner_witness:
  "let P = rotates DefaultPathPrefix (legacyDefaultAllowed demoWorld DefaultPathPrefix) ''s2'' in
   \<exists>w'. RotateRefreshToken demoStore ''q'' ''s2'' demoEnv demoWorld = (Inr (), w')
     \<and> (\<exists>x \<in> set (w_sessions demoWorld RefreshC). P x) \<and> (\<forall>x \<in> set (w_sessions w' RefreshC). \<not> P x)
     \<and> \<not> terminal demoWorld DefaultPathPrefix ''q''
     \<and> (\<forall>a \<in> set (w_sessions w' AccessC). sr_request_id a = ''q'' \<longrightarrow>
             \<not> visibleTo demoWorld DefaultPathPrefix (sr_provider_prefix a))"
  using rotation_has_one_winner [OF demo_idsOk demo_canonical run_result [OF demo_rotate] refl] run_result [OF demo_rotate]
  unfolding Let_def by (auto simp: demoStore_def)

lemma wp_hasJTIModel:
  "wp (hasJTIModel p j) Q E \<omega> w =
    (let w1 = w\<lparr>tick := Suc (tick w)\<rparr>; w2 = w\<lparr>tick := Suc (Suc (tick w))\<rparr> in
     if dbfail \<omega> (tick w) then E (serverErr driverErr []) w1
     else if dbfail \<omega> (Suc (tick w)) then E (serverErr driverErr []) w2
     else if \<exists>r \<in> set (w_jtis w). jt_jti r = j \<and> providerPrefixExp w p (jt_provider_prefix r)
     then E (plainErr ErrJTIKnown) w2 else Q () w2)"
  unfolding hasJTIModel_def by (auto simp: wp_simps Let_def filter_empty_conv)

lemma spent_code:
  assumes "canonicalPrefix (st_prefix s)" "\<exists>j \<in> set (w_jtis w). jt_jti j = code \<and> jt_provider_prefix j = st_prefix s"
  shows "wp (GetAuthorizeCodeSession s code ses) (\<lambda>r _. snd r \<noteq> None) (\<lambda>_ _. True) \<omega> w"
proof -
  have known: "\<exists>r \<in> set (w_jtis w). jt_jti r = code \<and> providerPrefixExp w (st_prefix s) (jt_provider_prefix r)"
    using assms(2) providerPrefixExp_own [OF assms(1)] by fastforce
  have read: "wp (bindG (attemptG (hasJTIModel (st_prefix s) code)) (\<lambda>r. case r of
         Inr _ \<Rightarrow> returnG (req, None)
       | Inl e \<Rightarrow>
           if errorsIs e ErrJTIKnown then returnG (req, Some (plainErr ErrInvalidatedAuthorizeCode))
           else returnG (req, Some (serverErr e
                  ''Failed to check if the authorization code has been invalidated''))))
      (\<lambda>r _. snd r \<noteq> None) (\<lambda>_ _. True) \<omega> (w\<lparr>tick := n\<rparr>)" for req n
    using known by (auto simp: wp_bindG wp_attemptG wp_hasJTIModel Let_def wp_returnG)
  have "wp (bindG (ToRequest s ses m) (\<lambda>req. bindG (attemptG (hasJTIModel (st_prefix s) code)) (\<lambda>r. case r of
         Inr _ \<Rightarrow> returnG (req, None)
       | Inl e \<Rightarrow>
           if errorsIs e ErrJTIKnown then returnG (req, Some (plainErr ErrInvalidatedAuthorizeCode))
           else returnG (req, Some (serverErr e
                  ''Failed to check if the authorization code has been invalidated'')))))
      (\<lambda>r _. snd r \<noteq> None) (\<lambda>_ _. True) \<omega> (w\<lparr>tick := n\<rparr>)" for m n
    unfolding wp_bindG [of "ToRequest s ses m"] by (rule wp_ToRequest_tables) (use read in simp_all)
  then show ?thesis
    unfolding GetAuthorizeCodeSession_def wp_bindG [of "findSessionModelBySignature a b c" for a b c]
    by (simp add: wp_findSessionModelBySignature Let_def split: option.splits)
qed

lemma invalidate_spends:
  assumes "canonicalPrefix (st_prefix s)" "lookupSig w AuthCodeC (st_prefix s) code = Some m"
  shows "wp (InvalidateAuthorizeCodeSession s code)
    (\<lambda>_ w'. \<exists>j \<in> set (w_jtis w'). jt_jti j = code \<and> jt_provider_prefix j = st_prefix s) (\<lambda>_ _. True) \<omega> w"
  unfolding InvalidateAuthorizeCodeSession_def newJTIModel_def insertJTI_def
  using assms by (simp add: wp_simps Let_def canonicalPrefixD split: option.splits)

text \<open>C12: an authorization code is single use: once its invalidation has succeeded, no interleaving of storage
  calls makes the code readable again without an error beside the request.\<close>

theorem code_is_single_use:
  assumes "idsOk w" "canonicalPrefix (st_prefix s)" "st_prefix s \<in> A"
    "lookupSig w AuthCodeC (st_prefix s) code = Some m"
    "InvalidateAuthorizeCodeSession s code (\<omega> :: store_envir) w = (Inr (), w1)"
    "store_run A w1 w2"
    "GetAuthorizeCodeSession s code ses (\<omega>' :: store_envir) w2 = (Inr (req, e), w3)"
  shows "e \<noteq> None"
proof -
  have "store_run A w w1"
    using store_run_one [OF assms(3,2), of "InvalidateAuthorizeCodeOp code"] assms(5) by simp
  then have "guarded jtisStay w w1"
    by (rule store_run_guarded) (auto intro: frame_jtisStay jtisStay_pre)
  then have wf: "idsOk w1" using assms(1) by (simp add: guarded_def)
  have "guarded jtisStay w1 w2"
    by (rule store_run_guarded [OF assms(6)]) (auto intro: frame_jtisStay jtisStay_pre)
  then have "set (w_jtis w1) \<subseteq> set (w_jtis w2)" using wf by (simp add: guarded_def jtisStay_def)
  moreover have "\<exists>j \<in> set (w_jtis w1). jt_jti j = code \<and> jt_provider_prefix j = st_prefix s"
    using wp_outcome_Inr [OF invalidate_spends [OF assms(2,4)] assms(5)] .
  ultimately have "\<exists>j \<in> set (w_jtis w2). jt_jti j = code \<and> jt_provider_prefix j = st_prefix s" by blast
  from wp_outcome_Inr [OF spent_code [OF assms(2) this] assms(7)] show ?thesis by simp
qed

lemmas code_defs = InvalidateAuthorizeCodeSession_def newJTIModel_def insertJTI_def GetAuthorizeCodeSession_def
  hasJTIModel_def

lemma demo_invalidate: "fst (InvalidateAuthorizeCodeSession demoStore ''code'' demoEnv demoWorld) = Inr ()"
  by (simp add: op_defs run_simps demo_defs code_defs cong: run_congs)

lemma demo_read_spent:
  "\<exists>r e. fst (GetAuthorizeCodeSession demoStore ''code'' None demoEnv
     (snd (InvalidateAuthorizeCodeSession demoStore ''code'' demoEnv demoWorld))) = Inr (r, e)"
  by (simp add: op_defs run_simps demo_defs code_defs cong: run_congs)

theorem code_is_single_use_witness:
  "\<exists>r e w3. GetAuthorizeCodeSession demoStore ''code'' None demoEnv
     (snd (InvalidateAuthorizeCodeSession demoStore ''code'' demoEnv demoWorld)) = (Inr (r, e), w3) \<and> e \<noteq> None"
proof -
  have l: "lookupSig demoWorld AuthCodeC (st_prefix demoStore) ''code'' = Some (demoRow ''k1'' ''code'' ''q'' [])"
    using providerPrefixExp_own [OF canonical_Default]
    by (simp add: lookupSig_def demoWorld_def demoRow_def demoStore_def)
  obtain r e where read: "fst (GetAuthorizeCodeSession demoStore ''code'' None demoEnv
     (snd (InvalidateAuthorizeCodeSession demoStore ''code'' demoEnv demoWorld))) = Inr (r, e)"
    using demo_read_spent by blast
  have "e \<noteq> None"
    by (rule code_is_single_use [OF demo_idsOk demo_canonical UNIV_I l run_result [OF demo_invalidate] run_refl run_result [OF read]])
  with run_result [OF read] show ?thesis by blast
qed

subsection \<open>Authority, lineage, atomicity\<close>

text \<open>C9: a committed tombstone outlives everything it protects: it expires no earlier than the requested expiry,
  no earlier than 24 hours from now, and no earlier than any refresh or access row of its request; nothing
  else becomes terminal, and a commit that fails leaves every table as it was.\<close>

theorem tombstone_outlives_artifacts:
  assumes "canonicalPrefix p" "q \<noteq> []" "tbWf w" "commitRefreshTerminalAuthority p q f e \<omega> w = (r, w')"
  shows "case r of
      Inr _ \<Rightarrow> (\<forall>p' q'. terminal w' p' q' \<longleftrightarrow> terminal w p' q' \<or> (p' = p \<and> q' = q))
        \<and> tombUntil w' p q (max e (unixSec (clock \<omega> (tick w) + missingRefreshTombstoneLifetime)))
        \<and> (\<forall>x \<in> set (requestRows w RefreshC p q) \<union> set (requestRows w AccessC p q). tombUntil w' p q (expiryOf x))
    | Inl _ \<Rightarrow> sameTables w w'"
  using wp_outcome [OF wp_commit [OF assms(1-3)] assms(4)] by (auto simp: tbStep_def split: sum.splits)

lemma demo_commit: "fst (commitRefreshTerminalAuthority DefaultPathPrefix ''q'' [] 0 demoEnv demoWorld) = Inr ()"
  by (simp add: op_defs run_simps demo_defs cong: run_congs)

theorem tombstone_outlives_artifacts_witness:
  "\<exists>w'. commitRefreshTerminalAuthority DefaultPathPrefix ''q'' [] 0 demoEnv demoWorld = (Inr (), w')
     \<and> (\<forall>p' q'. terminal w' p' q' \<longleftrightarrow> terminal demoWorld p' q' \<or> (p' = DefaultPathPrefix \<and> q' = ''q''))
     \<and> (\<forall>x \<in> set (requestRows demoWorld RefreshC DefaultPathPrefix ''q'')
              \<union> set (requestRows demoWorld AccessC DefaultPathPrefix ''q''). tombUntil w' DefaultPathPrefix ''q'' (expiryOf x))"
proof -
  have "tbWf demoWorld" using idsOkD(2) [OF demo_idsOk] .
  from tombstone_outlives_artifacts [OF canonical_Default _ this run_result [OF demo_commit]] run_result [OF demo_commit]
  show ?thesis by auto
qed

text \<open>C10: a new refresh row is a root only if its request has no refresh row at all, and a child only if every row of
  the request is rotated and of one named family, which it then inherits, with the most recently rotated row
  as its parent; a terminal request gets neither.\<close>

theorem lineage_is_unforgeable:
  assumes "canonicalPrefix (st_prefix s)" "resolveRefreshLineage s rq \<omega> w = (Inr (f, pid), w')"
  shows "let rows = requestRows w RefreshC (st_prefix s) (rq_ID rq) in
      rq_ID rq \<noteq> [] \<and> \<not> terminal w (st_prefix s) (rq_ID rq)
      \<and> (if rows = [] then pid = []
         else (\<forall>r \<in> set rows. GetStatus r = RefreshStatusRotated \<and> sr_family_id r = f \<and> f \<noteq> [])
           \<and> (\<exists>m \<in> set rows. pid = sr_id m
                \<and> (\<forall>r \<in> set rows. (sr_rotated_at r, sr_id r) \<le> (sr_rotated_at m, sr_id m))))"
proof -
  have "wp (resolveRefreshLineage s rq) (\<lambda>(f, pid) _. lineageOk w (st_prefix s) (rq_ID rq) f pid) (\<lambda>_ _. True) \<omega> w"
    by (rule wp_resolveRefreshLineage [OF assms(1)]) simp_all
  from wp_outcome_Inr [OF this assms(2)] have ok: "lineageOk w (st_prefix s) (rq_ID rq) f pid" by simp
  define rows where "rows = requestRows w RefreshC (st_prefix s) (rq_ID rq)"
  have "hd (latestRotationFirst rows) \<in> set rows" if "rows \<noteq> []"
    using that hd_in_set [of "latestRotationFirst rows"] by simp
  then show ?thesis using ok hd_latestRotationFirst
    unfolding lineageOk_def Let_def rows_def [symmetric] by (auto split: if_splits)
qed

definition demoRotatedWorld :: world where
  "demoRotatedWorld = demoWorld\<lparr>w_sessions := (w_sessions demoWorld)(RefreshC := [demoRow ''r1'' ''s1'' ''q'' ''rotated''])\<rparr>"

lemma demo_lineage: "fst (resolveRefreshLineage demoStore (demoRequest ''q'') demoEnv demoRotatedWorld) = Inr (''fam'', ''r1'')"
  by (simp add: op_defs run_simps demo_defs demoRotatedWorld_def demoRequest_def resolveRefreshLineage_def
      latestRotationFirst_def lineageDecision_def lineageStatus_def lineageFamily_def noLineage_def cong: run_congs)

theorem lineage_is_unforgeable_witness:
  "map sr_status (requestRows demoRotatedWorld RefreshC DefaultPathPrefix ''q'') = [RefreshStatusRotated]
   \<and> list_all (\<lambda>r. GetStatus r = RefreshStatusRotated \<and> sr_family_id r = ''fam'')
        (requestRows demoRotatedWorld RefreshC DefaultPathPrefix ''q'')
   \<and> (\<exists>m \<in> set (requestRows demoRotatedWorld RefreshC DefaultPathPrefix ''q''). ''r1'' = sr_id m)"
proof -
  have rows: "requestRows demoRotatedWorld RefreshC DefaultPathPrefix ''q'' = [demoRow ''r1'' ''s1'' ''q'' ''rotated'']"
    using providerPrefixExp_own [OF canonical_Default]
    by (simp add: requestRows_def demoRotatedWorld_def demoRow_def)
  from lineage_is_unforgeable [OF demo_canonical run_result [OF demo_lineage]] show ?thesis
    by (simp add: demoStore_def demoRequest_def Let_def list_all_iff rows) (simp add: demoRow_def status_defs)
qed

text \<open>C11: the row-by-row loops of a family invalidation refine one atomic step: if the call succeeds, the tables are
  exactly those of the specification (every visible member stamped, the access rows of its request ids gone,
  nothing else changed); if it fails, no table has changed.\<close>

theorem invalidation_is_atomic:
  assumes "idsOk w" "fam \<noteq> []" "invalidateRefreshFamily p fam \<omega> w = (r, w')"
  shows "case r of
      Inr _ \<Rightarrow> \<exists>n now. w' = familyDone (visibleTo w p) {fam} (stampStatus RefreshStatusReused now) (w\<lparr>tick := n\<rparr>)
    | Inl _ \<Rightarrow> sameTables w w'"
proof -
  have "wp (invalidateRefreshFamily p fam)
      (\<lambda>_ w'. \<exists>n now. w' = familyDone (visibleTo w p) {fam} (stampStatus RefreshStatusReused now) (w\<lparr>tick := n\<rparr>))
      (\<lambda>_ w'. sameTables w w') \<omega> w"
    unfolding invalidateRefreshFamily_def by (rule wp_mutateRefreshFamily [OF assms(1,2)]) auto
  from wp_outcome [OF this assms(3)] show ?thesis by (simp split: sum.splits)
qed

lemma demo_invalidate_family: "fst (invalidateRefreshFamily DefaultPathPrefix ''fam'' demoEnv demoWorld) = Inr ()"
  by (simp add: op_defs run_simps demo_defs cong: run_congs)

theorem invalidation_is_atomic_witness:
  "\<exists>n now. snd (invalidateRefreshFamily DefaultPathPrefix ''fam'' demoEnv demoWorld)
     = familyDone (visibleTo demoWorld DefaultPathPrefix) {''fam''} (stampStatus RefreshStatusReused now) (demoWorld\<lparr>tick := n\<rparr>)"
  using invalidation_is_atomic [OF demo_idsOk _ run_result [OF demo_invalidate_family]] by simp

end
