(* ===== verification/Interactions.thy ===== *)
theory Interactions
  imports Session_Model
begin

section \<open>Pending interactions and consents (storage_interactions.go)\<close>

text \<open>
  A pending authorization request is a row that the login UI names by an opaque id; completing it deletes
  the row in one conditional DELETE, and only the caller whose statement removed the row continues. A
  consent is one row per user and client, whose scopes only grow. A JSON column that the code writes with
  \<open>json.Marshal\<close> and reads with \<open>json.Unmarshal\<close> into the same Go type is kept as the value itself.
\<close>

definition interactionLifespan :: int where
  "interactionLifespan = 10 * 60 * 1000000"

record interaction =
  in_ID :: string
  in_ClientID :: string
  in_ClientName :: string
  in_UserCollection :: string
  in_RedirectURI :: string
  in_RequestForm :: url_values
  in_RequestedScopes :: "string list"
  in_RequestedAcrValues :: "string list"
  in_Prompt :: string
  in_RequestedAt :: int
  in_ExpiresAt :: int
  in_ProviderPrefix :: string

subsection \<open>Statements\<close>

definition queryInteractions ::
  "('w world_scheme \<Rightarrow> interaction_row \<Rightarrow> bool) \<Rightarrow> ('o, 'w, interaction_row list) dbgo" where
  "queryInteractions P = bindG dbCall (\<lambda>_. readG (\<lambda>w. filter (P w) (w_interactions w)))"

definition insertInteraction :: "interaction_row \<Rightarrow> ('o, 'w, unit) dbgo" where
  "insertInteraction r = bindG dbCall (\<lambda>_. bindG (readG w_interactions) (\<lambda>rows.
     if \<exists>x \<in> set rows. ir_id x = ir_id r then throwG constraintErr
     else modifyG (\<lambda>w. w\<lparr>w_interactions := rows @ [r]\<rparr>)))"

definition deleteInteractionRow :: "interaction_row \<Rightarrow> ('o, 'w, unit) dbgo" where
  "deleteInteractionRow r = bindG dbCall (\<lambda>_.
     modifyG (\<lambda>w. w\<lparr>w_interactions := filter (\<lambda>x. ir_id x \<noteq> ir_id r) (w_interactions w)\<rparr>))"

subsection \<open>Interactions\<close>

definition CreateInteractionAt :: "string \<Rightarrow> interaction \<Rightarrow> ('o, 'w, string) dbgo" where
  "CreateInteractionAt prefix0 in0 =
     (let prefix = normalizePrefix prefix0 in
      bindG (mapErrG (\<lambda>e. ErrText ''find interactions collection'' (Some e)) (findCollection InteractionC)) (\<lambda>_.
      bindG (if in_ID in0 = [] then bindG newUUID (\<lambda>u. returnG (in0\<lparr>in_ID := u\<rparr>)) else returnG in0) (\<lambda>in1.
      bindG (if in_RequestedAt in1 = zeroTime
             then bindG timeNow (\<lambda>now. returnG (in1\<lparr>in_RequestedAt := now\<rparr>)) else returnG in1) (\<lambda>in2.
      let in3 = (if in_ExpiresAt in2 = zeroTime
                 then in2\<lparr>in_ExpiresAt := in_RequestedAt in2 + interactionLifespan\<rparr> else in2) in
      bindG (mapErrG (\<lambda>e. ErrText ''save interaction'' (Some e)) (insertInteraction
        \<lparr>ir_id = in_ID in3, ir_provider_prefix = prefix, ir_client_id = in_ClientID in3,
         ir_client_name = in_ClientName in3, ir_user_collection = in_UserCollection in3,
         ir_redirect_uri = in_RedirectURI in3, ir_request_form = in_RequestForm in3,
         ir_requested_scopes = in_RequestedScopes in3, ir_requested_acr_values = in_RequestedAcrValues in3,
         ir_requested_at = unixSec (in_RequestedAt in3), ir_expires_at = unixSec (in_ExpiresAt in3),
         ir_prompt = in_Prompt in3\<rparr>)) (\<lambda>_.
      returnG (in_ID in3))))))"

definition CreateInteraction :: "interaction \<Rightarrow> ('o, 'w, string) dbgo" where
  "CreateInteraction inn = CreateInteractionAt DefaultPathPrefix inn"

definition toInteraction :: "string \<Rightarrow> interaction_row \<Rightarrow> interaction" where
  "toInteraction prefix r = \<lparr>in_ID = ir_id r, in_ClientID = ir_client_id r, in_ClientName = ir_client_name r,
     in_UserCollection = ir_user_collection r, in_RedirectURI = ir_redirect_uri r,
     in_RequestForm = ir_request_form r, in_RequestedScopes = ir_requested_scopes r,
     in_RequestedAcrValues = ir_requested_acr_values r, in_Prompt = ir_prompt r,
     in_RequestedAt = fromUnix (ir_requested_at r), in_ExpiresAt = fromUnix (ir_expires_at r),
     in_ProviderPrefix = normalizePrefix prefix\<rparr>"

definition FindInteractionAt :: "string \<Rightarrow> string \<Rightarrow> ('o, 'w, interaction) dbgo" where
  "FindInteractionAt prefix i =
     (if i = [] then throwG (textErr ''interaction id is required'')
      else bindG (mapErrG (\<lambda>e. ErrText ''find interactions collection'' (Some e)) (findCollection InteractionC)) (\<lambda>_.
      bindG (mapErrG (\<lambda>e. ErrText ''find interaction'' (Some e))
        (bindG (queryInteractions (\<lambda>w r. ir_id r = i \<and> providerPrefixExp w prefix (ir_provider_prefix r)))
          (\<lambda>rows. case rows of [] \<Rightarrow> throwG (plainErr ErrNoRows) | r # _ \<Rightarrow> returnG r))) (\<lambda>rec.
      bindG timeNow (\<lambda>now.
      if unixSec now > ir_expires_at rec then throwG (textErr ''interaction expired'')
      else returnG (toInteraction prefix rec)))))"

definition FindInteraction :: "string \<Rightarrow> ('o, 'w, interaction) dbgo" where
  "FindInteraction i = FindInteractionAt DefaultPathPrefix i"

definition DeleteInteractionAt :: "string \<Rightarrow> string \<Rightarrow> ('o, 'w, unit) dbgo" where
  "DeleteInteractionAt prefix i =
     bindG (findCollection InteractionC) (\<lambda>_.
     bindG (queryInteractions (\<lambda>w r. ir_id r = i \<and> providerPrefixExp w prefix (ir_provider_prefix r)))
       (\<lambda>rows. case rows of [] \<Rightarrow> returnG () | r # _ \<Rightarrow> deleteInteractionRow r))"

definition DeleteInteraction :: "string \<Rightarrow> ('o, 'w, unit) dbgo" where
  "DeleteInteraction i = DeleteInteractionAt DefaultPathPrefix i"

text \<open>The conditional DELETE and the number of rows it removed.\<close>

definition claimed :: "string \<Rightarrow> bool \<Rightarrow> string \<Rightarrow> interaction_row \<Rightarrow> bool" where
  "claimed prefix allowLegacy i r \<longleftrightarrow> ir_id r = i
     \<and> (if allowLegacy then ir_provider_prefix r = prefix \<or> ir_provider_prefix r = []
        else ir_provider_prefix r = prefix)"

definition execClaim :: "string \<Rightarrow> bool \<Rightarrow> string \<Rightarrow> ('o, 'w, nat) dbgo" where
  "execClaim prefix allowLegacy i = bindG dbCall (\<lambda>_.
     bindG (readG (\<lambda>w. length (filter (claimed prefix allowLegacy i) (w_interactions w)))) (\<lambda>n.
     bindG (modifyG (\<lambda>w. w\<lparr>w_interactions := filter (\<lambda>r. \<not> claimed prefix allowLegacy i r) (w_interactions w)\<rparr>))
       (\<lambda>_. returnG n)))"

text \<open>The second half of \<open>ConsumeInteractionAt\<close>: the claim, after the row has been read.\<close>

definition claimInteraction :: "string \<Rightarrow> string \<Rightarrow> interaction \<Rightarrow> ('o, 'w, interaction) dbgo" where
  "claimInteraction prefix0 i inn =
     (let prefix = normalizePrefix prefix0 in
     bindG (readG (\<lambda>w. legacyDefaultAllowed w prefix)) (\<lambda>allowLegacy.
     bindG (mapErrG (\<lambda>e. ErrText ''consume interaction'' (Some e)) (execClaim prefix allowLegacy i)) (\<lambda>n.
     if n \<noteq> 1 then throwG (textErr ''interaction already consumed'') else returnG inn)))"

definition ConsumeInteractionAt :: "string \<Rightarrow> string \<Rightarrow> ('o, 'w, interaction) dbgo" where
  "ConsumeInteractionAt prefix0 i = bindG (FindInteractionAt prefix0 i) (claimInteraction prefix0 i)"

subsection \<open>Consents\<close>

record consent =
  cn_ID :: string
  cn_UserID :: string
  cn_UserCollection :: string
  cn_ClientID :: string
  cn_GrantedScopes :: "string list"
  cn_GrantedAt :: int
  cn_ProviderPrefix :: string

fun mergeInto :: "string list \<Rightarrow> string list \<Rightarrow> string list" where
  "mergeInto out [] = out"
| "mergeInto out (s # ss) = mergeInto (if \<not> slicesContains out s then out @ [s] else out) ss"

definition mergeScopes :: "string list \<Rightarrow> string list \<Rightarrow> string list" where
  "mergeScopes existing additions = mergeInto existing additions"

fun ConsentCovers :: "string list \<Rightarrow> string list \<Rightarrow> bool" where
  "ConsentCovers granted [] = True"
| "ConsentCovers granted (s # ss) = (if \<not> slicesContains granted s then False else ConsentCovers granted ss)"

definition consentFor :: "string \<Rightarrow> string \<Rightarrow> string \<Rightarrow> consent_row \<Rightarrow> bool" where
  "consentFor userID userCollection clientID r \<longleftrightarrow>
     co_user_id r = userID \<and> co_user_collection r = userCollection \<and> co_client_id r = clientID"

text \<open>\<open>ORDER BY granted_at DESC LIMIT 1\<close>; rows of equal time are taken in insertion order.\<close>

definition FindConsentAt ::
  "string \<Rightarrow> string \<Rightarrow> string \<Rightarrow> string \<Rightarrow> ('o, 'w, consent option) dbgo" where
  "FindConsentAt prefix userID userCollection clientID =
     bindG (mapErrG (\<lambda>e. ErrText ''find consents collection'' (Some e)) (findCollection ConsentC)) (\<lambda>_.
     bindG (mapErrG (\<lambda>e. ErrText ''query consents'' (Some e)) (bindG dbCall (\<lambda>_. readG (\<lambda>w.
        sort_key (\<lambda>r. - co_granted_at r)
          (filter (\<lambda>r. consentFor userID userCollection clientID r
             \<and> providerPrefixExp w prefix (co_provider_prefix r)) (w_consents w)))))) (\<lambda>records.
     case records of
       [] \<Rightarrow> returnG None
     | rec # _ \<Rightarrow> returnG (Some \<lparr>cn_ID = co_id rec, cn_UserID = co_user_id rec,
         cn_UserCollection = co_user_collection rec, cn_ClientID = co_client_id rec,
         cn_GrantedScopes = co_granted_scopes rec, cn_GrantedAt = fromUnix (co_granted_at rec),
         cn_ProviderPrefix = normalizePrefix prefix\<rparr>)))"

definition FindConsent :: "string \<Rightarrow> string \<Rightarrow> string \<Rightarrow> ('o, 'w, consent option) dbgo" where
  "FindConsent userID userCollection clientID = FindConsentAt DefaultPathPrefix userID userCollection clientID"

definition findConsentById :: "string \<Rightarrow> ('o, 'w, consent_row) dbgo" where
  "findConsentById i = bindG dbCall (\<lambda>_. bindG (readG (\<lambda>w. filter (\<lambda>r. co_id r = i) (w_consents w))) (\<lambda>rows.
     case rows of [] \<Rightarrow> throwG (plainErr ErrNoRows) | r # _ \<Rightarrow> returnG r))"

definition insertConsent :: "consent_row \<Rightarrow> ('o, 'w, string) dbgo" where
  "insertConsent r = bindG newUUID (\<lambda>i. bindG dbCall (\<lambda>_. bindG (readG w_consents) (\<lambda>rows.
     if \<exists>x \<in> set rows. co_id x = i \<or> (co_provider_prefix x = co_provider_prefix r
          \<and> consentFor (co_user_id r) (co_user_collection r) (co_client_id r) x)
     then throwG constraintErr
     else bindG (modifyG (\<lambda>w. w\<lparr>w_consents := rows @ [r\<lparr>co_id := i\<rparr>]\<rparr>)) (\<lambda>_. returnG i))))"

definition updateConsent :: "consent_row \<Rightarrow> ('o, 'w, string) dbgo" where
  "updateConsent r = bindG dbCall (\<lambda>_.
     bindG (modifyG (\<lambda>w. w\<lparr>w_consents := map (\<lambda>x. if co_id x = co_id r then r else x) (w_consents w)\<rparr>))
       (\<lambda>_. returnG (co_id r)))"

definition UpsertConsentAt ::
  "string \<Rightarrow> string \<Rightarrow> string \<Rightarrow> string \<Rightarrow> string list \<Rightarrow> ('o, 'w, consent) dbgo" where
  "UpsertConsentAt prefix0 userID userCollection clientID newScopes =
     (let prefix = normalizePrefix prefix0 in
      bindG (FindConsentAt prefix userID userCollection clientID) (\<lambda>existing.
      let merged = (case existing of None \<Rightarrow> mergeScopes [] newScopes
                    | Some c \<Rightarrow> mergeScopes (cn_GrantedScopes c) newScopes) in
      bindG timeNow (\<lambda>now.
      bindG (mapErrG (\<lambda>e. ErrText ''find consents collection'' (Some e)) (findCollection ConsentC)) (\<lambda>_.
      bindG (case existing of
          Some c \<Rightarrow>
            bindG (mapErrG (\<lambda>e. ErrText ''reload consent for update'' (Some e)) (findConsentById (cn_ID c))) (\<lambda>rec.
            mapErrG (\<lambda>e. ErrText ''save consent'' (Some e))
              (updateConsent (rec\<lparr>co_granted_scopes := merged, co_granted_at := unixSec now\<rparr>)))
        | None \<Rightarrow> mapErrG (\<lambda>e. ErrText ''save consent'' (Some e)) (insertConsent
            \<lparr>co_id = [], co_provider_prefix = prefix, co_user_id = userID, co_user_collection = userCollection,
             co_client_id = clientID, co_granted_scopes = merged, co_granted_at = unixSec now\<rparr>)) (\<lambda>i.
      returnG \<lparr>cn_ID = i, cn_UserID = userID, cn_UserCollection = userCollection, cn_ClientID = clientID,
        cn_GrantedScopes = merged, cn_GrantedAt = now, cn_ProviderPrefix = prefix\<rparr>)))))"

definition UpsertConsent :: "string \<Rightarrow> string \<Rightarrow> string \<Rightarrow> string list \<Rightarrow> ('o, 'w, consent) dbgo" where
  "UpsertConsent userID userCollection clientID newScopes =
     UpsertConsentAt DefaultPathPrefix userID userCollection clientID newScopes"

subsection \<open>Interactions: lookup, claim, round trip\<close>

text \<open>The row a lookup of a provider sees.\<close>

definition pendingRow :: "'w world_scheme \<Rightarrow> string \<Rightarrow> string \<Rightarrow> interaction_row option" where
  "pendingRow w p i = find (\<lambda>r. ir_id r = i \<and> providerPrefixExp w p (ir_provider_prefix r)) (w_interactions w)"

lemma pendingRow_tick [simp]: "pendingRow (w\<lparr>tick := n\<rparr>) p i = pendingRow w p i"
  by (simp add: pendingRow_def)

lemma pendingRow_Some:
  "pendingRow w p i = Some r \<Longrightarrow> r \<in> set (w_interactions w) \<and> ir_id r = i \<and> providerPrefixExp w p (ir_provider_prefix r)"
  by (auto simp: pendingRow_def find_Some_iff)

lemma pendingRow_None:
  "pendingRow w p i = None \<longleftrightarrow> (\<forall>r \<in> set (w_interactions w). ir_id r = i \<longrightarrow> \<not> providerPrefixExp w p (ir_provider_prefix r))"
  by (auto simp: pendingRow_def find_None_iff)

lemma wp_queryInteractions [wp_simps]: "wp (queryInteractions P) Q E \<omega> w =
   (let w' = w\<lparr>tick := Suc (tick w)\<rparr> in
    if dbfail \<omega> (tick w) then E driverErr w' else Q (filter (P w') (w_interactions w)) w')"
  by (simp add: queryInteractions_def wp_simps Let_def)

lemma wp_FindInteractionAt: "wp (FindInteractionAt p i) Q E \<omega> w =
   (let t = tick w in
    if i = [] then E (textErr ''interaction id is required'') w
    else if dbfail \<omega> t then E (ErrText ''find interactions collection'' (Some driverErr)) (w\<lparr>tick := t + 1\<rparr>)
    else if dbfail \<omega> (t + 1) then E (ErrText ''find interaction'' (Some driverErr)) (w\<lparr>tick := t + 2\<rparr>)
    else (case pendingRow w p i of
        None \<Rightarrow> E (ErrText ''find interaction'' (Some (plainErr ErrNoRows))) (w\<lparr>tick := t + 2\<rparr>)
      | Some r \<Rightarrow>
          if unixSec (clock \<omega> (t + 2)) > ir_expires_at r then E (textErr ''interaction expired'') (w\<lparr>tick := t + 3\<rparr>)
          else Q (toInteraction p r) (w\<lparr>tick := t + 3\<rparr>)))"
  by (simp add: FindInteractionAt_def wp_simps Let_def filter_case_find pendingRow_def numeral_eq_Suc
      split: option.splits)

definition removeClaimed :: "string \<Rightarrow> string \<Rightarrow> 'w world_scheme \<Rightarrow> 'w world_scheme" where
  "removeClaimed p i w = w\<lparr>w_interactions :=
     filter (\<lambda>r. \<not> (ir_id r = i \<and> providerPrefixExp w p (ir_provider_prefix r))) (w_interactions w)\<rparr>"

definition claimCount :: "string \<Rightarrow> string \<Rightarrow> 'w world_scheme \<Rightarrow> nat" where
  "claimCount p i w = length (filter (\<lambda>r. ir_id r = i \<and> providerPrefixExp w p (ir_provider_prefix r)) (w_interactions w))"

lemma claimed_iff:
  "canonicalPrefix p \<Longrightarrow>
     claimed p (legacyDefaultAllowed w p) i = (\<lambda>r. ir_id r = i \<and> providerPrefixExp w p (ir_provider_prefix r))"
  by (auto simp: fun_eq_iff claimed_def providerPrefixExp_canonical)

lemma wp_claimInteraction:
  assumes "canonicalPrefix p"
  shows "wp (claimInteraction p i inn) Q E \<omega> w =
   (let w' = w\<lparr>tick := Suc (tick w)\<rparr> in
    if dbfail \<omega> (tick w) then E (ErrText ''consume interaction'' (Some driverErr)) w'
    else if claimCount p i w = 1 then Q inn (removeClaimed p i w')
    else E (textErr ''interaction already consumed'') (removeClaimed p i w'))"
  using assms
  by (simp add: claimInteraction_def execClaim_def wp_simps Let_def claimed_iff claimCount_def removeClaimed_def
      canonicalPrefixD)

text \<open>What a stored interaction looks like when it is read back: its times lose their fraction of a second.\<close>

definition storedInteraction :: "string \<Rightarrow> string \<Rightarrow> interaction \<Rightarrow> interaction" where
  "storedInteraction p i inn = inn\<lparr>in_ID := i, in_RequestedAt := fromUnix (unixSec (in_RequestedAt inn)),
     in_ExpiresAt := fromUnix (unixSec (if in_ExpiresAt inn = zeroTime then in_RequestedAt inn + interactionLifespan
        else in_ExpiresAt inn)), in_ProviderPrefix := p\<rparr>"

lemma wp_CreateInteractionAt:
  assumes p: "canonicalPrefix p" and t: "in_RequestedAt inn \<noteq> zeroTime"
    and Q: "\<And>i r w'. \<lbrakk>w_interactions w' = w_interactions w @ [r]; w_registered w' = w_registered w;
       i \<notin> ir_id ` set (w_interactions w); ir_id r = i; ir_provider_prefix r = p;
       in_ID inn \<noteq> [] \<longrightarrow> i = in_ID inn; toInteraction p r = storedInteraction p i inn\<rbrakk> \<Longrightarrow> Q i w'"
    and E: "\<And>e n. E e (w\<lparr>tick := n\<rparr>)"
  shows "wp (CreateInteractionAt p inn) Q E \<omega> w"
proof -
  have eq: "normalizePrefix p = p" using p by (simp add: canonicalPrefixD)
  show ?thesis
    using t
    by (auto simp: CreateInteractionAt_def insertInteraction_def wp_simps Let_def eq image_iff
        intro!: Q E simp: toInteraction_def storedInteraction_def)
qed

lemma find_fresh_last:
  "(\<And>x. x \<in> set xs \<Longrightarrow> \<not> P x) \<Longrightarrow> P y \<Longrightarrow> find P (xs @ [y]) = Some y"
  by (induction xs) auto

lemma pendingRow_fresh:
  assumes "w_interactions w = rows @ [r]" "ir_id r \<notin> ir_id ` set rows" "providerPrefixExp w p (ir_provider_prefix r)"
  shows "pendingRow w p (ir_id r) = Some r"
  unfolding pendingRow_def assms(1) by (rule find_fresh_last) (use assms(2,3) in \<open>auto simp: image_iff\<close>)

end
