(* ===== verification/Interaction_Properties.thy ===== *)
theory Interaction_Properties
  imports Interactions Demo
begin

section \<open>Properties of pending interactions and consents\<close>

subsection \<open>Concurrent completions of one interaction\<close>

text \<open>
  Two browsers (or one browser and a replayed POST) may complete the same interaction at the same time: each
  call reads the row first and claims it later, and the calls interleave between the two. A consumer is
  where such a call stands. The other steps are what may happen meanwhile: interactions of other ids are
  created, interactions are deleted, providers register and deregister.
\<close>

datatype consumer = Waiting | Holding interaction | Won interaction | Lost goerr

fun isWon :: "consumer \<Rightarrow> bool" where
  "isWon (Won _) = True"
| "isWon _ = False"

inductive race_step :: "string \<Rightarrow> world \<times> consumer list \<Rightarrow> world \<times> consumer list \<Rightarrow> bool" for i where
  lookup: "k < length cs \<Longrightarrow> cs ! k = Waiting \<Longrightarrow> FindInteractionAt p i (\<omega> :: store_envir) w = (r, w') \<Longrightarrow>
     race_step i (w, cs) (w', cs[k := (case r of Inl e \<Rightarrow> Lost e | Inr inn \<Rightarrow> Holding inn)])"
| claim: "k < length cs \<Longrightarrow> cs ! k = Holding inn \<Longrightarrow> canonicalPrefix p \<Longrightarrow>
     claimInteraction p i inn (\<omega> :: store_envir) w = (r, w') \<Longrightarrow>
     race_step i (w, cs) (w', cs[k := (case r of Inl e \<Rightarrow> Lost e | Inr inn \<Rightarrow> Won inn)])"
| create: "CreateInteractionAt p inn (\<omega> :: store_envir) w = (r, w') \<Longrightarrow> r \<noteq> Inr i \<Longrightarrow> race_step i (w, cs) (w', cs)"
| delete: "DeleteInteractionAt p j (\<omega> :: store_envir) w = (r, w') \<Longrightarrow> race_step i (w, cs) (w', cs)"
| register: "race_step i (w, cs) (w\<lparr>w_registered := ps\<rparr>, cs)"

inductive_cases race_stepE: "race_step i (w, cs) (w', cs')"

definition rowsOf :: "string \<Rightarrow> 'w world_scheme \<Rightarrow> nat" where
  "rowsOf i w = length (filter (\<lambda>r. ir_id r = i) (w_interactions w))"

definition winners :: "consumer list \<Rightarrow> nat" where
  "winners cs = length (filter isWon cs)"

lemma winners_update:
  "k < length cs \<Longrightarrow> \<not> isWon (cs ! k) \<Longrightarrow> winners (cs[k := c]) = winners cs + (if isWon c then 1 else 0)"
proof (induction cs arbitrary: k)
  case Nil
  then show ?case by simp
next
  case (Cons x xs)
  then show ?case by (cases k) (auto simp: winners_def)
qed

lemma rowsOf_tick [simp]: "rowsOf i (w\<lparr>tick := n\<rparr>) = rowsOf i w" "rowsOf i (w\<lparr>w_registered := ps\<rparr>) = rowsOf i w"
  by (simp_all add: rowsOf_def)

lemma filter_split_length:
  "length (filter (\<lambda>r. Q r \<and> P r) rs) + length (filter (\<lambda>r. \<not> (Q r \<and> P r) \<and> Q r) rs) = length (filter Q rs)"
  by (induction rs) auto

lemma rowsOf_removeClaimed: "claimCount p i w + rowsOf i (removeClaimed p i w) = rowsOf i w"
  unfolding rowsOf_def claimCount_def removeClaimed_def
  using filter_split_length [of "\<lambda>r. ir_id r = i" "\<lambda>r. providerPrefixExp w p (ir_provider_prefix r)"]
  by simp

text \<open>Nothing but a successful claim makes a winner, and a claim trades the row for the win.\<close>

lemma fewer_rows:
  "wp (FindInteractionAt p i) (\<lambda>_ w'. rowsOf j w' = rowsOf j w) (\<lambda>_ w'. rowsOf j w' = rowsOf j w) \<omega> w"
  by (simp add: wp_FindInteractionAt Let_def split: option.splits)

lemma delete_fewer:
  "wp (DeleteInteractionAt p i) (\<lambda>_ w'. rowsOf j w' \<le> rowsOf j w) (\<lambda>_ w'. rowsOf j w' \<le> rowsOf j w) \<omega> w"
proof -
  have "length (filter (\<lambda>x. ir_id x \<noteq> k \<and> ir_id x = j) rs) \<le> length (filter (\<lambda>x. ir_id x = j) rs)" for k rs
    by (rule length_filter_mono) simp
  then show ?thesis
    by (auto simp: DeleteInteractionAt_def deleteInteractionRow_def wp_simps Let_def rowsOf_def split: list.splits)
qed

lemma create_rows:
  "wp (CreateInteractionAt p inn) (\<lambda>i' w'. i' \<noteq> j \<longrightarrow> rowsOf j w' = rowsOf j w)
     (\<lambda>_ w'. rowsOf j w' = rowsOf j w) \<omega> w"
  by (auto simp: CreateInteractionAt_def insertInteraction_def wp_simps Let_def rowsOf_def)

lemma claim_rows:
  assumes "canonicalPrefix p"
  shows "wp (claimInteraction p i inn) (\<lambda>_ w'. rowsOf i w' + 1 = rowsOf i w) (\<lambda>_ w'. rowsOf i w' \<le> rowsOf i w) \<omega> w"
  using rowsOf_removeClaimed [of p i w]
  by (auto simp: wp_claimInteraction [OF assms] Let_def) (auto simp: rowsOf_def removeClaimed_def claimCount_def)

lemma race_step_budget: "race_step i (w, cs) (w', cs') \<Longrightarrow> winners cs' + rowsOf i w' \<le> winners cs + rowsOf i w"
proof (erule race_stepE)
  fix k p \<omega> r assume k: "k < length cs" "cs ! k = Waiting"
    and run: "FindInteractionAt p i \<omega> w = (r, w')"
    and cs': "cs' = cs[k := (case r of Inl e \<Rightarrow> Lost e | Inr inn \<Rightarrow> Holding inn)]"
  then show ?thesis
    using wp_outcome [OF fewer_rows run, of i] by (simp add: winners_update split: sum.splits)
next
  fix k inn p \<omega> r assume k: "k < length cs" "cs ! k = Holding inn" "canonicalPrefix p"
    and run: "claimInteraction p i inn \<omega> w = (r, w')"
    and cs': "cs' = cs[k := (case r of Inl e \<Rightarrow> Lost e | Inr inn \<Rightarrow> Won inn)]"
  then show ?thesis
    using wp_outcome [OF claim_rows run] by (simp add: winners_update split: sum.splits)
next
  fix p inn \<omega> r assume "CreateInteractionAt p inn \<omega> w = (r, w')" "r \<noteq> Inr i" "cs' = cs"
  then show ?thesis using wp_outcome [OF create_rows, of p inn \<omega> w r w' i] by (auto split: sum.splits)
next
  fix p j \<omega> r assume "DeleteInteractionAt p j \<omega> w = (r, w')" "cs' = cs"
  then show ?thesis using wp_outcome [OF delete_fewer, of p j \<omega> w r w' i] by (auto split: sum.splits)
qed simp

lemma race_budget:
  assumes "(race_step i)\<^sup>*\<^sup>* (w, cs) (w', cs')"
  shows "winners cs' + rowsOf i w' \<le> winners cs + rowsOf i w"
  using assms
  by (induction rule: rtranclp_induct2) (auto dest: race_step_budget)

text \<open>C13: an interaction is completed at most once: however many completions of one interaction id run
  concurrently, interleaved with creations, deletions and (de)registrations in any way, at most one of
  them wins, and once one has won the row is gone.\<close>

theorem interaction_has_one_winner:
  assumes "(race_step i)\<^sup>*\<^sup>* (w, replicate n Waiting) (w', cs)"
    and "length (filter (\<lambda>r. ir_id r = i) (w_interactions w)) \<le> 1"
  shows "length (filter isWon cs) \<le> 1 \<and> (\<forall>k < length cs. isWon (cs ! k) \<longrightarrow> i \<notin> ir_id ` set (w_interactions w'))"
proof -
  have "winners (replicate n Waiting) = 0" by (simp add: winners_def)
  with race_budget [OF assms(1)] assms(2) have le: "winners cs + rowsOf i w' \<le> 1" by (simp add: rowsOf_def)
  moreover have "winners cs \<noteq> 0" if "k < length cs" "isWon (cs ! k)" for k
    using that by (auto simp: winners_def filter_empty_conv)
  then have "rowsOf i w' = 0" if "k < length cs" "isWon (cs ! k)" for k using that le by fastforce
  then have "\<forall>k < length cs. isWon (cs ! k) \<longrightarrow> i \<notin> ir_id ` set (w_interactions w')"
    by (auto simp: rowsOf_def filter_empty_conv)
  ultimately show ?thesis by (simp add: winners_def)
qed

definition demoInteraction :: interaction where
  "demoInteraction = \<lparr>in_ID = ''i1'', in_ClientID = ''app'', in_ClientName = ''App'', in_UserCollection = ''users'',
     in_RedirectURI = ''https://app/cb'', in_RequestForm = [(''state'', [''xyz''])], in_RequestedScopes = [''openid''],
     in_RequestedAcrValues = [], in_Prompt = [], in_RequestedAt = 1700000000500000, in_ExpiresAt = zeroTime,
     in_ProviderPrefix = []\<rparr>"

definition demoPending :: world where
  "demoPending = snd (CreateInteractionAt DefaultPathPrefix demoInteraction demoEnv demoWorld)"

lemmas interaction_op_defs = CreateInteractionAt_def FindInteractionAt_def insertInteraction_def
  queryInteractions_def claimInteraction_def execClaim_def ConsumeInteractionAt_def toInteraction_def
  demoInteraction_def demoPending_def zeroTime_def interactionLifespan_def claimed_def

lemma demo_pending_rows: "map ir_id (w_interactions demoPending) = [''i1'']"
  by (simp add: op_defs run_simps demo_defs interaction_op_defs cong: run_congs)

lemma demo_race: "\<exists>inn w1 inn' w2 w3 e w4.
    FindInteractionAt DefaultPathPrefix ''i1'' demoEnv demoPending = (Inr inn, w1)
  \<and> FindInteractionAt DefaultPathPrefix ''i1'' demoEnv w1 = (Inr inn', w2)
  \<and> claimInteraction DefaultPathPrefix ''i1'' inn demoEnv w2 = (Inr inn, w3)
  \<and> claimInteraction DefaultPathPrefix ''i1'' inn' demoEnv w3 = (Inl e, w4)"
  by (simp add: op_defs run_simps demo_defs interaction_op_defs cong: run_congs)

theorem interaction_has_one_winner_witness:
  "\<exists>w' cs. (race_step ''i1'')\<^sup>*\<^sup>* (demoPending, [Waiting, Waiting]) (w', cs) \<and> map isWon cs = [True, False]
     \<and> length (filter isWon cs) \<le> 1 \<and> ''i1'' \<notin> ir_id ` set (w_interactions w')"
proof -
  obtain inn w1 inn' w2 w3 e w4 where runs:
    "FindInteractionAt DefaultPathPrefix ''i1'' demoEnv demoPending = (Inr inn, w1)"
    "FindInteractionAt DefaultPathPrefix ''i1'' demoEnv w1 = (Inr inn', w2)"
    "claimInteraction DefaultPathPrefix ''i1'' inn demoEnv w2 = (Inr inn, w3)"
    "claimInteraction DefaultPathPrefix ''i1'' inn' demoEnv w3 = (Inl e, w4)"
    using demo_race by blast
  have s1: "race_step ''i1'' (demoPending, [Waiting, Waiting]) (w1, [Holding inn, Waiting])"
    using race_step.lookup [OF _ _ runs(1), of 0 "[Waiting, Waiting]"] by simp
  have s2: "race_step ''i1'' (w1, [Holding inn, Waiting]) (w2, [Holding inn, Holding inn'])"
    using race_step.lookup [OF _ _ runs(2), of 1 "[Holding inn, Waiting]"] by simp
  have s3: "race_step ''i1'' (w2, [Holding inn, Holding inn']) (w3, [Won inn, Holding inn'])"
    using race_step.claim [OF _ _ canonical_Default runs(3), of 0 "[Holding inn, Holding inn']"] by simp
  have s4: "race_step ''i1'' (w3, [Won inn, Holding inn']) (w4, [Won inn, Lost e])"
    using race_step.claim [OF _ _ canonical_Default runs(4), of 1 "[Won inn, Holding inn']"] by simp
  have chain: "(race_step ''i1'')\<^sup>*\<^sup>* (demoPending, replicate 2 Waiting) (w4, [Won inn, Lost e])"
    using s1 s2 s3 s4 by (simp add: numeral_2_eq_2)
  have "length (filter (\<lambda>r. ir_id r = ''i1'') (w_interactions demoPending)) \<le> 1"
    using demo_pending_rows by (auto simp: map_eq_Cons_conv)
  from interaction_has_one_winner [OF chain this] chain show ?thesis
    by (intro exI [of _ w4] exI [of _ "[Won inn, Lost e]"]) (auto simp: numeral_2_eq_2)
qed

subsection \<open>What is stored is what is read back\<close>


definition stillEnv :: store_envir where
  "stillEnv = demoEnv\<lparr>clock := (\<lambda>_. 1700000000000000)\<rparr>"

lemma demo_create: "\<exists>w1. CreateInteractionAt DefaultPathPrefix demoInteraction demoEnv demoWorld = (Inr ''i1'', w1)"
  by (simp add: op_defs run_simps demo_defs interaction_op_defs cong: run_congs)


subsection \<open>Consents\<close>

lemma mergeInto_spec:
  "set (mergeInto out xs) = set out \<union> set xs \<and> (\<exists>ys. mergeInto out xs = out @ ys)
   \<and> (distinct out \<longrightarrow> distinct (mergeInto out xs))"
proof (induction xs arbitrary: out)
  case Nil
  then show ?case by simp
next
  case (Cons x xs)
  show ?case using Cons.IH [of "out @ [x]"] Cons.IH [of out] by (auto simp: slicesContains_iff)
qed

lemma ConsentCovers_iff: "ConsentCovers granted req \<longleftrightarrow> set req \<subseteq> set granted"
  by (induction req) (auto simp: slicesContains_iff)



text \<open>The consent row a provider sees for a user and a client.\<close>

definition consentRows :: "'w world_scheme \<Rightarrow> string \<Rightarrow> string \<Rightarrow> string \<Rightarrow> string \<Rightarrow> consent_row list" where
  "consentRows w p u uc cl = sort_key (\<lambda>r. - co_granted_at r)
     (filter (\<lambda>r. consentFor u uc cl r \<and> providerPrefixExp w p (co_provider_prefix r)) (w_consents w))"

lemma consentRows_tick [simp]: "consentRows (w\<lparr>tick := n\<rparr>) p u uc cl = consentRows w p u uc cl"
  by (simp add: consentRows_def)

definition toConsent :: "string \<Rightarrow> consent_row \<Rightarrow> consent" where
  "toConsent p r = \<lparr>cn_ID = co_id r, cn_UserID = co_user_id r, cn_UserCollection = co_user_collection r,
     cn_ClientID = co_client_id r, cn_GrantedScopes = co_granted_scopes r, cn_GrantedAt = fromUnix (co_granted_at r),
     cn_ProviderPrefix = normalizePrefix p\<rparr>"

lemma wp_FindConsentAt: "wp (FindConsentAt p u uc cl) Q E \<omega> w =
   (let t = tick w in
    if dbfail \<omega> t then E (ErrText ''find consents collection'' (Some driverErr)) (w\<lparr>tick := t + 1\<rparr>)
    else if dbfail \<omega> (t + 1) then E (ErrText ''query consents'' (Some driverErr)) (w\<lparr>tick := t + 2\<rparr>)
    else Q (case consentRows w p u uc cl of [] \<Rightarrow> None | r # _ \<Rightarrow> Some (toConsent p r)) (w\<lparr>tick := t + 2\<rparr>))"
  by (simp add: FindConsentAt_def wp_simps Let_def consentRows_def toConsent_def numeral_eq_Suc split: list.splits)

lemma sort_key_single: "sort_key f xs = [x] \<longleftrightarrow> xs = [x]"
proof
  assume s: "sort_key f xs = [x]"
  have "length (sort_key f xs) = 1" by (simp only: s) simp
  then have "length xs = 1" by (simp only: length_sort)
  then obtain y where "xs = [y]" by (auto simp: length_Suc_conv)
  with s show "xs = [x]" by simp
qed simp

lemma sort_key_empty: "sort_key f xs = [] \<longleftrightarrow> xs = []"
  by (metis length_0_conv length_sort)

lemma consentRows_single:
  "consentRows w p u uc cl = [r] \<longleftrightarrow>
     filter (\<lambda>r. consentFor u uc cl r \<and> providerPrefixExp w p (co_provider_prefix r)) (w_consents w) = [r]"
  unfolding consentRows_def by (rule sort_key_single)

lemma consentRows_Nil:
  "consentRows w p u uc cl = [] \<longleftrightarrow>
     filter (\<lambda>r. consentFor u uc cl r \<and> providerPrefixExp w p (co_provider_prefix r)) (w_consents w) = []"
  unfolding consentRows_def by (rule sort_key_empty)

lemma filter_by_key: "distinct (map k xs) \<Longrightarrow> x \<in> set xs \<Longrightarrow> filter (\<lambda>z. k z = k x) xs = [x]"
  by (induction xs) (auto simp: filter_empty_conv image_iff)

text \<open>Replacing the only selected row of a keyed list.\<close>

lemma filter_replace_selected:
  assumes "filter P xs = [x]" "distinct (map k xs)" "k y = k x" "P y"
  shows "filter P (map (\<lambda>z. if k z = k y then y else z) xs) = [y]"
    "filter (\<lambda>z. \<not> P z) (map (\<lambda>z. if k z = k y then y else z) xs) = filter (\<lambda>z. \<not> P z) xs"
proof -
  let ?f = "\<lambda>z. if k z = k y then y else z"
  have x: "x \<in> set xs" "P x" using assms(1) by (auto simp: filter_eq_Cons_iff)
  have same: "P (?f z) = P z" if "z \<in> set xs" for z
    using that assms(2-4) x by (auto simp: distinct_map dest: inj_onD)
  have "filter (\<lambda>z. P (?f z)) xs = [x]" using assms(1) same by (simp cong: filter_cong)
  then show "filter P (map ?f xs) = [y]" using assms(3) by (simp add: filter_map o_def)
  have "filter (\<lambda>z. \<not> P (?f z)) xs = filter (\<lambda>z. \<not> P z) xs" by (intro filter_cong refl) (simp only: same)
  moreover have "map ?f (filter (\<lambda>z. \<not> P z) xs) = filter (\<lambda>z. \<not> P z) xs"
    using assms(2,3) x by (intro map_idI) (auto simp: distinct_map dest: inj_onD)
  ultimately show "filter (\<lambda>z. \<not> P z) (map ?f xs) = filter (\<lambda>z. \<not> P z) xs" by (simp add: filter_map o_def)
qed

definition oldScopes :: "consent_row list \<Rightarrow> string list" where
  "oldScopes rs = (case rs of [] \<Rightarrow> [] | r # _ \<Rightarrow> co_granted_scopes r)"

abbreviation otherConsents :: "'w world_scheme \<Rightarrow> string \<Rightarrow> string \<Rightarrow> string \<Rightarrow> string \<Rightarrow> consent_row list" where
  "otherConsents w p u uc cl \<equiv>
     filter (\<lambda>r. \<not> (consentFor u uc cl r \<and> providerPrefixExp w p (co_provider_prefix r))) (w_consents w)"

lemma wp_UpsertConsentAt:
  assumes p: "canonicalPrefix p" and d: "distinct (map co_id (w_consents w))"
    and one: "length (consentRows w p u uc cl) \<le> 1"
  shows "wp (UpsertConsentAt p u uc cl new)
    (\<lambda>c w'. cn_GrantedScopes c = mergeScopes (oldScopes (consentRows w p u uc cl)) new
       \<and> (\<exists>r. consentRows w' p u uc cl = [r] \<and> co_granted_scopes r = cn_GrantedScopes c)
       \<and> otherConsents w' p u uc cl = otherConsents w p u uc cl)
    (\<lambda>_ w'. w_consents w' = w_consents w) \<omega> w"
proof (cases "consentRows w p u uc cl")
  case Nil
  note none = Nil [unfolded consentRows_Nil]
  have own: "providerPrefixExp w p p" using p by (rule providerPrefixExp_own)
  show ?thesis using p
    by (simp add: UpsertConsentAt_def wp_FindConsentAt wp_simps Let_def canonicalPrefixD insertConsent_def Nil oldScopes_def)
      (use none own in \<open>auto simp: consentRows_single consentFor_def\<close>)
next
  case (Cons r rs)
  then have r: "consentRows w p u uc cl = [r]" using one by simp
  note sel = r [unfolded consentRows_single]
  have mem: "r \<in> set (w_consents w)" "consentFor u uc cl r" "providerPrefixExp w p (co_provider_prefix r)"
    using sel by (auto simp: filter_eq_Cons_iff)
  have byid: "filter (\<lambda>x. co_id x = co_id r) (w_consents w) = [r]"
    using d mem(1) by (rule filter_by_key)
  note upd = filter_replace_selected [OF sel d, of "r\<lparr>co_granted_scopes := ss, co_granted_at := n\<rparr>" for ss n, simplified]
  show ?thesis using p mem
    by (simp add: UpsertConsentAt_def wp_FindConsentAt wp_simps Let_def canonicalPrefixD updateConsent_def findConsentById_def
        r oldScopes_def toConsent_def byid)
      (use upd mem in \<open>auto simp: consentRows_single consentFor_def\<close>)
qed

text \<open>Recording a consent never takes a scope away: afterwards the provider finds for the user and client
  exactly the scopes granted before and the new ones; the consents of other users, clients and providers
  are left as they were, and a call that fails changes no consent at all.\<close>

theorem consent_only_grows:
  assumes "canonicalPrefix p" "distinct (map co_id (w_consents w))" "length (consentRows w p u uc cl) \<le> 1"
    and "UpsertConsentAt p u uc cl new (\<omega> :: store_envir) (w :: world) = (r, w1)"
  shows "case r of
      Inl _ \<Rightarrow> w_consents w1 = w_consents w
    | Inr c \<Rightarrow> otherConsents w1 p u uc cl = otherConsents w p u uc cl
        \<and> (\<forall>(\<omega>' :: store_envir) oc w2. FindConsentAt p u uc cl \<omega>' w1 = (Inr oc, w2) \<longrightarrow>
             (\<exists>c'. oc = Some c' \<and> set (cn_GrantedScopes c') = set (oldScopes (consentRows w p u uc cl)) \<union> set new
                 \<and> ConsentCovers (cn_GrantedScopes c') new))"
proof (cases r)
  case (Inl e)
  then show ?thesis using wp_outcome [OF wp_UpsertConsentAt [OF assms(1-3)] assms(4)] by simp
next
  case (Inr c)
  from wp_outcome [OF wp_UpsertConsentAt [OF assms(1-3)] assms(4)] Inr obtain row where
    row: "consentRows w1 p u uc cl = [row]"
      "co_granted_scopes row = mergeScopes (oldScopes (consentRows w p u uc cl)) new"
    and other: "otherConsents w1 p u uc cl = otherConsents w p u uc cl" by auto
  have "wp (FindConsentAt p u uc cl) (\<lambda>oc _. oc = Some (toConsent p row)) (\<lambda>_ _. True) \<omega>' w1" for \<omega>' :: "store_envir"
    by (simp add: wp_FindConsentAt Let_def row(1))
  then have found: "oc = Some (toConsent p row)" if "FindConsentAt p u uc cl \<omega>' w1 = (Inr oc, w2)" for \<omega>' :: "store_envir" and oc w2
    using wp_outcome_Inr that by fast
  show ?thesis using Inr other row(2) conjunct1 [OF mergeInto_spec [of "oldScopes (consentRows w p u uc cl)" new]]
    by (auto dest!: found simp: toConsent_def mergeScopes_def ConsentCovers_iff)
qed

definition demoConsented :: world where
  "demoConsented = demoWorld\<lparr>w_consents := [\<lparr>co_id = ''k1'', co_provider_prefix = DefaultPathPrefix, co_user_id = ''u1'',
     co_user_collection = ''users'', co_client_id = ''app'', co_granted_scopes = [''openid''], co_granted_at = 0\<rparr>]\<rparr>"

lemma demo_consentRows:
  "\<exists>r. consentRows demoConsented DefaultPathPrefix ''u1'' ''users'' ''app'' = [r] \<and> co_granted_scopes r = [''openid'']"
  using providerPrefixExp_own [OF canonical_Default, of demoConsented]
  by (simp add: consentRows_single) (simp add: demoConsented_def consentFor_def)

lemma demo_upsert: "\<exists>c. fst (UpsertConsentAt DefaultPathPrefix ''u1'' ''users'' ''app'' [''email''] demoEnv demoConsented) = Inr c"
  by (simp add: demoConsented_def op_defs run_simps demo_defs UpsertConsentAt_def FindConsentAt_def consentFor_def
      findConsentById_def updateConsent_def cong: run_congs)

theorem consent_only_grows_witness:
  "\<exists>w1 c. UpsertConsentAt DefaultPathPrefix ''u1'' ''users'' ''app'' [''email''] demoEnv demoConsented = (Inr c, w1)
     \<and> (\<exists>oc w2. FindConsentAt DefaultPathPrefix ''u1'' ''users'' ''app'' demoEnv w1 = (Inr (Some oc), w2)
          \<and> set (cn_GrantedScopes oc) = {''openid'', ''email''})"
proof -
  obtain c w1 where run: "UpsertConsentAt DefaultPathPrefix ''u1'' ''users'' ''app'' [''email''] demoEnv demoConsented = (Inr c, w1)"
    using demo_upsert by (metis prod.collapse)
  obtain r0 where r0: "consentRows demoConsented DefaultPathPrefix ''u1'' ''users'' ''app'' = [r0]" "co_granted_scopes r0 = [''openid'']"
    using demo_consentRows by blast
  have "wp (FindConsentAt DefaultPathPrefix ''u1'' ''users'' ''app'') (\<lambda>_ _. True) (\<lambda>_ _. False) demoEnv w1"
    by (simp add: wp_FindConsentAt Let_def demoEnv_def)
  then obtain oc w2 where find: "FindConsentAt DefaultPathPrefix ''u1'' ''users'' ''app'' demoEnv w1 = (Inr oc, w2)"
    by (auto simp: wp_def split: prod.splits sum.splits)
  have "distinct (map co_id (w_consents demoConsented))" by (simp add: demoConsented_def)
  from consent_only_grows [OF canonical_Default this _ run] r0 find run show ?thesis
    by (force simp: oldScopes_def)
qed

end
