(* ===== verification/Cleanup.thy ===== *)
theory Cleanup
  imports Interactions Family
begin

section \<open>The hourly cleanup job (registerCleanupJob, cleanupExpiredRefreshTombstones in oauth2.go)\<close>

text \<open>
  The cron job deletes the expired rows of seven collections, one record at a time, and logs every failure
  without stopping; then it looks at every expired tombstone in a transaction of its own: as long as a
  refresh or access row of the request is left, the tombstone is extended, and only then deleted.
\<close>

subsection \<open>Definitions\<close>

text \<open>The SQL condition \<open>expires_at < {:now}\<close>.\<close>

definition expired :: "int \<Rightarrow> int option \<Rightarrow> bool" where
  "expired now e = (case e of None \<Rightarrow> False | Some x \<Rightarrow> x < now)"

text \<open>The body of the loop over the collections, for a collection given by its statements.\<close>

definition purgeExpired ::
  "(('r \<Rightarrow> bool) \<Rightarrow> ('o, 'w, 'r list) dbgo) \<Rightarrow> ('r \<Rightarrow> ('o, 'w, unit) dbgo) \<Rightarrow> ('r \<Rightarrow> int option) \<Rightarrow> ('o, 'w, unit) dbgo"
  where
  "purgeExpired query delete expiry =
     bindG timeNow (\<lambda>now.
     bindG (attemptG (query (\<lambda>r. expired (unixSec now) (expiry r)))) (\<lambda>res. case res of
         Inl _ \<Rightarrow> returnG ()
       | Inr records \<Rightarrow> forG records (\<lambda>record. bindG (attemptG (delete record)) (\<lambda>_. returnG ()))))"

definition sessionCollections :: "collection list" where
  "sessionCollections = [AuthCodeC, AccessC, RefreshC, PKCEC, OpenIDC]"

definition queryJTIs :: "(jti_row \<Rightarrow> bool) \<Rightarrow> ('o, 'w, jti_row list) dbgo" where
  "queryJTIs P = bindG dbCall (\<lambda>_. readG (\<lambda>w. filter P (w_jtis w)))"

definition deleteJTI :: "jti_row \<Rightarrow> ('o, 'w, unit) dbgo" where
  "deleteJTI r = bindG dbCall (\<lambda>_. modifyG (\<lambda>w. w\<lparr>w_jtis := filter (\<lambda>x. jt_id x \<noteq> jt_id r) (w_jtis w)\<rparr>))"

definition findTombstoneById :: "string \<Rightarrow> ('o, 'w, tombstone_row) dbgo" where
  "findTombstoneById i = bindG (queryTombstones (\<lambda>_ t. tb_id t = i))
     (\<lambda>ts. case ts of [] \<Rightarrow> throwG (plainErr ErrNoRows) | t # _ \<Rightarrow> returnG t)"

text \<open>The transaction for one stale tombstone: what is done to the row as it is now, and the re-read.\<close>

definition retireCurrent :: "int \<Rightarrow> tombstone_row \<Rightarrow> ('o, 'w, unit) dbgo" where
  "retireCurrent now current =
     (if tb_expires_at current \<ge> now then returnG ()
      else bindG (scopedRefreshArtifactAuthority (tb_provider_prefix current) (tb_request_id current))
        (\<lambda>(_, artifactExpiry, artifactCount).
      if artifactCount > 0
      then bindG timeNow (\<lambda>now2.
        let retryExpiry = unixSec (now2 + missingRefreshTombstoneLifetime);
            retryExpiry = (if artifactExpiry > retryExpiry then artifactExpiry else retryExpiry) in
        updateTombstone (current\<lparr>tb_expires_at := retryExpiry\<rparr>))
      else deleteTombstone current))"

definition retireTombstone :: "int \<Rightarrow> tombstone_row \<Rightarrow> ('o, 'w, unit) dbgo" where
  "retireTombstone now stale = transactionG (bindG (findTombstoneById (tb_id stale)) (retireCurrent now))"

definition cleanupExpiredRefreshTombstones :: "('o, 'w, unit) dbgo" where
  "cleanupExpiredRefreshTombstones =
     bindG timeNow (\<lambda>t. let now = unixSec t in
     bindG (attemptG (queryTombstones (\<lambda>_ r. tb_expires_at r < now))) (\<lambda>res. case res of
         Inl _ \<Rightarrow> returnG ()
       | Inr records \<Rightarrow> forG records (\<lambda>stale. bindG (attemptG (retireTombstone now stale)) (\<lambda>_. returnG ()))))"

definition cleanupJob :: "('o, 'w, unit) dbgo" where
  "cleanupJob =
     bindG (forG sessionCollections (\<lambda>c. purgeExpired (\<lambda>P. querySessions True c (\<lambda>_. P)) (deleteSession c) sr_expires_at)) (\<lambda>_.
     bindG (purgeExpired queryJTIs deleteJTI (\<lambda>r. Some (jt_expires_at r))) (\<lambda>_.
     bindG (purgeExpired (\<lambda>P. queryInteractions (\<lambda>_. P)) deleteInteractionRow (\<lambda>r. Some (ir_expires_at r))) (\<lambda>_.
     cleanupExpiredRefreshTombstones)))"

subsection \<open>A table, through the statements on it\<close>

text \<open>What the loop needs of a collection: a query returns the selected rows, a delete removes a record id.\<close>

locale table =
  fixes rows :: "world \<Rightarrow> 'r list" and put :: "'r list \<Rightarrow> world \<Rightarrow> world" and key :: "'r \<Rightarrow> string"
    and query :: "('r \<Rightarrow> bool) \<Rightarrow> ('o envir_scheme, world, 'r list) go"
    and delete :: "'r \<Rightarrow> ('o envir_scheme, world, unit) go"
  assumes rows_put: "rows (put rs w) = rs" and put_put: "put rs (put rs' w) = put rs w"
    and put_rows: "put (rows w) w = w"
    and rows_tick: "rows (w\<lparr>tick := n\<rparr>) = rows w" and put_tick: "(put rs w)\<lparr>tick := n\<rparr> = put rs (w\<lparr>tick := n\<rparr>)"
    and tick_put: "tick (put rs w) = tick w"
    and wp_query: "wp (query P) Q E \<omega> w = (if dbfail \<omega> (tick w) then E driverErr (w\<lparr>tick := Suc (tick w)\<rparr>)
       else Q (filter P (rows w)) (w\<lparr>tick := Suc (tick w)\<rparr>))"
    and wp_delete: "wp (delete r) Q' E \<omega> w = (if dbfail \<omega> (tick w) then E driverErr (w\<lparr>tick := Suc (tick w)\<rparr>)
       else Q' () (put (filter (\<lambda>x. key x \<noteq> key r) (rows w)) (w\<lparr>tick := Suc (tick w)\<rparr>)))"
begin

definition without :: "string set \<Rightarrow> world \<Rightarrow> world" where
  "without I w = put (filter (\<lambda>r. key r \<notin> I) (rows w)) w"

lemma without_simps: "without {} w = w" "without I (without J w) = without (I \<union> J) w"
  "(without I w)\<lparr>tick := n\<rparr> = without I (w\<lparr>tick := n\<rparr>)" "tick (without I w) = tick w"
  by (simp_all add: without_def put_rows rows_put put_put put_tick rows_tick tick_put conj_commute)

lemma delete_without: "wp (bindG (attemptG (delete r)) (\<lambda>_. returnG ())) Q E \<omega> w =
   (if dbfail \<omega> (tick w) then Q () (w\<lparr>tick := Suc (tick w)\<rparr>) else Q () (without {key r} (w\<lparr>tick := Suc (tick w)\<rparr>)))"
  by (simp add: wp_simps wp_delete without_def rows_tick)

text \<open>
  The rows of the ids \<open>D\<close> are gone, some of them if statements fail, and nothing else has changed.
\<close>

definition purged :: "'o envir_scheme \<Rightarrow> string set \<Rightarrow> world \<Rightarrow> world \<Rightarrow> bool" where
  "purged \<omega> D w w' \<longleftrightarrow> (\<exists>I n. w' = without I (w\<lparr>tick := n\<rparr>) \<and> I \<subseteq> D \<and> ((\<forall>n. \<not> dbfail \<omega> n) \<longrightarrow> I = D))"

lemma purged_later: "purged \<omega> D (w\<lparr>tick := m\<rparr>) w' \<Longrightarrow> purged \<omega> D w w'"
  by (simp add: purged_def)

lemma purged_fail: "dbfail \<omega> m \<Longrightarrow> purged \<omega> D w (w\<lparr>tick := k\<rparr>)"
  unfolding purged_def by (intro exI [of _ "{}"] exI [of _ k]) (auto simp: without_simps)

lemma purged_skip: "dbfail \<omega> m \<Longrightarrow> purged \<omega> D w w' \<Longrightarrow> purged \<omega> (insert i D) w w'"
  unfolding purged_def by blast

lemma purged_delete:
  assumes "purged \<omega> D (without {i} w) w'"
  shows "purged \<omega> (insert i D) w w'"
proof -
  obtain I n where I: "w' = without I ((without {i} w)\<lparr>tick := n\<rparr>)" "I \<subseteq> D" "(\<forall>n. \<not> dbfail \<omega> n) \<longrightarrow> I = D"
    using assms by (auto simp: purged_def)
  then show ?thesis unfolding purged_def
    by (intro exI [of _ "insert i I"] exI [of _ n]) (auto simp: without_simps)
qed

lemma loop_purged:
  "wp (forG rs (\<lambda>r. bindG (attemptG (delete r)) (\<lambda>_. returnG ()))) (\<lambda>_. purged \<omega> (key ` set rs) w) (\<lambda>_ _. False) \<omega> w"
proof (induction rs arbitrary: w)
  case Nil
  have "purged \<omega> {} w (without {} (w\<lparr>tick := tick w\<rparr>))" unfolding purged_def by blast
  then show ?case by (simp add: wp_simps without_simps)
next
  case (Cons r rs)
  let ?rest = "\<lambda>v. wp (forG rs (\<lambda>r. bindG (attemptG (delete r)) (\<lambda>_. returnG ())))
     (\<lambda>_. purged \<omega> (insert (key r) (key ` set rs)) w) (\<lambda>_ _. False) \<omega> v"
  have "?rest (w\<lparr>tick := Suc (tick w)\<rparr>)" if "dbfail \<omega> (tick w)"
    by (rule wp_mono [OF Cons.IH]) (auto intro: purged_skip [OF that] purged_later)
  moreover have "?rest (without {key r} (w\<lparr>tick := Suc (tick w)\<rparr>))"
    by (rule wp_mono [OF Cons.IH]) (auto intro: purged_later [OF purged_delete])
  ultimately show ?case
    unfolding forG.simps wp_bindG [of _ "\<lambda>_. forG rs _"] delete_without by simp
qed

text \<open>A purge removes exactly the rows the query found expired when nothing fails, and no others, ever.\<close>

lemma purge_purged:
  "wp (purgeExpired query delete expiry)
     (\<lambda>_. purged \<omega> (key ` {r \<in> set (rows w). expired (unixSec (clock \<omega> (tick w))) (expiry r)}) w) (\<lambda>_ _. False) \<omega> w"
  (is "wp _ (\<lambda>_. purged \<omega> ?D w) _ _ _")
proof -
  have "wp (forG rs (\<lambda>r. bindG (attemptG (delete r)) (\<lambda>_. returnG ()))) (\<lambda>_. purged \<omega> ?D w) (\<lambda>_ _. False) \<omega> (w\<lparr>tick := k\<rparr>)"
    if "key ` set rs = ?D" for rs k
    unfolding that [symmetric] by (rule wp_mono [OF loop_purged]) (auto intro: purged_later)
  then show ?thesis
    unfolding purgeExpired_def
    by (simp add: wp_timeNow wp_bindG [of timeNow] wp_bindG [of "attemptG (query _)"] wp_attemptG wp_query wp_returnG rows_tick
        purged_fail)
qed

end

text \<open>The seven collections are tables.\<close>

interpretation sessions: table "\<lambda>w. w_sessions w c" "\<lambda>rs w. w\<lparr>w_sessions := (w_sessions w)(c := rs)\<rparr>" sr_id
    "\<lambda>P. querySessions True c (\<lambda>_. P)" "deleteSession c" for c
  by unfold_locales (simp_all add: wp_querySessions wp_deleteSession Let_def)

interpretation jtis: table w_jtis "\<lambda>rs w. w\<lparr>w_jtis := rs\<rparr>" jt_id queryJTIs deleteJTI
  by unfold_locales (simp_all add: queryJTIs_def deleteJTI_def wp_simps)

interpretation pending: table w_interactions "\<lambda>rs w. w\<lparr>w_interactions := rs\<rparr>" ir_id
    "\<lambda>P. queryInteractions (\<lambda>_. P)" deleteInteractionRow
  by unfold_locales (simp_all add: wp_queryInteractions deleteInteractionRow_def wp_simps Let_def)

subsection \<open>What the job may do to the tables\<close>

text \<open>
  \<open>shrinks late xs ys\<close>: \<open>ys\<close> is \<open>xs\<close> without some of its late rows, in the same order.
\<close>

definition shrinks :: "('r \<Rightarrow> bool) \<Rightarrow> 'r list \<Rightarrow> 'r list \<Rightarrow> bool" where
  "shrinks late xs ys \<longleftrightarrow> (\<exists>P. ys = filter P xs \<and> (\<forall>x \<in> set xs. \<not> P x \<longrightarrow> late x))"

lemma shrinks_refl [simp]: "shrinks late xs xs"
  unfolding shrinks_def by (rule exI [of _ "\<lambda>_. True"]) simp

lemma shrinks_trans: "shrinks late xs ys \<Longrightarrow> shrinks late ys zs \<Longrightarrow> shrinks late xs zs"
proof -
  assume "shrinks late xs ys" "shrinks late ys zs"
  then obtain P Q where PQ: "ys = filter P xs" "\<forall>x \<in> set xs. \<not> P x \<longrightarrow> late x"
    "zs = filter Q ys" "\<forall>x \<in> set ys. \<not> Q x \<longrightarrow> late x" by (auto simp: shrinks_def)
  then show ?thesis unfolding shrinks_def by (intro exI [of _ "\<lambda>x. P x \<and> Q x"]) (auto simp: conj_commute)
qed

lemma shrinks_subset: "shrinks late xs ys \<Longrightarrow> set ys \<subseteq> set xs"
  by (auto simp: shrinks_def)

lemma shrinks_kept: "shrinks late xs ys \<Longrightarrow> x \<in> set xs \<Longrightarrow> \<not> late x \<Longrightarrow> x \<in> set ys"
  by (auto simp: shrinks_def)

lemma shrinks_without:
  assumes "distinct (map key xs)" "I \<subseteq> key ` {r \<in> set xs. late r}"
  shows "shrinks late xs (filter (\<lambda>r. key r \<notin> I) xs)" "distinct (map key (filter (\<lambda>r. key r \<notin> I) xs))"
proof -
  have "late r" if "r \<in> set xs" "key r \<in> I" for r
    using that assms by (auto simp: distinct_map dest: inj_onD)
  then show "shrinks late xs (filter (\<lambda>r. key r \<notin> I) xs)" unfolding shrinks_def by blast
  show "distinct (map key (filter (\<lambda>r. key r \<notin> I) xs))" using assms(1) by (rule distinct_map_filter)
qed

text \<open>A row is late when some reading of the clock is past its expiry.\<close>

definition late :: "'o envir_scheme \<Rightarrow> int option \<Rightarrow> bool" where
  "late \<omega> e \<longleftrightarrow> (\<exists>n. expired (unixSec (clock \<omega> n)) e)"

definition cleanWf :: "world \<Rightarrow> bool" where
  "cleanWf w \<longleftrightarrow> idsOk w \<and> distinct (map jt_id (w_jtis w)) \<and> distinct (map ir_id (w_interactions w))"

definition artifactFree :: "world \<Rightarrow> string \<Rightarrow> string \<Rightarrow> bool" where
  "artifactFree w p q \<longleftrightarrow> requestRows w RefreshC p q = [] \<and> requestRows w AccessC p q = []"

text \<open>
  The relation every step of the job keeps: rows go only when late, untouched tables stay, a terminal
  request stays terminal or has no refresh or access row left, and a tombstone that no reading of the
  clock finds stale stays as it is.
\<close>

definition cleaned :: "'o envir_scheme \<Rightarrow> world \<Rightarrow> world \<Rightarrow> bool" where
  "cleaned \<omega> w w' \<longleftrightarrow> w_registered w' = w_registered w \<and> w_clients w' = w_clients w \<and> w_consents w' = w_consents w
     \<and> (\<forall>c. shrinks (\<lambda>r. late \<omega> (sr_expires_at r)) (w_sessions w c) (w_sessions w' c))
     \<and> shrinks (\<lambda>r. late \<omega> (Some (jt_expires_at r))) (w_jtis w) (w_jtis w')
     \<and> shrinks (\<lambda>r. late \<omega> (Some (ir_expires_at r))) (w_interactions w) (w_interactions w')
     \<and> (\<forall>p q. terminal w p q \<longrightarrow> terminal w' p q \<or> artifactFree w' p q)
     \<and> (\<forall>t \<in> set (w_tombstones w). \<not> late \<omega> (Some (tb_expires_at t)) \<longrightarrow> t \<in> set (w_tombstones w'))"

definition cleanR :: "'o envir_scheme \<Rightarrow> world \<Rightarrow> world \<Rightarrow> bool" where
  "cleanR \<omega> w w' \<longleftrightarrow> (cleanWf w \<longrightarrow> cleanWf w' \<and> cleaned \<omega> w w')"

lemma artifactFree_mono:
  assumes "artifactFree w p q" "w_registered w' = w_registered w" "\<And>c. set (w_sessions w' c) \<subseteq> set (w_sessions w c)"
  shows "artifactFree w' p q"
proof -
  have "providerPrefixExp w' p x = providerPrefixExp w p x" for x
    by (simp only: providerPrefixExp_def legacyDefaultAllowed_def assms(2))
  then show ?thesis using assms(1) assms(3) [of RefreshC] assms(3) [of AccessC]
    unfolding artifactFree_def requestRows_def by (auto simp: filter_empty_conv)
qed

lemma cleaned_trans: "cleaned \<omega> u v \<Longrightarrow> cleaned \<omega> v w \<Longrightarrow> cleaned \<omega> u w"
  unfolding cleaned_def
  by (auto intro: shrinks_trans) (metis artifactFree_mono shrinks_subset)

lemma cleanR_refl: "cleanR \<omega> w (w\<lparr>tick := n\<rparr>)"
  by (simp add: cleanR_def cleaned_def cleanWf_def)

lemma preorder_cleanR: "preorderR (cleanR \<omega>)"
proof -
  have "cleanR \<omega> w w" for w using cleanR_refl [of \<omega> w "tick w"] by simp
  then show ?thesis unfolding preorderR_def cleanR_def by (blast intro: cleaned_trans)
qed

text \<open>A program that keeps a relation under one environment, whatever the world it starts in.\<close>

definition along :: "'o \<Rightarrow> ('w \<Rightarrow> 'w \<Rightarrow> bool) \<Rightarrow> ('o, 'w, 'a) go \<Rightarrow> bool" where
  "along \<omega> R m \<longleftrightarrow> (\<forall>w. wp m (\<lambda>_. R w) (\<lambda>_. R w) \<omega> w)"

lemma along_bind:
  assumes "preorderR R" "along \<omega> R m" "\<And>a. along \<omega> R (f a)"
  shows "along \<omega> R (bindG m f)"
  unfolding along_def wp_bindG
proof
  fix w
  have "wp m (\<lambda>_. R w) (\<lambda>_. R w) \<omega> w" using assms(2) by (simp add: along_def)
  then show "wp m (\<lambda>a. wp (f a) (\<lambda>_. R w) (\<lambda>_. R w) \<omega>) (\<lambda>_. R w) \<omega> w"
  proof (rule wp_mono)
    fix a v assume "R w v"
    show "wp (f a) (\<lambda>_. R w) (\<lambda>_. R w) \<omega> v"
      using assms(3) [of a] preorderR_trans [OF assms(1) \<open>R w v\<close>] unfolding along_def by (blast intro: wp_mono)
  qed
qed

lemma along_attempt: "along \<omega> R m \<Longrightarrow> along \<omega> R (attemptG m)"
  by (simp add: along_def wp_attemptG)

lemma along_return: "preorderR R \<Longrightarrow> along \<omega> R (returnG a)"
  by (simp add: along_def wp_returnG preorderR_refl)

lemma along_forG: "preorderR R \<Longrightarrow> (\<And>x. along \<omega> R (f x)) \<Longrightarrow> along \<omega> R (forG xs f)"
  by (induction xs) (auto intro: along_return along_bind)

lemma along_timeNow: "tickfree R \<Longrightarrow> along \<omega> R timeNow"
  by (simp add: along_def wp_timeNow tickfree_def)

lemmas along_intros = along_bind along_attempt along_return along_forG along_timeNow

subsection \<open>Every step of the job keeps the relation\<close>

lemma late_now: "expired (unixSec (clock \<omega> n)) e \<Longrightarrow> late \<omega> e"
  by (auto simp: late_def)

lemma distinct_ids: "cleanWf w \<Longrightarrow> distinct (map sr_id (w_sessions w c))"
  by (simp add: cleanWf_def idsOkD(1))

lemma cleanR_sessions:
  assumes "sessions.purged c \<omega> (sr_id ` {r \<in> set (w_sessions w c). expired (unixSec (clock \<omega> k)) (sr_expires_at r)}) w w'"
  shows "cleanR \<omega> w w'"
  unfolding cleanR_def
proof
  assume wf: "cleanWf w"
  from assms obtain I n where
    w': "w' = w\<lparr>tick := n, w_sessions := (w_sessions w)(c := filter (\<lambda>r. sr_id r \<notin> I) (w_sessions w c))\<rparr>"
    and I: "I \<subseteq> sr_id ` {r \<in> set (w_sessions w c). expired (unixSec (clock \<omega> k)) (sr_expires_at r)}"
    by (auto simp: sessions.purged_def sessions.without_def)
  have I': "I \<subseteq> sr_id ` {r \<in> set (w_sessions w c). late \<omega> (sr_expires_at r)}" using I late_now by blast
  note sh = shrinks_without [OF distinct_ids [OF wf] I']
  have "cleanWf w'" using wf sh(2) by (auto simp: cleanWf_def idsOk_def tbWf_def w')
  moreover have "cleaned \<omega> w w'" using sh(1) by (auto simp: cleaned_def w' terminal_def)
  ultimately show "cleanWf w' \<and> cleaned \<omega> w w'" ..
qed

lemma cleanR_jtis:
  assumes "jtis.purged \<omega> (jt_id ` {r \<in> set (w_jtis w). expired (unixSec (clock \<omega> k)) (Some (jt_expires_at r))}) w w'"
  shows "cleanR \<omega> w w'"
  unfolding cleanR_def
proof
  assume wf: "cleanWf w"
  from assms obtain I n where w': "w' = w\<lparr>tick := n, w_jtis := filter (\<lambda>r. jt_id r \<notin> I) (w_jtis w)\<rparr>"
    and I: "I \<subseteq> jt_id ` {r \<in> set (w_jtis w). expired (unixSec (clock \<omega> k)) (Some (jt_expires_at r))}"
    by (auto simp: jtis.purged_def jtis.without_def)
  have I': "I \<subseteq> jt_id ` {r \<in> set (w_jtis w). late \<omega> (Some (jt_expires_at r))}" using I late_now by blast
  have "distinct (map jt_id (w_jtis w))" using wf by (simp add: cleanWf_def)
  note sh = shrinks_without [OF this I']
  show "cleanWf w' \<and> cleaned \<omega> w w'" using wf sh by (auto simp: cleanWf_def idsOk_def tbWf_def cleaned_def w' terminal_def)
qed

lemma cleanR_pending:
  assumes "pending.purged \<omega> (ir_id ` {r \<in> set (w_interactions w). expired (unixSec (clock \<omega> k)) (Some (ir_expires_at r))}) w w'"
  shows "cleanR \<omega> w w'"
  unfolding cleanR_def
proof
  assume wf: "cleanWf w"
  from assms obtain I n where w': "w' = w\<lparr>tick := n, w_interactions := filter (\<lambda>r. ir_id r \<notin> I) (w_interactions w)\<rparr>"
    and I: "I \<subseteq> ir_id ` {r \<in> set (w_interactions w). expired (unixSec (clock \<omega> k)) (Some (ir_expires_at r))}"
    by (auto simp: pending.purged_def pending.without_def)
  have I': "I \<subseteq> ir_id ` {r \<in> set (w_interactions w). late \<omega> (Some (ir_expires_at r))}" using I late_now by blast
  have "distinct (map ir_id (w_interactions w))" using wf by (simp add: cleanWf_def)
  note sh = shrinks_without [OF this I']
  show "cleanWf w' \<and> cleaned \<omega> w w'" using wf sh by (auto simp: cleanWf_def idsOk_def tbWf_def cleaned_def w' terminal_def)
qed

text \<open>A tombstone that is replaced by one of its own id, prefix and request, and one that is deleted.\<close>

lemma cleanR_extend:
  assumes "t \<in> set (w_tombstones w)" "late \<omega> (Some (tb_expires_at t))"
  shows "cleanR \<omega> w (w\<lparr>tick := n, w_tombstones :=
     map (\<lambda>x. if tb_id x = tb_id t then t\<lparr>tb_expires_at := e\<rparr> else x) (w_tombstones w)\<rparr>)"
  unfolding cleanR_def
proof
  let ?w' = "w\<lparr>tick := n, w_tombstones := map (\<lambda>x. if tb_id x = tb_id t then t\<lparr>tb_expires_at := e\<rparr> else x) (w_tombstones w)\<rparr>"
  assume wf: "cleanWf w"
  have u: "x = t" if "x \<in> set (w_tombstones w)" "tb_id x = tb_id t" for x
    using that assms(1) wf by (auto simp: cleanWf_def idsOk_def tbWf_def distinct_map dest: inj_onD)
  have "map tb_id (map (\<lambda>x. if tb_id x = tb_id t then t\<lparr>tb_expires_at := e\<rparr> else x) (w_tombstones w)) = map tb_id (w_tombstones w)"
    using map_key_replace [of tb_id "t\<lparr>tb_expires_at := e\<rparr>" "w_tombstones w"] by simp
  then have "cleanWf ?w'" using wf by (simp add: cleanWf_def idsOk_def tbWf_def del: map_map)
  moreover have "terminal ?w' p q" if ter: "terminal w p q" for p q
  proof -
    obtain x where x: "x \<in> set (w_tombstones w)" "tb_provider_prefix x = p" "tb_request_id x = q"
      using ter by (auto simp: terminal_def)
    let ?x' = "if tb_id x = tb_id t then t\<lparr>tb_expires_at := e\<rparr> else x"
    have "?x' \<in> set (w_tombstones ?w')" using x(1) by simp
    moreover have "tb_provider_prefix ?x' = p \<and> tb_request_id ?x' = q" using u [OF x(1)] x(2,3) by auto
    ultimately show ?thesis unfolding terminal_def by blast
  qed
  moreover have "x \<in> set (w_tombstones ?w')" if "x \<in> set (w_tombstones w)" "\<not> late \<omega> (Some (tb_expires_at x))" for x
    using that assms(2) u by force
  ultimately show "cleanWf ?w' \<and> cleaned \<omega> w ?w'" by (simp add: cleaned_def)
qed

lemma cleanR_delete:
  assumes "t \<in> set (w_tombstones w)" "late \<omega> (Some (tb_expires_at t))"
    and "artifactFree w (tb_provider_prefix t) (tb_request_id t)"
  shows "cleanR \<omega> w (w\<lparr>tick := n, w_tombstones := filter (\<lambda>x. tb_id x \<noteq> tb_id t) (w_tombstones w)\<rparr>)"
  unfolding cleanR_def
proof
  let ?w' = "w\<lparr>tick := n, w_tombstones := filter (\<lambda>x. tb_id x \<noteq> tb_id t) (w_tombstones w)\<rparr>"
  assume wf: "cleanWf w"
  have u: "x = t" if "x \<in> set (w_tombstones w)" "tb_id x = tb_id t" for x
    using that assms(1) wf by (auto simp: cleanWf_def idsOk_def tbWf_def distinct_map dest: inj_onD)
  have "cleanWf ?w'" using wf by (auto simp: cleanWf_def idsOk_def tbWf_def distinct_map_filter)
  moreover have "terminal ?w' p q \<or> artifactFree ?w' p q" if "terminal w p q" for p q
  proof (cases "p = tb_provider_prefix t \<and> q = tb_request_id t")
    case True
    then show ?thesis using assms(3) artifactFree_mono [of w p q ?w'] by simp
  next
    case False
    then show ?thesis using that u by (fastforce simp: terminal_def)
  qed
  moreover have "x \<in> set (w_tombstones ?w')" if "x \<in> set (w_tombstones w)" "\<not> late \<omega> (Some (tb_expires_at x))" for x
    using that assms(2) u by auto
  ultimately show "cleanWf ?w' \<and> cleaned \<omega> w ?w'" by (simp add: cleaned_def)
qed

lemma tickfree_cleanR: "tickfree (cleanR \<omega>)"
  by (simp add: tickfree_def cleanR_refl)

lemma along_sessions: "along \<omega> (cleanR \<omega>) (purgeExpired (\<lambda>P. querySessions True c (\<lambda>_. P)) (deleteSession c) sr_expires_at)"
  unfolding along_def by (intro allI wp_mono [OF sessions.purge_purged]) (auto intro: cleanR_sessions)

lemma along_jtis: "along \<omega> (cleanR \<omega>) (purgeExpired queryJTIs deleteJTI (\<lambda>r. Some (jt_expires_at r)))"
  unfolding along_def by (intro allI wp_mono [OF jtis.purge_purged]) (auto intro: cleanR_jtis)

lemma along_pending:
  "along \<omega> (cleanR \<omega>) (purgeExpired (\<lambda>P. queryInteractions (\<lambda>_. P)) deleteInteractionRow (\<lambda>r. Some (ir_expires_at r)))"
  unfolding along_def by (intro allI wp_mono [OF pending.purge_purged]) (auto intro: cleanR_pending)

lemma artifacts_empty: "artifacts w p q = Inr (f, e, 0) \<Longrightarrow> artifactFree w p q"
  using artifacts_bound(2) by (fastforce simp: artifactFree_def)

lemma cleanR_tick: "cleanR \<omega> (w\<lparr>tick := k\<rparr>) = cleanR \<omega> w"
  by (simp add: fun_eq_iff cleanR_def cleaned_def cleanWf_def terminal_def)

lemma cleanR_tick2: "cleanR \<omega> w (w'\<lparr>tick := k\<rparr>) \<longleftrightarrow> cleanR \<omega> w w'"
  by (simp add: cleanR_def cleaned_def cleanWf_def artifactFree_def)

lemma wp_findTombstoneById:
  assumes "\<And>n t. t \<in> set (w_tombstones w) \<Longrightarrow> Q t (w\<lparr>tick := n\<rparr>)" "\<And>n e. E e (w\<lparr>tick := n\<rparr>)"
  shows "wp (findTombstoneById i) Q E \<omega> w"
proof -
  have "t \<in> set (w_tombstones w)" if "filter (\<lambda>t. tb_id t = i) (w_tombstones w) = t # ts" for t ts
    using that by (auto simp: filter_eq_Cons_iff)
  then show ?thesis using assms
    by (auto simp: findTombstoneById_def queryTombstones_def wp_simps split: list.splits)
qed

text \<open>A stale tombstone is extended while a row is left, and deleted only when none is.\<close>

lemma wp_retireCurrent:
  assumes t: "t \<in> set (w_tombstones w)" and now: "now = unixSec (clock \<omega> k)"
  shows "wp (retireCurrent now t) (\<lambda>_. cleanR \<omega> w) (\<lambda>_. cleanR \<omega> w) \<omega> (w\<lparr>tick := m\<rparr>)"
proof (cases "tb_expires_at t \<ge> now")
  case True
  then show ?thesis by (simp add: retireCurrent_def wp_simps cleanR_refl)
next
  case False
  then have late: "late \<omega> (Some (tb_expires_at t))" using now by (intro late_now [of \<omega> k]) (simp add: expired_def)
  have extend: "cleanR \<omega> w (w\<lparr>tick := n, w_tombstones :=
     map (\<lambda>x. if tb_id x = tb_id t then t\<lparr>tb_expires_at := e\<rparr> else x) (w_tombstones w)\<rparr>)" for n e
    by (rule cleanR_extend [OF t late])
  have delete: "cleanR \<omega> w (w\<lparr>tick := n, w_tombstones := filter (\<lambda>x. tb_id x \<noteq> tb_id t) (w_tombstones w)\<rparr>)"
    if "artifacts w (tb_provider_prefix t) (tb_request_id t) = Inr (f, e, 0)" for n f e
    by (rule cleanR_delete [OF t late artifacts_empty [OF that]])
  show ?thesis unfolding retireCurrent_def using False
    by (auto simp: wp_bindG [of "scopedRefreshArtifactAuthority _ _"] wp_simps Let_def updateTombstone_def deleteTombstone_def
        cleanR_refl intro!: wp_scoped extend delete)
qed

lemma along_retire: "now = unixSec (clock \<omega> k) \<Longrightarrow> along \<omega> (cleanR \<omega>) (retireTombstone now stale)"
  unfolding along_def retireTombstone_def
proof (intro allI wp_transactionI)
  fix w :: world assume now: "now = unixSec (clock \<omega> k)"
  show "wp (bindG (findTombstoneById (tb_id stale)) (retireCurrent now))
     (\<lambda>a v. \<forall>n. cleanR \<omega> w (v\<lparr>tick := n\<rparr>)) (\<lambda>e v. \<forall>n. cleanR \<omega> w (w\<lparr>tick := n\<rparr>)) \<omega> (w\<lparr>tick := Suc (tick w)\<rparr>)"
    unfolding wp_bindG
    by (rule wp_findTombstoneById) (auto simp: cleanR_refl cleanR_tick2 intro!: wp_mono [OF wp_retireCurrent [OF _ now]])
qed (simp add: cleanR_refl)

lemma along_tombstones: "along \<omega> (cleanR \<omega>) cleanupExpiredRefreshTombstones"
proof -
  let ?loop = "\<lambda>records k. forG records (\<lambda>stale. bindG (attemptG (retireTombstone (unixSec (clock \<omega> k)) stale)) (\<lambda>_. returnG ()))"
  have "along \<omega> (cleanR \<omega>) (?loop records k)" for records k
    by (intro along_intros preorder_cleanR along_retire [of _ _ k] refl)
  then have "wp (?loop records k) (\<lambda>_. cleanR \<omega> v) (\<lambda>_. cleanR \<omega> v) \<omega> v" for records k v
    by (simp only: along_def)
  from this [of _ _ "w\<lparr>tick := n\<rparr>" for w n]
  have loop: "wp (?loop records k) (\<lambda>_. cleanR \<omega> w) (\<lambda>_. cleanR \<omega> w) \<omega> (w\<lparr>tick := n\<rparr>)" for records k w n
    by (simp only: cleanR_tick)
  show ?thesis
    unfolding along_def cleanupExpiredRefreshTombstones_def queryTombstones_def
    by (auto simp: wp_bindG [of timeNow] wp_timeNow Let_def wp_bindG [of "attemptG _"] wp_attemptG wp_bindG [of dbCall] wp_dbCall
        wp_readG wp_returnG cleanR_refl intro!: loop)
qed

lemma cleanup_job_along: "along \<omega> (cleanR \<omega>) cleanupJob"
  unfolding cleanupJob_def
  by (intro along_bind along_forG preorder_cleanR along_sessions along_jtis along_pending along_tombstones)

end
