(* ===== verification/Cleanup_Properties.thy ===== *)
theory Cleanup_Properties
  imports Cleanup Demo
begin

section \<open>Properties of the cleanup job\<close>

lemma cleanup_cleaned:
  assumes "cleanupJob \<omega> w = (r, w')" "cleanWf w"
  shows "cleaned \<omega> w w' \<and> cleanWf w'"
proof -
  have "wp cleanupJob (\<lambda>_. cleanR \<omega> w) (\<lambda>_. cleanR \<omega> w) \<omega> w"
    using cleanup_job_along [of \<omega>, unfolded along_def] by (rule spec)
  from wp_outcome [OF this assms(1)] assms(2) show ?thesis by (auto simp: cleanR_def split: sum.splits)
qed

text \<open>C16: the cleanup never reopens a terminal request: whatever fails on the way, a request that was terminal is
  still terminal after the job, or not one refresh or access row of it is left that its provider could see.\<close>

theorem cleanup_respects_authority:
  assumes "cleanupJob \<omega> w = (r, w')" "cleanWf w" "terminal w p q"
  shows "terminal w' p q \<or> requestRows w' RefreshC p q = [] \<and> requestRows w' AccessC p q = []"
  using cleanup_cleaned [OF assms(1,2)] assms(3) by (auto simp: cleaned_def artifactFree_def)

text \<open>The cleanup deletes only what has expired: a session row whose expiry no reading of the clock has passed
  stays, a tombstone likewise stays with its expiry unchanged, and no row appears or changes.\<close>

theorem cleanup_deletes_only_expired:
  assumes "cleanupJob \<omega> w = (r, w')" "cleanWf w" "\<forall>n. unixSec (clock \<omega> n) \<le> now"
  shows "set (w_sessions w' c) \<subseteq> set (w_sessions w c)
    \<and> (\<forall>x \<in> set (w_sessions w c). (case sr_expires_at x of None \<Rightarrow> True | Some e \<Rightarrow> now \<le> e) \<longrightarrow> x \<in> set (w_sessions w' c))
    \<and> (\<forall>t \<in> set (w_tombstones w). now \<le> tb_expires_at t \<longrightarrow> t \<in> set (w_tombstones w'))
    \<and> (\<forall>i \<in> set (w_interactions w). now \<le> ir_expires_at i \<longrightarrow> i \<in> set (w_interactions w'))"
proof -
  note cl = cleanup_cleaned [OF assms(1,2), THEN conjunct1, unfolded cleaned_def]
  have notlate: "\<not> late \<omega> e" if "case e of None \<Rightarrow> True | Some x \<Rightarrow> now \<le> x" for e
    using that assms(3) by (cases e) (auto simp: late_def expired_def not_less intro: order_trans)
  have "set (w_sessions w' c) \<subseteq> set (w_sessions w c)" using cl shrinks_subset by blast
  moreover have "x \<in> set (w_sessions w' c)"
    if "x \<in> set (w_sessions w c)" "case sr_expires_at x of None \<Rightarrow> True | Some e \<Rightarrow> now \<le> e" for x
    using cl that shrinks_kept [of "\<lambda>r. late \<omega> (sr_expires_at r)" "w_sessions w c" "w_sessions w' c" x] notlate by simp
  moreover have "t \<in> set (w_tombstones w')" if "t \<in> set (w_tombstones w)" "now \<le> tb_expires_at t" for t
    using cl that notlate [of "Some (tb_expires_at t)"] by simp
  moreover have "i \<in> set (w_interactions w')" if "i \<in> set (w_interactions w)" "now \<le> ir_expires_at i" for i
    using cl that notlate [of "Some (ir_expires_at i)"]
      shrinks_kept [of "\<lambda>r. late \<omega> (Some (ir_expires_at r))" "w_interactions w" "w_interactions w'" i] by simp
  ultimately show ?thesis by blast
qed

subsection \<open>Completeness\<close>

definition sweptTo :: "'o envir_scheme \<Rightarrow> world \<Rightarrow> collection list \<Rightarrow> world \<Rightarrow> bool" where
  "sweptTo \<omega> w0 cs w \<longleftrightarrow> cleanR \<omega> w0 w \<and> cleanWf w
     \<and> (\<forall>c \<in> set sessionCollections - set cs. \<forall>r \<in> set (w_sessions w c). \<not> late \<omega> (sr_expires_at r))"

lemma cleanR_swept:
  assumes "cleanR \<omega> w w'" "sweptTo \<omega> w0 cs w"
  shows "sweptTo \<omega> w0 cs w'"
proof -
  have wf: "cleanWf w'" "cleaned \<omega> w w'" using assms by (auto simp: sweptTo_def cleanR_def)
  then have "set (w_sessions w' c) \<subseteq> set (w_sessions w c)" for c using shrinks_subset by (auto simp: cleaned_def)
  then show ?thesis using assms wf preorderR_trans [OF preorder_cleanR] unfolding sweptTo_def by blast
qed

lemma sweep_step:
  assumes fail: "\<forall>n. \<not> dbfail \<omega> n" and still: "\<forall>n. clock \<omega> n = t" and st: "sweptTo \<omega> w0 (c # cs) w"
  shows "wp (purgeExpired (\<lambda>P. querySessions True c (\<lambda>_. P)) (deleteSession c) sr_expires_at)
     (\<lambda>_. sweptTo \<omega> w0 cs) (\<lambda>_ _. False) \<omega> w"
proof (rule wp_mono [OF sessions.purge_purged])
  fix w'
  assume p: "sessions.purged c \<omega> (sr_id ` {r \<in> set (w_sessions w c). expired (unixSec (clock \<omega> (tick w))) (sr_expires_at r)}) w w'"
  have keep: "sweptTo \<omega> w0 (c # cs) w'" by (rule cleanR_swept [OF cleanR_sessions [OF p] st])
  have lateE: "late \<omega> e \<longleftrightarrow> expired (unixSec t) e" for e using still by (simp add: late_def)
  from p fail obtain n where "w' = w\<lparr>tick := n, w_sessions := (w_sessions w)(c := filter
       (\<lambda>r. sr_id r \<notin> sr_id ` {r \<in> set (w_sessions w c). expired (unixSec t) (sr_expires_at r)}) (w_sessions w c))\<rparr>"
    using still by (auto simp: sessions.purged_def sessions.without_def)
  then have "\<forall>r \<in> set (w_sessions w' c). \<not> late \<omega> (sr_expires_at r)" by (auto simp: lateE)
  with keep show "sweptTo \<omega> w0 cs w'" by (auto simp: sweptTo_def)
qed simp

lemma wp_along: "along \<omega> (cleanR \<omega>) m \<Longrightarrow> sweptTo \<omega> w0 cs w \<Longrightarrow> wp m (\<lambda>_. sweptTo \<omega> w0 cs) (\<lambda>_. sweptTo \<omega> w0 cs) \<omega> w"
  unfolding along_def by (rule wp_mono [of _ "\<lambda>_. cleanR \<omega> w" "\<lambda>_. cleanR \<omega> w"]) (auto intro: cleanR_swept)

lemma shrinks_complete: "shrinks L xs ys \<Longrightarrow> \<forall>y \<in> set ys. \<not> L y \<Longrightarrow> ys = filter (\<lambda>x. \<not> L x) xs"
  by (auto simp: shrinks_def intro: filter_cong)

text \<open>When no statement fails, the job leaves of every session collection exactly the rows that have not expired,
  in their order.\<close>

theorem cleanup_is_complete:
  assumes "cleanupJob \<omega> w = (r, w')" "cleanWf w" "\<forall>n. \<not> dbfail \<omega> n" "\<forall>n. clock \<omega> n = t" "c \<in> set sessionCollections"
  shows "w_sessions w' c = filter (\<lambda>x. \<not> expired (unixSec t) (sr_expires_at x)) (w_sessions w c)"
proof -
  have late: "late \<omega> e \<longleftrightarrow> expired (unixSec t) e" for e using assms(4) by (simp add: late_def)
  have start: "sweptTo \<omega> w sessionCollections w"
    using assms(2) preorderR_refl [OF preorder_cleanR] by (simp add: sweptTo_def)
  have rest: "along \<omega> (cleanR \<omega>) (bindG (purgeExpired queryJTIs deleteJTI (\<lambda>r. Some (jt_expires_at r))) (\<lambda>_.
     bindG (purgeExpired (\<lambda>P. queryInteractions (\<lambda>_. P)) deleteInteractionRow (\<lambda>r. Some (ir_expires_at r))) (\<lambda>_.
     cleanupExpiredRefreshTombstones)))"
    by (intro along_bind preorder_cleanR along_jtis along_pending along_tombstones)
  have loop: "wp (forG sessionCollections (\<lambda>c. purgeExpired (\<lambda>P. querySessions True c (\<lambda>_. P)) (deleteSession c) sr_expires_at))
      (\<lambda>_. sweptTo \<omega> w []) (\<lambda>_ _. False) \<omega> w"
    by (rule wp_forG [where J = "sweptTo \<omega> w", OF _ start]) (rule sweep_step [OF assms(3,4)])
  have "wp cleanupJob (\<lambda>_. sweptTo \<omega> w []) (\<lambda>_. sweptTo \<omega> w []) \<omega> w"
    unfolding cleanupJob_def wp_bindG [of "forG _ _"]
  proof (rule wp_mono [OF loop])
    fix v assume "sweptTo \<omega> w [] v"
    then show "wp (bindG (purgeExpired queryJTIs deleteJTI (\<lambda>r. Some (jt_expires_at r))) (\<lambda>_.
       bindG (purgeExpired (\<lambda>P. queryInteractions (\<lambda>_. P)) deleteInteractionRow (\<lambda>r. Some (ir_expires_at r))) (\<lambda>_.
       cleanupExpiredRefreshTombstones))) (\<lambda>_. sweptTo \<omega> w []) (\<lambda>_. sweptTo \<omega> w []) \<omega> v"
      by (rule wp_along [OF rest])
  qed (erule FalseE)
  from wp_outcome [OF this assms(1)] have sw: "sweptTo \<omega> w [] w'" by (simp split: sum.splits)
  have sh: "shrinks (\<lambda>r. late \<omega> (sr_expires_at r)) (w_sessions w c) (w_sessions w' c)"
    using sw assms(2) by (simp add: sweptTo_def cleanR_def cleaned_def)
  have "\<forall>y \<in> set (w_sessions w' c). \<not> late \<omega> (sr_expires_at y)"
    using sw assms(5) unfolding sweptTo_def list.set(1) by blast
  from shrinks_complete [OF sh this] show ?thesis by (simp only: late)
qed

definition staleEnv :: store_envir where
  "staleEnv = demoEnv\<lparr>clock := (\<lambda>_. 1950000000000000)\<rparr>"

lemma demo_cleanWf [simp]: "cleanWf demoTerminal" "cleanWf demoWorld"
  using demo_idsOk_terminal demo_idsOk
  by (simp_all add: cleanWf_def) (simp_all add: demoTerminal_def demoWorld_def emptyWorld_def)

lemma clean_run: "cleanupJob \<omega> w = (fst (cleanupJob \<omega> w), snd (cleanupJob \<omega> w))"
  by simp

theorem cleanup_respects_authority_witness:
  "let w' = snd (cleanupJob staleEnv demoTerminal) in terminal w' DefaultPathPrefix ''q''
     \<or> requestRows w' RefreshC DefaultPathPrefix ''q'' = [] \<and> requestRows w' AccessC DefaultPathPrefix ''q'' = []"
  unfolding Let_def by (rule cleanup_respects_authority [OF clean_run demo_cleanWf(1) demo_terminal])


definition freshEnv :: store_envir where
  "freshEnv = demoEnv\<lparr>clock := (\<lambda>_. 1700000000000000)\<rparr>"

theorem cleanup_deletes_only_expired_witness:
  "demoTomb \<in> set (w_tombstones (snd (cleanupJob freshEnv demoTerminal)))
   \<and> demoRow ''r1'' ''s1'' ''q'' ''rotated'' \<in> set (w_sessions (snd (cleanupJob freshEnv demoTerminal)) RefreshC)"
proof -
  have "\<forall>n. unixSec (clock freshEnv n) \<le> 1700000000" by (simp add: freshEnv_def unixSec_def)
  from cleanup_deletes_only_expired [OF clean_run demo_cleanWf(1) this, of RefreshC] show ?thesis
    by (simp add: demoTerminal_def demoTomb_def demoWorld_def demoRow_def emptySessionRow_def)
qed

theorem cleanup_is_complete_witness:
  "w_sessions (snd (cleanupJob staleEnv demoWorld)) RefreshC = []
   \<and> length (w_sessions demoWorld RefreshC) = 2"
proof -
  have "\<forall>n. \<not> dbfail staleEnv n" "\<forall>n. clock staleEnv n = 1950000000000000"
    by (simp_all add: staleEnv_def demoEnv_def)
  from cleanup_is_complete [OF clean_run demo_cleanWf(2) this, of RefreshC] show ?thesis
    by (simp add: sessionCollections_def demoWorld_def demoRow_def emptySessionRow_def expired_def unixSec_def)
qed

end
