(* ===== verification/Codec.thy ===== *)
theory Codec
  imports Go_Url
begin

section \<open>Go's packages encoding/hex and encoding/base64\<close>

text \<open>
  Bytes are characters, byte slices strings. \<open>hex.DecodeString\<close> accepts digits of both cases and fails on an
  odd length; the base64 decoders skip line feeds and carriage returns, and are not strict about the bits
  that padding leaves unused. The four encodings of the package differ in two characters of the alphabet
  and in the padding.
\<close>

subsection \<open>Hexadecimal\<close>

definition hexDigitLower :: "nat \<Rightarrow> char" where
  "hexDigitLower n = (if n < 10 then char_of (48 + n) else char_of (87 + n))"

definition hexEncode :: "string \<Rightarrow> string" where
  "hexEncode s = concat (map (\<lambda>c. [hexDigitLower (of_char c div 16), hexDigitLower (of_char c mod 16)]) s)"

fun hexDecode :: "string \<Rightarrow> string option" where
  "hexDecode [] = Some []"
| "hexDecode [_] = None"
| "hexDecode (a # b # r) = (case (hexVal a, hexVal b) of
     (Some x, Some y) \<Rightarrow> map_option (Cons (char_of (16 * x + y))) (hexDecode r)
   | _ \<Rightarrow> None)"

lemma hexVal_hexDigitLower: "n < 16 \<Longrightarrow> hexVal (hexDigitLower n) = Some n"
  by (auto simp: hexVal_def hexDigitLower_def Let_def)

lemma length_hexEncode [simp]: "length (hexEncode s) = 2 * length s"
  by (induction s) (simp_all add: hexEncode_def)

lemma hexDecode_hexEncode [simp]: "hexDecode (hexEncode s) = Some s"
proof (induction s)
  case Nil
  then show ?case by (simp add: hexEncode_def)
next
  case (Cons c s)
  have "char_of (16 * (of_char c div 16) + of_char c mod 16 :: nat) = c"
    by (simp only: mult_div_mod_eq char_of_char)
  with Cons show ?case by (simp add: hexEncode_def hexVal_hexDigitLower)
qed

lemma length_hexDecode: "hexDecode s = Some b \<Longrightarrow> length s = 2 * length b"
  by (induction s arbitrary: b rule: hexDecode.induct) (auto split: option.splits)

lemma hexDigitLower_inj: "n < 16 \<Longrightarrow> m < 16 \<Longrightarrow> hexDigitLower n = hexDigitLower m \<Longrightarrow> n = m"
  by (metis hexVal_hexDigitLower option.inject)

subsection \<open>Base64\<close>

record b64_encoding =
  b64_url :: bool
  b64_padded :: bool

definition StdEncoding :: b64_encoding where "StdEncoding = \<lparr>b64_url = False, b64_padded = True\<rparr>"
definition RawStdEncoding :: b64_encoding where "RawStdEncoding = \<lparr>b64_url = False, b64_padded = False\<rparr>"
definition URLEncoding :: b64_encoding where "URLEncoding = \<lparr>b64_url = True, b64_padded = True\<rparr>"
definition RawURLEncoding :: b64_encoding where "RawURLEncoding = \<lparr>b64_url = True, b64_padded = False\<rparr>"

definition b64Digit :: "bool \<Rightarrow> nat \<Rightarrow> char" where
  "b64Digit url n = (if n < 26 then char_of (65 + n) else if n < 52 then char_of (71 + n)
     else if n < 62 then char_of (n - 4)
     else if n = 62 then (if url then CHR ''-'' else CHR ''+'') else (if url then CHR ''_'' else CHR ''/''))"

definition b64Val :: "bool \<Rightarrow> char \<Rightarrow> nat option" where
  "b64Val url c = (let n = of_char c :: nat in
     if 65 \<le> n \<and> n \<le> 90 then Some (n - 65)
     else if 97 \<le> n \<and> n \<le> 122 then Some (n - 71)
     else if 48 \<le> n \<and> n \<le> 57 then Some (n + 4)
     else if c = (if url then CHR ''-'' else CHR ''+'') then Some 62
     else if c = (if url then CHR ''_'' else CHR ''/'') then Some 63
     else None)"

fun b64Groups :: "bool \<Rightarrow> bool \<Rightarrow> nat list \<Rightarrow> string" where
  "b64Groups url padded [] = []"
| "b64Groups url padded [a] =
     [b64Digit url (a div 4), b64Digit url (a mod 4 * 16)] @ (if padded then ''=='' else [])"
| "b64Groups url padded [a, b] =
     [b64Digit url (a div 4), b64Digit url (a mod 4 * 16 + b div 16), b64Digit url (b mod 16 * 4)]
     @ (if padded then ''='' else [])"
| "b64Groups url padded (a # b # c # r) =
     [b64Digit url (a div 4), b64Digit url (a mod 4 * 16 + b div 16),
      b64Digit url (b mod 16 * 4 + c div 64), b64Digit url (c mod 64)] @ b64Groups url padded r"

definition b64Encode :: "b64_encoding \<Rightarrow> string \<Rightarrow> string" where
  "b64Encode enc s = b64Groups (b64_url enc) (b64_padded enc) (map of_char s)"

text \<open>The bytes of one, two or three groups of six bits; \<open>byte(val>>k)\<close> keeps the low eight bits.\<close>

definition b64Byte1 :: "nat \<Rightarrow> nat \<Rightarrow> char" where "b64Byte1 a b = char_of (a * 4 + b div 16)"
definition b64Byte2 :: "nat \<Rightarrow> nat \<Rightarrow> char" where "b64Byte2 b c = char_of (b mod 16 * 16 + c div 4)"
definition b64Byte3 :: "nat \<Rightarrow> nat \<Rightarrow> char" where "b64Byte3 c d = char_of (c mod 4 * 64 + d)"

fun b64Decode4 :: "bool \<Rightarrow> bool \<Rightarrow> string \<Rightarrow> string option" where
  "b64Decode4 url padded [] = Some []"
| "b64Decode4 url padded [_] = None"
| "b64Decode4 url padded [a, b] = (if padded then None else (case (b64Val url a, b64Val url b) of
     (Some x, Some y) \<Rightarrow> Some [b64Byte1 x y] | _ \<Rightarrow> None))"
| "b64Decode4 url padded [a, b, c] = (if padded then None else (case (b64Val url a, b64Val url b, b64Val url c) of
     (Some x, Some y, Some z) \<Rightarrow> Some [b64Byte1 x y, b64Byte2 y z] | _ \<Rightarrow> None))"
| "b64Decode4 url padded (a # b # c # d # r) = (case (b64Val url a, b64Val url b) of
     (Some x, Some y) \<Rightarrow> (case b64Val url c of
         None \<Rightarrow> if padded \<and> c = CHR ''='' \<and> d = CHR ''='' \<and> r = [] then Some [b64Byte1 x y] else None
       | Some z \<Rightarrow> (case b64Val url d of
             None \<Rightarrow> if padded \<and> d = CHR ''='' \<and> r = [] then Some [b64Byte1 x y, b64Byte2 y z] else None
           | Some u \<Rightarrow> map_option (\<lambda>s. b64Byte1 x y # b64Byte2 y z # b64Byte3 z u # s) (b64Decode4 url padded r)))
   | _ \<Rightarrow> None)"

definition b64Decode :: "b64_encoding \<Rightarrow> string \<Rightarrow> string option" where
  "b64Decode enc s = b64Decode4 (b64_url enc) (b64_padded enc)
     (filter (\<lambda>c. c \<noteq> CHR 0x0A \<and> c \<noteq> CHR 0x0D) s)"

lemma b64Val_b64Digit: "n < 64 \<Longrightarrow> b64Val url (b64Digit url n) = Some n"
proof -
  assume n: "n < 64"
  consider "n < 26" | "26 \<le> n" "n < 52" | "52 \<le> n" "n < 62" | "n = 62" | "n = 63" using n by linarith
  then show "b64Val url (b64Digit url n) = Some n"
    by cases (auto simp: b64Val_def b64Digit_def Let_def)
qed

lemma b64Val_pad [simp]: "b64Val url (CHR ''='') = None"
  by (cases url) (simp_all add: b64Val_def)

lemma b64Digit_newline: "n < 64 \<Longrightarrow> b64Digit url n \<noteq> CHR 0x0A \<and> b64Digit url n \<noteq> CHR 0x0D"
proof -
  have "b64Val url (CHR 0x0A) = None" "b64Val url (CHR 0x0D) = None"
    by (cases url; simp add: b64Val_def)+
  then show "n < 64 \<Longrightarrow> ?thesis" using b64Val_b64Digit [of n url] by auto
qed

lemma byte_groups:
  assumes "a < 256" "b < 256" "c < (256 :: nat)"
  shows "a div 4 < 64" "a mod 4 * 16 + b div 16 < 64" "b mod 16 * 4 + c div 64 < 64" "c mod 64 < 64"
    "a mod 4 * 16 < 64" "b mod 16 * 4 < 64"
    "(a div 4) * 4 + (a mod 4 * 16 + b div 16) div 16 = a"
    "(a div 4) * 4 + (a mod 4 * 16) div 16 = a"
    "(a mod 4 * 16 + b div 16) mod 16 * 16 + (b mod 16 * 4 + c div 64) div 4 = b"
    "(a mod 4 * 16 + b div 16) mod 16 * 16 + (b mod 16 * 4) div 4 = b"
    "(b mod 16 * 4 + c div 64) mod 4 * 64 + c mod 64 = c"
proof -
  have small: "a mod 4 < 4" "b div 16 < 16" "b mod 16 < 16" "c div 64 < 4" "c mod 64 < 64" "a div 4 < 64"
    using assms by simp_all
  show "a div 4 < 64" "c mod 64 < 64" using small by simp_all
  show "a mod 4 * 16 + b div 16 < 64" "b mod 16 * 4 + c div 64 < 64" "a mod 4 * 16 < 64" "b mod 16 * 4 < 64"
    using small by linarith+
  have "(a mod 4 * 16 + b div 16) div 16 = a mod 4" "(a mod 4 * 16) div 16 = a mod 4"
    "(a mod 4 * 16 + b div 16) mod 16 = b div 16" "(b mod 16 * 4 + c div 64) div 4 = b mod 16"
    "(b mod 16 * 4) div 4 = b mod 16" "(b mod 16 * 4 + c div 64) mod 4 = c div 64"
    using small by simp_all
  then show "(a div 4) * 4 + (a mod 4 * 16 + b div 16) div 16 = a" "(a div 4) * 4 + (a mod 4 * 16) div 16 = a"
    "(a mod 4 * 16 + b div 16) mod 16 * 16 + (b mod 16 * 4 + c div 64) div 4 = b"
    "(a mod 4 * 16 + b div 16) mod 16 * 16 + (b mod 16 * 4) div 4 = b"
    "(b mod 16 * 4 + c div 64) mod 4 * 64 + c mod 64 = c"
    by simp_all
qed

lemma b64Decode4_b64Groups:
  "\<forall>x \<in> set xs. x < 256 \<Longrightarrow> b64Decode4 url padded (b64Groups url padded xs) = Some (map char_of xs)"
proof (induction url padded xs rule: b64Groups.induct)
  case (2 url padded a)
  then show ?case using byte_groups [of a 0 0]
    by (cases padded) (simp_all add: b64Val_b64Digit b64Byte1_def)
next
  case (3 url padded a b)
  then show ?case using byte_groups [of a b 0]
    by (cases padded) (simp_all add: b64Val_b64Digit b64Byte1_def b64Byte2_def)
next
  case (4 url padded a b c r)
  then show ?case using byte_groups [of a b c]
    by (simp add: b64Val_b64Digit b64Byte1_def b64Byte2_def b64Byte3_def)
qed simp

lemma b64Groups_no_newline:
  "\<forall>x \<in> set xs. x < 256 \<Longrightarrow> filter (\<lambda>c. c \<noteq> CHR 0x0A \<and> c \<noteq> CHR 0x0D) (b64Groups url padded xs) = b64Groups url padded xs"
proof (induction url padded xs rule: b64Groups.induct)
  case (2 url padded a)
  then show ?case using byte_groups [of a 0 0] by (simp add: b64Digit_newline)
next
  case (3 url padded a b)
  then show ?case using byte_groups [of a b 0] by (simp add: b64Digit_newline)
next
  case (4 url padded a b c r)
  then show ?case using byte_groups [of a b c] by (simp add: b64Digit_newline)
qed simp

lemma b64Decode_b64Encode [simp]: "b64Decode enc (b64Encode enc s) = Some s"
proof -
  have "\<forall>x \<in> set (map of_char s). x < (256 :: nat)" by simp
  from b64Decode4_b64Groups [OF this] b64Groups_no_newline [OF this] show ?thesis
    by (simp add: b64Decode_def b64Encode_def o_def)
qed

lemma length_b64Groups:
  "length (b64Groups url padded xs) = (if padded then 4 * ((length xs + 2) div 3) else (4 * length xs + 2) div 3)"
proof (induction url padded xs rule: b64Groups.induct)
  case (4 url padded a b c r)
  have "(length (a # b # c # r) + 2) div 3 = Suc ((length r + 2) div 3)"
    "(4 * length (a # b # c # r) + 2) div 3 = 4 + (4 * length r + 2) div 3" by simp_all
  with 4 show ?case by simp
qed auto

text \<open>32 bytes take 44 characters with padding and 43 without.\<close>

lemma length_b64Encode: "length (b64Encode enc s) =
   (if b64_padded enc then 4 * ((length s + 2) div 3) else (4 * length s + 2) div 3)"
  by (simp add: b64Encode_def length_b64Groups)

end
