(* ===== verification/Envelope.thy ===== *)
theory Envelope
  imports Complex_Main Codec Session "HOL-Library.AList"
begin

section \<open>Master keys and envelopes (crypto.go)\<close>

text \<open>
  Key material is stored encrypted under a key derived from a master key: HKDF-SHA256 binds it to the app and
  to the parameter, AES-256-GCM seals it, and a JSON envelope records the fingerprint of the master. The
  primitives of Go's crypto packages, the JSON decoder and the process environment are parameters: the
  fields of \<open>crypto_envir\<close>. What the code relies on is \<open>cryptoLaws\<close>.
\<close>

subsection \<open>Constants and records\<close>

definition envEnvelopeMasterKey :: string where "envEnvelopeMasterKey = ''OAUTH2_MASTER_KEY''"
definition envEnvelopeMasterKeysOld :: string where "envEnvelopeMasterKeysOld = ''OAUTH2_MASTER_KEY_OLD''"
definition envelopeVersion :: int where "envelopeVersion = 1"
definition envelopeAlg :: string where "envelopeAlg = ''AES-256-GCM''"
definition fingerprintParamID :: string where "fingerprintParamID = ''oauth2_master_key_fingerprint''"
definition hkdfInfoPrefix :: string where "hkdfInfoPrefix = ''pbo2/v1/''"

record envelope =
  env_V :: int
  env_Alg :: string
  env_Kid :: string
  env_Nonce :: string
  env_CT :: string

text \<open>
  \<open>hkdfSha256 secret info\<close>: the first 32 bytes of the expansion, without salt. \<open>randRead n k\<close>: the \<open>k\<close> random
  bytes read at tick \<open>n\<close>, or the failure of the source.
\<close>

record crypto_envir = store_envir +
  sha256 :: "string \<Rightarrow> string"
  hkdfSha256 :: "string \<Rightarrow> string \<Rightarrow> string"
  gcmSeal :: "string \<Rightarrow> string \<Rightarrow> string \<Rightarrow> string"
  gcmOpen :: "string \<Rightarrow> string \<Rightarrow> string \<Rightarrow> string option"
  randRead :: "nat \<Rightarrow> nat \<Rightarrow> string option"
  unmarshalEnvelope :: "string \<Rightarrow> envelope option"
  unmarshalString :: "string \<Rightarrow> string option"
  getenv :: "string \<Rightarrow> string"
  dataDir :: string

text \<open>A provider of master keys; \<open>mk_Keyring\<close> is \<open>None\<close> when it does not implement \<open>MasterKeyringProvider\<close>.\<close>

type_synonym keyring = "(string \<times> string) list"

record master_provider =
  mk_Master :: "goerr + string option"
  mk_Keyring :: "(goerr + keyring) option"

subsection \<open>Decoding a master key\<close>

text \<open>The Shannon entropy of the bytes, in bits per byte, summed over the 256 counters.\<close>

definition byteEntropy :: "string \<Rightarrow> real" where
  "byteEntropy b = (\<Sum>v \<leftarrow> [0..<256]. let c = count_list b (char_of v) in
     if c = 0 then 0 else let p = real c / real (length b) in - (p * log 2 p))"

definition printable :: "char \<Rightarrow> bool" where
  "printable x \<longleftrightarrow> \<not> ((of_char x :: nat) < 0x20 \<or> (of_char x :: nat) > 0x7E)"

definition requireHighEntropy :: "string \<Rightarrow> goerr + unit" where
  "requireHighEntropy b =
     (if b = [] then Inl (textErr ''empty master key'')
      else if list_all printable b
      then Inl (textErr ''OAUTH2_MASTER_KEY looks like a printable-ASCII passphrase, not a random key'')
      else if byteEntropy b < 2.5 then Inl (textErr ''OAUTH2_MASTER_KEY has very low byte-entropy'')
      else Inr ())"

text \<open>The loop over the four encodings.\<close>

fun tryEncodings :: "b64_encoding list \<Rightarrow> string \<Rightarrow> goerr + string" where
  "tryEncodings [] raw = Inl (textErr ''master key must be 32 bytes as raw string, base64, or hex'')"
| "tryEncodings (enc # encs) raw = (case b64Decode enc raw of
     None \<Rightarrow> tryEncodings encs raw
   | Some b \<Rightarrow> if length b = 32 then Inr b else tryEncodings encs raw)"

definition decodeMasterKey :: "string \<Rightarrow> goerr + string" where
  "decodeMasterKey raw =
     (if length raw = 32 then (case requireHighEntropy raw of Inl e \<Rightarrow> Inl e | Inr _ \<Rightarrow> Inr raw)
      else case (if length raw = 64 then hexDecode raw else None) of
          Some b \<Rightarrow> if length b \<noteq> 32 then Inl (textErr ''hex master key must decode to 32 bytes'') else Inr b
        | None \<Rightarrow> tryEncodings [StdEncoding, RawStdEncoding, URLEncoding, RawURLEncoding] raw)"

definition fingerprintOf :: "'o crypto_envir_scheme \<Rightarrow> string \<Rightarrow> string" where
  "fingerprintOf \<omega> key = hexEncode (take 8 (sha256 \<omega> key))"

subsection \<open>The provider that reads the environment\<close>

definition envMaster :: "'o crypto_envir_scheme \<Rightarrow> goerr + string option" where
  "envMaster \<omega> = (let raw = trimSpace (getenv \<omega> envEnvelopeMasterKey) in
     if raw = [] then Inr None
     else if hasPrefix raw ''kms://'' then Inl (textErr ''kms:// master key URLs are not yet implemented'')
     else (case decodeMasterKey raw of
         Inl e \<Rightarrow> Inl (ErrText ''invalid OAUTH2_MASTER_KEY'' (Some e))
       | Inr key \<Rightarrow> Inr (Some key)))"

definition envFingerprint :: "'o crypto_envir_scheme \<Rightarrow> goerr + string" where
  "envFingerprint \<omega> = (case envMaster \<omega> of
     Inl e \<Rightarrow> Inl e | Inr None \<Rightarrow> Inr [] | Inr (Some master) \<Rightarrow> Inr (fingerprintOf \<omega> master))"

text \<open>The old keys, in order; an entry that is empty or does not decode is skipped.\<close>

fun addOldKeys :: "'o crypto_envir_scheme \<Rightarrow> string list \<Rightarrow> keyring \<Rightarrow> keyring" where
  "addOldKeys \<omega> [] out = out"
| "addOldKeys \<omega> (candidate0 # rest) out = (let candidate = trimSpace candidate0 in
     if candidate = [] then addOldKeys \<omega> rest out
     else (case decodeMasterKey candidate of
         Inl _ \<Rightarrow> addOldKeys \<omega> rest out
       | Inr k \<Rightarrow> addOldKeys \<omega> rest (AList.update (fingerprintOf \<omega> k) k out)))"

definition envKeyring :: "'o crypto_envir_scheme \<Rightarrow> goerr + keyring" where
  "envKeyring \<omega> = (case envMaster \<omega> of
     Inl e \<Rightarrow> Inl e
   | Inr active \<Rightarrow>
       let out = (case active of None \<Rightarrow> [] | Some m \<Rightarrow> [(fingerprintOf \<omega> m, m)]);
           raw = trimSpace (getenv \<omega> envEnvelopeMasterKeysOld) in
       if raw = [] then Inr out else Inr (addOldKeys \<omega> (splitOn (CHR '','') raw) out))"

definition DefaultMasterKeyProvider :: "'o crypto_envir_scheme \<Rightarrow> master_provider" where
  "DefaultMasterKeyProvider \<omega> = \<lparr>mk_Master = envMaster \<omega>, mk_Keyring = Some (envKeyring \<omega>)\<rparr>"

subsection \<open>Envelopes\<close>

text \<open>Decimal digits of an integer, as \<open>strconv.FormatInt\<close> and \<open>encoding/json\<close> write them.\<close>

fun showNat :: "nat \<Rightarrow> string" where
  "showNat n = (if n < 10 then [char_of (48 + n)] else showNat (n div 10) @ [char_of (48 + n mod 10)])"

definition showInt :: "int \<Rightarrow> string" where
  "showInt i = (if i < 0 then CHR ''-'' # showNat (nat (- i)) else showNat (nat i))"

text \<open>The JSON of an envelope; its strings are hexadecimal, base64 and the name of the algorithm, so none is escaped.\<close>

definition quote :: char where "quote = CHR 0x22"

definition jsonString :: "string \<Rightarrow> string" where
  "jsonString s = [quote] @ s @ [quote]"

definition marshalEnvelope :: "envelope \<Rightarrow> string" where
  "marshalEnvelope e = ''{'' @ jsonString ''v'' @ '':'' @ showInt (env_V e)
     @ '','' @ jsonString ''alg'' @ '':'' @ jsonString (env_Alg e)
     @ '','' @ jsonString ''kid'' @ '':'' @ jsonString (env_Kid e)
     @ '','' @ jsonString ''nonce'' @ '':'' @ jsonString (env_Nonce e)
     @ '','' @ jsonString ''ct'' @ '':'' @ jsonString (env_CT e) @ ''}''"

definition looksLikeEnvelope :: "'o crypto_envir_scheme \<Rightarrow> string \<Rightarrow> envelope option" where
  "looksLikeEnvelope \<omega> raw = (let trimmed = trimSpace raw in
     case trimmed of
       [] \<Rightarrow> None
     | c # _ \<Rightarrow> if c \<noteq> CHR ''{'' then None
         else (case unmarshalEnvelope \<omega> trimmed of
             None \<Rightarrow> None
           | Some e \<Rightarrow> if env_V e \<noteq> envelopeVersion \<or> env_Alg e \<noteq> envelopeAlg \<or> env_CT e = [] \<or> env_Nonce e = []
               then None else Some e))"

definition deriveDEK :: "'o crypto_envir_scheme \<Rightarrow> string \<Rightarrow> string \<Rightarrow> string \<Rightarrow> string" where
  "deriveDEK \<omega> master ctxID paramID = hkdfSha256 \<omega> master (hkdfInfoPrefix @ ctxID @ ''/'' @ paramID)"

definition gcmNonceSize :: nat where "gcmNonceSize = 12"

text \<open>\<open>aes.NewCipher\<close> accepts keys of 16, 24 and 32 bytes.\<close>

definition aesKeyOk :: "string \<Rightarrow> bool" where
  "aesKeyOk k \<longleftrightarrow> length k = 16 \<or> length k = 24 \<or> length k = 32"

type_synonym ('o, 'w, 'a) cgo = "('o crypto_envir_scheme, 'w base_world_scheme, 'a) go"

definition randomBytes :: "nat \<Rightarrow> ('o, 'w, string) cgo" where
  "randomBytes k = bindG nextTick (\<lambda>n. bindG (askG (\<lambda>\<omega>. randRead \<omega> n k)) (\<lambda>r. case r of
     None \<Rightarrow> throwG (textErr ''crypto/rand: read failed'') | Some b \<Rightarrow> returnG b))"

definition sealWith :: "'o crypto_envir_scheme \<Rightarrow> string \<Rightarrow> string \<Rightarrow> string \<Rightarrow> string \<Rightarrow> string \<Rightarrow> envelope" where
  "sealWith \<omega> master ctxID paramID plaintext nonce = \<lparr>env_V = envelopeVersion, env_Alg = envelopeAlg,
     env_Kid = fingerprintOf \<omega> master, env_Nonce = b64Encode StdEncoding nonce,
     env_CT = b64Encode StdEncoding (gcmSeal \<omega> (deriveDEK \<omega> master ctxID paramID) nonce plaintext)\<rparr>"

definition sealEnvelope :: "string \<Rightarrow> string \<Rightarrow> string \<Rightarrow> string \<Rightarrow> ('o, 'w, string) cgo" where
  "sealEnvelope master ctxID paramID plaintext =
     bindG (askG (\<lambda>\<omega>. deriveDEK \<omega> master ctxID paramID)) (\<lambda>dek.
     if \<not> aesKeyOk dek then throwG (textErr ''aes.NewCipher failed'')
     else bindG (mapErrG (\<lambda>e. ErrText ''nonce generation failed'' (Some e)) (randomBytes gcmNonceSize)) (\<lambda>nonce.
     askG (\<lambda>\<omega>. marshalEnvelope (sealWith \<omega> master ctxID paramID plaintext nonce))))"

definition openEnvelope :: "'o crypto_envir_scheme \<Rightarrow> string \<Rightarrow> string \<Rightarrow> string \<Rightarrow> envelope \<Rightarrow> goerr + string" where
  "openEnvelope \<omega> master ctxID paramID env =
     (let dek = deriveDEK \<omega> master ctxID paramID in
      if \<not> aesKeyOk dek then Inl (textErr ''aes.NewCipher failed'')
      else (case b64Decode StdEncoding (env_Nonce env) of
          None \<Rightarrow> Inl (textErr ''invalid nonce in envelope'')
        | Some nonce \<Rightarrow>
            if length nonce \<noteq> gcmNonceSize then Inl (textErr ''nonce length'')
            else (case b64Decode StdEncoding (env_CT env) of
                None \<Rightarrow> Inl (textErr ''invalid ciphertext in envelope'')
              | Some ct \<Rightarrow> (case gcmOpen \<omega> dek nonce ct of
                    None \<Rightarrow> Inl (textErr ''envelope decryption failed (wrong key or corrupted data)'')
                  | Some pt \<Rightarrow> Inr pt))))"

text \<open>The loop over the keyring: every master with the current and with the legacy context.\<close>

fun bruteForce :: "'o crypto_envir_scheme \<Rightarrow> keyring \<Rightarrow> string \<Rightarrow> string \<Rightarrow> string \<Rightarrow> string \<Rightarrow> envelope \<Rightarrow> (string \<times> bool) option"
  where
  "bruteForce \<omega> [] activeKid ctxID legacyCtxID paramID env = None"
| "bruteForce \<omega> ((kid, m) # rest) activeKid ctxID legacyCtxID paramID env =
     (case openEnvelope \<omega> m ctxID paramID env of
        Inr pt \<Rightarrow> Some (pt, kid \<noteq> activeKid \<or> (env_Kid env \<noteq> [] \<and> env_Kid env \<noteq> activeKid))
      | Inl _ \<Rightarrow> (case (if legacyCtxID \<noteq> [] \<and> legacyCtxID \<noteq> ctxID then openEnvelope \<omega> m legacyCtxID paramID env
                      else Inl (textErr [])) of
            Inr pt \<Rightarrow> Some (pt, True)
          | Inl _ \<Rightarrow> bruteForce \<omega> rest activeKid ctxID legacyCtxID paramID env))"

text \<open>The attempts with the master the envelope advertises.\<close>

definition openAdvertised ::
  "'o crypto_envir_scheme \<Rightarrow> keyring \<Rightarrow> string \<Rightarrow> string \<Rightarrow> string \<Rightarrow> string \<Rightarrow> envelope \<Rightarrow> (string \<times> bool) option" where
  "openAdvertised \<omega> keyring activeKid ctxID legacyCtxID paramID env =
     (if env_Kid env = [] then None
      else (case map_of keyring (env_Kid env) of
          None \<Rightarrow> None
        | Some m \<Rightarrow> (case openEnvelope \<omega> m ctxID paramID env of
              Inr pt \<Rightarrow> Some (pt, env_Kid env \<noteq> activeKid)
            | Inl _ \<Rightarrow> (case (if legacyCtxID \<noteq> [] \<and> legacyCtxID \<noteq> ctxID then openEnvelope \<omega> m legacyCtxID paramID env
                            else Inl (textErr [])) of
                  Inr pt \<Rightarrow> Some (pt, True)
                | Inl _ \<Rightarrow> None))))"

definition openEnvelopeWithKeyring ::
  "'o crypto_envir_scheme \<Rightarrow> keyring \<Rightarrow> string \<Rightarrow> string \<Rightarrow> string \<Rightarrow> string \<Rightarrow> envelope \<Rightarrow> goerr + (string \<times> bool)" where
  "openEnvelopeWithKeyring \<omega> keyring activeKid ctxID legacyCtxID paramID env =
     (case openAdvertised \<omega> keyring activeKid ctxID legacyCtxID paramID env of
        Some r \<Rightarrow> Inr r
      | None \<Rightarrow> (case bruteForce \<omega> keyring activeKid ctxID legacyCtxID paramID env of
            Some r \<Rightarrow> Inr r
          | None \<Rightarrow> Inl (textErr ''envelope decryption failed for every keyring entry'')))"

subsection \<open>The decoded key has 32 bytes, and every encoding of a key decodes to it\<close>

lemma tryEncodings_length: "tryEncodings encs raw = Inr k \<Longrightarrow> length k = 32"
  by (induction encs) (auto split: option.splits if_splits)

lemma decodeMasterKey_length: "decodeMasterKey raw = Inr k \<Longrightarrow> length k = 32"
  by (auto simp: decodeMasterKey_def tryEncodings_length split: if_splits sum.splits option.splits)

text \<open>
  Reading one alphabet with the decoder of the other: the two characters that differ are rejected, the
  others have the same value.
\<close>

lemma b64Val_other: "n < 64 \<Longrightarrow> b64Val url (b64Digit url' n) = Some n \<or> b64Val url (b64Digit url' n) = None"
proof (cases "n < 62")
  case True
  then have "b64Digit url' n = b64Digit url n" by (simp add: b64Digit_def)
  with True show ?thesis by (simp add: b64Val_b64Digit)
next
  case False
  moreover assume "n < 64"
  ultimately have "n = 62 \<or> n = 63" by linarith
  then show ?thesis by (cases url; cases url') (auto simp: b64Val_def b64Digit_def)
qed

lemma b64Digit_pad: "n < 64 \<Longrightarrow> b64Digit url n \<noteq> CHR ''=''"
  using b64Val_b64Digit [of n url] by (metis b64Val_pad option.distinct(1))

lemma decode4_step:
  assumes "b64Val url p = Some x \<or> b64Val url p = None" "b64Val url q = Some y \<or> b64Val url q = None"
    "b64Val url c = Some z \<or> b64Val url c = None" "b64Val url d = Some u \<or> b64Val url d = None"
    "c \<noteq> CHR ''=''" "d \<noteq> CHR ''=''" "b64Decode4 url padded r \<in> {Some bs, None}"
  shows "b64Decode4 url padded (p # q # c # d # r) \<in> {Some (b64Byte1 x y # b64Byte2 y z # b64Byte3 z u # bs), None}"
  using assms by (elim disjE insertE) (simp_all split: option.splits)

lemma b64Decode4_other:
  assumes "\<forall>x \<in> set xs. x < 256"
  shows "b64Decode4 url padded (b64Groups url' padded xs) \<in> {Some (map char_of xs), None}"
  using assms
proof (induction url' padded xs rule: b64Groups.induct)
  case (2 url' padded a)
  note g = byte_groups [of a 0 0]
  show ?case using 2 g(1,5,8) b64Val_other [of "a div 4" url url'] b64Val_other [of "a mod 4 * 16" url url']
    by (cases padded) (auto simp: b64Byte1_def)
next
  case (3 url' padded a b)
  note g = byte_groups [of a b 0]
  show ?case using 3 g(1,2,6,7,10) b64Digit_pad [of "b mod 16 * 4" url'] b64Val_other [of "a div 4" url url'] b64Val_other [of "a mod 4 * 16 + b div 16" url url']
      b64Val_other [of "b mod 16 * 4" url url']
    by (cases padded) (auto simp: b64Byte1_def b64Byte2_def)
next
  case (4 url' padded a b c r)
  have lt: "a < 256" "b < 256" "c < 256" and rest: "\<forall>x \<in> set r. x < 256" using "4.prems" by simp_all
  note IH = "4.IH" [OF rest]
  note g = byte_groups [OF lt]
  have "b64Decode4 url padded (b64Groups url' padded (a # b # c # r)) \<in>
    {Some (b64Byte1 (a div 4) (a mod 4 * 16 + b div 16) # b64Byte2 (a mod 4 * 16 + b div 16) (b mod 16 * 4 + c div 64)
       # b64Byte3 (b mod 16 * 4 + c div 64) (c mod 64) # map char_of r), None}"
    unfolding b64Groups.simps append_Cons append_Nil
    by (rule decode4_step [OF b64Val_other b64Val_other b64Val_other b64Val_other b64Digit_pad b64Digit_pad IH];
        rule g(1-4))
  then show ?case unfolding b64Byte1_def b64Byte2_def b64Byte3_def g(7,9,11) list.simps(9) .
qed simp

text \<open>A decoder that expects padding rejects a text whose length is not a multiple of four.\<close>

lemma b64Decode4_unpadded: "length s mod 4 \<noteq> 0 \<Longrightarrow> b64Decode4 url True s = None"
proof (induction url True s rule: b64Decode4.induct)
  case (5 url a b c d r)
  show ?case using 5 by (auto split: option.splits)
qed auto

text \<open>A decoder that expects no padding rejects a padding character.\<close>

lemma b64Decode4_pad: "CHR ''='' \<in> set s \<Longrightarrow> b64Decode4 url False s = None"
proof (induction url False s rule: b64Decode4.induct)
  case (5 url a b c d r)
  show ?case using 5 by (auto split: option.splits)
qed (auto split: option.splits)

lemma b64Decode_other:
  assumes "b64_padded enc = b64_padded enc'"
  shows "b64Decode enc (b64Encode enc' s) \<in> {Some s, None}"
proof -
  have small: "\<forall>x \<in> set (map of_char s). x < (256 :: nat)" by simp
  from b64Decode4_other [OF small, of "b64_url enc" "b64_padded enc'" "b64_url enc'"] b64Groups_no_newline [OF small]
  show ?thesis using assms by (simp add: b64Decode_def b64Encode_def o_def)
qed

lemma b64Decode_unpadded:
  assumes "b64_padded enc" "\<not> b64_padded enc'" "length s mod 3 \<noteq> 0"
  shows "b64Decode enc (b64Encode enc' s) = None"
proof -
  have small: "\<forall>x \<in> set (map of_char s). x < (256 :: nat)" by simp
  have "(4 * length s + 2) div 3 mod 4 \<noteq> 0"
  proof -
    have "length s = 3 * (length s div 3) + length s mod 3" by simp
    moreover have "length s mod 3 = 1 \<or> length s mod 3 = 2" using assms(3) by linarith
    ultimately obtain k r where k: "length s = 3 * k + r" "r = 1 \<or> r = 2" by blast
    then have "(4 * length s + 2) div 3 = 4 * k + (4 * r + 2) div 3" by auto
    with k(2) show ?thesis by auto
  qed
  then have "length (b64Groups (b64_url enc') False (map of_char s)) mod 4 \<noteq> 0"
    by (simp add: length_b64Groups)
  from b64Decode4_unpadded [OF this] b64Groups_no_newline [OF small] assms(1,2) show ?thesis
    by (simp add: b64Decode_def b64Encode_def)
qed

lemma decodeMasterKey_hex: "length k = 32 \<Longrightarrow> decodeMasterKey (hexEncode k) = Inr k"
  by (simp add: decodeMasterKey_def)

lemma b64Decode_padded:
  assumes "\<not> b64_padded enc" "b64_padded enc'" "length s mod 3 \<noteq> 0"
  shows "b64Decode enc (b64Encode enc' s) = None"
proof -
  have "CHR ''='' \<in> set (b64Groups url True xs)" if "length xs mod 3 \<noteq> 0" for url xs
    using that by (induction url True xs rule: b64Groups.induct) auto
  from this [of "map of_char s"] have "CHR ''='' \<in> set (b64Encode enc' s)"
    using assms(2,3) by (simp add: b64Encode_def)
  then show ?thesis using b64Decode4_pad assms(1) by (simp add: b64Decode_def)
qed

lemma decodeMasterKey_base64:
  assumes k: "length k = 32" and enc: "enc \<in> {StdEncoding, RawStdEncoding, URLEncoding, RawURLEncoding}"
  shows "decodeMasterKey (b64Encode enc k) = Inr k"
proof -
  have len: "length (b64Encode enc k) \<noteq> 32" "length (b64Encode enc k) \<noteq> 64" using k by (simp_all add: length_b64Encode)
  have m: "length k mod 3 \<noteq> 0" using k by simp
  note defs = StdEncoding_def RawStdEncoding_def URLEncoding_def RawURLEncoding_def
  have 1: "b64Decode StdEncoding (b64Encode RawStdEncoding k) = None" "b64Decode StdEncoding (b64Encode RawURLEncoding k) = None"
    "b64Decode URLEncoding (b64Encode RawURLEncoding k) = None"
    by (rule b64Decode_unpadded [OF _ _ m]; simp add: defs)+
  have 2: "b64Decode RawStdEncoding (b64Encode URLEncoding k) = None"
    by (rule b64Decode_padded [OF _ _ m]) (simp_all add: defs)
  have 3: "b64Decode StdEncoding (b64Encode URLEncoding k) \<in> {Some k, None}"
    "b64Decode RawStdEncoding (b64Encode RawURLEncoding k) \<in> {Some k, None}"
    by (rule b64Decode_other; simp add: defs)+
  have "tryEncodings [StdEncoding, RawStdEncoding, URLEncoding, RawURLEncoding] (b64Encode enc k) = Inr k"
    using enc k 1 2 3 by auto
  then show ?thesis using len by (simp add: decodeMasterKey_def)
qed

subsection \<open>The entropy test in whole numbers\<close>

text \<open>The product of \<open>c ^ c\<close> over the 256 counters: \<open>2\<close> to the power of the sum of \<open>c * log 2 c\<close>.\<close>

definition byteWeight :: "string \<Rightarrow> nat" where
  "byteWeight b = prod_list (map (\<lambda>v. count_list b (char_of v) ^ count_list b (char_of v)) [0..<256])"

lemma sum_counts: "(\<Sum>v \<leftarrow> [0..<256]. count_list b (char_of v)) = length b"
proof (induction b)
  case Nil
  have "(\<Sum>v \<leftarrow> xs. 0 :: nat) = 0" for xs :: "nat list" by (induction xs) simp_all
  then show ?case by simp
next
  case (Cons x b)
  have one: "(if x = char_of v then 1 else 0 :: nat) = (if v = of_char x then 1 else 0)" if "v < 256" for v :: nat
    using that by (auto simp: of_char_of)
  have "(\<Sum>v \<leftarrow> [0..<256]. if x = char_of v then 1 else 0 :: nat) = (\<Sum>v \<in> {0..<256 :: nat}. if v = of_char x then 1 else 0)"
    using one by (auto simp: sum_list_distinct_conv_sum_set intro!: sum.cong)
  also have "\<dots> = 1" by simp
  finally have ind: "(\<Sum>v \<leftarrow> [0..<256]. if x = char_of v then 1 else 0 :: nat) = 1" .
  have "(\<Sum>v \<leftarrow> [0..<256]. count_list (x # b) (char_of v))
      = (\<Sum>v \<leftarrow> [0..<256]. count_list b (char_of v) + (if x = char_of v then 1 else 0))"
    by (intro arg_cong [of _ _ sum_list] map_cong) auto
  then show ?case using Cons ind by (simp add: sum_list_addf)
qed

lemma self_power_positive: "0 < c ^ c" for c :: nat
  by (cases "c = 0") simp_all

lemma prod_list_positive: "(\<And>x. x \<in> set xs \<Longrightarrow> 0 < f x) \<Longrightarrow> 0 < prod_list (map f xs)" for f :: "'a \<Rightarrow> nat"
  by (induction xs) auto

lemma log_prod_list:
  assumes "\<And>x. x \<in> set xs \<Longrightarrow> 0 < f x"
  shows "log 2 (real (prod_list (map f xs))) = (\<Sum>x \<leftarrow> xs. log 2 (real (f x)))"
  using assms
proof (induction xs)
  case (Cons x xs)
  have "0 < prod_list (map f xs)" using Cons.prems by (intro prod_list_positive) simp
  with Cons show ?case by (simp add: log_mult)
qed simp

lemma entropy_term:
  fixes n :: real
  assumes "0 < n"
  shows "(if c = 0 then 0 else let p = real c / n in - (p * log 2 p)) = real c * log 2 n / n - log 2 (real (c ^ c)) / n"
proof (cases "c = 0")
  case False
  then have d: "log 2 (real c / n) = log 2 (real c) - log 2 n" and m: "log 2 (real (c ^ c)) = real c * log 2 (real c)"
    using assms by (simp_all add: log_divide log_nat_power)
  show ?thesis using False unfolding Let_def d m by (simp add: right_diff_distrib diff_divide_distrib)
qed simp

lemma byteEntropy_weight:
  assumes "b \<noteq> []"
  shows "byteEntropy b = log 2 (real (length b)) - log 2 (real (byteWeight b)) / real (length b)"
proof -
  let ?n = "real (length b)"
  let ?c = "\<lambda>v. count_list b (char_of (v :: nat))"
  have n: "0 < ?n" using assms by simp
  have "byteEntropy b = (\<Sum>v \<leftarrow> [0..<256]. real (?c v) * log 2 ?n / ?n - log 2 (real (?c v ^ ?c v)) / ?n)"
    unfolding byteEntropy_def Let_def [of "count_list _ _"] by (simp only: entropy_term [OF n])
  also have "\<dots> = (\<Sum>v \<leftarrow> [0..<256]. real (?c v)) * log 2 ?n / ?n - (\<Sum>v \<leftarrow> [0..<256]. log 2 (real (?c v ^ ?c v))) / ?n"
    by (simp only: sum_list_subtractf divide_inverse sum_list_mult_const)
  also have "(\<Sum>v \<leftarrow> [0..<256]. real (?c v)) = ?n"
    using arg_cong [OF sum_counts [of b], of real] by (simp add: sum_list_of_nat [symmetric] o_def)
  also have "(\<Sum>v \<leftarrow> [0..<256]. log 2 (real (?c v ^ ?c v))) = log 2 (real (byteWeight b))"
    unfolding byteWeight_def by (rule log_prod_list [symmetric]) (rule self_power_positive)
  finally show ?thesis using n by simp
qed

lemma byteWeight_pos: "0 < byteWeight b"
  unfolding byteWeight_def by (rule prod_list_positive) (rule self_power_positive)

lemma low_entropy_iff:
  assumes "length b = 32"
  shows "byteEntropy b < 2.5 \<longleftrightarrow> 2 ^ 80 < byteWeight b"
proof -
  have "b \<noteq> []" using assms by auto
  moreover have "log 2 32 = (5 :: real)" using log_nat_power [of 2 2 5] by simp
  ultimately have "byteEntropy b = 5 - log 2 (real (byteWeight b)) / 32"
    using byteEntropy_weight [of b] assms by simp
  then have "byteEntropy b < 2.5 \<longleftrightarrow> 80 < log 2 (real (byteWeight b))" by auto
  also have "\<dots> \<longleftrightarrow> 2 powr 80 < real (byteWeight b)" using byteWeight_pos [of b] by (simp add: less_log_iff)
  also have "\<dots> \<longleftrightarrow> real (2 ^ 80) < real (byteWeight b)" by (simp add: powr_numeral)
  finally show ?thesis by (simp only: of_nat_less_iff)
qed

subsection \<open>What the code relies on, and the round trip of an envelope\<close>

text \<open>Characters that JSON writes as they are and that are not white space.\<close>

definition jsonSafe :: "char \<Rightarrow> bool" where
  "jsonSafe c \<longleftrightarrow> (let n = of_char c :: nat in 0x20 < n \<and> n < 0x7F \<and> n \<noteq> 0x22 \<and> n \<noteq> 0x5C)"

definition envelopeSafe :: "envelope \<Rightarrow> bool" where
  "envelopeSafe e \<longleftrightarrow> env_V e = envelopeVersion \<and> (\<forall>c \<in> set (env_Alg e) \<union> set (env_Kid e) \<union> set (env_Nonce e) \<union> set (env_CT e). jsonSafe c)"

text \<open>
  The documented behaviour of the primitives: the digest and the expansion have 32 bytes, a random read
  fills its buffer, AES-GCM opens what it sealed with the same key and nonce, its output is at least its
  tag, and JSON decoding reads back what the encoder wrote.
\<close>

definition cryptoLaws :: "'o crypto_envir_scheme \<Rightarrow> bool" where
  "cryptoLaws \<omega> \<longleftrightarrow> (\<forall>k. length (sha256 \<omega> k) = 32) \<and> (\<forall>m i. length (hkdfSha256 \<omega> m i) = 32)
     \<and> (\<forall>n k b. randRead \<omega> n k = Some b \<longrightarrow> length b = k)
     \<and> (\<forall>k n p. length k = 32 \<longrightarrow> length n = gcmNonceSize \<longrightarrow> gcmOpen \<omega> k n (gcmSeal \<omega> k n p) = Some p \<and> gcmSeal \<omega> k n p \<noteq> [])
     \<and> (\<forall>e. envelopeSafe e \<longrightarrow> unmarshalEnvelope \<omega> (marshalEnvelope e) = Some e)
     \<and> (\<forall>s. (\<forall>c \<in> set s. jsonSafe c) \<longrightarrow> unmarshalString \<omega> (jsonString s) = Some s)"

text \<open>The idealisation of authenticated encryption: what one key sealed no other key opens.\<close>

definition keyBinding :: "'o crypto_envir_scheme \<Rightarrow> bool" where
  "keyBinding \<omega> \<longleftrightarrow> (\<forall>k k' n p. length k = 32 \<longrightarrow> length k' = 32 \<longrightarrow> k \<noteq> k' \<longrightarrow> length n = gcmNonceSize \<longrightarrow>
     gcmOpen \<omega> k' n (gcmSeal \<omega> k n p) = None)"

lemma cryptoLawsD:
  assumes "cryptoLaws \<omega>"
  shows "length (sha256 \<omega> k) = 32" "length (hkdfSha256 \<omega> m i) = 32" "randRead \<omega> t n = Some b \<Longrightarrow> length b = n"
    "length k = 32 \<Longrightarrow> length nn = gcmNonceSize \<Longrightarrow> gcmOpen \<omega> k nn (gcmSeal \<omega> k nn p) = Some p"
    "length k = 32 \<Longrightarrow> length nn = gcmNonceSize \<Longrightarrow> gcmSeal \<omega> k nn p \<noteq> []"
    "envelopeSafe e \<Longrightarrow> unmarshalEnvelope \<omega> (marshalEnvelope e) = Some e"
    "\<forall>c \<in> set s. jsonSafe c \<Longrightarrow> unmarshalString \<omega> (jsonString s) = Some s"
  using assms by (auto simp: cryptoLaws_def)

lemma length_deriveDEK [simp]: "cryptoLaws \<omega> \<Longrightarrow> length (deriveDEK \<omega> m c p) = 32"
  by (simp add: deriveDEK_def cryptoLawsD)

lemma jsonSafe_hexDigit: "n < 16 \<Longrightarrow> jsonSafe (hexDigitLower n)"
  by (auto simp: jsonSafe_def hexDigitLower_def Let_def)

lemma jsonSafe_b64Digit: "n < 64 \<Longrightarrow> jsonSafe (b64Digit url n)"
proof -
  assume n: "n < 64"
  consider "n < 26" | "26 \<le> n" "n < 52" | "52 \<le> n" "n < 62" | "n = 62" | "n = 63" using n by linarith
  then show "jsonSafe (b64Digit url n)"
    by cases (auto simp: jsonSafe_def b64Digit_def Let_def)
qed

lemma set_hexEncode: "c \<in> set (hexEncode s) \<Longrightarrow> jsonSafe c"
  by (auto simp: hexEncode_def intro!: jsonSafe_hexDigit)

lemma b64Groups_chars:
  "\<forall>x \<in> set xs. x < 256 \<Longrightarrow> set (b64Groups url padded xs) \<subseteq> insert (CHR ''='') (b64Digit url ` {..<64})"
proof (induction url padded xs rule: b64Groups.induct)
  case (2 url padded a)
  then show ?case using byte_groups(1,5) [of a 0 0] by (cases padded) simp_all
next
  case (3 url padded a b)
  then show ?case using byte_groups(1,2,6) [of a b 0] by (cases padded) simp_all
next
  case (4 url padded a b c r)
  then show ?case using byte_groups(1-4) [of a b c] by simp
qed simp

lemma set_b64Encode: "c \<in> set (b64Encode enc s) \<Longrightarrow> jsonSafe c"
proof -
  assume c: "c \<in> set (b64Encode enc s)"
  have "set (b64Encode enc s) \<subseteq> insert (CHR ''='') (b64Digit (b64_url enc) ` {..<64})"
    unfolding b64Encode_def by (rule b64Groups_chars) simp
  moreover have "jsonSafe (CHR ''='')" by (simp add: jsonSafe_def)
  ultimately show "jsonSafe c" using c jsonSafe_b64Digit by blast
qed

lemma envelopeSafe_sealWith: "envelopeSafe (sealWith \<omega> m c p pt nonce)"
proof -
  have "\<forall>c \<in> set envelopeAlg. jsonSafe c" by (simp add: envelopeAlg_def jsonSafe_def)
  then show ?thesis by (auto simp: envelopeSafe_def sealWith_def fingerprintOf_def intro: set_hexEncode set_b64Encode)
qed

lemma spaceBytes_range: "c \<in> set spaceBytes \<Longrightarrow> (of_char c :: nat) \<le> 0x20 \<or> 0x7F < (of_char c :: nat)"
  by (auto simp: spaceBytes_def spaceRunes_def)

lemma showInt_one: "showInt 1 = ''1''"
  by code_simp

lemma marshalEnvelope_trim:
  assumes "envelopeSafe e"
  shows "trimSpace (marshalEnvelope e) = marshalEnvelope e" "\<exists>r. marshalEnvelope e = CHR ''{'' # r"
proof -
  have one: "showInt (env_V e) = ''1''" using assms by (simp add: envelopeSafe_def envelopeVersion_def showInt_one)
  let ?ok = "\<lambda>c. (0x20 :: nat) < of_char c \<and> (of_char c :: nat) < 0x7F"
  have safe: "?ok c" if "jsonSafe c" for c using that by (simp add: jsonSafe_def Let_def)
  have "\<forall>c \<in> set (env_Alg e) \<union> set (env_Kid e) \<union> set (env_Nonce e) \<union> set (env_CT e). ?ok c"
    using assms safe unfolding envelopeSafe_def by blast
  then have "\<forall>c \<in> set (marshalEnvelope e). ?ok c"
    unfolding marshalEnvelope_def jsonString_def one quote_def by (simp add: ball_Un)
  then have "set (marshalEnvelope e) \<inter> set spaceBytes = {}" using spaceBytes_range by fastforce
  then show "trimSpace (marshalEnvelope e) = marshalEnvelope e" by (rule trimSpace_id)
  show "\<exists>r. marshalEnvelope e = CHR ''{'' # r" by (simp add: marshalEnvelope_def)
qed

lemma b64Encode_eq_Nil: "b64Encode enc s = [] \<longleftrightarrow> s = []"
  using b64Decode_b64Encode [of enc s] b64Decode_b64Encode [of enc "[]"]
  by (metis b64Encode_def b64Groups.simps(1) list.simps(8) option.inject)

lemma looksLike_marshal:
  assumes "cryptoLaws \<omega>" "length nonce = gcmNonceSize"
  shows "looksLikeEnvelope \<omega> (marshalEnvelope (sealWith \<omega> m c p pt nonce)) = Some (sealWith \<omega> m c p pt nonce)"
proof -
  let ?e = "sealWith \<omega> m c p pt nonce"
  obtain r where r: "marshalEnvelope ?e = CHR ''{'' # r" using marshalEnvelope_trim(2) [OF envelopeSafe_sealWith] by blast
  have ne: "env_CT ?e \<noteq> []" "env_Nonce ?e \<noteq> []" "env_V ?e = envelopeVersion" "env_Alg ?e = envelopeAlg"
    using assms cryptoLawsD(5) [OF assms(1), of "deriveDEK \<omega> m c p" nonce pt]
    by (auto simp: sealWith_def b64Encode_eq_Nil gcmNonceSize_def)
  have "unmarshalEnvelope \<omega> (CHR ''{'' # r) = Some ?e"
    using cryptoLawsD(6) [OF assms(1) envelopeSafe_sealWith [of \<omega> m c p pt nonce]] by (simp only: r)
  then show ?thesis using ne marshalEnvelope_trim(1) [OF envelopeSafe_sealWith [of \<omega> m c p pt nonce]]
    by (simp add: looksLikeEnvelope_def r)
qed

lemma openEnvelope_sealWith:
  assumes "cryptoLaws \<omega>" "length nonce = gcmNonceSize"
  shows "openEnvelope \<omega> m c p (sealWith \<omega> m c p pt nonce) = Inr pt"
  using assms by (simp add: openEnvelope_def sealWith_def aesKeyOk_def cryptoLawsD(4) Let_def)

lemma openEnvelope_foreign:
  assumes "cryptoLaws \<omega>" "keyBinding \<omega>" "length nonce = gcmNonceSize" "deriveDEK \<omega> m c p \<noteq> deriveDEK \<omega> m' c' p'"
  shows "\<exists>e. openEnvelope \<omega> m' c' p' (sealWith \<omega> m c p pt nonce) = Inl e"
  using assms by (simp add: openEnvelope_def sealWith_def keyBinding_def aesKeyOk_def Let_def)

end
