(* ===== verification/Metadata.thy ===== *)
theory Metadata
  imports Provider_Prefix Go_Url
begin

section \<open>Discovery documents (rfc8414, openid, rfc9728, buildProviderMetadata)\<close>

text \<open>
  The metadata a provider publishes: a record per struct, the function that builds it from the app's URL and
  the path prefix, the issuer, and the scopes that protected resources add. \<open>appURL\<close> is
  \<open>app.Settings().Meta.AppURL\<close>.
\<close>

subsection \<open>The structs\<close>

record as_metadata =
  md_Issuer :: string
  md_AuthzEndpoint :: string
  md_TokenEndpoint :: string
  md_JwksURI :: string
  md_RegistrationEndpoint :: string
  md_ScopesSupported :: "string list"
  md_ResponseTypesSupported :: "string list"
  md_ResponseModesSupported :: "string list"
  md_GrantTypesSupported :: "string list"
  md_TokenEndpointAuthMethodsSupported :: "string list"
  md_TokenEndpointAuthSigningAlgValuesSupported :: "string list"
  md_ServiceDocumentation :: string
  md_UILocalesSupported :: "string list"
  md_OPPolicyURI :: string
  md_OPTosURI :: string
  md_RevocationEndpoint :: string
  md_RevocationEndpointAuthMethodsSupported :: "string list"
  md_RevocationEndpointAuthSigningAlgValuesSupported :: "string list"
  md_IntrospectionEndpoint :: string
  md_IntrospectionEndpointAuthMethodsSupported :: "string list"
  md_IntrospectionEndpointAuthSigningAlgValuesSupported :: "string list"
  md_CodeChallengeMethodsSupported :: "string list"
  md_AuthorizationResponseIssParameterSupported :: bool

record provider_metadata = as_metadata +
  op_UserInfoEndpoint :: string
  op_AcrValuesSupported :: "string list"
  op_SubjectTypesSupported :: "string list"
  op_IDTokenSigningAlgValuesSupported :: "string list"
  op_IDTokenEncryptionAlgValuesSupported :: "string list"
  op_IDTokenEncryptionEncValuesSupported :: "string list"
  op_UserInfoSigningAlgValuesSupported :: "string list"
  op_UserInfoEncryptionAlgValuesSupported :: "string list"
  op_UserInfoEncryptionEncValuesSupported :: "string list"
  op_RequestObjectSigningAlgValuesSupported :: "string list"
  op_RequestObjectEncryptionAlgValuesSupported :: "string list"
  op_RequestObjectEncryptionEncValuesSupported :: "string list"
  op_DisplayValuesSupported :: "string list"
  op_ClaimTypesSupported :: "string list"
  op_ClaimsSupported :: "string list"
  op_ClaimsLocalesSupported :: "string list"
  op_ClaimsParameterSupported :: bool
  op_RequestParameterSupported :: bool
  op_RequestURIParameterSupported :: bool
  op_RequireRequestURIRegistration :: bool

record protected_metadata =
  pr_Resource :: string
  pr_AuthorizationServers :: "string list"
  pr_JwksURI :: string
  pr_ScopesSupported :: "string list"
  pr_BearerMethodsSupported :: "string list"
  pr_ResourceSigningAlgValuesSupported :: "string list"
  pr_ResourceName :: string
  pr_ResourceDocumentation :: string
  pr_ResourcePolicyURI :: string
  pr_ResourceTOSURI :: string
  pr_TLSClientCertificateBoundAccessTokens :: bool
  pr_AuthorizationDetailsTypesSupported :: "string list"
  pr_DPOPSigningAlgValuesSupported :: "string list"
  pr_DPOPBoundAccessTokensRequired :: bool

subsection \<open>Building the metadata\<close>

definition providerIssuer :: "string \<Rightarrow> string \<Rightarrow> string" where
  "providerIssuer appURL pathPrefix = (let base = trimRight appURL (CHR ''/'') in
     if normalizePrefix pathPrefix = DefaultPathPrefix then base else base @ normalizePrefix pathPrefix)"

definition buildProviderMetadata :: "string \<Rightarrow> string \<Rightarrow> provider_metadata" where
  "buildProviderMetadata appURL pathPrefix =
     (let issuer = providerIssuer appURL pathPrefix;
          jwksURI = (if normalizePrefix pathPrefix \<noteq> DefaultPathPrefix then issuer @ ''/jwks.json''
                     else appURL @ ''/.well-known/jwks.json'') in
      \<lparr>md_Issuer = issuer,
       md_AuthzEndpoint = appURL @ pathPrefix @ ''/auth'',
       md_TokenEndpoint = appURL @ pathPrefix @ ''/token'',
       md_JwksURI = jwksURI,
       md_RegistrationEndpoint = appURL @ pathPrefix @ ''/register'',
       md_ScopesSupported = [''openid'', ''profile'', ''email'', ''address'', ''phone''],
       md_ResponseTypesSupported = [''code''],
       md_ResponseModesSupported = [''query'', ''fragment'', ''form_post''],
       md_GrantTypesSupported = [''authorization_code'', ''refresh_token''],
       md_TokenEndpointAuthMethodsSupported = [''client_secret_basic'', ''client_secret_post''],
       md_TokenEndpointAuthSigningAlgValuesSupported = [],
       md_ServiceDocumentation = [], md_UILocalesSupported = [], md_OPPolicyURI = [], md_OPTosURI = [],
       md_RevocationEndpoint = appURL @ pathPrefix @ ''/revoke'',
       md_RevocationEndpointAuthMethodsSupported = [''client_secret_basic'', ''client_secret_post''],
       md_RevocationEndpointAuthSigningAlgValuesSupported = [],
       md_IntrospectionEndpoint = appURL @ pathPrefix @ ''/introspect'',
       md_IntrospectionEndpointAuthMethodsSupported = [''client_secret_basic'', ''client_secret_post''],
       md_IntrospectionEndpointAuthSigningAlgValuesSupported = [],
       md_CodeChallengeMethodsSupported = [''S256''],
       md_AuthorizationResponseIssParameterSupported = True,
       op_UserInfoEndpoint = appURL @ pathPrefix @ ''/userinfo'',
       op_AcrValuesSupported = [''loa1'', ''loa2''],
       op_SubjectTypesSupported = [''public''],
       op_IDTokenSigningAlgValuesSupported = [''RS256''],
       op_IDTokenEncryptionAlgValuesSupported = [], op_IDTokenEncryptionEncValuesSupported = [],
       op_UserInfoSigningAlgValuesSupported = [''none''],
       op_UserInfoEncryptionAlgValuesSupported = [], op_UserInfoEncryptionEncValuesSupported = [],
       op_RequestObjectSigningAlgValuesSupported = [''none''],
       op_RequestObjectEncryptionAlgValuesSupported = [], op_RequestObjectEncryptionEncValuesSupported = [],
       op_DisplayValuesSupported = [''page''],
       op_ClaimTypesSupported = [''normal''],
       op_ClaimsSupported = [''amr'', ''aud'', ''azp'', ''client_id'', ''exp'', ''iat'', ''iss'', ''jti'', ''rat'', ''sub'',
         ''name'', ''given_name'', ''family_name'', ''middle_name'', ''nickname'', ''preferred_username'',
         ''profile'', ''picture'', ''website'', ''email'', ''email_verified'', ''gender'', ''birthdate'',
         ''zoneinfo'', ''locale'', ''phone_number'', ''phone_number_verified'', ''address'', ''updated_at''],
       op_ClaimsLocalesSupported = [],
       op_ClaimsParameterSupported = False,
       op_RequestParameterSupported = True,
       op_RequestURIParameterSupported = True,
       op_RequireRequestURIRegistration = True\<rparr>)"

text \<open>Scopes of protected resources join the advertised ones, without duplicates.\<close>

fun appendScopes :: "string list \<Rightarrow> string list \<Rightarrow> string list" where
  "appendScopes supported [] = supported"
| "appendScopes supported (scope # scopes) =
     appendScopes (if \<not> slicesContains supported scope then supported @ [scope] else supported) scopes"

definition mergeProtectedScopes :: "provider_metadata \<Rightarrow> string list \<Rightarrow> provider_metadata" where
  "mergeProtectedScopes md scopes = md\<lparr>md_ScopesSupported := appendScopes (md_ScopesSupported md) scopes\<rparr>"

lemma appendScopes_spec:
  "set (appendScopes known scopes) = set known \<union> set scopes \<and> (\<exists>new. appendScopes known scopes = known @ new)
   \<and> (distinct known \<longrightarrow> distinct (appendScopes known scopes))"
proof (induction scopes arbitrary: known)
  case (Cons s ss)
  show ?case using Cons.IH [of "known @ [s]"] Cons.IH [of known] by (auto simp: slicesContains_iff)
qed simp

lemma appendScopes_known: "set scopes \<subseteq> set known \<Longrightarrow> appendScopes known scopes = known"
  by (induction scopes) (auto simp: slicesContains_iff)

subsection \<open>Issuers\<close>

lemma providerIssuer_canonical:
  "canonicalPrefix p \<Longrightarrow> providerIssuer appURL p =
     trimRight appURL (CHR ''/'') @ (if p = DefaultPathPrefix then [] else p)"
  by (simp add: providerIssuer_def canonicalPrefixD Let_def)

lemma canonical_tenant [simp]: "canonicalPrefix ''/tenant''"
proof -
  have "set ''/tenant'' \<inter> set spaceBytes = {}" by code_simp
  then show ?thesis unfolding canonicalPrefix_def by (intro normalizePrefix_id) simp_all
qed

lemma tenant_not_Default [simp]: "''/tenant'' \<noteq> DefaultPathPrefix" "DefaultPathPrefix \<noteq> ''/tenant''"
  by (simp_all add: DefaultPathPrefix_def)

subsection \<open>The challenge of a protected resource (rfc9728_middleware.go)\<close>

text \<open>
  \<open>RequireAuthRFC9728WWWAuthenticateResponse\<close>: an unauthenticated request gets a 401 whose header names the
  URL of the resource metadata; an authenticated one goes on.
\<close>

datatype challenge = NextHandler | Unauthorized string

definition resourceMetadataURL :: "string \<Rightarrow> string \<Rightarrow> string" where
  "resourceMetadataURL appURL urlPath =
     trimBoth appURL (CHR ''/'') @ ''/.well-known/oauth-protected-resource/'' @ trimBoth urlPath (CHR ''/'')"

definition requireAuth9728 :: "string \<Rightarrow> string \<Rightarrow> bool \<Rightarrow> challenge" where
  "requireAuth9728 appURL urlPath authenticated =
     (if \<not> authenticated then Unauthorized
        (''Bearer error=\"invalid_token\", error_description=\"The access token provided is expired, revoked, malformed, or invalid for other reasons.\", resource_metadata=\"''
         @ resourceMetadataURL appURL urlPath @ ''\"'')
      else NextHandler)"

text \<open>
  The routes of the well-known documents; \<open>{resource}\<close> matches exactly one segment of the path
  (Go's \<open>http.ServeMux\<close>).
\<close>

definition wellKnownBase :: "string \<Rightarrow> string" where
  "wellKnownBase pathPrefix = (if normalizePrefix pathPrefix \<noteq> DefaultPathPrefix then normalizePrefix pathPrefix else [])"

definition jwksPath :: "string \<Rightarrow> string" where
  "jwksPath pathPrefix = (if wellKnownBase pathPrefix \<noteq> [] then wellKnownBase pathPrefix @ ''/jwks.json''
     else ''/.well-known/jwks.json'')"

definition protectedResourceRoute :: "string \<Rightarrow> string" where
  "protectedResourceRoute pathPrefix = wellKnownBase pathPrefix @ ''/.well-known/oauth-protected-resource/''"

definition protectedResourceOf :: "string \<Rightarrow> string \<Rightarrow> string option" where
  "protectedResourceOf pathPrefix path =
     (let route = protectedResourceRoute pathPrefix; rest = drop (length route) path in
      if hasPrefix path route \<and> rest \<noteq> [] \<and> CHR ''/'' \<notin> set rest then Some rest else None)"

end
