(* ===== verification/App_State.thy ===== *)
theory App_State
  imports Envelope Metadata Session_Model
begin

section \<open>The configuration, the instances and the state of an app\<close>

text \<open>
  What \<open>Register\<close> is given (\<open>Config\<close>), what it leaves in the app's store (\<open>Instance\<close>), and the state of one
  app: the tables, the \<open>_params\<close> table, the registration guard, the app's store and the set of registered
  prefixes (\<open>w_registered\<close>). Interface and function fields of the configuration that the code only passes
  on to the library are left out.
\<close>

datatype claim_strategy = DefaultUserInfoClaimStrategy | CustomStrategy string

record attestation_snapshot =
  sn_Tenant :: string
  sn_ReleaseSHA :: string
  sn_SourceSHA :: string
  sn_SourceID :: string
  sn_BootID :: string
  sn_AuthConfigSHA256 :: string

record config =
  cf_PathPrefix :: string
  cf_UserCollection :: string
  cf_UserInfoClaimStrategy :: "claim_strategy option"
  cf_EnableDCR :: bool
  cf_EnableRFC9728 :: bool
  cf_MasterKeyProvider :: "master_provider option"
  cf_InitialAccessTokens :: "string list"
  cf_AllowUnauthenticatedDCR :: bool
  cf_LoginRedirectURL :: string
  cf_RuntimeAttestationSnapshot :: "(goerr + attestation_snapshot) option"
  cf_GlobalSecret :: string
  cf_EnforcePKCE :: bool
  cf_EnforcePKCEForPublicClients :: bool
  cf_SendDebugMessagesToClients :: bool
  cf_UseLegacyErrorFormat :: bool

text \<open>A JSON web key: its material, key id, algorithm and use.\<close>

record json_web_key =
  jk_Key :: string
  jk_KeyID :: string
  jk_Algorithm :: string
  jk_Use :: string

text \<open>The window of the attestation rate limit; \<open>None\<close> is the zero time.\<close>

record limiter_state =
  ls_started :: "int option"
  ls_count :: nat

record op_instance =
  it_cfg :: config
  it_store :: "oauth2store option"
  it_privateKey :: "json_web_key option"
  it_metadata :: "provider_metadata option"
  it_protected :: "(string \<times> protected_metadata) list"
  it_limiter :: limiter_state

datatype stored = Registering | StoredInstance op_instance

record param_row =
  pm_id :: string
  pm_value :: string
  pm_created :: int
  pm_updated :: int

record app_world = world +
  w_params :: "param_row list"
  w_guard :: "string list"
  w_store :: "(string \<times> stored) list"

text \<open>The environment of an app: key generation and the JSON of keys are Go's and the JOSE library's.\<close>

record app_envir = crypto_envir +
  rsaGenerate :: "nat \<Rightarrow> string option"
  marshalJWK :: "json_web_key \<Rightarrow> string option"
  unmarshalJWK :: "string \<Rightarrow> json_web_key option"
  hmacSha256 :: "string \<Rightarrow> string \<Rightarrow> string"
  appURL :: string

type_synonym ('o, 'w, 'a) appgo = "('o app_envir_scheme, 'w app_world_scheme, 'a) go"

text \<open>\<open>app.Store().Get(instanceStoreKey(prefix)).(*Instance)\<close>.\<close>

definition getInstanceAt :: "'w app_world_scheme \<Rightarrow> string \<Rightarrow> op_instance option" where
  "getInstanceAt w prefix = (case map_of (w_store w) (instanceStoreKey prefix) of
     Some (StoredInstance i) \<Rightarrow> Some i | _ \<Rightarrow> None)"

definition getInstance :: "'w app_world_scheme \<Rightarrow> op_instance option" where
  "getInstance w = getInstanceAt w DefaultPathPrefix"

definition IsRegisteredAt :: "'w app_world_scheme \<Rightarrow> string \<Rightarrow> bool" where
  "IsRegisteredAt w prefix = (getInstanceAt w prefix \<noteq> None)"

definition IsRegistered :: "'w app_world_scheme \<Rightarrow> bool" where
  "IsRegistered w = IsRegisteredAt w DefaultPathPrefix"

end
