(* ===== verification/Params.thy ===== *)
theory Params
  imports App_State
begin

section \<open>Key material in the _params table (params.go)\<close>

text \<open>
  A parameter is generated once, stored, and read back ever after; its row is plaintext or an envelope. Reading
  moves a row forward: a plaintext row becomes an envelope when a master key is configured, and an
  envelope sealed by a retired master, or with the legacy context, is sealed again. Every rewrite is a
  compare-and-swap on the value that was read.
\<close>

subsection \<open>Constants and statements\<close>

definition paramsKeyOAuth2RSAKey :: string where "paramsKeyOAuth2RSAKey = ''oauth2_rsa_key''"
definition paramsKeyOAuth2GlobalSecret :: string where "paramsKeyOAuth2GlobalSecret = ''oauth2_global_secret''"
definition paramsKeyOAuth2EnvelopeCtxID :: string where "paramsKeyOAuth2EnvelopeCtxID = ''oauth2_envelope_ctx_id''"
definition rsaSigningKeyBits :: nat where "rsaSigningKeyBits = 3072"

definition queryParam :: "string \<Rightarrow> ('o, 'w, param_row) appgo" where
  "queryParam i = bindG dbCall (\<lambda>_. bindG (readG (\<lambda>w. filter (\<lambda>r. pm_id r = i) (w_params w))) (\<lambda>rows.
     case rows of [] \<Rightarrow> throwG (plainErr ErrNoRows) | r # _ \<Rightarrow> returnG r))"

definition insertParam :: "param_row \<Rightarrow> ('o, 'w, unit) appgo" where
  "insertParam r = bindG dbCall (\<lambda>_. bindG (readG w_params) (\<lambda>rows.
     if \<exists>x \<in> set rows. pm_id x = pm_id r then throwG constraintErr
     else modifyG (\<lambda>w. w\<lparr>w_params := rows @ [r]\<rparr>)))"

text \<open>The conditional UPDATE and the number of rows it changed.\<close>

definition casHit :: "string \<Rightarrow> string \<Rightarrow> param_row \<Rightarrow> bool" where
  "casHit paramID expected r \<longleftrightarrow> pm_id r = paramID \<and> pm_value r = expected"

definition execParamCAS :: "string \<Rightarrow> string \<Rightarrow> string \<Rightarrow> int \<Rightarrow> ('o, 'w, nat) appgo" where
  "execParamCAS paramID raw expected now = bindG dbCall (\<lambda>_.
     bindG (readG (\<lambda>w. length (filter (casHit paramID expected) (w_params w)))) (\<lambda>n.
     bindG (modifyG (\<lambda>w. w\<lparr>w_params := map (\<lambda>r. if casHit paramID expected r
        then r\<lparr>pm_value := raw, pm_updated := now\<rparr> else r) (w_params w)\<rparr>)) (\<lambda>_. returnG n)))"

subsection \<open>Master keys\<close>

definition activeMasterKeyProviderAt :: "string \<Rightarrow> ('o, 'w, master_provider) appgo" where
  "activeMasterKeyProviderAt prefix = bindG (readG (\<lambda>w. getInstanceAt w prefix)) (\<lambda>r.
     case r of
       Some inst \<Rightarrow> (case cf_MasterKeyProvider (it_cfg inst) of
           Some p \<Rightarrow> returnG p | None \<Rightarrow> askG DefaultMasterKeyProvider)
     | None \<Rightarrow> askG DefaultMasterKeyProvider)"

definition activeMasterKeyProvider :: "('o, 'w, master_provider) appgo" where
  "activeMasterKeyProvider = activeMasterKeyProviderAt DefaultPathPrefix"

definition resolveKeyring :: "'o crypto_envir_scheme \<Rightarrow> master_provider \<Rightarrow> goerr + keyring" where
  "resolveKeyring \<omega> p = (case mk_Keyring p of
     Some r \<Rightarrow> r
   | None \<Rightarrow> (case mk_Master p of
         Inl e \<Rightarrow> Inl e | Inr None \<Rightarrow> Inr [] | Inr (Some m) \<Rightarrow> Inr [(fingerprintOf \<omega> m, m)]))"

text \<open>A pure computation that may fail, in the environment.\<close>

definition liftE :: "('o \<Rightarrow> goerr + 'a) \<Rightarrow> ('o, 'w, 'a) go" where
  "liftE f = bindG (askG f) (\<lambda>r. case r of Inl e \<Rightarrow> throwG e | Inr a \<Rightarrow> returnG a)"

subsection \<open>The context of the app\<close>

definition getOrCreateEnvelopeContext :: "('o, 'w, string) appgo" where
  "getOrCreateEnvelopeContext =
     bindG (attemptG (queryParam paramsKeyOAuth2EnvelopeCtxID)) (\<lambda>r. case r of
       Inr param \<Rightarrow> bindG (askG (\<lambda>\<omega>. unmarshalString \<omega> (pm_value param))) (\<lambda>u. case u of
           None \<Rightarrow> throwG (textErr ''failed to parse stored envelope ctx id'')
         | Some s \<Rightarrow> if s = [] then throwG (textErr ''stored envelope ctx id is empty'') else returnG s)
     | Inl e \<Rightarrow>
         if \<not> errorsIs e ErrNoRows then throwG (ErrText ''failed to query envelope ctx id'' (Some e))
         else bindG newUUID (\<lambda>i. bindG timeNow (\<lambda>now.
           bindG (attemptG (insertParam \<lparr>pm_id = paramsKeyOAuth2EnvelopeCtxID, pm_value = jsonString i,
                pm_created = now, pm_updated = now\<rparr>)) (\<lambda>s. case s of
             Inr _ \<Rightarrow> returnG i
           | Inl serr \<Rightarrow>
               bindG (attemptG (queryParam paramsKeyOAuth2EnvelopeCtxID)) (\<lambda>again. case again of
                   Inl _ \<Rightarrow> throwG (ErrText ''failed to persist envelope ctx id'' (Some serr))
                 | Inr p \<Rightarrow> bindG (askG (\<lambda>\<omega>. unmarshalString \<omega> (pm_value p))) (\<lambda>u. case u of
                       None \<Rightarrow> throwG (ErrText ''failed to persist envelope ctx id'' (Some serr))
                     | Some s \<Rightarrow> if s \<noteq> [] then returnG s
                         else throwG (ErrText ''failed to persist envelope ctx id'' (Some serr))))))))"

subsection \<open>Rows\<close>

definition saveParamValue :: "string \<Rightarrow> string \<Rightarrow> ('o, 'w, unit) appgo" where
  "saveParamValue paramID raw = bindG timeNow (\<lambda>now.
     insertParam \<lparr>pm_id = paramID, pm_value = raw, pm_created = now, pm_updated = now\<rparr>)"

definition updateParamValueCAS :: "string \<Rightarrow> string \<Rightarrow> string \<Rightarrow> ('o, 'w, bool) appgo" where
  "updateParamValueCAS paramID raw expectedValue = bindG timeNow (\<lambda>now.
     bindG (mapErrG (\<lambda>e. ErrText ''failed to CAS-update _params row'' (Some e))
       (execParamCAS paramID raw expectedValue now)) (\<lambda>n. returnG (n > 0)))"

definition verifyOrWriteFingerprint :: "string option \<Rightarrow> master_provider \<Rightarrow> ('o, 'w, unit) appgo" where
  "verifyOrWriteFingerprint master provider = (case master of
     None \<Rightarrow> returnG ()
   | Some m \<Rightarrow> bindG (askG (\<lambda>\<omega>. fingerprintOf \<omega> m)) (\<lambda>expected.
       bindG (attemptG (queryParam fingerprintParamID)) (\<lambda>r. case r of
         Inl err \<Rightarrow>
           if \<not> errorsIs err ErrNoRows then throwG (ErrText ''failed to query master key fingerprint'' (Some err))
           else mapErrG (\<lambda>e. ErrText ''failed to persist master key fingerprint'' (Some e))
             (saveParamValue fingerprintParamID (jsonString expected))
       | Inr param \<Rightarrow>
           bindG (askG (\<lambda>\<omega>. unmarshalString \<omega> (pm_value param))) (\<lambda>u. case u of
             None \<Rightarrow> throwG (textErr ''failed to parse stored master key fingerprint'')
           | Some s \<Rightarrow>
               if s = expected then returnG ()
               else bindG (mapErrG (\<lambda>e. ErrText ''failed to resolve keyring for fingerprint check'' (Some e))
                      (liftE (\<lambda>\<omega>. resolveKeyring \<omega> provider))) (\<lambda>keyring.
               if map_of keyring s = None
               then throwG (textErr ''OAUTH2_MASTER_KEY fingerprint mismatch -- refusing to decrypt with wrong key'')
               else bindG (attemptG (updateParamValueCAS fingerprintParamID (jsonString expected) (pm_value param)))
                 (\<lambda>_. returnG ()))))))"

subsection \<open>Values\<close>

text \<open>
  The two instances of the generic helpers: byte slices are written in hexadecimal, a key as JSON. A
  codec is how a value type is written and read.
\<close>

record 'a param_codec =
  encodePlaintext :: "'a \<Rightarrow> goerr + string"
  decodePlaintext :: "string \<Rightarrow> goerr + 'a"

definition bytesCodec :: "string param_codec" where
  "bytesCodec = \<lparr>encodePlaintext = (\<lambda>v. Inr (hexEncode v)),
     decodePlaintext = (\<lambda>raw. case hexDecode raw of
        None \<Rightarrow> Inl (textErr ''failed to decode value'') | Some v \<Rightarrow> Inr v)\<rparr>"

definition jwkCodec :: "'o app_envir_scheme \<Rightarrow> json_web_key param_codec" where
  "jwkCodec \<omega> = \<lparr>encodePlaintext = (\<lambda>v. case marshalJWK \<omega> v of
        None \<Rightarrow> Inl (textErr ''failed to marshal value'') | Some s \<Rightarrow> Inr s),
     decodePlaintext = (\<lambda>raw. case unmarshalJWK \<omega> raw of
        None \<Rightarrow> Inl (textErr ''failed to unmarshal value'') | Some v \<Rightarrow> Inr v)\<rparr>"

text \<open>Opening an envelope row with the keyring of the provider.\<close>

definition openRow :: "master_provider \<Rightarrow> string \<Rightarrow> string \<Rightarrow> string \<Rightarrow> envelope \<Rightarrow> ('o, 'w, string \<times> bool) appgo" where
  "openRow provider master ctxID paramID env =
     bindG (mapErrG (\<lambda>e. ErrText ''failed to resolve master keyring'' (Some e)) (liftE (\<lambda>\<omega>. resolveKeyring \<omega> provider))) (\<lambda>keyring.
     liftE (\<lambda>\<omega>. openEnvelopeWithKeyring \<omega> keyring (fingerprintOf \<omega> master) ctxID (dataDir \<omega>) paramID env))"

definition loadDecodedParam ::
  "master_provider \<Rightarrow> string option \<Rightarrow> string \<Rightarrow> string \<Rightarrow> string \<Rightarrow> 'a param_codec \<Rightarrow> ('o, 'w, 'a) appgo" where
  "loadDecodedParam provider master ctxID paramID raw codec =
     bindG (askG (\<lambda>\<omega>. looksLikeEnvelope \<omega> raw)) (\<lambda>r. case r of
       Some env \<Rightarrow> (case master of
           None \<Rightarrow> throwG (textErr ''encrypted _params row found but OAUTH2_MASTER_KEY is unset'')
         | Some m \<Rightarrow> bindG (openRow provider m ctxID paramID env) (\<lambda>(plaintext, _).
             liftE (\<lambda>_. decodePlaintext codec plaintext)))
     | None \<Rightarrow> liftE (\<lambda>_. decodePlaintext codec raw))"

text \<open>Sealing again and swapping the row; a failure is logged and ignored.\<close>

definition rewriteRow :: "string \<Rightarrow> string \<Rightarrow> string \<Rightarrow> string \<Rightarrow> string \<Rightarrow> ('o, 'w, unit) appgo" where
  "rewriteRow master ctxID paramID plaintext raw =
     bindG (attemptG (sealEnvelope master ctxID paramID plaintext)) (\<lambda>r. case r of
       Inl _ \<Rightarrow> returnG ()
     | Inr sealed \<Rightarrow> bindG (attemptG (updateParamValueCAS paramID sealed raw)) (\<lambda>_. returnG ()))"

definition loadExisting ::
  "master_provider \<Rightarrow> string option \<Rightarrow> string \<Rightarrow> string \<Rightarrow> string \<Rightarrow> 'a param_codec \<Rightarrow> ('o, 'w, 'a) appgo" where
  "loadExisting provider master ctxID paramID raw codec =
     bindG (askG (\<lambda>\<omega>. looksLikeEnvelope \<omega> raw)) (\<lambda>r. case r of
       Some env \<Rightarrow> (case master of
           None \<Rightarrow> throwG (textErr ''encrypted _params row found but OAUTH2_MASTER_KEY is unset'')
         | Some m \<Rightarrow>
             bindG (openRow provider m ctxID paramID env) (\<lambda>(plaintext, needsRewrap).
             bindG (if needsRewrap then rewriteRow m ctxID paramID plaintext raw else returnG ()) (\<lambda>_.
             liftE (\<lambda>_. decodePlaintext codec plaintext))))
     | None \<Rightarrow>
         bindG (liftE (\<lambda>_. decodePlaintext codec raw)) (\<lambda>decoded.
         bindG (case master of
             None \<Rightarrow> returnG ()
           | Some m \<Rightarrow> (case encodePlaintext codec decoded of
                 Inl _ \<Rightarrow> returnG () | Inr plaintext \<Rightarrow> rewriteRow m ctxID paramID plaintext raw)) (\<lambda>_.
         returnG decoded)))"

definition loadFresh ::
  "master_provider \<Rightarrow> string option \<Rightarrow> string \<Rightarrow> string \<Rightarrow> 'a param_codec \<Rightarrow> ('o, 'w, 'a) appgo \<Rightarrow> ('o, 'w, 'a) appgo" where
  "loadFresh provider master ctxID paramID codec generator =
     bindG (mapErrG (\<lambda>e. ErrText ''failed to generate new value'' (Some e)) generator) (\<lambda>newValue.
     bindG (liftE (\<lambda>_. encodePlaintext codec newValue)) (\<lambda>plaintext.
     bindG (case master of
         None \<Rightarrow> returnG plaintext
       | Some m \<Rightarrow> mapErrG (\<lambda>e. ErrText ''failed to seal envelope'' (Some e)) (sealEnvelope m ctxID paramID plaintext)) (\<lambda>row.
     bindG (attemptG (saveParamValue paramID row)) (\<lambda>s. case s of
       Inr _ \<Rightarrow> returnG newValue
     | Inl err \<Rightarrow> bindG (attemptG (queryParam paramID)) (\<lambda>again. case again of
           Inr recovered \<Rightarrow> loadDecodedParam provider master ctxID paramID (pm_value recovered) codec
         | Inl _ \<Rightarrow> throwG (ErrText ''failed to save value'' (Some err)))))))"

definition loadParamFromAppStorageAt ::
  "string \<Rightarrow> string \<Rightarrow> 'a param_codec \<Rightarrow> ('o, 'w, 'a) appgo \<Rightarrow> ('o, 'w, 'a) appgo" where
  "loadParamFromAppStorageAt prefix paramID codec generator =
     bindG (activeMasterKeyProviderAt prefix) (\<lambda>provider.
     bindG (mapErrG (\<lambda>e. ErrText ''failed to load master key'' (Some e)) (liftE (\<lambda>_. mk_Master provider))) (\<lambda>master.
     bindG (verifyOrWriteFingerprint master provider) (\<lambda>_.
     bindG (if master \<noteq> None then getOrCreateEnvelopeContext else returnG []) (\<lambda>ctxID.
     bindG (attemptG (queryParam paramID)) (\<lambda>r. case r of
       Inl err \<Rightarrow>
         if \<not> errorsIs err ErrNoRows then throwG (ErrText ''failed to query db'' (Some err))
         else loadFresh provider master ctxID paramID codec generator
     | Inr param \<Rightarrow> loadExisting provider master ctxID paramID (pm_value param) codec)))))"

definition loadParamFromAppStorage :: "string \<Rightarrow> 'a param_codec \<Rightarrow> ('o, 'w, 'a) appgo \<Rightarrow> ('o, 'w, 'a) appgo" where
  "loadParamFromAppStorage paramID codec generator = loadParamFromAppStorageAt DefaultPathPrefix paramID codec generator"

subsection \<open>The signing key and the global secret\<close>

text \<open>\<open>fmt.Sprintf("%s_%x", base, sum[:12])\<close>.\<close>

definition providerParamID :: "'o crypto_envir_scheme \<Rightarrow> string \<Rightarrow> string \<Rightarrow> string" where
  "providerParamID \<omega> base prefix0 = (let prefix = normalizePrefix prefix0 in
     if prefix = DefaultPathPrefix then base else base @ ''_'' @ hexEncode (take 12 (sha256 \<omega> prefix)))"

definition generateSigningKey :: "('o, 'w, json_web_key) appgo" where
  "generateSigningKey = bindG nextTick (\<lambda>n. bindG (askG (\<lambda>\<omega>. rsaGenerate \<omega> n)) (\<lambda>k. case k of
     None \<Rightarrow> throwG (textErr ''failed to generate new RSA key'')
   | Some key \<Rightarrow> bindG newUUID (\<lambda>kid. returnG
       \<lparr>jk_Key = key, jk_KeyID = kid, jk_Algorithm = ''RS256'', jk_Use = ''sig''\<rparr>)))"

definition loadPrivateKeyFromAppStorageAt :: "string \<Rightarrow> ('o, 'w, json_web_key) appgo" where
  "loadPrivateKeyFromAppStorageAt prefix =
     bindG (askG (\<lambda>\<omega>. (providerParamID \<omega> paramsKeyOAuth2RSAKey prefix, jwkCodec \<omega>))) (\<lambda>(paramID, codec).
     loadParamFromAppStorageAt prefix paramID codec generateSigningKey)"

definition loadPrivateKeyFromAppStorage :: "('o, 'w, json_web_key) appgo" where
  "loadPrivateKeyFromAppStorage = loadPrivateKeyFromAppStorageAt DefaultPathPrefix"

definition providerSecretLabel :: string where
  "providerSecretLabel = ''pocketbase-ext-oauth2-mt/provider-secret/v1'' @ [CHR 0x00]"

definition loadGlobalSecretFromAppStorageAt :: "string \<Rightarrow> ('o, 'w, string) appgo" where
  "loadGlobalSecretFromAppStorageAt prefix0 =
     bindG (loadParamFromAppStorageAt prefix0 paramsKeyOAuth2GlobalSecret bytesCodec (randomBytes 32)) (\<lambda>root.
     let prefix = normalizePrefix prefix0 in
     if prefix = DefaultPathPrefix then returnG root
     else askG (\<lambda>\<omega>. hmacSha256 \<omega> root (providerSecretLabel @ prefix)))"

definition loadGlobalSecretFromAppStorage :: "('o, 'w, string) appgo" where
  "loadGlobalSecretFromAppStorage = loadGlobalSecretFromAppStorageAt DefaultPathPrefix"

end
