(* ===== verification/Param_Facts.thy ===== *)
theory Param_Facts
  imports Params
begin

section \<open>Loading a parameter: what is read, what is written\<close>

subsection \<open>Statements on the _params table\<close>

definition lookupParam :: "'w app_world_scheme \<Rightarrow> string \<Rightarrow> param_row option" where
  "lookupParam w i = find (\<lambda>r. pm_id r = i) (w_params w)"

lemma lookupParam_tick [simp]: "lookupParam (w\<lparr>tick := n\<rparr>) i = lookupParam w i"
  by (simp add: lookupParam_def)

lemma lookupParam_Some: "lookupParam w i = Some r \<Longrightarrow> r \<in> set (w_params w) \<and> pm_id r = i"
  by (auto simp: lookupParam_def find_Some_iff)

lemma wp_queryParam [wp_simps]: "wp (queryParam i) Q E \<omega> w =
   (let w' = w\<lparr>tick := Suc (tick w)\<rparr> in
    if dbfail \<omega> (tick w) then E driverErr w'
    else (case lookupParam w i of None \<Rightarrow> E (plainErr ErrNoRows) w' | Some r \<Rightarrow> Q r w'))"
  by (simp add: queryParam_def wp_simps Let_def filter_case_find lookupParam_def split: option.splits)

lemma wp_insertParam [wp_simps]: "wp (insertParam r) Q E \<omega> w =
   (let w' = w\<lparr>tick := Suc (tick w)\<rparr> in
    if dbfail \<omega> (tick w) then E driverErr w'
    else if lookupParam w (pm_id r) \<noteq> None then E constraintErr w'
    else Q () (w'\<lparr>w_params := w_params w @ [r]\<rparr>))"
  by (auto simp: insertParam_def wp_simps Let_def lookupParam_def find_None_iff)

text \<open>The table after a swap that found the expected value.\<close>

definition swapParam :: "string \<Rightarrow> string \<Rightarrow> string \<Rightarrow> int \<Rightarrow> 'w app_world_scheme \<Rightarrow> 'w app_world_scheme" where
  "swapParam i raw expected now w = w\<lparr>w_params := map (\<lambda>r. if casHit i expected r
     then r\<lparr>pm_value := raw, pm_updated := now\<rparr> else r) (w_params w)\<rparr>"

lemma wp_updateParamValueCAS [wp_simps]: "wp (updateParamValueCAS i raw expected) Q E \<omega> w =
   (let w' = w\<lparr>tick := Suc (Suc (tick w))\<rparr> in
    if dbfail \<omega> (Suc (tick w)) then E (ErrText ''failed to CAS-update _params row'' (Some driverErr)) w'
    else Q (0 < length (filter (casHit i expected) (w_params w)))
           (swapParam i raw expected (clock \<omega> (tick w)) w'))"
  by (simp add: updateParamValueCAS_def execParamCAS_def wp_simps Let_def swapParam_def)

lemma swapParam_tick [simp]: "(swapParam i raw e now w)\<lparr>tick := n\<rparr> = swapParam i raw e now (w\<lparr>tick := n\<rparr>)"
  by (simp add: swapParam_def)

lemma lookup_swapParam:
  "lookupParam (swapParam i raw expected now w) j = (case lookupParam w j of
     None \<Rightarrow> None
   | Some r \<Rightarrow> Some (if casHit i expected r then r\<lparr>pm_value := raw, pm_updated := now\<rparr> else r))"
proof -
  let ?f = "\<lambda>r. if casHit i expected r then r\<lparr>pm_value := raw, pm_updated := now\<rparr> else r"
  have "find (\<lambda>r. pm_id r = j) (map ?f rs) = map_option ?f (find (\<lambda>r. pm_id r = j) rs)" for rs
    by (induction rs) auto
  then show ?thesis by (simp add: lookupParam_def swapParam_def split: option.splits)
qed

lemma wp_liftE [wp_simps]: "wp (liftE f) Q E \<omega> w = (case f \<omega> of Inl e \<Rightarrow> E e w | Inr a \<Rightarrow> Q a w)"
  by (simp add: liftE_def wp_simps split: sum.splits)

lemma wp_sealEnvelope:
  assumes "cryptoLaws \<omega>"
    and "\<And>nonce n. length nonce = gcmNonceSize \<Longrightarrow> Q (marshalEnvelope (sealWith \<omega> m c p pt nonce)) (w\<lparr>tick := n\<rparr>)"
    and "\<And>e n. randRead \<omega> (tick w) gcmNonceSize = None \<Longrightarrow> E e (w\<lparr>tick := n\<rparr>)"
  shows "wp (sealEnvelope m c p pt) Q E \<omega> w"
  using assms(2,3) cryptoLawsD(3) [OF assms(1)]
  by (auto simp: sealEnvelope_def randomBytes_def wp_simps aesKeyOk_def length_deriveDEK [OF assms(1)] split: option.splits)

subsection \<open>The value of a row\<close>

text \<open>What a row means to a reader with a provider, an active master and a context; nothing is written.\<close>

definition openedRow ::
  "'o crypto_envir_scheme \<Rightarrow> master_provider \<Rightarrow> string \<Rightarrow> string \<Rightarrow> string \<Rightarrow> envelope \<Rightarrow> goerr + (string \<times> bool)" where
  "openedRow \<omega> provider m ctxID paramID env = (case resolveKeyring \<omega> provider of
     Inl e \<Rightarrow> Inl (ErrText ''failed to resolve master keyring'' (Some e))
   | Inr keyring \<Rightarrow> openEnvelopeWithKeyring \<omega> keyring (fingerprintOf \<omega> m) ctxID (dataDir \<omega>) paramID env)"

definition rowValue ::
  "'o crypto_envir_scheme \<Rightarrow> master_provider \<Rightarrow> string option \<Rightarrow> string \<Rightarrow> string \<Rightarrow> 'a param_codec \<Rightarrow> string \<Rightarrow> goerr + 'a" where
  "rowValue \<omega> provider master ctxID paramID codec raw = (case looksLikeEnvelope \<omega> raw of
     Some env \<Rightarrow> (case master of
         None \<Rightarrow> Inl (textErr ''encrypted _params row found but OAUTH2_MASTER_KEY is unset'')
       | Some m \<Rightarrow> (case openedRow \<omega> provider m ctxID paramID env of
             Inl e \<Rightarrow> Inl e | Inr (pt, _) \<Rightarrow> decodePlaintext codec pt))
   | None \<Rightarrow> decodePlaintext codec raw)"

lemma wp_openRow [wp_simps]: "wp (openRow provider m ctxID paramID env) Q E \<omega> w =
   (case openedRow \<omega> provider m ctxID paramID env of Inl e \<Rightarrow> E e w | Inr r \<Rightarrow> Q r w)"
  by (simp add: openRow_def openedRow_def wp_simps split: sum.splits)

lemma wp_loadDecodedParam [wp_simps]: "wp (loadDecodedParam provider master ctxID paramID raw codec) Q E \<omega> w =
   (case rowValue \<omega> provider master ctxID paramID codec raw of Inl e \<Rightarrow> E e w | Inr v \<Rightarrow> Q v w)"
  by (auto simp: loadDecodedParam_def rowValue_def wp_simps split: option.splits sum.splits)

text \<open>
  The contract of a provider of master keys: the keyring has one entry per fingerprint, and it includes the
  active master.
\<close>

definition keyringOk :: "'o crypto_envir_scheme \<Rightarrow> master_provider \<Rightarrow> string \<Rightarrow> bool" where
  "keyringOk \<omega> provider m \<longleftrightarrow> (\<exists>kr. resolveKeyring \<omega> provider = Inr kr \<and> distinct (map fst kr) \<and> map_of kr (fingerprintOf \<omega> m) = Some m)"

lemma fingerprint_nonempty: "cryptoLaws \<omega> \<Longrightarrow> fingerprintOf \<omega> m \<noteq> []"
proof
  assume c: "cryptoLaws \<omega>" and e: "fingerprintOf \<omega> m = []"
  have "length (fingerprintOf \<omega> m) = 16" by (simp add: fingerprintOf_def cryptoLawsD(1) [OF c])
  with e show False by simp
qed

text \<open>A row sealed with the active master and the current context opens, and needs no rewrap.\<close>

lemma openedRow_sealed:
  assumes "cryptoLaws \<omega>" "keyringOk \<omega> provider m" "length nonce = gcmNonceSize"
  shows "openedRow \<omega> provider m ctxID paramID (sealWith \<omega> m ctxID paramID pt nonce) = Inr (pt, False)"
proof -
  from assms(2) obtain kr where kr: "resolveKeyring \<omega> provider = Inr kr" "map_of kr (fingerprintOf \<omega> m) = Some m"
    by (auto simp: keyringOk_def)
  have "env_Kid (sealWith \<omega> m ctxID paramID pt nonce) = fingerprintOf \<omega> m" by (simp add: sealWith_def)
  then show ?thesis using kr openEnvelope_sealWith [OF assms(1,3)] fingerprint_nonempty [OF assms(1), of m]
    by (simp add: openedRow_def openEnvelopeWithKeyring_def openAdvertised_def)
qed

lemma rowValue_sealed:
  assumes "cryptoLaws \<omega>" "keyringOk \<omega> provider m" "length nonce = gcmNonceSize"
  shows "rowValue \<omega> provider (Some m) ctxID paramID codec (marshalEnvelope (sealWith \<omega> m ctxID paramID pt nonce))
     = decodePlaintext codec pt"
  using openedRow_sealed [OF assms] looksLike_marshal [OF assms(1,3)] by (simp add: rowValue_def)

text \<open>
  What needs no rewrap opens with the active master alone: a retired master can be dropped from the
  keyring once every row has been read.
\<close>

lemma openedRow_active:
  assumes "cryptoLaws \<omega>" "keyringOk \<omega> provider m" "openedRow \<omega> provider m ctxID paramID env = Inr (pt, False)"
  shows "openEnvelope \<omega> m ctxID paramID env = Inr pt \<and> (env_Kid env = [] \<or> env_Kid env = fingerprintOf \<omega> m)"
proof -
  from assms(2) obtain kr where kr: "resolveKeyring \<omega> provider = Inr kr" "distinct (map fst kr)"
    "map_of kr (fingerprintOf \<omega> m) = Some m" by (auto simp: keyringOk_def)
  have brute: "openEnvelope \<omega> m ctxID paramID env = Inr pt \<and> (env_Kid env = [] \<or> env_Kid env = fingerprintOf \<omega> m)"
    if "bruteForce \<omega> kr' (fingerprintOf \<omega> m) ctxID lc paramID env = Some (pt, False)" "set kr' \<subseteq> set kr" for kr' lc
    using that
  proof (induction kr')
    case (Cons a kr')
    obtain kid m' where a: "a = (kid, m')" by (cases a)
    have u: "m' = m" if "kid = fingerprintOf \<omega> m" using map_of_is_SomeI [OF kr(2), of kid m'] Cons.prems(2) a kr(3) that by auto
    show ?case using Cons u by (auto simp: a split: sum.splits if_splits)
  qed simp
  from assms(3) have "openEnvelopeWithKeyring \<omega> kr (fingerprintOf \<omega> m) ctxID (dataDir \<omega>) paramID env = Inr (pt, False)"
    by (simp add: openedRow_def kr(1))
  then consider "openAdvertised \<omega> kr (fingerprintOf \<omega> m) ctxID (dataDir \<omega>) paramID env = Some (pt, False)"
    | "bruteForce \<omega> kr (fingerprintOf \<omega> m) ctxID (dataDir \<omega>) paramID env = Some (pt, False)"
    unfolding openEnvelopeWithKeyring_def by (simp split: option.splits)
  then show ?thesis
  proof cases
    case 1
    then obtain x where x: "map_of kr (env_Kid env) = Some x" "openEnvelope \<omega> x ctxID paramID env = Inr pt"
      "env_Kid env = fingerprintOf \<omega> m"
      unfolding openAdvertised_def by (simp split: option.splits sum.splits if_splits)
    with kr(3) show ?thesis by simp
  next
    case 2
    show ?thesis by (rule brute [OF 2 subset_refl])
  qed
qed

lemma openedRow_alone:
  assumes "cryptoLaws \<omega>" "openEnvelope \<omega> m ctxID paramID env = Inr pt" "env_Kid env = [] \<or> env_Kid env = fingerprintOf \<omega> m"
    and "resolveKeyring \<omega> alone = Inr [(fingerprintOf \<omega> m, m)]"
  shows "openedRow \<omega> alone m ctxID paramID env = Inr (pt, False)"
  using assms(2-) by (auto simp: openedRow_def openEnvelopeWithKeyring_def openAdvertised_def)

subsection \<open>Reading keeps the value\<close>

text \<open>The rows of other parameters are left alone.\<close>

definition otherParams :: "'w app_world_scheme \<Rightarrow> string \<Rightarrow> param_row list" where
  "otherParams w i = filter (\<lambda>r. pm_id r \<noteq> i) (w_params w)"

lemma otherParams_simps [simp]:
  "otherParams (w\<lparr>tick := n\<rparr>) i = otherParams w i" "otherParams (swapParam i raw e now w) i = otherParams w i"
proof -
  have "filter (\<lambda>r. pm_id r \<noteq> i) (map (\<lambda>r. if casHit i e r then r\<lparr>pm_value := raw, pm_updated := now\<rparr> else r) rs)
      = filter (\<lambda>r. pm_id r \<noteq> i) rs" for rs
    by (induction rs) (auto simp: casHit_def)
  then show "otherParams (swapParam i raw e now w) i = otherParams w i" by (simp add: otherParams_def swapParam_def)
qed (simp add: otherParams_def)

text \<open>A value type whose text can be read back: the contract of the generic helpers with \<open>T\<close>.\<close>

locale param_value =
  fixes codec :: "'a param_codec"
  assumes decode_encode: "encodePlaintext codec v = Inr s \<Longrightarrow> decodePlaintext codec s = Inr v"
begin

text \<open>The row of the parameter holds \<open>x\<close>: some text that every reader of this configuration understands as \<open>x\<close>.\<close>

definition holds :: "'o crypto_envir_scheme \<Rightarrow> master_provider \<Rightarrow> string option \<Rightarrow> string \<Rightarrow> string \<Rightarrow>
    'w app_world_scheme \<Rightarrow> goerr + 'a \<Rightarrow> bool" where
  "holds \<omega> provider master ctxID paramID w x \<longleftrightarrow>
     (\<exists>r. lookupParam w paramID = Some r \<and> rowValue \<omega> provider master ctxID paramID codec (pm_value r) = x)"

text \<open>Rewriting a row with an envelope of a text that decodes to its value.\<close>

lemma wp_rewriteRow:
  assumes laws: "cryptoLaws \<omega>" and kr: "keyringOk \<omega> provider m"
    and row: "holds \<omega> provider (Some m) ctxID paramID w x" and pt: "decodePlaintext codec pt = x"
  shows "wp (rewriteRow m ctxID paramID pt raw)
     (\<lambda>_ w'. holds \<omega> provider (Some m) ctxID paramID w' x \<and> otherParams w' paramID = otherParams w paramID)
     (\<lambda>_ _. False) \<omega> w"
proof -
  obtain r where r: "lookupParam w paramID = Some r" "rowValue \<omega> provider (Some m) ctxID paramID codec (pm_value r) = x"
    using row by (auto simp: holds_def)
  have tick: "holds \<omega> provider (Some m) ctxID paramID (w\<lparr>tick := n\<rparr>) x" for n using r by (auto simp: holds_def)
  have swap: "holds \<omega> provider (Some m) ctxID paramID
      (swapParam paramID (marshalEnvelope (sealWith \<omega> m ctxID paramID pt nonce)) raw now (w\<lparr>tick := n\<rparr>)) x"
    if "length nonce = gcmNonceSize" for nonce now n
    using r rowValue_sealed [OF laws kr that, of ctxID paramID codec pt] pt
    by (auto simp: holds_def lookup_swapParam)
  show ?thesis
    unfolding rewriteRow_def wp_bindG [of "attemptG (sealEnvelope _ _ _ _)"] wp_attemptG
    by (rule wp_sealEnvelope [OF laws]) (auto simp: wp_simps tick swap)
qed

text \<open>What a load leaves behind, whatever fails: the value \<open>x\<close> still in the row, the other rows untouched.\<close>

definition kept :: "'o crypto_envir_scheme \<Rightarrow> master_provider \<Rightarrow> string option \<Rightarrow> string \<Rightarrow> string \<Rightarrow>
    goerr + 'a \<Rightarrow> 'w app_world_scheme \<Rightarrow> 'w app_world_scheme \<Rightarrow> bool" where
  "kept \<omega> provider master ctxID paramID x w w' \<longleftrightarrow>
     holds \<omega> provider master ctxID paramID w' x \<and> otherParams w' paramID = otherParams w paramID"

lemma kept_refl: "holds \<omega> provider master ctxID paramID w x \<Longrightarrow> kept \<omega> provider master ctxID paramID x w w"
  by (simp add: kept_def)

lemma wp_loadEnvelope:
  assumes laws: "cryptoLaws \<omega>" and kr: "keyringOk \<omega> provider m" and env: "looksLikeEnvelope \<omega> raw = Some env"
    and opened: "openedRow \<omega> provider m ctxID paramID env = Inr (pt, b)"
    and row: "holds \<omega> provider (Some m) ctxID paramID w x" and x: "x = decodePlaintext codec pt"
  shows "wp (loadExisting provider (Some m) ctxID paramID raw codec)
     (\<lambda>v w'. x = Inr v \<and> kept \<omega> provider (Some m) ctxID paramID x w w')
     (\<lambda>e w'. x = Inl e \<and> kept \<omega> provider (Some m) ctxID paramID x w w') \<omega> w"
proof -
  have "wp (rewriteRow m ctxID paramID pt raw) (\<lambda>_. kept \<omega> provider (Some m) ctxID paramID x w) (\<lambda>_ _. False) \<omega> w"
    unfolding kept_def by (rule wp_rewriteRow [OF laws kr row x [symmetric]])
  then have "wp (if b then rewriteRow m ctxID paramID pt raw else returnG ())
      (\<lambda>_. kept \<omega> provider (Some m) ctxID paramID x w) (\<lambda>_ _. False) \<omega> w"
    using kept_refl [OF row] by (cases b) (simp_all add: wp_simps)
  then have "wp (bindG (if b then rewriteRow m ctxID paramID pt raw else returnG ()) (\<lambda>_. liftE (\<lambda>_. decodePlaintext codec pt)))
     (\<lambda>v w'. x = Inr v \<and> kept \<omega> provider (Some m) ctxID paramID x w w')
     (\<lambda>e w'. x = Inl e \<and> kept \<omega> provider (Some m) ctxID paramID x w w') \<omega> w"
    unfolding wp_bindG by (rule wp_mono) (auto simp: wp_liftE x split: sum.splits)
  then show ?thesis using env opened
    by (simp add: loadExisting_def wp_bindG [of "askG _"] wp_askG wp_bindG [of "openRow _ _ _ _ _"] wp_openRow)
qed

lemma wp_loadPlain:
  assumes laws: "cryptoLaws \<omega>" and kr: "\<And>m. master = Some m \<Longrightarrow> keyringOk \<omega> provider m"
    and env: "looksLikeEnvelope \<omega> raw = None" and dec: "decodePlaintext codec raw = Inr v"
    and row: "holds \<omega> provider master ctxID paramID w (Inr v)"
  shows "wp (loadExisting provider master ctxID paramID raw codec)
     (\<lambda>v' w'. v' = v \<and> kept \<omega> provider master ctxID paramID (Inr v) w w') (\<lambda>_ _. False) \<omega> w"
proof -
  have "wp (rewriteRow m ctxID paramID pt raw) (\<lambda>_. kept \<omega> provider master ctxID paramID (Inr v) w) (\<lambda>_ _. False) \<omega> w"
    if m: "master = Some m" and pt: "encodePlaintext codec v = Inr pt" for m pt
    unfolding kept_def m
    by (rule wp_rewriteRow [OF laws kr [OF m]]) (use row m decode_encode [OF pt] in simp_all)
  then have "wp (case master of None \<Rightarrow> returnG () | Some m \<Rightarrow> (case encodePlaintext codec v of
             Inl _ \<Rightarrow> returnG () | Inr plaintext \<Rightarrow> rewriteRow m ctxID paramID plaintext raw))
      (\<lambda>_. kept \<omega> provider master ctxID paramID (Inr v) w) (\<lambda>_ _. False) \<omega> w"
    using kept_refl [OF row] by (auto simp: wp_simps split: option.splits sum.splits)
  then have "wp (bindG (case master of None \<Rightarrow> returnG () | Some m \<Rightarrow> (case encodePlaintext codec v of
             Inl _ \<Rightarrow> returnG () | Inr plaintext \<Rightarrow> rewriteRow m ctxID paramID plaintext raw)) (\<lambda>_. returnG v))
     (\<lambda>v' w'. v' = v \<and> kept \<omega> provider master ctxID paramID (Inr v) w w') (\<lambda>_ _. False) \<omega> w"
    unfolding wp_bindG by (rule wp_mono) (auto simp: wp_returnG)
  then show ?thesis using env dec
    by (simp add: loadExisting_def wp_bindG [of "askG _"] wp_askG wp_bindG [of "liftE _"] wp_liftE)
qed

lemma wp_loadExisting:
  assumes laws: "cryptoLaws \<omega>" and kr: "\<And>m. master = Some m \<Longrightarrow> keyringOk \<omega> provider m"
    and row: "lookupParam w paramID = Some row"
    and x: "x = rowValue \<omega> provider master ctxID paramID codec (pm_value row)"
  shows "wp (loadExisting provider master ctxID paramID (pm_value row) codec)
     (\<lambda>v w'. x = Inr v \<and> kept \<omega> provider master ctxID paramID x w w')
     (\<lambda>e w'. x = Inl e \<and> kept \<omega> provider master ctxID paramID x w w') \<omega> w"
proof -
  have h: "holds \<omega> provider master ctxID paramID w x" using row x by (auto simp: holds_def)
  note stays = kept_refl [OF h]
  consider (plain) "looksLikeEnvelope \<omega> (pm_value row) = None"
    | (unset) env where "looksLikeEnvelope \<omega> (pm_value row) = Some env" "master = None"
    | (shut) env m e where "looksLikeEnvelope \<omega> (pm_value row) = Some env" "master = Some m"
        "openedRow \<omega> provider m ctxID paramID env = Inl e"
    | (opened) env m pt b where "looksLikeEnvelope \<omega> (pm_value row) = Some env" "master = Some m"
        "openedRow \<omega> provider m ctxID paramID env = Inr (pt, b)"
    by (metis not_Some_eq old.sum.exhaust surj_pair)
  then show ?thesis
  proof cases
    case plain
    then have xd: "x = decodePlaintext codec (pm_value row)" by (simp add: x rowValue_def)
    show ?thesis
    proof (cases x)
      case (Inl e)
      then show ?thesis using plain xd stays by (simp add: loadExisting_def wp_simps)
    next
      case (Inr v)
      have hv: "holds \<omega> provider master ctxID paramID w (Inr v)" using h Inr by simp
      have dv: "decodePlaintext codec (pm_value row) = Inr v" using xd Inr by simp
      show ?thesis unfolding Inr by (rule wp_mono [OF wp_loadPlain [OF laws kr plain dv hv]]) simp_all
    qed
  next
    case unset
    then show ?thesis using stays by (simp add: loadExisting_def wp_simps x rowValue_def)
  next
    case shut
    then show ?thesis using stays by (simp add: loadExisting_def wp_simps x rowValue_def)
  next
    case opened
    have xd: "x = decodePlaintext codec pt" using opened by (simp add: x rowValue_def)
    show ?thesis unfolding opened(2)
      by (rule wp_loadEnvelope [OF laws kr [OF opened(2)] opened(1,3) _ xd]) (use h opened(2) in simp)
  qed
qed

end

text \<open>Byte slices and their hexadecimal text.\<close>

interpretation bytes: param_value bytesCodec
  by unfold_locales (auto simp: bytesCodec_def)

end
