(* ===== verification/Param_Load.thy ===== *)
theory Param_Load
  imports Param_Facts
begin

section \<open>The whole load: context, fingerprint, existing and fresh rows\<close>

subsection \<open>What one row's programs leave of the others\<close>

text \<open>Lookups of every other parameter answer as before.\<close>

definition framed :: "string \<Rightarrow> 'w app_world_scheme \<Rightarrow> 'w app_world_scheme \<Rightarrow> bool" where
  "framed i w w' \<longleftrightarrow> (\<forall>j. j \<noteq> i \<longrightarrow> lookupParam w' j = lookupParam w j)"

lemma framed_refl [simp]: "framed i w (w\<lparr>tick := n\<rparr>)" "framed i w w"
  by (simp_all add: framed_def)

lemma framedD: "framed i w w' \<Longrightarrow> j \<noteq> i \<Longrightarrow> lookupParam w' j = lookupParam w j"
  by (simp add: framed_def)

lemma lookup_append: "lookupParam (w\<lparr>w_params := w_params w @ [r]\<rparr>) j =
   (case lookupParam w j of Some x \<Rightarrow> Some x | None \<Rightarrow> if pm_id r = j then Some r else None)"
proof -
  have "find P (xs @ [y]) = (case find P xs of Some x \<Rightarrow> Some x | None \<Rightarrow> if P y then Some y else None)" for P xs and y :: param_row
    by (induction xs) auto
  then show ?thesis by (simp add: lookupParam_def)
qed

lemma framed_append [simp]: "framed (pm_id r) w (w\<lparr>tick := n, w_params := w_params w @ [r]\<rparr>)"
  using lookup_append [of "w\<lparr>tick := n\<rparr>" r] by (auto simp: framed_def split: option.splits)

lemma framed_swap [simp]: "framed i w (swapParam i raw e now (w\<lparr>tick := n\<rparr>))"
  by (auto simp: framed_def lookup_swapParam casHit_def lookupParam_Some dest: lookupParam_Some split: option.splits)

text \<open>Rows of distinct purposes have distinct ids.\<close>

lemmas param_ids = paramsKeyOAuth2RSAKey_def paramsKeyOAuth2GlobalSecret_def paramsKeyOAuth2EnvelopeCtxID_def fingerprintParamID_def

subsection \<open>The context of the app\<close>

definition contextOf :: "'o crypto_envir_scheme \<Rightarrow> 'w app_world_scheme \<Rightarrow> string option" where
  "contextOf \<omega> w = (case lookupParam w paramsKeyOAuth2EnvelopeCtxID of
     None \<Rightarrow> None | Some p \<Rightarrow> unmarshalString \<omega> (pm_value p))"

lemma contextOf_tick [simp]: "contextOf \<omega> (w\<lparr>tick := n\<rparr>) = contextOf \<omega> w"
  by (simp add: contextOf_def)

lemma contextOf_framed: "framed i w w' \<Longrightarrow> i \<noteq> paramsKeyOAuth2EnvelopeCtxID \<Longrightarrow> contextOf \<omega> w' = contextOf \<omega> w"
  by (simp add: contextOf_def framed_def)

text \<open>
  The documented behaviour of the identifiers and of the JSON of keys: a UUID is made of characters that
  JSON writes as they are; a key reads back as it was written, and its JSON has no \<open>ct\<close> field.
\<close>

definition appLaws :: "'o app_envir_scheme \<Rightarrow> bool" where
  "appLaws \<omega> \<longleftrightarrow> cryptoLaws \<omega> \<and> (\<forall>n. uuid \<omega> n \<noteq> [] \<and> list_all jsonSafe (uuid \<omega> n))
     \<and> (\<forall>k s. marshalJWK \<omega> k = Some s \<longrightarrow> unmarshalJWK \<omega> s = Some k
          \<and> (\<forall>e. unmarshalEnvelope \<omega> (trimSpace s) = Some e \<longrightarrow> env_CT e = []))"

lemma appLawsD:
  assumes "appLaws \<omega>"
  shows "cryptoLaws \<omega>" "uuid \<omega> n \<noteq> []" "unmarshalString \<omega> (jsonString (uuid \<omega> n)) = Some (uuid \<omega> n)"
    "marshalJWK \<omega> k = Some s \<Longrightarrow> unmarshalJWK \<omega> s = Some k"
    "marshalJWK \<omega> k = Some s \<Longrightarrow> unmarshalEnvelope \<omega> (trimSpace s) = Some e \<Longrightarrow> env_CT e = []"
  using assms cryptoLawsD(7) [of \<omega>] by (auto simp: appLaws_def list_all_iff)

text \<open>The context is a non-empty text, and from then on it is the stored one.\<close>

lemma wp_getOrCreateEnvelopeContext:
  assumes "appLaws \<omega>"
  shows "wp getOrCreateEnvelopeContext
     (\<lambda>ctx w'. contextOf \<omega> w' = Some ctx \<and> ctx \<noteq> [] \<and> framed paramsKeyOAuth2EnvelopeCtxID w w'
        \<and> (\<forall>c. contextOf \<omega> w = Some c \<longrightarrow> ctx = c))
     (\<lambda>_ w'. framed paramsKeyOAuth2EnvelopeCtxID w w') \<omega> w"
proof -
  let ?row = "\<lambda>n m. \<lparr>pm_id = paramsKeyOAuth2EnvelopeCtxID, pm_value = jsonString (uuid \<omega> n), pm_created = m, pm_updated = m\<rparr>"
  have fresh: "contextOf \<omega> (w\<lparr>tick := k, w_params := w_params w @ [?row n m]\<rparr>) = Some (uuid \<omega> n)"
    if "lookupParam w paramsKeyOAuth2EnvelopeCtxID = None" for n m k
    using that lookup_append [of "w\<lparr>tick := k\<rparr>" "?row n m" paramsKeyOAuth2EnvelopeCtxID] appLawsD(3) [OF assms]
    by (simp add: contextOf_def)
  have fr: "framed paramsKeyOAuth2EnvelopeCtxID w (w\<lparr>tick := k, w_params := w_params w @ [?row n m]\<rparr>)" for n m k
    using framed_append [of "?row n m" w k] by simp
  show ?thesis
    using fresh fr appLawsD(2) [OF assms]
    by (auto simp: getOrCreateEnvelopeContext_def wp_simps Let_def contextOf_def split: option.splits)
qed

subsection \<open>The fingerprint of the master key\<close>

lemma wp_saveParamValue [wp_simps]: "wp (saveParamValue i raw) Q E \<omega> w =
   (let w' = w\<lparr>tick := Suc (Suc (tick w))\<rparr> in
    if dbfail \<omega> (Suc (tick w)) then E driverErr w'
    else if lookupParam w i \<noteq> None then E constraintErr w'
    else Q () (w'\<lparr>w_params := w_params w @ [\<lparr>pm_id = i, pm_value = raw, pm_created = clock \<omega> (tick w), pm_updated = clock \<omega> (tick w)\<rparr>]\<rparr>))"
  by (simp add: saveParamValue_def wp_simps Let_def)

lemma framed_saved: "framed i w (w\<lparr>tick := n, w_params := w_params w @ [\<lparr>pm_id = i, pm_value = raw, pm_created = t, pm_updated = t\<rparr>]\<rparr>)"
  using framed_append [of "\<lparr>pm_id = i, pm_value = raw, pm_created = t, pm_updated = t\<rparr>" w n] by simp

lemma framed_verify:
  "wp (verifyOrWriteFingerprint master provider) (\<lambda>_. framed fingerprintParamID w) (\<lambda>_. framed fingerprintParamID w) \<omega> w"
  by (auto simp: verifyOrWriteFingerprint_def wp_simps Let_def framed_saved simp del: swapParam_tick
      split: option.splits sum.splits)

text \<open>A stored fingerprint that is neither the active one nor in the keyring stops the load; nothing is written.\<close>

definition storedFingerprint :: "'o crypto_envir_scheme \<Rightarrow> 'w app_world_scheme \<Rightarrow> string option" where
  "storedFingerprint \<omega> w = (case lookupParam w fingerprintParamID of
     None \<Rightarrow> None | Some p \<Rightarrow> unmarshalString \<omega> (pm_value p))"

lemma verify_mismatch:
  assumes "storedFingerprint \<omega> w = Some s" "s \<noteq> fingerprintOf \<omega> m"
    and "case resolveKeyring \<omega> provider of Inl _ \<Rightarrow> True | Inr kr \<Rightarrow> map_of kr s = None"
  shows "wp (verifyOrWriteFingerprint (Some m) provider) (\<lambda>_ _. False) (\<lambda>_ w'. \<exists>n. w' = w\<lparr>tick := n\<rparr>) \<omega> w"
  using assms by (auto simp: verifyOrWriteFingerprint_def storedFingerprint_def wp_simps Let_def split: option.splits sum.splits)

subsection \<open>The provider of a prefix, and what is never written\<close>

definition providerAt :: "'o crypto_envir_scheme \<Rightarrow> 'w app_world_scheme \<Rightarrow> string \<Rightarrow> master_provider" where
  "providerAt \<omega> w prefix = (case getInstanceAt w prefix of
     Some inst \<Rightarrow> (case cf_MasterKeyProvider (it_cfg inst) of Some p \<Rightarrow> p | None \<Rightarrow> DefaultMasterKeyProvider \<omega>)
   | None \<Rightarrow> DefaultMasterKeyProvider \<omega>)"

lemma wp_activeMasterKeyProviderAt [wp_simps]: "wp (activeMasterKeyProviderAt prefix) Q E \<omega> w = Q (providerAt \<omega> w prefix) w"
  by (simp add: activeMasterKeyProviderAt_def providerAt_def wp_simps split: option.splits)

text \<open>Loading reads and writes the _params table and nothing else of the world.\<close>

definition sameStore :: "'w app_world_scheme \<Rightarrow> 'w app_world_scheme \<Rightarrow> bool" where
  "sameStore w w' \<longleftrightarrow> w_store w' = w_store w"

lemma sameStore_rel [simp]: "preorderR sameStore" "tickfree sameStore"
  by (auto simp: preorderR_def tickfree_def sameStore_def)

lemma keeps_store_params: "keeps sameStore (modifyG (\<lambda>w. w\<lparr>w_params := f w\<rparr>))"
  by (rule keeps_modifyG) (simp add: sameStore_def)

lemmas load_defs = loadParamFromAppStorageAt_def activeMasterKeyProviderAt_def verifyOrWriteFingerprint_def
  getOrCreateEnvelopeContext_def loadExisting_def loadFresh_def loadDecodedParam_def openRow_def rewriteRow_def
  sealEnvelope_def randomBytes_def updateParamValueCAS_def execParamCAS_def saveParamValue_def insertParam_def
  queryParam_def liftE_def

lemma keeps_store_load: "keeps sameStore gen \<Longrightarrow> keeps sameStore (loadParamFromAppStorageAt prefix i codec gen)"
  unfolding load_defs by (intro keeps_intros sameStore_rel keeps_store_params | assumption)+

lemma providerAt_sameStore: "sameStore w w' \<Longrightarrow> providerAt \<omega> w' prefix = providerAt \<omega> w prefix"
  by (simp add: providerAt_def getInstanceAt_def sameStore_def)

subsection \<open>The reader of a row\<close>

text \<open>
  \<open>reader \<omega> p w master ctx\<close>: a load with the provider \<open>p\<close> uses this master and this context.
\<close>

definition reader :: "'o crypto_envir_scheme \<Rightarrow> master_provider \<Rightarrow> 'w app_world_scheme \<Rightarrow> string option \<Rightarrow> string \<Rightarrow> bool" where
  "reader \<omega> p w master ctx \<longleftrightarrow> mk_Master p = Inr master
     \<and> (case master of None \<Rightarrow> ctx = [] | Some _ \<Rightarrow> contextOf \<omega> w = Some ctx)"

lemma reader_unique: "reader \<omega> p w master ctx \<Longrightarrow> reader \<omega> p w master' ctx' \<Longrightarrow> master' = master \<and> ctx' = ctx"
  by (auto simp: reader_def split: option.splits)

lemma reader_framed: "framed i w w' \<Longrightarrow> i \<noteq> paramsKeyOAuth2EnvelopeCtxID \<Longrightarrow> reader \<omega> p w' master ctx = reader \<omega> p w master ctx"
  by (simp add: reader_def contextOf_framed cong: option.case_cong)

lemma lookup_otherParams: "j \<noteq> i \<Longrightarrow> find (\<lambda>r. pm_id r = j) (otherParams w i) = lookupParam w j"
proof -
  assume "j \<noteq> i"
  then have "find (\<lambda>r. pm_id r = j) (filter (\<lambda>r. pm_id r \<noteq> i) rs) = find (\<lambda>r. pm_id r = j) rs" for rs
    by (induction rs) auto
  then show ?thesis by (simp add: otherParams_def lookupParam_def)
qed

lemma framed_otherParams: "otherParams w' i = otherParams w i \<Longrightarrow> framed i w w'"
  unfolding framed_def using lookup_otherParams [of _ i w] lookup_otherParams [of _ i w'] by metis

text \<open>The purposes a parameter id must differ from.\<close>

definition ownId :: "string \<Rightarrow> bool" where
  "ownId i \<longleftrightarrow> i \<noteq> fingerprintParamID \<and> i \<noteq> paramsKeyOAuth2EnvelopeCtxID"

lemma ctx_is_not_fingerprint [simp]: "paramsKeyOAuth2EnvelopeCtxID \<noteq> fingerprintParamID" "fingerprintParamID \<noteq> paramsKeyOAuth2EnvelopeCtxID"
  by (simp_all add: param_ids)

text \<open>The steps of a load before the row is read: they leave the row alone and fix the reader.\<close>

lemma wp_load_start:
  assumes laws: "appLaws \<omega>" and own: "ownId i"
    and cont: "\<And>master ctx w'. reader \<omega> (providerAt \<omega> w prefix) w' master ctx \<Longrightarrow>
       (\<And>j. ownId j \<Longrightarrow> lookupParam w' j = lookupParam w j) \<Longrightarrow>
       (\<And>c. contextOf \<omega> w = Some c \<Longrightarrow> contextOf \<omega> w' = Some c) \<Longrightarrow>
       wp (bindG (attemptG (queryParam i)) (\<lambda>r. case r of
       Inl err \<Rightarrow>
         if \<not> errorsIs err ErrNoRows then throwG (ErrText ''failed to query db'' (Some err))
         else loadFresh (providerAt \<omega> w prefix) master ctx i codec generator
     | Inr param \<Rightarrow> loadExisting (providerAt \<omega> w prefix) master ctx i (pm_value param) codec)) Q E \<omega> w'"
    and err: "\<And>e w'. (\<And>j. ownId j \<Longrightarrow> lookupParam w' j = lookupParam w j) \<Longrightarrow> E e w'"
  shows "wp (loadParamFromAppStorageAt prefix i codec generator) Q E \<omega> w"
proof -
  let ?p = "providerAt \<omega> w prefix"
  let ?same = "\<lambda>w'. \<forall>j. ownId j \<longrightarrow> lookupParam w' j = lookupParam w j"
  have ctx: "wp (if master \<noteq> None then getOrCreateEnvelopeContext else returnG [])
      (\<lambda>ctx w2. (case master of None \<Rightarrow> ctx = [] | Some _ \<Rightarrow> contextOf \<omega> w2 = Some ctx) \<and> ?same w2
          \<and> (\<forall>c. contextOf \<omega> w = Some c \<longrightarrow> contextOf \<omega> w2 = Some c))
      (\<lambda>_. ?same) \<omega> w1" if w1: "framed fingerprintParamID w w1" for master w1
  proof (cases master)
    case None
    with w1 show ?thesis by (auto simp: wp_returnG ownId_def framed_def contextOf_def)
  next
    case (Some m)
    have "contextOf \<omega> w1 = contextOf \<omega> w" using w1 by (rule contextOf_framed) simp
    then show ?thesis using Some w1
      by (auto intro!: wp_mono [OF wp_getOrCreateEnvelopeContext [OF laws]] simp: framed_def ownId_def)
  qed
  have verify: "wp (verifyOrWriteFingerprint master ?p) (\<lambda>_. framed fingerprintParamID w) (\<lambda>_. ?same) \<omega> w" for master
    by (rule wp_mono [OF framed_verify]) (auto simp: framed_def ownId_def)
  show ?thesis
  proof (cases "mk_Master ?p")
    case (Inl e)
    then show ?thesis using err [of w] by (simp add: loadParamFromAppStorageAt_def wp_simps)
  next
    case (Inr master)
    show ?thesis
      unfolding loadParamFromAppStorageAt_def wp_bindG [of "activeMasterKeyProviderAt _"] wp_activeMasterKeyProviderAt
        wp_bindG [of "mapErrG _ _"] wp_mapErrG wp_liftE Inr sum.case wp_bindG [of "verifyOrWriteFingerprint _ _"]
    proof (rule wp_mono [OF verify])
      fix w1 assume w1: "framed fingerprintParamID w w1"
      show "wp (bindG (if master \<noteq> None then getOrCreateEnvelopeContext else returnG []) (\<lambda>ctxID.
          bindG (attemptG (queryParam i)) (\<lambda>r. case r of
           Inl err \<Rightarrow>
             if \<not> errorsIs err ErrNoRows then throwG (ErrText ''failed to query db'' (Some err))
             else loadFresh ?p master ctxID i codec generator
         | Inr param \<Rightarrow> loadExisting ?p master ctxID i (pm_value param) codec))) Q E \<omega> w1"
        unfolding wp_bindG [of "if master \<noteq> None then _ else _"]
        by (rule wp_mono [OF ctx [OF w1]]) (auto intro!: cont err simp: reader_def Inr)
    qed (auto intro: err)
  qed
qed

subsection \<open>What a load returns is what the row holds\<close>

context param_value
begin

lemma kept_lookup:
  assumes "kept \<omega> provider master ctx i x w w'"
  shows "framed i w w'" "\<exists>r'. lookupParam w' i = Some r' \<and> rowValue \<omega> provider master ctx i codec (pm_value r') = x"
  using assms by (auto simp: kept_def holds_def intro: framed_otherParams)

text \<open>
  A fresh value, in any world: also in one where another instance has inserted the row since it was found
  missing. The value returned is the one of the row, and a failure changes nothing.
\<close>

lemma wp_loadFresh:
  assumes laws: "cryptoLaws \<omega>" and kr: "\<And>m. master = Some m \<Longrightarrow> keyringOk \<omega> provider m"
    and plain: "\<And>v s. encodePlaintext codec v = Inr s \<Longrightarrow> looksLikeEnvelope \<omega> s = None"
    and gen: "\<And>w. wp generator (\<lambda>_ w'. \<exists>n. w' = w\<lparr>tick := n\<rparr>) (\<lambda>_ w'. \<exists>n. w' = w\<lparr>tick := n\<rparr>) \<omega> w"
  shows "wp (loadFresh provider master ctx i codec generator)
     (\<lambda>v w'. \<exists>r'. lookupParam w' i = Some r' \<and> rowValue \<omega> provider master ctx i codec (pm_value r') = Inr v
        \<and> (\<forall>r. lookupParam w i = Some r \<longrightarrow> r' = r) \<and> framed i w w')
     (\<lambda>_ w'. \<exists>n. w' = w\<lparr>tick := n\<rparr>) \<omega> w"
proof -
  let ?Q = "\<lambda>v w'. \<exists>r'. lookupParam w' i = Some r' \<and> rowValue \<omega> provider master ctx i codec (pm_value r') = Inr v
        \<and> (\<forall>r. lookupParam w i = Some r \<longrightarrow> r' = r) \<and> framed i w w'"
  let ?E = "\<lambda>_ w'. \<exists>n. w' = w\<lparr>tick := n\<rparr>"
  have save: "wp (bindG (attemptG (saveParamValue i row)) (\<lambda>s. case s of
       Inr _ \<Rightarrow> returnG v
     | Inl err \<Rightarrow> bindG (attemptG (queryParam i)) (\<lambda>again. case again of
           Inr recovered \<Rightarrow> loadDecodedParam provider master ctx i (pm_value recovered) codec
         | Inl _ \<Rightarrow> throwG (ErrText ''failed to save value'' (Some err))))) ?Q ?E \<omega> (w\<lparr>tick := n\<rparr>)"
    if "rowValue \<omega> provider master ctx i codec row = Inr v" for row v n
    using that
    by (auto simp: wp_simps Let_def lookup_append framed_saved lookup_append [of "w\<lparr>tick := _\<rparr>", simplified]
        split: option.splits sum.splits)
  have sealed: "wp (case master of
         None \<Rightarrow> returnG plaintext
       | Some m \<Rightarrow> mapErrG (\<lambda>e. ErrText ''failed to seal envelope'' (Some e)) (sealEnvelope m ctx i plaintext))
      (\<lambda>row w'. rowValue \<omega> provider master ctx i codec row = Inr v \<and> (\<exists>n. w' = w\<lparr>tick := n\<rparr>)) ?E \<omega> (w\<lparr>tick := n\<rparr>)"
    if enc: "encodePlaintext codec v = Inr plaintext" for v plaintext n
  proof (cases master)
    case None
    then show ?thesis using plain [OF enc] decode_encode [OF enc] by (auto simp: wp_returnG rowValue_def)
  next
    case (Some m)
    have "rowValue \<omega> provider (Some m) ctx i codec (marshalEnvelope (sealWith \<omega> m ctx i plaintext nonce)) = Inr v"
      if "length nonce = gcmNonceSize" for nonce
      using rowValue_sealed [OF laws kr [OF Some] that, of ctx i codec plaintext] decode_encode [OF enc] by simp
    then show ?thesis unfolding Some option.case wp_mapErrG
      by (intro wp_sealEnvelope [OF laws]) auto
  qed
  show ?thesis
    unfolding loadFresh_def wp_bindG [of "mapErrG _ generator"] wp_mapErrG [of _ generator]
  proof (rule wp_mono [OF gen])
    fix v w1 assume "\<exists>n. w1 = w\<lparr>tick := n\<rparr>"
    then obtain n where w1: "w1 = w\<lparr>tick := n\<rparr>" by blast
    show "wp (bindG (liftE (\<lambda>_. encodePlaintext codec v)) (\<lambda>plaintext.
     bindG (case master of
         None \<Rightarrow> returnG plaintext
       | Some m \<Rightarrow> mapErrG (\<lambda>e. ErrText ''failed to seal envelope'' (Some e)) (sealEnvelope m ctx i plaintext)) (\<lambda>row.
     bindG (attemptG (saveParamValue i row)) (\<lambda>s. case s of
       Inr _ \<Rightarrow> returnG v
     | Inl err \<Rightarrow> bindG (attemptG (queryParam i)) (\<lambda>again. case again of
           Inr recovered \<Rightarrow> loadDecodedParam provider master ctx i (pm_value recovered) codec
         | Inl _ \<Rightarrow> throwG (ErrText ''failed to save value'' (Some err))))))) ?Q ?E \<omega> w1"
    proof (cases "encodePlaintext codec v")
      case (Inr plaintext)
      show ?thesis unfolding wp_bindG [of "liftE _"] wp_liftE Inr sum.case w1 wp_bindG [of "case master of None \<Rightarrow> _ | Some m \<Rightarrow> _ m"]
        by (rule wp_mono [OF sealed [OF Inr]]) (auto intro: save)
    qed (auto simp: wp_simps w1)
  qed auto
qed

text \<open>The whole load: its result is what the row then holds, and an existing row keeps its value.\<close>

lemma wp_loadAt:
  assumes laws: "appLaws \<omega>" and own: "ownId i"
    and kr: "\<And>m. mk_Master (providerAt \<omega> w prefix) = Inr (Some m) \<Longrightarrow> keyringOk \<omega> (providerAt \<omega> w prefix) m"
    and plain: "\<And>v s. encodePlaintext codec v = Inr s \<Longrightarrow> looksLikeEnvelope \<omega> s = None"
    and gen: "\<And>w. wp generator (\<lambda>_ w'. \<exists>n. w' = w\<lparr>tick := n\<rparr>) (\<lambda>_ w'. \<exists>n. w' = w\<lparr>tick := n\<rparr>) \<omega> w"
  shows "wp (loadParamFromAppStorageAt prefix i codec generator)
     (\<lambda>v w'. \<exists>master ctx r'. reader \<omega> (providerAt \<omega> w prefix) w' master ctx \<and> lookupParam w' i = Some r'
        \<and> rowValue \<omega> (providerAt \<omega> w prefix) master ctx i codec (pm_value r') = Inr v
        \<and> (\<forall>r. lookupParam w i = Some r \<longrightarrow> rowValue \<omega> (providerAt \<omega> w prefix) master ctx i codec (pm_value r) = Inr v)
        \<and> (\<forall>j. ownId j \<and> j \<noteq> i \<longrightarrow> lookupParam w' j = lookupParam w j)
        \<and> (\<forall>c. contextOf \<omega> w = Some c \<longrightarrow> contextOf \<omega> w' = Some c))
     (\<lambda>_ w'. (\<forall>r. lookupParam w i = Some r \<longrightarrow> (\<exists>r'. lookupParam w' i = Some r' \<and>
          (r' = r \<or> (\<exists>master ctx. reader \<omega> (providerAt \<omega> w prefix) w' master ctx \<and>
             rowValue \<omega> (providerAt \<omega> w prefix) master ctx i codec (pm_value r')
               = rowValue \<omega> (providerAt \<omega> w prefix) master ctx i codec (pm_value r)))))
        \<and> (\<forall>j. ownId j \<and> j \<noteq> i \<longrightarrow> lookupParam w' j = lookupParam w j)) \<omega> w"
    (is "wp _ ?Q ?E \<omega> w")
proof (rule wp_load_start [OF laws own])
  let ?p = "providerAt \<omega> w prefix"
  fix master ctx and w1 :: "'c app_world_scheme"
  assume rd: "reader \<omega> ?p w1 master ctx" and same: "\<And>j. ownId j \<Longrightarrow> lookupParam w1 j = lookupParam w j"
    and ctx1: "\<And>c. contextOf \<omega> w = Some c \<Longrightarrow> contextOf \<omega> w1 = Some c"
  have ic: "i \<noteq> paramsKeyOAuth2EnvelopeCtxID" using own by (simp add: ownId_def)
  have krm: "keyringOk \<omega> ?p m" if "master = Some m" for m using kr rd that by (simp add: reader_def)
  let ?w = "w1\<lparr>tick := Suc (tick w1)\<rparr>"
  have step: "reader \<omega> ?p w' master ctx" "contextOf \<omega> w' = contextOf \<omega> ?w" if "framed i ?w w'" for w'
    using rd by (simp_all add: reader_framed [OF that ic] contextOf_framed [OF that ic] reader_framed [OF _ ic, of w1 ?w])
  have rows: "lookupParam w' j = lookupParam w j" if "framed i ?w w'" "ownId j" "j \<noteq> i" for w' j
    using framedD [OF that(1,3)] same [OF that(2)] by simp
  have fresh: "wp (loadFresh ?p master ctx i codec generator) ?Q ?E \<omega> ?w" if none: "lookupParam w1 i = None"
  proof (rule wp_mono [OF wp_loadFresh [OF appLawsD(1) [OF laws] krm plain gen]])
    fix v w' assume "\<exists>r'. lookupParam w' i = Some r' \<and> rowValue \<omega> ?p master ctx i codec (pm_value r') = Inr v
        \<and> (\<forall>r. lookupParam ?w i = Some r \<longrightarrow> r' = r) \<and> framed i ?w w'"
    then obtain r' where r': "lookupParam w' i = Some r'" "rowValue \<omega> ?p master ctx i codec (pm_value r') = Inr v"
      and fr: "framed i ?w w'" by blast
    have "reader \<omega> ?p w' master ctx" "\<forall>c. contextOf \<omega> w = Some c \<longrightarrow> contextOf \<omega> w' = Some c"
      using step [OF fr] ctx1 by simp_all
    moreover have "lookupParam w i = None" using same [OF own] none by simp
    ultimately show "?Q v w'" using r' rows [OF fr] by (intro exI [of _ master] exI [of _ ctx] exI [of _ r']) simp
  qed (use same own none in auto)
  have existing: "wp (loadExisting ?p master ctx i (pm_value r) codec) ?Q ?E \<omega> ?w" if some: "lookupParam w1 i = Some r" for r
  proof (rule wp_mono [OF wp_loadExisting [OF appLawsD(1) [OF laws] krm _ refl]])
    fix v w' assume k: "rowValue \<omega> ?p master ctx i codec (pm_value r) = Inr v
      \<and> kept \<omega> ?p master ctx i (rowValue \<omega> ?p master ctx i codec (pm_value r)) ?w w'"
    obtain r' where r': "lookupParam w' i = Some r'" "rowValue \<omega> ?p master ctx i codec (pm_value r') = Inr v"
      using kept_lookup(2) k by metis
    have fr: "framed i ?w w'" using kept_lookup(1) k by blast
    have "reader \<omega> ?p w' master ctx" "\<forall>c. contextOf \<omega> w = Some c \<longrightarrow> contextOf \<omega> w' = Some c"
      using step [OF fr] ctx1 by simp_all
    moreover have "lookupParam w i = Some r" using same [OF own] some by simp
    ultimately show "?Q v w'" using r' k rows [OF fr] by (intro exI [of _ master] exI [of _ ctx] exI [of _ r']) simp
  next
    fix e w' assume k: "rowValue \<omega> ?p master ctx i codec (pm_value r) = Inl e
      \<and> kept \<omega> ?p master ctx i (rowValue \<omega> ?p master ctx i codec (pm_value r)) ?w w'"
    have fr: "framed i ?w w'" using kept_lookup(1) k by blast
    have "reader \<omega> ?p w' master ctx" using step(1) [OF fr] by simp
    moreover have "lookupParam w i = Some r" using same [OF own] some by simp
    moreover obtain r' where "lookupParam w' i = Some r'"
      "rowValue \<omega> ?p master ctx i codec (pm_value r') = rowValue \<omega> ?p master ctx i codec (pm_value r)"
      using kept_lookup(2) k by metis
    ultimately show "?E e w'" using rows [OF fr] by auto
  qed (simp_all add: some)
  show "wp (bindG (attemptG (queryParam i)) (\<lambda>r. case r of
       Inl err \<Rightarrow>
         if \<not> errorsIs err ErrNoRows then throwG (ErrText ''failed to query db'' (Some err))
         else loadFresh ?p master ctx i codec generator
     | Inr param \<Rightarrow> loadExisting ?p master ctx i (pm_value param) codec)) ?Q ?E \<omega> w1"
    using fresh existing same own
    by (auto simp: wp_bindG wp_attemptG wp_queryParam Let_def wp_throwG split: option.splits)
qed (auto simp: own)

end

end
