(* ===== verification/Param_Rotation.thy ===== *)
theory Param_Rotation
  imports Param_Load
begin

section \<open>Rotation of the master key, when nothing fails\<close>

text \<open>
  Without failures a load ends in the state that rotation wants: the row and the stored fingerprint are those of
  the active master, so that a provider that knows only this master reads the same value.
\<close>

definition noFailures :: "'o crypto_envir_scheme \<Rightarrow> bool" where
  "noFailures \<omega> \<longleftrightarrow> (\<forall>n. \<not> dbfail \<omega> n) \<and> (\<forall>n k. randRead \<omega> n k \<noteq> None)"

lemma noFailuresD: "noFailures \<omega> \<Longrightarrow> \<not> dbfail \<omega> n" "noFailures \<omega> \<Longrightarrow> randRead \<omega> n k \<noteq> None"
  by (simp_all add: noFailures_def)

text \<open>The keyring of one master.\<close>

definition alone :: "'o crypto_envir_scheme \<Rightarrow> master_provider \<Rightarrow> string \<Rightarrow> bool" where
  "alone \<omega> provider m \<longleftrightarrow> resolveKeyring \<omega> provider = Inr [(fingerprintOf \<omega> m, m)]"

lemma alone_keyringOk: "alone \<omega> provider m \<Longrightarrow> keyringOk \<omega> provider m"
  by (simp add: alone_def keyringOk_def)

lemma jsonSafe_fingerprint: "\<forall>c \<in> set (fingerprintOf \<omega> m). jsonSafe c"
  by (simp add: fingerprintOf_def set_hexEncode)

subsection \<open>The fingerprint\<close>

text \<open>The stored fingerprint is missing, the active one, or one of the keyring.\<close>

definition fingerprintOk :: "'o crypto_envir_scheme \<Rightarrow> master_provider \<Rightarrow> string \<Rightarrow> 'w app_world_scheme \<Rightarrow> bool" where
  "fingerprintOk \<omega> provider m w \<longleftrightarrow> lookupParam w fingerprintParamID = None
     \<or> (\<exists>s. storedFingerprint \<omega> w = Some s \<and>
          (s = fingerprintOf \<omega> m \<or> (\<exists>kr. resolveKeyring \<omega> provider = Inr kr \<and> map_of kr s \<noteq> None)))"

lemma stored_fingerprint_ok: "storedFingerprint \<omega> w = Some (fingerprintOf \<omega> m) \<Longrightarrow> fingerprintOk \<omega> provider m w"
  by (auto simp: fingerprintOk_def)

lemma wp_verify_total:
  assumes laws: "cryptoLaws \<omega>" and nf: "noFailures \<omega>" and ok: "fingerprintOk \<omega> provider m w"
  shows "wp (verifyOrWriteFingerprint (Some m) provider)
     (\<lambda>_ w'. framed fingerprintParamID w w' \<and> storedFingerprint \<omega> w' = Some (fingerprintOf \<omega> m)) (\<lambda>_ _. False) \<omega> w"
proof -
  note [simp] = noFailuresD(1) [OF nf] cryptoLawsD(7) [OF laws jsonSafe_fingerprint]
  let ?i = fingerprintParamID
  have ins: "storedFingerprint \<omega> (w\<lparr>tick := n, w_params := w_params w @ [\<lparr>pm_id = ?i, pm_value = jsonString (fingerprintOf \<omega> m),
      pm_created = t, pm_updated = t\<rparr>]\<rparr>) = Some (fingerprintOf \<omega> m)"
    if "lookupParam w ?i = None" for n t
    using that lookup_append [of "w\<lparr>tick := n\<rparr>"] by (simp add: storedFingerprint_def)
  have swp: "storedFingerprint \<omega> (swapParam ?i (jsonString (fingerprintOf \<omega> m)) (pm_value r) t (w\<lparr>tick := n\<rparr>)) = Some (fingerprintOf \<omega> m)"
    if "lookupParam w ?i = Some r" for r n t
    using that lookupParam_Some [OF that] by (simp add: storedFingerprint_def lookup_swapParam casHit_def)
  have tck: "storedFingerprint \<omega> (w\<lparr>tick := n\<rparr>) = storedFingerprint \<omega> w" for n by (simp add: storedFingerprint_def)
  show ?thesis
  proof (cases "lookupParam w ?i")
    case None
    then show ?thesis by (simp add: verifyOrWriteFingerprint_def wp_simps Let_def ins framed_saved)
  next
    case (Some r)
    then obtain s where s: "unmarshalString \<omega> (pm_value r) = Some s"
      "s = fingerprintOf \<omega> m \<or> (\<exists>kr. resolveKeyring \<omega> provider = Inr kr \<and> map_of kr s \<noteq> None)"
      using ok by (auto simp: fingerprintOk_def storedFingerprint_def)
    show ?thesis using Some s swp [OF Some]
      by (auto simp: verifyOrWriteFingerprint_def wp_simps Let_def tck storedFingerprint_def simp del: swapParam_tick)
  qed
qed

lemma wp_context_total:
  assumes nf: "noFailures \<omega>" and ctx: "contextOf \<omega> w = Some c" "c \<noteq> []"
  shows "wp getOrCreateEnvelopeContext (\<lambda>ctx w'. ctx = c \<and> (\<exists>n. w' = w\<lparr>tick := n\<rparr>)) (\<lambda>_ _. False) \<omega> w"
  using ctx by (auto simp: getOrCreateEnvelopeContext_def wp_simps Let_def noFailuresD(1) [OF nf] contextOf_def split: option.splits)

subsection \<open>The row\<close>

text \<open>A row sealed by a retired master, also with the legacy context, opens with a keyring that holds it.\<close>

lemma openedRow_retired:
  assumes laws: "cryptoLaws \<omega>" and bind: "keyBinding \<omega>" and kr: "resolveKeyring \<omega> provider = Inr kr" "map_of kr (fingerprintOf \<omega> old) = Some old"
    and nonce: "length nonce = gcmNonceSize" and ctx: "c' = c \<or> c' = dataDir \<omega> \<and> c' \<noteq> []"
  shows "\<exists>b. openedRow \<omega> provider m c i (sealWith \<omega> old c' i pt nonce) = Inr (pt, b)"
proof -
  let ?e = "sealWith \<omega> old c' i pt nonce"
  have kid: "env_Kid ?e = fingerprintOf \<omega> old" "fingerprintOf \<omega> old \<noteq> []"
    using fingerprint_nonempty [OF laws] by (simp_all add: sealWith_def)
  have own: "openEnvelope \<omega> old c' i ?e = Inr pt" by (rule openEnvelope_sealWith [OF laws nonce])
  have "openEnvelope \<omega> old c i ?e = Inr pt" if "deriveDEK \<omega> old c i = deriveDEK \<omega> old c' i"
    using own that by (simp add: openEnvelope_def)
  moreover have "\<exists>e. openEnvelope \<omega> old c i ?e = Inl e" if "deriveDEK \<omega> old c i \<noteq> deriveDEK \<omega> old c' i"
    using openEnvelope_foreign [OF laws bind nonce, of old c' i old c i pt] that by metis
  ultimately consider "openEnvelope \<omega> old c i ?e = Inr pt" | e where "openEnvelope \<omega> old c i ?e = Inl e" by blast
  then have "\<exists>b. openAdvertised \<omega> kr (fingerprintOf \<omega> m) c (dataDir \<omega>) i ?e = Some (pt, b)"
  proof cases
    case 1
    then show ?thesis using kid kr(2) by (simp add: openAdvertised_def)
  next
    case 2
    then have "c' = dataDir \<omega>" "c' \<noteq> []" "c' \<noteq> c" using own ctx by auto
    then show ?thesis using kid kr(2) 2 own by (auto simp: openAdvertised_def)
  qed
  then show ?thesis by (auto simp: openedRow_def openEnvelopeWithKeyring_def kr(1))
qed

lemma wp_rewriteRow_total:
  assumes laws: "cryptoLaws \<omega>" and nf: "noFailures \<omega>" and row: "lookupParam w i = Some r"
  shows "wp (rewriteRow m ctx i pt (pm_value r))
     (\<lambda>_ w'. framed i w w' \<and> (\<exists>nonce r'. length nonce = gcmNonceSize \<and> lookupParam w' i = Some r'
        \<and> pm_value r' = marshalEnvelope (sealWith \<omega> m ctx i pt nonce))) (\<lambda>_ _. False) \<omega> w"
proof -
  have hit: "casHit i (pm_value r) r" using lookupParam_Some [OF row] by (simp add: casHit_def)
  show ?thesis
    unfolding rewriteRow_def wp_bindG [of "attemptG (sealEnvelope _ _ _ _)"] wp_attemptG
  proof (rule wp_sealEnvelope [OF laws])
    fix nonce :: string and n assume "length nonce = gcmNonceSize"
    then show "wp (case Inr (marshalEnvelope (sealWith \<omega> m ctx i pt nonce)) of
         Inl _ \<Rightarrow> returnG ()
       | Inr sealed \<Rightarrow> bindG (attemptG (updateParamValueCAS i sealed (pm_value r))) (\<lambda>_. returnG ()))
      (\<lambda>_ w'. framed i w w' \<and> (\<exists>nonce r'. length nonce = gcmNonceSize \<and> lookupParam w' i = Some r'
        \<and> pm_value r' = marshalEnvelope (sealWith \<omega> m ctx i pt nonce))) (\<lambda>_ _. False) \<omega> (w\<lparr>tick := n\<rparr>)"
      using row hit by (auto simp: wp_simps Let_def noFailuresD(1) [OF nf] lookup_swapParam simp del: swapParam_tick)
  qed (use noFailuresD(2) [OF nf] in auto)
qed

context param_value
begin

text \<open>After the load the row reads as before, with the active master alone.\<close>

lemma wp_loadExisting_total:
  assumes laws: "cryptoLaws \<omega>" and nf: "noFailures \<omega>" and kr: "keyringOk \<omega> provider m"
    and row: "lookupParam w i = Some r" and val: "rowValue \<omega> provider (Some m) ctx i codec (pm_value r) = Inr v"
  shows "wp (loadExisting provider (Some m) ctx i (pm_value r) codec)
     (\<lambda>v' w'. v' = v \<and> framed i w w' \<and> (\<exists>r'. lookupParam w' i = Some r' \<and>
        (\<forall>p. alone \<omega> p m \<longrightarrow> rowValue \<omega> p (Some m) ctx i codec (pm_value r') = Inr v))) (\<lambda>_ _. False) \<omega> w"
proof -
  let ?done = "\<lambda>w'. framed i w w' \<and> (\<exists>r'. lookupParam w' i = Some r' \<and>
        (\<forall>p. alone \<omega> p m \<longrightarrow> rowValue \<omega> p (Some m) ctx i codec (pm_value r') = Inr v))"
  have rewrite: "wp (rewriteRow m ctx i pt (pm_value r)) (\<lambda>_. ?done) (\<lambda>_ _. False) \<omega> w"
    if pt: "decodePlaintext codec pt = Inr v" for pt
  proof (rule wp_mono [OF wp_rewriteRow_total [OF laws nf row]])
    fix a w' assume "framed i w w' \<and> (\<exists>nonce r'. length nonce = gcmNonceSize \<and> lookupParam w' i = Some r'
        \<and> pm_value r' = marshalEnvelope (sealWith \<omega> m ctx i pt nonce))"
    then obtain nonce r' where f: "framed i w w'" "length nonce = gcmNonceSize" "lookupParam w' i = Some r'"
      "pm_value r' = marshalEnvelope (sealWith \<omega> m ctx i pt nonce)" by blast
    have "rowValue \<omega> p (Some m) ctx i codec (pm_value r') = Inr v" if "alone \<omega> p m" for p
      using rowValue_sealed [OF laws alone_keyringOk [OF that] f(2), of ctx i codec pt] f(4) pt by simp
    with f(1,3) show "?done w'" by blast
  qed
  show ?thesis
  proof (cases "looksLikeEnvelope \<omega> (pm_value r)")
    case None
    then have dec: "decodePlaintext codec (pm_value r) = Inr v" using val by (simp add: rowValue_def)
    have "?done w" using row None dec by (auto simp: rowValue_def)
    then have "wp (case encodePlaintext codec v of Inl _ \<Rightarrow> returnG () | Inr plaintext \<Rightarrow> rewriteRow m ctx i plaintext (pm_value r))
        (\<lambda>_. ?done) (\<lambda>_ _. False) \<omega> w"
      using rewrite decode_encode by (auto simp: wp_returnG split: sum.splits)
    then show ?thesis using None dec
      by (auto simp: loadExisting_def wp_bindG wp_askG wp_liftE wp_returnG intro: wp_mono)
  next
    case (Some env)
    then obtain pt b where o: "openedRow \<omega> provider m ctx i env = Inr (pt, b)" "decodePlaintext codec pt = Inr v"
      using val by (auto simp: rowValue_def split: sum.splits)
    have stay: "?done w" if nb: "\<not> b"
    proof -
      have "openedRow \<omega> provider m ctx i env = Inr (pt, False)" using o(1) nb by simp
      note act = openedRow_active [OF laws kr this]
      have "rowValue \<omega> p (Some m) ctx i codec (pm_value r) = Inr v" if "alone \<omega> p m" for p
        using openedRow_alone [OF laws conjunct1 [OF act] conjunct2 [OF act] that [unfolded alone_def]] Some o(2)
        by (simp add: rowValue_def)
      then show ?thesis using row by auto
    qed
    have "wp (if b then rewriteRow m ctx i pt (pm_value r) else returnG ()) (\<lambda>_. ?done) (\<lambda>_ _. False) \<omega> w"
      using rewrite [OF o(2)] stay by (simp add: wp_returnG)
    then show ?thesis using Some o
      by (auto simp: loadExisting_def wp_bindG wp_askG wp_liftE wp_openRow intro: wp_mono)
  qed
qed

lemma wp_load_total:
  assumes laws: "appLaws \<omega>" and own: "ownId i" and nf: "noFailures \<omega>"
    and master: "mk_Master (providerAt \<omega> w prefix) = Inr (Some m)" and kr: "keyringOk \<omega> (providerAt \<omega> w prefix) m"
    and fp: "fingerprintOk \<omega> (providerAt \<omega> w prefix) m w" and ctx: "contextOf \<omega> w = Some c" "c \<noteq> []"
    and row: "lookupParam w i = Some r" and val: "rowValue \<omega> (providerAt \<omega> w prefix) (Some m) c i codec (pm_value r) = Inr v"
  shows "wp (loadParamFromAppStorageAt prefix i codec generator)
     (\<lambda>v' w'. v' = v \<and> contextOf \<omega> w' = Some c \<and> storedFingerprint \<omega> w' = Some (fingerprintOf \<omega> m)
        \<and> (\<exists>r'. lookupParam w' i = Some r' \<and>
        (\<forall>p. alone \<omega> p m \<longrightarrow> rowValue \<omega> p (Some m) c i codec (pm_value r') = Inr v))) (\<lambda>_ _. False) \<omega> w"
proof -
  let ?p = "providerAt \<omega> w prefix"
  have i: "i \<noteq> fingerprintParamID" "i \<noteq> paramsKeyOAuth2EnvelopeCtxID" using own by (simp_all add: ownId_def)
  have existing: "wp (loadExisting ?p (Some m) c i (pm_value r) codec)
     (\<lambda>v' w'. v' = v \<and> contextOf \<omega> w' = Some c \<and> storedFingerprint \<omega> w' = Some (fingerprintOf \<omega> m)
        \<and> (\<exists>r'. lookupParam w' i = Some r' \<and>
        (\<forall>p. alone \<omega> p m \<longrightarrow> rowValue \<omega> p (Some m) c i codec (pm_value r') = Inr v))) (\<lambda>_ _. False) \<omega> (w1\<lparr>tick := n\<rparr>)"
    if w1: "framed fingerprintParamID w w1" "storedFingerprint \<omega> w1 = Some (fingerprintOf \<omega> m)" for w1 n
  proof -
    have "lookupParam (w1\<lparr>tick := n\<rparr>) i = Some r" using framedD [OF w1(1) i(1)] row by simp
    moreover have "contextOf \<omega> (w1\<lparr>tick := n\<rparr>) = Some c" using contextOf_framed [OF w1(1), of \<omega>] ctx(1) by simp
    moreover have "storedFingerprint \<omega> (w1\<lparr>tick := n\<rparr>) = Some (fingerprintOf \<omega> m)" using w1(2) by (simp add: storedFingerprint_def)
    ultimately show ?thesis
      by (intro wp_mono [OF wp_loadExisting_total [OF appLawsD(1) [OF laws] nf kr _ val]])
        (auto simp: contextOf_framed [OF _ i(2)] storedFingerprint_def framedD [OF _ i(1) [symmetric]])
  qed
  show ?thesis
    unfolding loadParamFromAppStorageAt_def wp_bindG [of "activeMasterKeyProviderAt _"] wp_activeMasterKeyProviderAt
      wp_bindG [of "mapErrG _ _"] wp_mapErrG wp_liftE master sum.case wp_bindG [of "verifyOrWriteFingerprint _ _"]
  proof (rule wp_mono [OF wp_verify_total [OF appLawsD(1) [OF laws] nf fp]])
    fix w1 assume w1: "framed fingerprintParamID w w1 \<and> storedFingerprint \<omega> w1 = Some (fingerprintOf \<omega> m)"
    have c1: "contextOf \<omega> w1 = Some c" using contextOf_framed [of fingerprintParamID w w1 \<omega>] w1 ctx(1) by simp
    have r1: "lookupParam w1 i = Some r" using framedD [of fingerprintParamID w w1 i] w1 i(1) row by simp
    have start: "wp (if Some m \<noteq> None then getOrCreateEnvelopeContext else returnG [])
        (\<lambda>ctx w'. ctx = c \<and> (\<exists>n. w' = w1\<lparr>tick := n\<rparr>)) (\<lambda>_ _. False) \<omega> w1"
      using wp_context_total [OF nf c1 ctx(2)] by simp
    show "wp (bindG (if Some m \<noteq> None then getOrCreateEnvelopeContext else returnG []) (\<lambda>ctxID.
        bindG (attemptG (queryParam i)) (\<lambda>r. case r of
         Inl err \<Rightarrow>
           if \<not> errorsIs err ErrNoRows then throwG (ErrText ''failed to query db'' (Some err))
           else loadFresh ?p (Some m) ctxID i codec generator
       | Inr param \<Rightarrow> loadExisting ?p (Some m) ctxID i (pm_value param) codec)))
     (\<lambda>v' w'. v' = v \<and> contextOf \<omega> w' = Some c \<and> storedFingerprint \<omega> w' = Some (fingerprintOf \<omega> m)
        \<and> (\<exists>r'. lookupParam w' i = Some r' \<and>
        (\<forall>p. alone \<omega> p m \<longrightarrow> rowValue \<omega> p (Some m) c i codec (pm_value r') = Inr v))) (\<lambda>_ _. False) \<omega> w1"
      unfolding wp_bindG [of "if Some m \<noteq> None then _ else _"]
    proof (rule wp_mono [OF start])
      fix ctx' w2 assume "ctx' = c \<and> (\<exists>n. w2 = w1\<lparr>tick := n\<rparr>)"
      then show "wp (bindG (attemptG (queryParam i)) (\<lambda>r. case r of
           Inl err \<Rightarrow>
             if \<not> errorsIs err ErrNoRows then throwG (ErrText ''failed to query db'' (Some err))
             else loadFresh ?p (Some m) ctx' i codec generator
         | Inr param \<Rightarrow> loadExisting ?p (Some m) ctx' i (pm_value param) codec))
       (\<lambda>v' w'. v' = v \<and> contextOf \<omega> w' = Some c \<and> storedFingerprint \<omega> w' = Some (fingerprintOf \<omega> m)
          \<and> (\<exists>r'. lookupParam w' i = Some r' \<and>
          (\<forall>p. alone \<omega> p m \<longrightarrow> rowValue \<omega> p (Some m) c i codec (pm_value r') = Inr v))) (\<lambda>_ _. False) \<omega> w2"
        using existing [of w1] w1 r1 by (auto simp: wp_bindG wp_attemptG wp_queryParam Let_def noFailuresD(1) [OF nf])
    qed
  qed simp
qed

end

end
