(* ===== verification/Param_Demo.thy ===== *)
theory Param_Demo
  imports Param_Rotation Demo
begin

section \<open>A concrete app: toy cryptography and concrete worlds\<close>

text \<open>
  The input at which the properties of key material are instantiated. The digest, the expansion and the cipher
  are transparent functions that satisfy \<open>cryptoLaws\<close>, \<open>keyBinding\<close> and \<open>appLaws\<close>: the hypotheses can hold.
\<close>

definition pad32 :: "string \<Rightarrow> string" where
  "pad32 s = take 32 (s @ replicate 32 (CHR ''0''))"

definition toyOpen :: "string \<Rightarrow> string \<Rightarrow> string \<Rightarrow> string option" where
  "toyOpen k n c = (let h = k @ n in if take (length h) c = h then Some (drop (length h) c) else None)"

definition toyEnvelope :: "string \<Rightarrow> envelope option" where
  "toyEnvelope s = (let parts = splitOn quote s in
     if length parts = 19 then Some \<lparr>env_V = 1, env_Alg = parts ! 5, env_Kid = parts ! 9, env_Nonce = parts ! 13, env_CT = parts ! 17\<rparr>
     else None)"

definition toyJWK :: "json_web_key \<Rightarrow> string option" where
  "toyJWK k = (let fields = [jk_Key k, jk_KeyID k, jk_Algorithm k, jk_Use k] in
     if list_all (list_all (\<lambda>c. jsonSafe c \<and> c \<noteq> CHR ''|'')) fields then Some (joinWith [CHR ''|''] fields) else None)"

definition toyParseJWK :: "string \<Rightarrow> json_web_key option" where
  "toyParseJWK s = (case splitOn (CHR ''|'') s of
     [a, b, c, d] \<Rightarrow> Some \<lparr>jk_Key = a, jk_KeyID = b, jk_Algorithm = c, jk_Use = d\<rparr> | _ \<Rightarrow> None)"

definition masterA :: string where "masterA = replicate 32 (CHR ''A'')"
definition masterB :: string where "masterB = replicate 32 (CHR ''B'')"

definition demoAppEnv :: app_envir where
  "demoAppEnv = \<lparr>dbfail = (\<lambda>_. False), clock = (\<lambda>n. 1700000000000000 + int n), uuid = (\<lambda>n. replicate (Suc n) (CHR ''u'')),
     marshalSession = (\<lambda>s. Some (ses_Subject s)), unmarshalSession = (\<lambda>_ t. Some t),
     jsonValid = (\<lambda>_. True), jwksValid = (\<lambda>_. True),
     sha256 = pad32, hkdfSha256 = (\<lambda>m i. take 16 (m @ replicate 16 (CHR ''0'')) @ take 16 (rev i @ replicate 16 (CHR ''0''))),
     gcmSeal = (\<lambda>k n p. k @ n @ p), gcmOpen = toyOpen, randRead = (\<lambda>_ k. Some (replicate k (CHR ''r''))),
     unmarshalEnvelope = toyEnvelope, unmarshalString = (\<lambda>s. Some (butlast (tl s))),
     getenv = (\<lambda>k. if k = envEnvelopeMasterKey then hexEncode masterB
        else if k = envEnvelopeMasterKeysOld then hexEncode masterA else []),
     dataDir = ''/pb_data'', rsaGenerate = (\<lambda>n. Some ''rsa''), marshalJWK = toyJWK, unmarshalJWK = toyParseJWK,
     hmacSha256 = (\<lambda>k s. pad32 (rev s)), appURL = ''https://auth.example''\<rparr>"

lemma length_pad32 [simp]: "length (pad32 s) = 32"
  by (simp add: pad32_def)

lemma quote_free: "list_all jsonSafe s \<Longrightarrow> quote \<notin> set s"
  by (auto simp: list_all_iff jsonSafe_def quote_def Let_def)

lemma toyEnvelope_marshal:
  assumes "envelopeSafe e"
  shows "toyEnvelope (marshalEnvelope e) = Some e"
proof -
  have q: "quote \<notin> set (env_Alg e)" "quote \<notin> set (env_Kid e)" "quote \<notin> set (env_Nonce e)" "quote \<notin> set (env_CT e)"
    using assms by (auto simp: envelopeSafe_def list_all_iff intro!: quote_free)
  have v: "env_V e = 1" using assms by (simp add: envelopeSafe_def envelopeVersion_def)
  have nq: "quote \<notin> set ''{''" "quote \<notin> set ''v''" "quote \<notin> set '':1,''" "quote \<notin> set ''alg''" "quote \<notin> set '':''"
    "quote \<notin> set '',''" "quote \<notin> set ''kid''" "quote \<notin> set ''nonce''" "quote \<notin> set ''ct''" "quote \<notin> set ''}''"
    by (simp_all add: quote_def)
  have m: "marshalEnvelope e = joinWith [quote] [''{'', ''v'', '':1,'', ''alg'', '':'', env_Alg e, '','', ''kid'', '':'', env_Kid e,
      '','', ''nonce'', '':'', env_Nonce e, '','', ''ct'', '':'', env_CT e, ''}'']"
    by (simp add: marshalEnvelope_def jsonString_def v showInt_one)
  have "splitOn quote (marshalEnvelope e) = [''{'', ''v'', '':1,'', ''alg'', '':'', env_Alg e, '','', ''kid'', '':'', env_Kid e,
      '','', ''nonce'', '':'', env_Nonce e, '','', ''ct'', '':'', env_CT e, ''}'']"
    unfolding m by (rule splitOn_join) (use q nq in simp_all)
  then show ?thesis using v by (simp add: toyEnvelope_def)
qed

lemma demo_cryptoLaws: "cryptoLaws demoAppEnv"
  unfolding cryptoLaws_def
  by (auto simp: demoAppEnv_def toyOpen_def toyEnvelope_marshal jsonString_def gcmNonceSize_def)

lemma demo_keyBinding: "keyBinding demoAppEnv"
  by (auto simp: keyBinding_def demoAppEnv_def toyOpen_def Let_def)

lemma toyJWK_fields:
  assumes "toyJWK k = Some s"
  shows "s = joinWith [CHR ''|''] [jk_Key k, jk_KeyID k, jk_Algorithm k, jk_Use k]"
    "\<forall>f \<in> {jk_Key k, jk_KeyID k, jk_Algorithm k, jk_Use k}. \<forall>c \<in> set f. jsonSafe c \<and> c \<noteq> CHR ''|''"
proof -
  let ?fields = "[jk_Key k, jk_KeyID k, jk_Algorithm k, jk_Use k]"
  have "list_all (list_all (\<lambda>c. jsonSafe c \<and> c \<noteq> CHR ''|'')) ?fields" "s = joinWith [CHR ''|''] ?fields"
    using assms unfolding toyJWK_def Let_def by (simp_all only: option.inject split: if_split_asm) simp_all
  then show "s = joinWith [CHR ''|''] ?fields"
    "\<forall>f \<in> {jk_Key k, jk_KeyID k, jk_Algorithm k, jk_Use k}. \<forall>c \<in> set f. jsonSafe c \<and> c \<noteq> CHR ''|''"
    by (simp_all add: list_all_iff)
qed

lemma toyJWK_roundtrip: "toyJWK k = Some s \<Longrightarrow> toyParseJWK s = Some k"
proof -
  assume k: "toyJWK k = Some s"
  have "splitOn (CHR ''|'') s = [jk_Key k, jk_KeyID k, jk_Algorithm k, jk_Use k]"
    unfolding toyJWK_fields(1) [OF k] by (rule splitOn_join) (use toyJWK_fields(2) [OF k] in fastforce)+
  then show ?thesis by (simp add: toyParseJWK_def)
qed

definition toyChar :: "char \<Rightarrow> bool" where
  "toyChar c \<longleftrightarrow> c \<noteq> quote \<and> (0x20 :: nat) < of_char c \<and> (of_char c :: nat) < 0x7F"

lemma toyChars: "jsonSafe c \<Longrightarrow> toyChar c" "toyChar (CHR ''|'')"
  by (auto simp: toyChar_def jsonSafe_def quote_def Let_def)

lemma toyJWK_plain: "toyJWK k = Some s \<Longrightarrow> toyEnvelope (trimSpace s) = None"
proof -
  assume k: "toyJWK k = Some s"
  have "c = CHR ''|'' \<or> (\<exists>f \<in> {jk_Key k, jk_KeyID k, jk_Algorithm k, jk_Use k}. c \<in> set f)" if "c \<in> set s" for c
    using that unfolding toyJWK_fields(1) [OF k] by auto
  then have safe: "toyChar c" if "c \<in> set s" for c
    using that toyJWK_fields(2) [OF k] toyChars by metis
  have "set s \<inter> set spaceBytes = {}" using safe spaceBytes_range unfolding toyChar_def by fastforce
  then have "trimSpace s = s" by (rule trimSpace_id)
  moreover have "quote \<notin> set s" using safe [of quote] by (auto simp: toyChar_def)
  ultimately show ?thesis by (simp add: toyEnvelope_def splitOn_no_sep)
qed

lemma demo_appLaws: "appLaws demoAppEnv"
proof -
  have "jsonSafe (CHR ''u'')" by (simp add: jsonSafe_def)
  then have "\<forall>n. uuid demoAppEnv n \<noteq> [] \<and> list_all jsonSafe (uuid demoAppEnv n)"
    by (simp add: demoAppEnv_def list_all_iff)
  moreover have "marshalJWK demoAppEnv = toyJWK" "unmarshalJWK demoAppEnv = toyParseJWK" "unmarshalEnvelope demoAppEnv = toyEnvelope"
    by (simp_all add: demoAppEnv_def)
  ultimately show ?thesis
    using demo_cryptoLaws toyJWK_roundtrip toyJWK_plain by (auto simp: appLaws_def)
qed

lemma demo_noFailures: "noFailures demoAppEnv"
  by (simp add: noFailures_def demoAppEnv_def)

text \<open>An instance configured with the new master only.\<close>

definition demoMaster :: master_provider where
  "demoMaster = \<lparr>mk_Master = Inr (Some masterB), mk_Keyring = None\<rparr>"

definition demoConfig :: config where
  "demoConfig = \<lparr>cf_PathPrefix = DefaultPathPrefix, cf_UserCollection = ''users'', cf_UserInfoClaimStrategy = None,
     cf_EnableDCR = False, cf_EnableRFC9728 = False, cf_MasterKeyProvider = Some demoMaster, cf_InitialAccessTokens = [],
     cf_AllowUnauthenticatedDCR = False, cf_LoginRedirectURL = [], cf_RuntimeAttestationSnapshot = None,
     cf_GlobalSecret = [], cf_EnforcePKCE = True, cf_EnforcePKCEForPublicClients = True,
     cf_SendDebugMessagesToClients = False, cf_UseLegacyErrorFormat = False\<rparr>"

definition demoInstance :: op_instance where
  "demoInstance = \<lparr>it_cfg = demoConfig, it_store = None, it_privateKey = None, it_metadata = None, it_protected = [],
     it_limiter = \<lparr>ls_started = None, ls_count = 0\<rparr>\<rparr>"

end
