(* ===== verification/Param_Properties.thy ===== *)
theory Param_Properties
  imports Param_Demo
begin

section \<open>Properties of master keys, envelopes and stored key material\<close>

subsection \<open>Master keys\<close>

text \<open>A key of 32 bytes is the decoding of its hexadecimal text and of its text in each of the four base64
  variants; whatever is accepted has 32 bytes.\<close>

theorem masterKey_encodings:
  assumes "length k = 32"
  shows "decodeMasterKey (hexEncode k) = Inr k
    \<and> list_all (\<lambda>enc. decodeMasterKey (b64Encode enc k) = Inr k) [StdEncoding, RawStdEncoding, URLEncoding, RawURLEncoding]
    \<and> (\<forall>raw k'. decodeMasterKey raw = Inr k' \<longrightarrow> length k' = 32)"
  using assms by (auto simp: decodeMasterKey_hex decodeMasterKey_base64 dest: decodeMasterKey_length)

theorem masterKey_encodings_witness:
  "decodeMasterKey (hexEncode masterA) = Inr masterA \<and> decodeMasterKey (b64Encode RawURLEncoding masterA) = Inr masterA
    \<and> (\<exists>raw. decodeMasterKey raw = Inr masterB \<and> length masterB = 32)"
  using masterKey_encodings [of masterA] masterKey_encodings [of masterB] by (auto simp: masterA_def masterB_def)

text \<open>The test on a raw key, a sum of logarithms, is a test on whole numbers: 32 bytes are accepted as they are
  when one of them is not printable and the product of c to the power of c, over the counts c of the bytes, is at
  most two to the power of 80. (The arithmetic of the sum is taken to be exact.)\<close>

theorem masterKey_entropy:
  assumes "length raw = 32"
  shows "decodeMasterKey raw = Inr raw \<longleftrightarrow> \<not> list_all printable raw \<and> byteWeight raw \<le> 2 ^ 80"
proof -
  have "raw \<noteq> []" using assms by auto
  then show ?thesis using assms low_entropy_iff [OF assms]
    by (auto simp: decodeMasterKey_def requireHighEntropy_def not_less)
qed

definition spreadKey :: string where
  "spreadKey = map char_of [100 ..< 132 :: nat]"

lemma spread_weight: "byteWeight spreadKey = 1"
proof -
  have d: "distinct spreadKey" by code_simp
  have "count_list spreadKey c \<le> 1" for c
  proof -
    have "count_list xs c \<le> 1" if "distinct xs" for xs :: string using that by (induction xs) (auto simp: count_notin)
    then show ?thesis using d .
  qed
  then have one: "count_list spreadKey c ^ count_list spreadKey c = 1" for c
    by (metis le_less less_one power_0 power_one)
  have "prod_list (map (\<lambda>v. 1 :: nat) xs) = 1" for xs :: "nat list" by (induction xs) simp_all
  then show ?thesis unfolding byteWeight_def one .
qed

theorem masterKey_entropy_witness:
  "decodeMasterKey spreadKey = Inr spreadKey \<and> decodeMasterKey masterA \<noteq> Inr masterA"
proof -
  have "\<not> list_all printable spreadKey" "length spreadKey = 32" by code_simp+
  moreover have "list_all printable masterA" "length masterA = 32" by code_simp+
  ultimately show ?thesis using masterKey_entropy [of spreadKey] masterKey_entropy [of masterA] spread_weight by simp
qed

subsection \<open>Envelopes\<close>


definition demoApp :: "param_row list \<Rightarrow> app_world" where
  "demoApp rows = world.extend (emptyWorld [DefaultPathPrefix]) (app_world.fields rows [] [])"

lemma demo_seal: "\<exists>s w'. sealEnvelope masterA ''ctx'' ''id'' ''secret'' demoAppEnv (demoApp []) = (Inr s, w')"
proof -
  have "randRead demoAppEnv n k = Some (replicate k (CHR ''r''))" for n k by (simp add: demoAppEnv_def)
  then show ?thesis
    by (simp add: sealEnvelope_def randomBytes_def run_simps nextTick_def
        length_deriveDEK [OF demo_cryptoLaws] aesKeyOk_def cong: run_congs)
qed


subsection \<open>Loading key material\<close>

lemma hex_chars: "c \<in> set (hexEncode s) \<Longrightarrow> c \<noteq> CHR ''{'' \<and> c \<noteq> CHR ''k'' \<and> c \<noteq> CHR '',''"
proof -
  assume "c \<in> set (hexEncode s)"
  then obtain n where n: "c = hexDigitLower n" "n \<in> set [0 ..< 16]" by (auto simp: hexEncode_def)
  have "list_all (\<lambda>n. hexDigitLower n \<noteq> CHR ''{'' \<and> hexDigitLower n \<noteq> CHR ''k'' \<and> hexDigitLower n \<noteq> CHR '','') [0 ..< 16]" by code_simp
  from bspec [OF this [unfolded list_all_iff] n(2)] show "c \<noteq> CHR ''{'' \<and> c \<noteq> CHR ''k'' \<and> c \<noteq> CHR '',''"
    unfolding n(1) .
qed

lemma hexEncode_Nil [simp]: "hexEncode [] = []"
  by (simp add: hexEncode_def)

lemma hexEncode_eq_Nil [simp]: "hexEncode s = [] \<longleftrightarrow> s = []"
  using length_hexEncode [of s] by (metis length_0_conv mult_is_0 zero_neq_numeral hexEncode_Nil)

lemma hex_trim: "trimSpace (hexEncode s) = hexEncode s"
proof -
  have "(0x20 :: nat) < of_char c \<and> (of_char c :: nat) < 0x7F" if "c \<in> set (hexEncode s)" for c
    using set_hexEncode [OF that] by (simp add: jsonSafe_def Let_def)
  then have "set (hexEncode s) \<inter> set spaceBytes = {}" using spaceBytes_range by fastforce
  then show ?thesis by (rule trimSpace_id)
qed

lemma hex_not_envelope: "looksLikeEnvelope \<omega> (hexEncode s) = None"
  unfolding looksLikeEnvelope_def hex_trim Let_def using hex_chars [of _ s] by (cases "hexEncode s") auto

lemma hex_not_kms: "\<not> hasPrefix (hexEncode s) ''kms://''"
  using hex_chars [of _ s] by (cases "hexEncode s") (auto simp: hasPrefix_def)

lemma hex_split: "splitOn (CHR '','') (hexEncode s) = [hexEncode s]"
  using hex_chars by (intro splitOn_no_sep) blast

lemma bytes_plain: "encodePlaintext bytesCodec v = Inr s \<Longrightarrow> looksLikeEnvelope \<omega> s = None"
  by (auto simp: bytesCodec_def hex_not_envelope)

lemma jwk_value: "appLaws \<omega> \<Longrightarrow> param_value (jwkCodec \<omega>)"
  by unfold_locales (auto simp: jwkCodec_def appLawsD(4) split: option.splits)

lemma jwk_plain: "appLaws \<omega> \<Longrightarrow> encodePlaintext (jwkCodec \<omega>) v = Inr s \<Longrightarrow> looksLikeEnvelope \<omega> s = None"
  by (auto simp: jwkCodec_def looksLikeEnvelope_def Let_def dest: appLawsD(5) split: option.splits list.splits)

lemma gen_ticks:
  "wp generateSigningKey (\<lambda>_ w'. \<exists>n. w' = w\<lparr>tick := n\<rparr>) (\<lambda>_ w'. \<exists>n. w' = w\<lparr>tick := n\<rparr>) \<omega> w"
  "wp (randomBytes k) (\<lambda>_ w'. \<exists>n. w' = w\<lparr>tick := n\<rparr>) (\<lambda>_ w'. \<exists>n. w' = w\<lparr>tick := n\<rparr>) \<omega> w"
  by (auto simp: generateSigningKey_def randomBytes_def wp_simps split: option.splits)

lemma providerParamID_own: "ownId (providerParamID \<omega> paramsKeyOAuth2RSAKey prefix)"
proof -
  have "take 8 (providerParamID \<omega> paramsKeyOAuth2RSAKey prefix) = ''oauth2_r''"
    by (simp add: providerParamID_def param_ids Let_def)
  then show ?thesis by (auto simp: ownId_def param_ids)
qed

lemma keeps_store_key: "keeps sameStore (loadPrivateKeyFromAppStorageAt prefix)"
proof -
  have "keeps sameStore (generateSigningKey :: ('b, 'a, json_web_key) appgo)"
    unfolding generateSigningKey_def by (intro keeps_intros sameStore_rel)
  then show ?thesis
    unfolding loadPrivateKeyFromAppStorageAt_def by (intro keeps_intros sameStore_rel keeps_store_load)
qed

text \<open>The load of the signing key, for a provider whose keyring is in order.\<close>

lemma wp_signing_key:
  assumes "appLaws \<omega>" and "\<And>m. mk_Master (providerAt \<omega> w prefix) = Inr (Some m) \<Longrightarrow> keyringOk \<omega> (providerAt \<omega> w prefix) m"
  defines "i \<equiv> providerParamID \<omega> paramsKeyOAuth2RSAKey prefix"
  shows "wp (loadPrivateKeyFromAppStorageAt prefix)
     (\<lambda>v w'. \<exists>master ctx r'. reader \<omega> (providerAt \<omega> w prefix) w' master ctx \<and> lookupParam w' i = Some r'
        \<and> rowValue \<omega> (providerAt \<omega> w prefix) master ctx i (jwkCodec \<omega>) (pm_value r') = Inr v
        \<and> (\<forall>r. lookupParam w i = Some r \<longrightarrow> rowValue \<omega> (providerAt \<omega> w prefix) master ctx i (jwkCodec \<omega>) (pm_value r) = Inr v)
        \<and> (\<forall>j. ownId j \<and> j \<noteq> i \<longrightarrow> lookupParam w' j = lookupParam w j)
        \<and> (\<forall>c. contextOf \<omega> w = Some c \<longrightarrow> contextOf \<omega> w' = Some c))
     (\<lambda>_ w'. (\<forall>r. lookupParam w i = Some r \<longrightarrow> (\<exists>r'. lookupParam w' i = Some r' \<and>
          (r' = r \<or> (\<exists>master ctx. reader \<omega> (providerAt \<omega> w prefix) w' master ctx \<and>
             rowValue \<omega> (providerAt \<omega> w prefix) master ctx i (jwkCodec \<omega>) (pm_value r')
               = rowValue \<omega> (providerAt \<omega> w prefix) master ctx i (jwkCodec \<omega>) (pm_value r)))))
        \<and> (\<forall>j. ownId j \<and> j \<noteq> i \<longrightarrow> lookupParam w' j = lookupParam w j)) \<omega> w"
  unfolding loadPrivateKeyFromAppStorageAt_def wp_bindG [of "askG _"] wp_askG split i_def
  by (rule param_value.wp_loadAt [OF jwk_value [OF assms(1)] assms(1) providerParamID_own assms(2) jwk_plain [OF assms(1)] gen_ticks(1)])


text \<open>The signing key is stable: two successful loads return the same key, if only loads and other tables
  come between them.\<close>

theorem signing_key_is_stable:
  assumes "appLaws (\<omega> :: app_envir)"
    and "\<And>m. mk_Master (providerAt \<omega> w prefix) = Inr (Some m) \<Longrightarrow> keyringOk \<omega> (providerAt \<omega> w prefix) m"
    and "loadPrivateKeyFromAppStorageAt prefix \<omega> (w :: app_world) = (Inr k, w1)"
    and "w_params w2 = w_params w1" "w_store w2 = w_store w1"
    and "loadPrivateKeyFromAppStorageAt prefix \<omega> (w2 :: app_world) = (Inr k', w3)"
  shows "k' = k"
proof -
  let ?i = "providerParamID \<omega> paramsKeyOAuth2RSAKey prefix" and ?p = "providerAt \<omega> w prefix"
  have "sameStore w w2" using keeps_outcome [OF keeps_store_key assms(3)] assms(5) by (simp add: sameStore_def)
  then have p: "providerAt \<omega> w2 prefix = ?p" by (rule providerAt_sameStore)
  have same: "lookupParam w2 j = lookupParam w1 j" "contextOf \<omega> w2 = contextOf \<omega> w1" for j
    by (simp_all add: lookupParam_def contextOf_def assms(4))
  obtain master ctx r where r: "reader \<omega> ?p w1 master ctx" "lookupParam w1 ?i = Some r"
    "rowValue \<omega> ?p master ctx ?i (jwkCodec \<omega>) (pm_value r) = Inr k"
    using wp_outcome_Inr [OF wp_signing_key [OF assms(1,2)] assms(3)] by blast
  obtain master' ctx' where r': "reader \<omega> ?p w3 master' ctx'"
    "\<forall>r. lookupParam w2 ?i = Some r \<longrightarrow> rowValue \<omega> ?p master' ctx' ?i (jwkCodec \<omega>) (pm_value r) = Inr k'"
    "\<forall>c. contextOf \<omega> w2 = Some c \<longrightarrow> contextOf \<omega> w3 = Some c"
    using wp_outcome_Inr [OF wp_signing_key [OF assms(1), of w2 prefix] assms(6)] assms(2) unfolding p by blast
  have "reader \<omega> ?p w3 master ctx" using r(1) r'(3) same by (auto simp: reader_def split: option.splits)
  then have "master' = master" "ctx' = ctx" using reader_unique r'(1) by blast+
  then show ?thesis using r'(2) r(2,3) same by simp
qed

text \<open>What a provider makes of the shared secret.\<close>

definition providerSecret :: "'o app_envir_scheme \<Rightarrow> string \<Rightarrow> string \<Rightarrow> string" where
  "providerSecret \<omega> base prefix = (if normalizePrefix prefix = DefaultPathPrefix then base
     else hmacSha256 \<omega> base (providerSecretLabel @ normalizePrefix prefix))"


text \<open>C20: a master key that does not match the stored fingerprint, with no key for it in the keyring, stops every load
  with an error before any row is read or written.\<close>

theorem fingerprint_mismatch_refuses:
  fixes \<omega> :: app_envir and w :: app_world
  assumes "mk_Master (providerAt \<omega> w prefix) = Inr (Some m)" "storedFingerprint \<omega> w = Some s" "s \<noteq> fingerprintOf \<omega> m"
    and "resolveKeyring \<omega> (providerAt \<omega> w prefix) = Inr kr" "map_of kr s = None"
    and "loadParamFromAppStorageAt prefix i codec gen \<omega> w = (res, w')"
  shows "(\<exists>e. res = Inl e) \<and> (\<exists>n. w' = w\<lparr>tick := n\<rparr>)"
proof -
  have "wp (verifyOrWriteFingerprint (Some m) (providerAt \<omega> w prefix)) (\<lambda>_ _. False) (\<lambda>_ w'. \<exists>n. w' = w\<lparr>tick := n\<rparr>) \<omega> w"
    by (rule verify_mismatch [OF assms(2,3)]) (simp add: assms(4,5))
  then have "wp (loadParamFromAppStorageAt prefix i codec gen) (\<lambda>_ _. False) (\<lambda>_ w'. \<exists>n. w' = w\<lparr>tick := n\<rparr>) \<omega> w"
    unfolding loadParamFromAppStorageAt_def
    by (simp add: wp_bindG [of "activeMasterKeyProviderAt _"] wp_activeMasterKeyProviderAt wp_bindG [of "mapErrG _ _"]
        wp_mapErrG wp_liftE assms(1) wp_bindG [of "verifyOrWriteFingerprint _ _"])
      (rule wp_mono, assumption, simp_all)
  from wp_outcome [OF this assms(6)] show ?thesis by (cases res) auto
qed

text \<open>The rows of key material are kept apart: the signing keys of two providers are rows of their own whenever
  the digest tells their prefixes apart, and none is the row of the secret, the context or the fingerprint.\<close>

theorem param_rows_distinct:
  assumes "canonicalPrefix p" "canonicalPrefix q" "p \<noteq> q" "take 12 (sha256 \<omega> p) \<noteq> take 12 (sha256 \<omega> q)"
  shows "providerParamID (\<omega> :: app_envir) paramsKeyOAuth2RSAKey p \<noteq> providerParamID \<omega> paramsKeyOAuth2RSAKey q
    \<and> providerParamID \<omega> paramsKeyOAuth2RSAKey p \<notin> {paramsKeyOAuth2GlobalSecret, paramsKeyOAuth2EnvelopeCtxID, fingerprintParamID}"
proof
  have inj: "hexEncode a = hexEncode b \<longleftrightarrow> a = b" for a b by (metis hexDecode_hexEncode option.inject)
  show "providerParamID \<omega> paramsKeyOAuth2RSAKey p \<noteq> providerParamID \<omega> paramsKeyOAuth2RSAKey q"
    using assms(3,4) by (auto simp: providerParamID_def Let_def canonicalPrefixD [OF assms(1)] canonicalPrefixD [OF assms(2)] inj)
  have "take 8 (providerParamID \<omega> paramsKeyOAuth2RSAKey p) = ''oauth2_r''" by (simp add: providerParamID_def param_ids Let_def)
  moreover have "x \<in> {paramsKeyOAuth2GlobalSecret, paramsKeyOAuth2EnvelopeCtxID, fingerprintParamID} \<Longrightarrow> take 8 x \<noteq> ''oauth2_r''" for x
    by (elim insertE emptyE) (simp_all add: param_ids)
  ultimately show "providerParamID \<omega> paramsKeyOAuth2RSAKey p \<notin> {paramsKeyOAuth2GlobalSecret, paramsKeyOAuth2EnvelopeCtxID, fingerprintParamID}"
    by blast
qed

subsection \<open>The concrete app\<close>

definition demoParam :: "string \<Rightarrow> string \<Rightarrow> param_row" where
  "demoParam i v = \<lparr>pm_id = i, pm_value = v, pm_created = 0, pm_updated = 0\<rparr>"

definition demoKey :: json_web_key where
  "demoKey = \<lparr>jk_Key = ''key'', jk_KeyID = ''kid'', jk_Algorithm = ''RS256'', jk_Use = ''sig''\<rparr>"

definition demoNonce :: string where "demoNonce = replicate 12 (CHR ''n'')"

text \<open>A signing key in plaintext, and a secret sealed by the retired master with the legacy context.\<close>

definition demoSealed :: string where
  "demoSealed = marshalEnvelope (sealWith demoAppEnv masterA ''/pb_data'' paramsKeyOAuth2GlobalSecret (hexEncode ''secret'') demoNonce)"

definition demoKeys :: app_world where
  "demoKeys = demoApp [demoParam paramsKeyOAuth2EnvelopeCtxID (jsonString ''ctx''),
     demoParam paramsKeyOAuth2RSAKey ''key|kid|RS256|sig'', demoParam paramsKeyOAuth2GlobalSecret demoSealed]"

lemma demo_lookups:
  "lookupParam demoKeys paramsKeyOAuth2EnvelopeCtxID = Some (demoParam paramsKeyOAuth2EnvelopeCtxID (jsonString ''ctx''))"
  "lookupParam demoKeys paramsKeyOAuth2RSAKey = Some (demoParam paramsKeyOAuth2RSAKey ''key|kid|RS256|sig'')"
  "lookupParam demoKeys paramsKeyOAuth2GlobalSecret = Some (demoParam paramsKeyOAuth2GlobalSecret demoSealed)"
  "lookupParam demoKeys fingerprintParamID = None"
  by (simp_all add: lookupParam_def demoKeys_def demoApp_def demoParam_def param_ids world.defs app_world.defs emptyWorld_def)

lemma demo_context: "contextOf demoAppEnv demoKeys = Some ''ctx''"
  by (simp add: contextOf_def demo_lookups demoParam_def demoAppEnv_def jsonString_def)

lemma demo_provider: "providerAt demoAppEnv demoKeys prefix = DefaultMasterKeyProvider demoAppEnv"
  by (simp add: providerAt_def getInstanceAt_def demoKeys_def demoApp_def world.defs app_world.defs emptyWorld_def)

lemma demo_getenv: "getenv demoAppEnv envEnvelopeMasterKey = hexEncode masterB" "getenv demoAppEnv envEnvelopeMasterKeysOld = hexEncode masterA"
  by (simp_all add: demoAppEnv_def envEnvelopeMasterKey_def envEnvelopeMasterKeysOld_def)

lemma demo_master: "envMaster demoAppEnv = Inr (Some masterB)"
proof -
  have "hexEncode masterB \<noteq> []" by (simp add: masterB_def)
  moreover have "decodeMasterKey (hexEncode masterB) = Inr masterB" by (rule decodeMasterKey_hex) (simp add: masterB_def)
  ultimately show ?thesis by (simp add: envMaster_def demo_getenv hex_trim hex_not_kms)
qed

lemma demo_fingerprints: "fingerprintOf demoAppEnv masterA \<noteq> fingerprintOf demoAppEnv masterB"
  by code_simp

lemma demo_keyring: "envKeyring demoAppEnv
   = Inr [(fingerprintOf demoAppEnv masterB, masterB), (fingerprintOf demoAppEnv masterA, masterA)]"
proof -
  have "hexEncode masterA \<noteq> []" by (simp add: masterA_def)
  moreover have "decodeMasterKey (hexEncode masterA) = Inr masterA" by (rule decodeMasterKey_hex) (simp add: masterA_def)
  ultimately show ?thesis using demo_fingerprints by (simp add: envKeyring_def demo_master demo_getenv hex_trim hex_split)
qed

lemma demo_keyringOk:
  "mk_Master (DefaultMasterKeyProvider demoAppEnv) = Inr (Some masterB)"
  "resolveKeyring demoAppEnv (DefaultMasterKeyProvider demoAppEnv)
     = Inr [(fingerprintOf demoAppEnv masterB, masterB), (fingerprintOf demoAppEnv masterA, masterA)]"
  "keyringOk demoAppEnv (DefaultMasterKeyProvider demoAppEnv) masterB"
  using demo_fingerprints
  by (auto simp: DefaultMasterKeyProvider_def demo_master resolveKeyring_def demo_keyring keyringOk_def)

lemma demo_own: "ownId paramsKeyOAuth2RSAKey" by (simp add: ownId_def param_ids)

lemma demo_key_id: "providerParamID demoAppEnv paramsKeyOAuth2RSAKey DefaultPathPrefix = paramsKeyOAuth2RSAKey"
  by (simp add: providerParamID_def Let_def)

text \<open>The same rows once an instance is configured with the new master only.\<close>

definition configured :: "app_world \<Rightarrow> app_world" where
  "configured w = w\<lparr>w_store := [(instanceStoreKey DefaultPathPrefix, StoredInstance demoInstance)]\<rparr>"

lemma configured_simps [simp]:
  "providerAt \<omega> (configured w) DefaultPathPrefix = demoMaster" "w_params (configured w) = w_params w"
  "lookupParam (configured w) i = lookupParam w i" "contextOf \<omega> (configured w) = contextOf \<omega> w"
  by (simp_all add: providerAt_def getInstanceAt_def configured_def demoInstance_def demoConfig_def lookupParam_def contextOf_def)

lemma demo_alone: "mk_Master demoMaster = Inr (Some masterB)" "alone demoAppEnv demoMaster masterB" "keyringOk demoAppEnv demoMaster masterB"
  by (simp_all add: demoMaster_def alone_def resolveKeyring_def keyringOk_def)

lemma demo_load_key:
  assumes "fingerprintOk demoAppEnv demoMaster masterB (w :: app_world)" "contextOf demoAppEnv w = Some ''ctx''"
    "providerAt demoAppEnv w DefaultPathPrefix = demoMaster" "lookupParam w paramsKeyOAuth2RSAKey = Some r"
    "rowValue demoAppEnv demoMaster (Some masterB) ''ctx'' paramsKeyOAuth2RSAKey (jwkCodec demoAppEnv) (pm_value r) = Inr demoKey"
  shows "\<exists>w' r'. loadPrivateKeyFromAppStorageAt DefaultPathPrefix demoAppEnv w = (Inr demoKey, w')
    \<and> fingerprintOk demoAppEnv demoMaster masterB w' \<and> contextOf demoAppEnv w' = Some ''ctx''
    \<and> lookupParam w' paramsKeyOAuth2RSAKey = Some r'
    \<and> rowValue demoAppEnv demoMaster (Some masterB) ''ctx'' paramsKeyOAuth2RSAKey (jwkCodec demoAppEnv) (pm_value r') = Inr demoKey"
proof -
  let ?P = "\<lambda>w'. contextOf demoAppEnv w' = Some ''ctx'' \<and> storedFingerprint demoAppEnv w' = Some (fingerprintOf demoAppEnv masterB)
      \<and> (\<exists>r'. lookupParam w' paramsKeyOAuth2RSAKey = Some r' \<and> (\<forall>p. alone demoAppEnv p masterB \<longrightarrow>
        rowValue demoAppEnv p (Some masterB) ''ctx'' paramsKeyOAuth2RSAKey (jwkCodec demoAppEnv) (pm_value r') = Inr demoKey))"
  have "wp (loadPrivateKeyFromAppStorageAt DefaultPathPrefix) (\<lambda>k w'. k = demoKey \<and> ?P w') (\<lambda>_ _. False) demoAppEnv w"
    unfolding loadPrivateKeyFromAppStorageAt_def wp_bindG [of "askG _"] wp_askG split demo_key_id
    by (rule wp_mono [OF param_value.wp_load_total [OF jwk_value [OF demo_appLaws] demo_appLaws demo_own demo_noFailures, of w]])
      (use assms demo_alone in simp_all)
  from wp_run [OF this] show ?thesis using demo_alone(2) stored_fingerprint_ok by metis
qed

lemma demo_plain_key: "rowValue demoAppEnv p m c i (jwkCodec demoAppEnv) ''key|kid|RS256|sig'' = Inr demoKey"
proof -
  have "toyJWK demoKey = Some ''key|kid|RS256|sig''" by code_simp
  then have "marshalJWK demoAppEnv demoKey = Some ''key|kid|RS256|sig''" by (simp add: demoAppEnv_def)
  then have e: "encodePlaintext (jwkCodec demoAppEnv) demoKey = Inr ''key|kid|RS256|sig''" by (simp add: jwkCodec_def)
  show ?thesis
    using jwk_plain [OF demo_appLaws e] param_value.decode_encode [OF jwk_value [OF demo_appLaws] e]
    by (simp only: rowValue_def option.case)
qed

lemma demo_first_load: "\<exists>w' r'. loadPrivateKeyFromAppStorageAt DefaultPathPrefix demoAppEnv (configured demoKeys) = (Inr demoKey, w')
    \<and> fingerprintOk demoAppEnv demoMaster masterB w' \<and> contextOf demoAppEnv w' = Some ''ctx''
    \<and> lookupParam w' paramsKeyOAuth2RSAKey = Some r'
    \<and> rowValue demoAppEnv demoMaster (Some masterB) ''ctx'' paramsKeyOAuth2RSAKey (jwkCodec demoAppEnv) (pm_value r') = Inr demoKey"
  by (rule demo_load_key)
    (use demo_plain_key in \<open>auto simp: fingerprintOk_def demo_lookups demo_context demoParam_def\<close>)


theorem signing_key_is_stable_witness:
  "\<exists>w1 w3 k'. loadPrivateKeyFromAppStorageAt DefaultPathPrefix demoAppEnv (configured demoKeys) = (Inr demoKey, w1)
    \<and> loadPrivateKeyFromAppStorageAt DefaultPathPrefix demoAppEnv w1 = (Inr k', w3) \<and> k' = demoKey"
proof -
  obtain w1 r' where run: "loadPrivateKeyFromAppStorageAt DefaultPathPrefix demoAppEnv (configured demoKeys) = (Inr demoKey, w1)"
    and st: "fingerprintOk demoAppEnv demoMaster masterB w1" "contextOf demoAppEnv w1 = Some ''ctx''"
      "lookupParam w1 paramsKeyOAuth2RSAKey = Some r'"
      "rowValue demoAppEnv demoMaster (Some masterB) ''ctx'' paramsKeyOAuth2RSAKey (jwkCodec demoAppEnv) (pm_value r') = Inr demoKey"
    using demo_first_load by blast
  have "providerAt demoAppEnv w1 DefaultPathPrefix = demoMaster"
    using providerAt_sameStore [OF keeps_outcome [OF keeps_store_key run], of demoAppEnv DefaultPathPrefix] by simp
  from demo_load_key [OF st(1,2) this st(3,4)] obtain k' w3
    where run2: "loadPrivateKeyFromAppStorageAt DefaultPathPrefix demoAppEnv w1 = (Inr k', w3)" by blast
  have "keyringOk demoAppEnv (providerAt demoAppEnv (configured demoKeys) DefaultPathPrefix) m"
    if "mk_Master (providerAt demoAppEnv (configured demoKeys) DefaultPathPrefix) = Inr (Some m)" for m
    using that demo_alone by simp
  from signing_key_is_stable [OF demo_appLaws this run refl refl run2] run run2 show ?thesis by blast
qed


theorem fingerprint_mismatch_refuses_witness:
  "\<exists>e w'. loadParamFromAppStorageAt DefaultPathPrefix paramsKeyOAuth2GlobalSecret bytesCodec (randomBytes 32) demoAppEnv
      (configured (demoApp [demoParam fingerprintParamID (jsonString ''other'')])) = (Inl e, w')
    \<and> w_params w' = [demoParam fingerprintParamID (jsonString ''other'')]"
proof -
  let ?w = "configured (demoApp [demoParam fingerprintParamID (jsonString ''other'')])"
  have "storedFingerprint demoAppEnv ?w = Some ''other''"
    by (simp add: storedFingerprint_def) (simp add: lookupParam_def demoApp_def demoParam_def world.defs app_world.defs emptyWorld_def demoAppEnv_def jsonString_def)
  moreover have "''other'' \<noteq> fingerprintOf demoAppEnv masterB" by code_simp
  moreover have "w_params ?w = [demoParam fingerprintParamID (jsonString ''other'')]"
    by (simp add: demoApp_def world.defs app_world.defs emptyWorld_def)
  moreover obtain res w' where run: "loadParamFromAppStorageAt DefaultPathPrefix paramsKeyOAuth2GlobalSecret bytesCodec (randomBytes 32)
      demoAppEnv ?w = (res, w')" by (metis surj_pair)
  moreover have "mk_Master (providerAt demoAppEnv ?w DefaultPathPrefix) = Inr (Some masterB)"
    "resolveKeyring demoAppEnv (providerAt demoAppEnv ?w DefaultPathPrefix) = Inr [(fingerprintOf demoAppEnv masterB, masterB)]"
    using demo_alone by (simp_all add: alone_def)
  ultimately have "(\<exists>e. res = Inl e) \<and> (\<exists>n. w' = ?w\<lparr>tick := n\<rparr>)"
    by (intro fingerprint_mismatch_refuses [OF _ _ _ _ _ run, of masterB "''other''" "[(fingerprintOf demoAppEnv masterB, masterB)]"]) simp_all
  moreover have "w_params (?w\<lparr>tick := n\<rparr>) = w_params ?w" for n by simp
  ultimately show ?thesis using run \<open>w_params ?w = _\<close> by metis
qed

theorem param_rows_distinct_witness:
  "providerParamID demoAppEnv paramsKeyOAuth2RSAKey DefaultPathPrefix \<noteq> providerParamID demoAppEnv paramsKeyOAuth2RSAKey ''/tenant''"
proof -
  have "take 12 (sha256 demoAppEnv DefaultPathPrefix) \<noteq> take 12 (sha256 demoAppEnv ''/tenant'')"
    by code_simp
  with param_rows_distinct [OF canonical_Default canonical_tenant, of demoAppEnv] show ?thesis by simp
qed

end
