(* ===== verification/Metadata_Properties.thy ===== *)
theory Metadata_Properties
  imports Metadata
begin

section \<open>Properties of the published metadata\<close>

subsection \<open>Issuers and key sets\<close>

text \<open>Two providers of one app have distinct issuers, whatever the app's URL; an issuer never ends with a
  slash unless it is the empty text of an app without a URL.\<close>

theorem issuers_distinct:
  assumes "canonicalPrefix p" "canonicalPrefix q" "p \<noteq> q"
  shows "md_Issuer (buildProviderMetadata url p) \<noteq> md_Issuer (buildProviderMetadata url q)
    \<and> (md_Issuer (buildProviderMetadata url p) = [] \<or> last (md_Issuer (buildProviderMetadata url p)) \<noteq> CHR ''/'')"
proof
  have iss: "md_Issuer (buildProviderMetadata url r) = providerIssuer url r" for r by (simp add: buildProviderMetadata_def Let_def)
  have "p \<noteq> []" "q \<noteq> []" using assms(1,2) canonicalPrefix_nonempty by auto
  then show "md_Issuer (buildProviderMetadata url p) \<noteq> md_Issuer (buildProviderMetadata url q)"
    using assms(3) unfolding iss providerIssuer_canonical [OF assms(1)] providerIssuer_canonical [OF assms(2)] by auto
  have "last p \<noteq> CHR ''/''" using normalizePrefix_shape_aux [of p] canonicalPrefixD [OF assms(1)] by simp
  then show "md_Issuer (buildProviderMetadata url p) = [] \<or> last (md_Issuer (buildProviderMetadata url p)) \<noteq> CHR ''/''"
    using trimRight_last [of url "CHR ''/''"] \<open>p \<noteq> []\<close> unfolding iss providerIssuer_canonical [OF assms(1)] by auto
qed

theorem issuers_distinct_witness:
  "md_Issuer (buildProviderMetadata ''https://a.example/'' DefaultPathPrefix) \<noteq> md_Issuer (buildProviderMetadata ''https://a.example/'' ''/tenant'')"
  using issuers_distinct [OF canonical_Default canonical_tenant] by simp

text \<open>The key sets of two providers are served at distinct paths, with one exception: the prefix
  /.well-known, whose path is the one of the default provider.\<close>

theorem jwksPath_collision:
  assumes "canonicalPrefix p" "canonicalPrefix q"
  shows "jwksPath p = jwksPath q \<longleftrightarrow> p = q \<or> {p, q} = {DefaultPathPrefix, ''/.well-known''}"
proof -
  have path: "jwksPath r = (if r = DefaultPathPrefix then ''/.well-known'' else r) @ ''/jwks.json''" if "canonicalPrefix r" for r
    using canonicalPrefixD [OF that] canonicalPrefix_nonempty [OF that] by (simp add: jwksPath_def wellKnownBase_def)
  show ?thesis unfolding path [OF assms(1)] path [OF assms(2)] append_same_eq by (auto simp: doubleton_eq_iff DefaultPathPrefix_def)
qed

theorem jwksPath_collision_witness:
  "jwksPath ''/.well-known'' = jwksPath DefaultPathPrefix \<and> jwksPath ''/tenant'' \<noteq> jwksPath DefaultPathPrefix"
proof -
  have "set ''/.well-known'' \<inter> set spaceBytes = {}" by code_simp
  then have w: "canonicalPrefix ''/.well-known''" unfolding canonicalPrefix_def by (intro normalizePrefix_id) simp_all
  have ne: "''/tenant'' \<noteq> ''/.well-known''" by simp
  show ?thesis
    unfolding jwksPath_collision [OF w canonical_Default] jwksPath_collision [OF canonical_tenant canonical_Default] doubleton_eq_iff
    by (simp only: ne tenant_not_Default simp_thms)
qed

subsection \<open>Protected resources\<close>

text \<open>Merging the scopes of a protected resource adds exactly the new ones behind the advertised ones, in
  order and once each; merging again changes nothing.\<close>

theorem mergeProtectedScopes_spec:
  fixes md :: provider_metadata
  shows "set (md_ScopesSupported (mergeProtectedScopes md scopes)) = set (md_ScopesSupported md) \<union> set scopes
    \<and> (\<exists>new. md_ScopesSupported (mergeProtectedScopes md scopes) = md_ScopesSupported md @ new)
    \<and> (\<not> distinct (md_ScopesSupported md) \<or> distinct (md_ScopesSupported (mergeProtectedScopes md scopes)))
    \<and> mergeProtectedScopes (mergeProtectedScopes md scopes) scopes = mergeProtectedScopes md scopes"
proof -
  note spec = appendScopes_spec [of "md_ScopesSupported md" scopes]
  have "appendScopes (appendScopes (md_ScopesSupported md) scopes) scopes = appendScopes (md_ScopesSupported md) scopes"
    using spec by (intro appendScopes_known) blast
  with spec show ?thesis by (auto simp: mergeProtectedScopes_def)
qed

theorem mergeProtectedScopes_witness:
  "\<exists>md. distinct (md_ScopesSupported md) \<and> distinct (md_ScopesSupported (mergeProtectedScopes md [''openid'', ''api'']))
     \<and> set (md_ScopesSupported (mergeProtectedScopes md [''openid'', ''api''])) = set (md_ScopesSupported md) \<union> {''openid'', ''api''}"
proof (rule exI [of _ "buildProviderMetadata ''https://a.example'' DefaultPathPrefix"])
  let ?md = "buildProviderMetadata ''https://a.example'' DefaultPathPrefix"
  have "distinct (md_ScopesSupported ?md)" by (simp add: buildProviderMetadata_def Let_def)
  then show "distinct (md_ScopesSupported ?md) \<and> distinct (md_ScopesSupported (mergeProtectedScopes ?md [''openid'', ''api'']))
     \<and> set (md_ScopesSupported (mergeProtectedScopes ?md [''openid'', ''api''])) = set (md_ScopesSupported ?md) \<union> {''openid'', ''api''}"
    using mergeProtectedScopes_spec [of ?md "[''openid'', ''api'']"] by simp
qed

text \<open>The challenge of an unauthenticated request to the user info endpoint of the default provider names a
  metadata URL that no route of the provider serves: the path has two segments behind the route's one.\<close>

theorem userinfo_challenge_is_unroutable:
  "(\<exists>head tail. requireAuth9728 url (DefaultPathPrefix @ ''/userinfo'') False = Unauthorized (head @ resourceMetadataURL url (DefaultPathPrefix @ ''/userinfo'') @ tail))
   \<and> resourceMetadataURL url (DefaultPathPrefix @ ''/userinfo'')
      = trimBoth url (CHR ''/'') @ ''/.well-known/oauth-protected-resource/oauth2/userinfo''
   \<and> protectedResourceOf DefaultPathPrefix ''/.well-known/oauth-protected-resource/oauth2/userinfo'' = None"
proof -
  have "trimBoth (DefaultPathPrefix @ ''/userinfo'') (CHR ''/'') = ''oauth2/userinfo''" by code_simp
  moreover have "protectedResourceOf DefaultPathPrefix ''/.well-known/oauth-protected-resource/oauth2/userinfo'' = None" by code_simp
  moreover have "\<exists>head tail. requireAuth9728 url path False = Unauthorized (head @ resourceMetadataURL url path @ tail)" for path
    unfolding requireAuth9728_def resourceMetadataURL_def [symmetric] by (simp only: if_True not_False_eq_True challenge.inject append_assoc) blast
  ultimately show ?thesis by (intro conjI) (blast, simp add: resourceMetadataURL_def, blast)
qed

end
