(* ===== verification/Access.thy ===== *)
theory Access
  imports App_State Refresh_Store
begin

section \<open>Accepting an access token (access_authority.go, strategy.go, middleware.go)\<close>

text \<open>
  The three ways an access token is accepted: the attestation for embedding applications, fosite's core strategy,
  and the middlewares for resource routes. All of them read the access row of the token and ask for the terminal
  authority of its request. The user records of PocketBase, its tokens and fosite's introspection are
  parameters: the fields of \<open>http_envir\<close>, indexed by the tick at which they are asked.
\<close>

subsection \<open>Users and tokens\<close>

record auth_collection =
  co_Id :: string
  co_Name :: string
  co_PasswordAuth :: bool
  co_OTP :: bool
  co_MFA :: bool
  co_Fields :: "(string \<times> string) list"

text \<open>A value of a record as its typed getters read it; times are in microseconds.\<close>

record field_value =
  fv_String :: string
  fv_Bool :: bool
  fv_Time :: int

record auth_record =
  au_Id :: string
  au_Collection :: auth_collection
  au_BaseFilesPath :: string
  au_Values :: "string \<Rightarrow> field_value"

record introspection =
  ip_Use :: token_type
  ip_Granted :: "string list option"
  ip_Error :: "goerr option"

record http_envir = app_envir +
  findAuthByToken :: "nat \<Rightarrow> string \<Rightarrow> goerr + auth_record"
  findRecordById :: "nat \<Rightarrow> string \<Rightarrow> string \<Rightarrow> goerr + auth_record"
  newStaticAuthToken :: "nat \<Rightarrow> auth_record \<Rightarrow> goerr + string"
  introspectToken :: "nat \<Rightarrow> string \<Rightarrow> introspection"
  errorString :: "goerr \<Rightarrow> string"

type_synonym ('o, 'w, 'a) httpgo = "('o http_envir_scheme, 'w app_world_scheme, 'a) go"

text \<open>A question to the environment at the current tick.\<close>

definition askTick :: "('o \<Rightarrow> nat \<Rightarrow> 'a) \<Rightarrow> ('o, 'w base_world_scheme, 'a) go" where
  "askTick f = bindG nextTick (\<lambda>n. askG (\<lambda>\<omega>. f \<omega> n))"

definition liftSum :: "goerr + 'a \<Rightarrow> ('o, 'w, 'a) go" where
  "liftSum r = (case r of Inl e \<Rightarrow> throwG e | Inr a \<Rightarrow> returnG a)"

definition FindAuthRecordByToken :: "string \<Rightarrow> ('o, 'w, auth_record) httpgo" where
  "FindAuthRecordByToken token = bindG (askTick (\<lambda>\<omega> n. findAuthByToken \<omega> n token)) liftSum"

subsection \<open>The attestation of a live token\<close>

record access_authority =
  aa_ProviderPrefix :: string
  aa_ClientID :: string
  aa_SubjectID :: string
  aa_UserCollection :: string
  aa_ExpiresAt :: int

text \<open>The zero value of \<open>Session\<close>, which \<open>json.Unmarshal\<close> decodes into.\<close>

definition zeroSession :: session where
  "zeroSession = \<lparr>ses_Claims = None, ses_Headers = None, ses_ExpiresAt = [], ses_Username = [], ses_Subject = [],
     ses_CollectionId = []\<rparr>"

text \<open>The checks once the row is found and the family allows it.\<close>

definition attestRow :: "op_instance \<Rightarrow> oauth2store \<Rightarrow> string \<Rightarrow> auth_record \<Rightarrow> session_row \<Rightarrow> ('o, 'w, access_authority) httpgo" where
  "attestRow inst store prefix auth row = bindG timeNow (\<lambda>now. case GetExpiresAt row of
       None \<Rightarrow> throwG (plainErr ErrInactiveToken)
     | Some expiresAt \<Rightarrow>
         if \<not> now < expiresAt then throwG (plainErr ErrInactiveToken)
         else if sr_subject row = [] \<or> sr_subject row \<noteq> au_Id auth
         then throwG (textErr ''access-token subject attestation mismatch'')
         else if cf_UserCollection (it_cfg inst) = [] \<or> co_Name (au_Collection auth) \<noteq> cf_UserCollection (it_cfg inst)
         then throwG (textErr ''access-token provider-plane collection mismatch'')
         else bindG (askG (\<lambda>\<omega>. unmarshalSession \<omega> (sr_session_data row) zeroSession)) (\<lambda>s. case s of
           None \<Rightarrow> throwG (textErr ''invalid access-token session'')
         | Some session \<Rightarrow>
             if ses_CollectionId session = [] \<or> ses_CollectionId session \<noteq> co_Id (au_Collection auth)
             then throwG (textErr ''access-token collection attestation mismatch'')
             else bindG (mapErrG (\<lambda>e. ErrText ''access-token client is not live in provider'' (Some e))
                    (GetClient store (sr_client_id row))) (\<lambda>_.
             returnG \<lparr>aa_ProviderPrefix = prefix, aa_ClientID = sr_client_id row, aa_SubjectID = au_Id auth,
               aa_UserCollection = co_Name (au_Collection auth), aa_ExpiresAt = expiresAt\<rparr>)))"

definition ValidateAccessTokenAuthorityAt :: "bool \<Rightarrow> string \<Rightarrow> string \<Rightarrow> ('o, 'w, access_authority) httpgo" where
  "ValidateAccessTokenAuthorityAt ctxNil prefix0 rawToken =
     (if ctxNil then throwG (textErr ''context is required'')
      else let prefix = normalizePrefix prefix0 in
      bindG (readG (\<lambda>w. getInstanceAt w prefix)) (\<lambda>i. case i of
        None \<Rightarrow> throwG (textErr ''OAuth provider is not initialized'')
      | Some inst \<Rightarrow> (case it_store inst of
          None \<Rightarrow> throwG (textErr ''OAuth provider is not initialized'')
        | Some store \<Rightarrow>
          bindG (mapErrG (\<lambda>e. ErrText ''invalid access token'' (Some e)) (FindAuthRecordByToken rawToken)) (\<lambda>auth.
          let parts = splitOn (CHR ''.'') rawToken in
          if length parts \<noteq> 3 \<or> parts ! 2 = [] then throwG (plainErr ErrInvalidTokenFormat)
          else bindG (mapErrG (\<lambda>e. if errorsIs e ErrNotFound then plainErr ErrInactiveToken else e)
                 (findSessionModelBySignature AccessC prefix (parts ! 2))) (\<lambda>row.
          bindG (assertRefreshFamilyAllowsAccess prefix (sr_request_id row)) (\<lambda>_.
          attestRow inst store prefix auth row))))))"

subsection \<open>fosite's core strategy\<close>

record strategy =
  sg_ProviderPrefix :: string

definition NewPocketBaseStrategyAt :: "string \<Rightarrow> strategy" where
  "NewPocketBaseStrategyAt prefix = \<lparr>sg_ProviderPrefix = normalizePrefix prefix\<rparr>"

definition NewPocketBaseStrategy :: strategy where
  "NewPocketBaseStrategy = NewPocketBaseStrategyAt DefaultPathPrefix"

definition AccessTokenSignature :: "string \<Rightarrow> string" where
  "AccessTokenSignature token = (let split = splitOn (CHR ''.'') token in
     if length split \<noteq> 3 then [] else split ! 2)"

text \<open>\<open>None\<close> is a session of another type.\<close>

definition GenerateAccessToken :: "session option \<Rightarrow> ('o, 'w, string \<times> string) httpgo" where
  "GenerateAccessToken s = (case s of
     None \<Rightarrow> throwG (textErr ''Session must be of type oauth2.Session'')
   | Some session \<Rightarrow>
       bindG (mapErrG (\<lambda>e. ErrText ''Failed to get auth record for session'' (Some e))
         (bindG (askTick (\<lambda>\<omega> n. findRecordById \<omega> n (ses_CollectionId session) (ses_Subject session))) liftSum)) (\<lambda>user.
       bindG (mapErrG (\<lambda>e. ErrText ''Failed to generate new auth token'' (Some e))
         (bindG (askTick (\<lambda>\<omega> n. newStaticAuthToken \<omega> n user)) liftSum)) (\<lambda>token.
       returnG (token, AccessTokenSignature token))))"

definition ValidateAccessToken :: "strategy \<Rightarrow> string \<Rightarrow> ('o, 'w, unit) httpgo" where
  "ValidateAccessToken s token =
     bindG (FindAuthRecordByToken token) (\<lambda>_.
     let signature = AccessTokenSignature token in
     if signature = [] then throwG (plainErr ErrInvalidTokenFormat)
     else bindG (mapErrG (\<lambda>e. if errorsIs e ErrNotFound then plainErr ErrInactiveToken else e)
            (findSessionModelBySignature AccessC (sg_ProviderPrefix s) signature)) (\<lambda>row.
     assertRefreshFamilyAllowsAccess (sg_ProviderPrefix s) (sr_request_id row)))"

text \<open>
  Refresh tokens and codes are left to the HMAC strategy of fosite, a parameter. Signing and checking them reads no
  row; storing them is the business of the store.
\<close>

record ('o, 'w) hmac_strategy =
  hm_RefreshTokenSignature :: "string \<Rightarrow> string"
  hm_GenerateRefreshToken :: "requester \<Rightarrow> ('o, 'w, string \<times> string) httpgo"
  hm_ValidateRefreshToken :: "requester \<Rightarrow> string \<Rightarrow> ('o, 'w, unit) httpgo"
  hm_AuthorizeCodeSignature :: "string \<Rightarrow> string"
  hm_GenerateAuthorizeCode :: "requester \<Rightarrow> ('o, 'w, string \<times> string) httpgo"
  hm_ValidateAuthorizeCode :: "requester \<Rightarrow> string \<Rightarrow> ('o, 'w, unit) httpgo"

definition RefreshTokenSignature :: "('o, 'w) hmac_strategy \<Rightarrow> string \<Rightarrow> string" where
  "RefreshTokenSignature hmac token = hm_RefreshTokenSignature hmac token"

definition GenerateRefreshToken :: "('o, 'w) hmac_strategy \<Rightarrow> requester \<Rightarrow> ('o, 'w, string \<times> string) httpgo" where
  "GenerateRefreshToken hmac requester = hm_GenerateRefreshToken hmac requester"

definition ValidateRefreshToken :: "('o, 'w) hmac_strategy \<Rightarrow> requester \<Rightarrow> string \<Rightarrow> ('o, 'w, unit) httpgo" where
  "ValidateRefreshToken hmac requester token = hm_ValidateRefreshToken hmac requester token"

definition AuthorizeCodeSignature :: "('o, 'w) hmac_strategy \<Rightarrow> string \<Rightarrow> string" where
  "AuthorizeCodeSignature hmac token = hm_AuthorizeCodeSignature hmac token"

definition GenerateAuthorizeCode :: "('o, 'w) hmac_strategy \<Rightarrow> requester \<Rightarrow> ('o, 'w, string \<times> string) httpgo" where
  "GenerateAuthorizeCode hmac requester = hm_GenerateAuthorizeCode hmac requester"

definition ValidateAuthorizeCode :: "('o, 'w) hmac_strategy \<Rightarrow> requester \<Rightarrow> string \<Rightarrow> ('o, 'w, unit) httpgo" where
  "ValidateAuthorizeCode hmac requester token = hm_ValidateAuthorizeCode hmac requester token"

subsection \<open>Middlewares\<close>

text \<open>
  A middleware passes the request on, with the scopes it found if it looked for them, or answers it with a
  status and the parameters of a \<open>WWW-Authenticate\<close> challenge for the realm OAuth.
\<close>

record bearer_challenge =
  ch_Error :: string
  ch_Description :: string
  ch_Scope :: "string option"

datatype verdict = GoOn "string list option" | Refuse nat bearer_challenge

definition invalidToken :: "string \<Rightarrow> verdict" where
  "invalidToken desc = Refuse 401 \<lparr>ch_Error = ''invalid_token'', ch_Description = desc, ch_Scope = None\<rparr>"

definition bearerTokenFromHeader :: "string \<Rightarrow> string" where
  "bearerTokenFromHeader authz = (let prefix = ''bearer '' in
     if length authz \<le> length prefix then []
     else if \<not> equalFold (take (length prefix) authz) prefix then []
     else trimSpace (drop (length prefix) authz))"

text \<open>The scopes that are required and not granted.\<close>

fun missingScopes :: "string list \<Rightarrow> string list \<Rightarrow> string list" where
  "missingScopes granted [] = []"
| "missingScopes granted (req # reqs) =
     (if \<not> slicesContains granted req then req # missingScopes granted reqs else missingScopes granted reqs)"

definition RequireScopeAt :: "string \<Rightarrow> string list \<Rightarrow> string \<Rightarrow> ('o, 'w, verdict) httpgo" where
  "RequireScopeAt prefix requiredScopes authz =
     (let token = bearerTokenFromHeader authz in
      if token = [] then returnG (invalidToken ''The access token is missing or malformed.'')
      else bindG (readG (\<lambda>w. getInstanceAt w prefix)) (\<lambda>i. case i of
        None \<Rightarrow> returnG (invalidToken ''OAuth2 plugin not initialized.'')
      | Some inst \<Rightarrow>
        bindG (askTick (\<lambda>\<omega> n. introspectToken \<omega> n token)) (\<lambda>r.
        bindG (askG errorString) (\<lambda>text.
        case (ip_Error r, ip_Granted r) of
          (None, Some granted) \<Rightarrow>
            if ip_Use r \<noteq> AccessToken then returnG (invalidToken ''The presented token is not an access token.'')
            else if missingScopes granted requiredScopes \<noteq> []
            then returnG (Refuse 403 \<lparr>ch_Error = ''insufficient_scope'',
                   ch_Description = ''The request requires higher privileges than provided by the access token.'',
                   ch_Scope = Some (joinWith '' '' requiredScopes)\<rparr>)
            else returnG (GoOn (Some granted))
        | (Some ierr, _) \<Rightarrow> returnG (invalidToken (text ierr))
        | (None, None) \<Rightarrow> returnG (invalidToken
            ''The access token provided is expired, revoked, malformed, or invalid for other reasons.'')))))"

definition RequireScope :: "string list \<Rightarrow> string \<Rightarrow> ('o, 'w, verdict) httpgo" where
  "RequireScope requiredScopes authz = RequireScopeAt DefaultPathPrefix requiredScopes authz"

definition RevokedTokenGuardAt :: "string \<Rightarrow> string \<Rightarrow> ('o, 'w, verdict) httpgo" where
  "RevokedTokenGuardAt prefix0 authz =
     (let prefix = normalizePrefix prefix0; token = bearerTokenFromHeader authz in
      if token = [] then returnG (invalidToken ''The access token is missing or malformed.'')
      else let parts = splitOn (CHR ''.'') token in
      if length parts \<noteq> 3 then returnG (invalidToken ''The presented token is not an OAuth access token.'')
      else bindG (attemptG (findSessionModelBySignature AccessC prefix (parts ! 2))) (\<lambda>r. case r of
        Inl err \<Rightarrow> returnG (invalidToken (if errorsIs err ErrNotFound then ''The access token has been revoked or expired.''
                      else ''Failed to validate access token.''))
      | Inr row \<Rightarrow> bindG (attemptG (assertRefreshFamilyAllowsAccess prefix (sr_request_id row))) (\<lambda>s. case s of
          Inl _ \<Rightarrow> returnG (invalidToken ''The access token has been revoked or expired.'')
        | Inr _ \<Rightarrow> returnG (GoOn None))))"

definition RevokedTokenGuard :: "string \<Rightarrow> ('o, 'w, verdict) httpgo" where
  "RevokedTokenGuard authz = RevokedTokenGuardAt DefaultPathPrefix authz"

end
