(* ===== verification/Access_Properties.thy ===== *)
theory Access_Properties
  imports Access Param_Demo Store_Safety
begin

section \<open>Properties of the acceptance of access tokens\<close>

subsection \<open>The steps that every acceptance shares\<close>

lemma wp_askTick [wp_simps]: "wp (askTick f) Q E \<omega> w = Q (f \<omega> (tick w)) (w\<lparr>tick := Suc (tick w)\<rparr>)"
  by (simp add: askTick_def wp_simps)

lemma wp_liftSum [wp_simps]: "wp (liftSum r) Q E \<omega> w = (case r of Inl e \<Rightarrow> E e w | Inr a \<Rightarrow> Q a w)"
  by (simp add: liftSum_def wp_simps split: sum.splits)

lemma wp_FindAuthRecordByToken [wp_simps]: "wp (FindAuthRecordByToken token) Q E \<omega> w =
   (case findAuthByToken \<omega> (tick w) token of Inl e \<Rightarrow> E e (w\<lparr>tick := Suc (tick w)\<rparr>) | Inr a \<Rightarrow> Q a (w\<lparr>tick := Suc (tick w)\<rparr>))"
  by (simp add: FindAuthRecordByToken_def wp_simps)

lemma wp_returnG_fun: "wp (returnG a) Q E \<omega> = Q a"
  by (rule ext) (simp add: wp_returnG)

lemma same_tick [simp]: "\<exists>n. w = w\<lparr>tick := n\<rparr>"
  by (rule exI [of _ "tick w"]) simp

text \<open>The family check passes only for requests without terminal authority, and changes nothing.\<close>

lemma wp_assertAllows:
  assumes "canonicalPrefix p" "\<And>n. q = [] \<or> \<not> terminal w p q \<Longrightarrow> Q () (w\<lparr>tick := n\<rparr>)" "\<And>e n. E e (w\<lparr>tick := n\<rparr>)"
  shows "wp (assertRefreshFamilyAllowsAccess p q) Q E \<omega> w"
  unfolding assertRefreshFamilyAllowsAccess_def
  using assms assms(2) [of "tick w"] by (cases "q = []") (auto simp: wp_simps Let_def split: option.splits)

lemma GetClient_some:
  assumes "\<And>c n. \<exists>r \<in> set (w_clients w). cr_client_id r = k \<and> providerPrefixExp w (st_prefix s) (cr_provider_prefix r) \<Longrightarrow> Q c (w\<lparr>tick := n\<rparr>)"
    and "\<And>e n. E e (w\<lparr>tick := n\<rparr>)"
  shows "wp (GetClient s k) Q E \<omega> w"
proof -
  let ?P = "\<lambda>r. cr_client_id r = k \<and> providerPrefixExp w (st_prefix s) (cr_provider_prefix r)"
  have "m \<in> set (w_clients w) \<and> ?P m" if "find ?P (w_clients w) = Some m" for m
    using that by (auto simp: find_Some_iff)
  then have q: "Q c (w\<lparr>tick := n\<rparr>)" if "find ?P (w_clients w) = Some m" for m c n
    using that assms(1) by blast
  show ?thesis
    using q assms(2) unfolding GetClient_def queryClients_def ToClient_def
    by (cases "find ?P (w_clients w)") (simp_all add: wp_simps Let_def filter_case_find)
qed

lemma splitOn_signature:
  "length (splitOn (CHR ''.'') token) = 3 \<Longrightarrow> splitOn (CHR ''.'') token ! 2 = AccessTokenSignature token"
  by (simp add: AccessTokenSignature_def Let_def)

subsection \<open>The attestation\<close>

text \<open>What a live token of a provider is.\<close>

definition attested :: "'o http_envir_scheme \<Rightarrow> 'w app_world_scheme \<Rightarrow> string \<Rightarrow> string \<Rightarrow> access_authority \<Rightarrow> bool" where
  "attested \<omega> w p token a \<longleftrightarrow> (\<exists>inst store auth row n.
     getInstanceAt w p = Some inst \<and> it_store inst = Some store
     \<and> findAuthByToken \<omega> (tick w) token = Inr auth \<and> lookupSig w AccessC p (AccessTokenSignature token) = Some row
     \<and> (sr_request_id row = [] \<or> \<not> terminal w p (sr_request_id row))
     \<and> GetExpiresAt row = Some (aa_ExpiresAt a) \<and> clock \<omega> n < aa_ExpiresAt a
     \<and> sr_subject row = au_Id auth \<and> au_Id auth \<noteq> []
     \<and> co_Name (au_Collection auth) = cf_UserCollection (it_cfg inst)
     \<and> (\<exists>r \<in> set (w_clients w). cr_client_id r = sr_client_id row \<and> providerPrefixExp w (st_prefix store) (cr_provider_prefix r))
     \<and> aa_ProviderPrefix a = p \<and> aa_ClientID a = sr_client_id row \<and> aa_SubjectID a = sr_subject row
     \<and> aa_UserCollection a = cf_UserCollection (it_cfg inst))"

lemma wp_attestRow:
  assumes "\<And>a n n'. GetExpiresAt row = Some (aa_ExpiresAt a) \<Longrightarrow> clock \<omega> n < aa_ExpiresAt a \<Longrightarrow>
      sr_subject row = au_Id auth \<Longrightarrow> au_Id auth \<noteq> [] \<Longrightarrow> co_Name (au_Collection auth) = cf_UserCollection (it_cfg inst) \<Longrightarrow>
      \<exists>r \<in> set (w_clients w). cr_client_id r = sr_client_id row \<and> providerPrefixExp w (st_prefix store) (cr_provider_prefix r) \<Longrightarrow>
      aa_ProviderPrefix a = p \<Longrightarrow> aa_ClientID a = sr_client_id row \<Longrightarrow> aa_SubjectID a = sr_subject row \<Longrightarrow>
      aa_UserCollection a = cf_UserCollection (it_cfg inst) \<Longrightarrow> Q a (w\<lparr>tick := n'\<rparr>)"
    and "\<And>e n. E e (w\<lparr>tick := n\<rparr>)"
  shows "wp (attestRow inst store p auth row) Q E \<omega> w"
proof (cases "GetExpiresAt row")
  case None
  then show ?thesis using assms(2) by (simp add: attestRow_def wp_simps)
next
  case (Some t)
  have client: "wp (GetClient store (sr_client_id row)) (\<lambda>_. Q \<lparr>aa_ProviderPrefix = p, aa_ClientID = sr_client_id row,
      aa_SubjectID = au_Id auth, aa_UserCollection = co_Name (au_Collection auth), aa_ExpiresAt = t\<rparr>)
      (\<lambda>e. E (ErrText ''access-token client is not live in provider'' (Some e))) \<omega> (w\<lparr>tick := n'\<rparr>)"
    if "clock \<omega> n < t" "sr_subject row = au_Id auth" "au_Id auth \<noteq> []" "co_Name (au_Collection auth) = cf_UserCollection (it_cfg inst)" for n n'
    by (rule GetClient_some) (use assms(2) in simp_all, rule assms(1) [of _ n], use that Some in simp_all)
  show ?thesis using assms(2) client Some
    by (auto simp: attestRow_def wp_simps wp_returnG_fun split: option.splits)
qed

lemma wp_authority:
  assumes "canonicalPrefix p"
  shows "wp (ValidateAccessTokenAuthorityAt False p token)
     (\<lambda>a w'. attested \<omega> w p token a \<and> (\<exists>n. w' = w\<lparr>tick := n\<rparr>)) (\<lambda>_ w'. \<exists>n. w' = w\<lparr>tick := n\<rparr>) \<omega> w"
proof -
  let ?Q = "\<lambda>a w'. attested \<omega> w p token a \<and> (\<exists>n. w' = w\<lparr>tick := n\<rparr>)" and ?E = "\<lambda>_ w'. \<exists>n. w' = w\<lparr>tick := n\<rparr>"
  have row: "wp (bindG (assertRefreshFamilyAllowsAccess p (sr_request_id row)) (\<lambda>_. attestRow inst store p auth row)) ?Q ?E \<omega> (w\<lparr>tick := n\<rparr>)"
    if "getInstanceAt w p = Some inst" "it_store inst = Some store" "findAuthByToken \<omega> (tick w) token = Inr auth"
      "lookupSig w AccessC p (AccessTokenSignature token) = Some row" for inst store auth row n
    unfolding wp_bindG [of "assertRefreshFamilyAllowsAccess _ _"]
  proof (rule wp_assertAllows [OF assms])
    fix k assume "sr_request_id row = [] \<or> \<not> terminal (w\<lparr>tick := n\<rparr>) p (sr_request_id row)"
    with that show "wp (attestRow inst store p auth row) ?Q ?E \<omega> (w\<lparr>tick := n, tick := k\<rparr>)"
      by (intro wp_attestRow) (auto simp: attested_def)
  qed auto
  show ?thesis
    unfolding ValidateAccessTokenAuthorityAt_def canonicalPrefixD [OF assms]
    using row by (auto simp: wp_bindG [of "readG _"] wp_readG wp_bindG [of "mapErrG _ _"] wp_mapErrG wp_FindAuthRecordByToken
        wp_findSessionModelBySignature wp_throwG Let_def splitOn_signature split: option.splits sum.splits)
qed

lemma wp_ValidateAccessToken:
  assumes "canonicalPrefix p"
  shows "wp (ValidateAccessToken (NewPocketBaseStrategyAt p) token)
     (\<lambda>_ _. \<exists>row auth. findAuthByToken \<omega> (tick w) token = Inr auth \<and> lookupSig w AccessC p (AccessTokenSignature token) = Some row
        \<and> (sr_request_id row = [] \<or> \<not> terminal w p (sr_request_id row))) (\<lambda>_ _. True) \<omega> w"
  unfolding ValidateAccessToken_def NewPocketBaseStrategyAt_def
  by (auto simp: canonicalPrefixD [OF assms] wp_bindG [of "FindAuthRecordByToken _"] wp_FindAuthRecordByToken Let_def wp_throwG
      wp_bindG [of "mapErrG _ _"] wp_mapErrG wp_findSessionModelBySignature intro!: wp_assertAllows [OF assms]
      split: option.splits sum.splits)

lemma wp_RevokedTokenGuardAt:
  assumes "canonicalPrefix p"
  shows "wp (RevokedTokenGuardAt p authz)
     (\<lambda>v _. (\<exists>s. v = GoOn s) \<longrightarrow> (\<exists>row. lookupSig w AccessC p (AccessTokenSignature (bearerTokenFromHeader authz)) = Some row
        \<and> (sr_request_id row = [] \<or> \<not> terminal w p (sr_request_id row)))) (\<lambda>_ _. False) \<omega> w"
  unfolding RevokedTokenGuardAt_def
  by (auto simp: canonicalPrefixD [OF assms] Let_def wp_returnG wp_bindG [of "attemptG _"] wp_attemptG invalidToken_def
      wp_findSessionModelBySignature splitOn_signature intro!: wp_assertAllows [OF assms] split: option.splits)

text \<open>C21: an attested access token is live: the provider is registered, PocketBase accepts the token, its access
  row is visible to the provider, unexpired, of the same user and of the provider's user collection, its client
  still exists, and its request has no terminal authority; the call changes nothing.\<close>

theorem attested_token_is_live:
  fixes \<omega> :: http_envir and w :: app_world
  assumes "canonicalPrefix p" "ValidateAccessTokenAuthorityAt False p token \<omega> w = (Inr a, w')"
  shows "attested \<omega> w p token a \<and> (\<exists>n. w' = w\<lparr>tick := n\<rparr>)"
  using wp_outcome_Inr [OF wp_authority [OF assms(1)] assms(2)] .

text \<open>C22: revocation reaches every path: once the request of an access token is terminal, then after any run of
  storage calls neither the attestation nor the strategy nor the guard accepts the token, also when its row is
  still in the table.\<close>

theorem terminal_tokens_rejected:
  fixes \<omega> :: http_envir and w :: app_world
  assumes "store_run A w0 (world.truncate w)" "idsOk w0" "terminal w0 p q" "q \<noteq> []" "canonicalPrefix p"
    and "lookupSig w AccessC p (AccessTokenSignature token) = Some row" "sr_request_id row = q"
    and "bearerTokenFromHeader authz = token"
  shows "(\<exists>e. fst (ValidateAccessTokenAuthorityAt False p token \<omega> w) = Inl e)
    \<and> (\<exists>e. fst (ValidateAccessToken (NewPocketBaseStrategyAt p) token \<omega> w) = Inl e)
    \<and> (\<exists>s c. fst (RevokedTokenGuardAt p authz \<omega> w) = Inr (Refuse s c))"
proof -
  have "terminal (world.truncate w) p q"
    using store_run_idsOk(3) [OF store_run_tombStays [OF assms(1)] assms(2)] assms(3) by (rule tombStays_terminal)
  then have t: "terminal w p q" by (simp add: terminal_def world.defs)
  show ?thesis
    using wp_authority [OF assms(5), where token = token and \<omega> = \<omega> and w = w]
      wp_ValidateAccessToken [OF assms(5), where token = token and \<omega> = \<omega> and w = w]
      wp_RevokedTokenGuardAt [OF assms(5), where authz = authz and \<omega> = \<omega> and w = w] t assms(4,6-8)
    by (auto simp: wp_def attested_def split: prod.splits sum.splits) (metis verdict.exhaust)
qed

text \<open>A request passes the scope middleware only with an access token that the provider's introspection
  accepts, and only with every required scope granted; otherwise it is answered with 401 or 403.\<close>

theorem scopes_are_enforced:
  fixes \<omega> :: http_envir and w :: app_world
  shows "\<exists>v w'. RequireScopeAt p required authz \<omega> w = (Inr v, w') \<and> (case v of
      GoOn s \<Rightarrow> (\<exists>inst granted. getInstanceAt w p = Some inst \<and> s = Some granted \<and> set required \<subseteq> set granted
         \<and> introspectToken \<omega> (tick w) (bearerTokenFromHeader authz)
            = \<lparr>ip_Use = AccessToken, ip_Granted = Some granted, ip_Error = None\<rparr>)
    | Refuse status c \<Rightarrow> status = 401 \<and> ch_Error c = ''invalid_token'' \<or> status = 403 \<and> ch_Error c = ''insufficient_scope''
         \<and> ch_Scope c = Some (joinWith '' '' required))"
proof -
  have missing: "missingScopes granted req = [] \<longleftrightarrow> set req \<subseteq> set granted" for granted req
    by (induction req) (auto simp: slicesContains_iff)
  have "wp (RequireScopeAt p required authz) (\<lambda>v w'. case v of
      GoOn s \<Rightarrow> (\<exists>inst granted. getInstanceAt w p = Some inst \<and> s = Some granted \<and> set required \<subseteq> set granted
         \<and> introspectToken \<omega> (tick w) (bearerTokenFromHeader authz)
            = \<lparr>ip_Use = AccessToken, ip_Granted = Some granted, ip_Error = None\<rparr>)
    | Refuse status c \<Rightarrow> status = 401 \<and> ch_Error c = ''invalid_token'' \<or> status = 403 \<and> ch_Error c = ''insufficient_scope''
         \<and> ch_Scope c = Some (joinWith '' '' required)) (\<lambda>_ _. False) \<omega> w"
    by (auto simp: RequireScopeAt_def wp_simps Let_def invalidToken_def missing split: option.splits)
  then show ?thesis by (auto simp: wp_def split: prod.splits sum.splits)
qed

subsection \<open>The concrete app\<close>

definition demoCollection :: auth_collection where
  "demoCollection = \<lparr>co_Id = ''col'', co_Name = ''users'', co_PasswordAuth = True, co_OTP = False, co_MFA = False,
     co_Fields = [(''name'', ''text'')]\<rparr>"

definition demoUser :: auth_record where
  "demoUser = \<lparr>au_Id = ''u1'', au_Collection = demoCollection, au_BaseFilesPath = ''col/u1'',
     au_Values = (\<lambda>f. \<lparr>fv_String = f, fv_Bool = True, fv_Time = 0\<rparr>)\<rparr>"

definition demoHttpEnv :: http_envir where
  "demoHttpEnv = (app_envir.extend demoAppEnv (http_envir.fields (\<lambda>_ token. if token = ''h.p.t1'' then Inr demoUser else Inl (plainErr ErrNoRows))
       (\<lambda>_ _ _. Inr demoUser) (\<lambda>_ _. Inr ''h.p.t9'') (\<lambda>_ _. \<lparr>ip_Use = AccessToken, ip_Granted = Some [''openid''], ip_Error = None\<rparr>)
       (\<lambda>_. ''error'')))\<lparr>unmarshalSession := (\<lambda>_ t. Some (t\<lparr>ses_CollectionId := ''col''\<rparr>))\<rparr>"

definition demoHosted :: op_instance where
  "demoHosted = demoInstance\<lparr>it_store := Some demoStore\<rparr>"

definition hosting :: "world \<Rightarrow> app_world" where
  "hosting w = world.extend w (app_world.fields [] [] [(instanceStoreKey DefaultPathPrefix, StoredInstance demoHosted)])"

definition demoLive :: app_world where
  "demoLive = hosting (demoWorld\<lparr>w_sessions := (\<lambda>c. if c = AccessC then [(demoRow ''a1'' ''t1'' ''q'' [])\<lparr>sr_subject := ''u1''\<rparr>] else [])\<rparr>)"

lemma hosting_simps [simp]:
  "world.truncate (hosting w) = w" "getInstanceAt (hosting w) DefaultPathPrefix = Some demoHosted"
  "w_sessions (hosting w) = w_sessions w" "w_tombstones (hosting w) = w_tombstones w" "w_clients (hosting w) = w_clients w"
  "w_registered (hosting w) = w_registered w" "tick (hosting w) = tick w" "it_store demoHosted = Some demoStore"
  by (simp_all add: hosting_def world.defs app_world.defs getInstanceAt_def demoHosted_def)

lemmas access_defs = ValidateAccessTokenAuthorityAt_def attestRow_def FindAuthRecordByToken_def askTick_def liftSum_def
  assertRefreshFamilyAllowsAccess_def queryClients_def nextTick_def

lemma demo_attest: "\<exists>a w'. ValidateAccessTokenAuthorityAt False DefaultPathPrefix ''h.p.t1'' demoHttpEnv demoLive = (Inr a, w')"
  by (simp add: access_defs op_defs run_simps demo_defs demoLive_def demoHttpEnv_def demoAppEnv_def
      app_envir.defs http_envir.defs demoUser_def demoCollection_def demoHosted_def demoInstance_def demoConfig_def zeroSession_def
      cong: run_congs)

theorem attested_token_is_live_witness:
  "\<exists>a w'. ValidateAccessTokenAuthorityAt False DefaultPathPrefix ''h.p.t1'' demoHttpEnv demoLive = (Inr a, w')
     \<and> attested demoHttpEnv demoLive DefaultPathPrefix ''h.p.t1'' a \<and> (\<exists>n. w' = demoLive\<lparr>tick := n\<rparr>)"
  using demo_attest attested_token_is_live [of DefaultPathPrefix "''h.p.t1''" demoHttpEnv demoLive] by simp blast

theorem terminal_tokens_rejected_witness:
  "(\<exists>e. fst (ValidateAccessTokenAuthorityAt False DefaultPathPrefix ''h.p.t1'' demoHttpEnv (hosting demoTerminal)) = Inl e)
    \<and> (\<exists>e. fst (ValidateAccessToken (NewPocketBaseStrategyAt DefaultPathPrefix) ''h.p.t1'' demoHttpEnv (hosting demoTerminal)) = Inl e)
    \<and> (\<exists>s c. fst (RevokedTokenGuardAt DefaultPathPrefix ''Bearer h.p.t1'' demoHttpEnv (hosting demoTerminal)) = Inr (Refuse s c))"
proof (rule terminal_tokens_rejected [where row = "demoRow ''a1'' ''t1'' ''q'' ''''" and q = "''q''" and A = "{}" and ?w0.0 = demoTerminal])
  show "store_run {} demoTerminal (world.truncate (hosting demoTerminal))" by (simp add: run_refl)
  show "lookupSig (hosting demoTerminal) AccessC DefaultPathPrefix (AccessTokenSignature ''h.p.t1'') = Some (demoRow ''a1'' ''t1'' ''q'' '''')"
    by (simp add: lookupSig_def AccessTokenSignature_def demoTerminal_def demoWorld_def demoRow_def emptyWorld_def
        providerPrefixExp_def providerPrefixExpWithLegacy_def)
  show "bearerTokenFromHeader ''Bearer h.p.t1'' = ''h.p.t1''" by code_simp
qed (simp_all add: demoRow_def)

end
