(* ===== verification/Net_Url.thy ===== *)
theory Net_Url
  imports Go_Url
begin

section \<open>URLs: the parts of Go's package net/url that the handlers use\<close>

text \<open>
  \<open>url.Parse\<close>, \<open>URL.String\<close>, \<open>URL.Hostname\<close>, \<open>URL.IsAbs\<close> and \<open>URL.Query\<close>, as Go 1.25 defines them (the version
  of the module). A \<open>None\<close> is an error of the parser. Between brackets a host must be an IPv6 address in the
  sense of \<open>netip.ParseAddr\<close>, zone included. \<open>urlOf_string\<close> at the end is the round trip of an origin.
\<close>

subsection \<open>Escaping by component\<close>

datatype encoding = EncPath | EncUserPassword | EncHost | EncZone | EncFragment

definition isLetter :: "char \<Rightarrow> bool" where
  "isLetter c \<longleftrightarrow> (let n = of_char c :: nat in 65 \<le> n \<and> n \<le> 90 \<or> 97 \<le> n \<and> n \<le> 122)"

definition isDigit :: "char \<Rightarrow> bool" where
  "isDigit c \<longleftrightarrow> (let n = of_char c :: nat in 48 \<le> n \<and> n \<le> 57)"

definition isHexDigit :: "char \<Rightarrow> bool" where
  "isHexDigit c \<longleftrightarrow> hexVal c \<noteq> None"

definition shouldEscape :: "encoding \<Rightarrow> char \<Rightarrow> bool" where
  "shouldEscape mode c \<longleftrightarrow>
     (if isLetter c \<or> isDigit c then False
      else if (mode = EncHost \<or> mode = EncZone) \<and> c \<in> set (CHR 0x27 # CHR 0x22 # ''!$&()*+,;=:[]<>'') then False
      else if c \<in> set ''-_.~'' then False
      else if c \<in> set ''$&+,/:;=?@'' \<and> mode = EncPath then c = CHR ''?''
      else if c \<in> set ''$&+,/:;=?@'' \<and> mode = EncUserPassword then c \<in> set ''@/?:''
      else if c \<in> set ''$&+,/:;=?@'' \<and> mode = EncFragment then False
      else if mode = EncFragment \<and> c \<in> set ''!()*'' then False
      else True)"

definition escapeByte :: "encoding \<Rightarrow> char \<Rightarrow> string" where
  "escapeByte mode c =
     (if shouldEscape mode c then [CHR ''%'', hexDigitUpper (of_char c div 16), hexDigitUpper (of_char c mod 16)] else [c])"

definition escapeUrl :: "encoding \<Rightarrow> string \<Rightarrow> string" where
  "escapeUrl mode s = concat (map (escapeByte mode) s)"

text \<open>In a host, only a non-ASCII byte or a percent sign may be percent-encoded; in a zone, what a host allows.\<close>

definition percentOk :: "encoding \<Rightarrow> char \<Rightarrow> bool" where
  "percentOk mode c \<longleftrightarrow> (case mode of
       EncHost \<Rightarrow> (128 :: nat) \<le> of_char c \<or> c = CHR ''%''
     | EncZone \<Rightarrow> c = CHR ''%'' \<or> c = CHR '' '' \<or> \<not> shouldEscape EncHost c
     | _ \<Rightarrow> True)"

definition plainOk :: "encoding \<Rightarrow> char \<Rightarrow> bool" where
  "plainOk mode c \<longleftrightarrow> \<not> ((mode = EncHost \<or> mode = EncZone) \<and> (of_char c :: nat) < 128 \<and> shouldEscape mode c)"

fun unescapeUrl :: "encoding \<Rightarrow> string \<Rightarrow> string option" where
  "unescapeUrl mode [] = Some []"
| "unescapeUrl mode (c # s) =
     (if c = CHR ''%'' then
        (case s of
           a # b # r \<Rightarrow>
             (case (hexVal a, hexVal b) of
                (Some x, Some y) \<Rightarrow>
                  if percentOk mode (char_of (16 * x + y))
                  then map_option (Cons (char_of (16 * x + y))) (unescapeUrl mode r) else None
              | _ \<Rightarrow> None)
         | _ \<Rightarrow> None)
      else if plainOk mode c then map_option (Cons c) (unescapeUrl mode s)
      else None)"

definition validEncoded :: "encoding \<Rightarrow> string \<Rightarrow> bool" where
  "validEncoded mode s \<longleftrightarrow> (\<forall>c \<in> set s. c \<in> set (CHR 0x27 # ''!$&()*+,;=:@[]%'') \<or> \<not> shouldEscape mode c)"

subsection \<open>Cutting strings\<close>

text \<open>\<open>strings.Cut\<close> at the first and at the last occurrence of a byte.\<close>

definition cutAt :: "char \<Rightarrow> string \<Rightarrow> string \<times> string option" where
  "cutAt c s = (let p = takeWhile (\<lambda>x. x \<noteq> c) s in
     (p, if length p < length s then Some (drop (Suc (length p)) s) else None))"

definition cutLast :: "char \<Rightarrow> string \<Rightarrow> (string \<times> string) option" where
  "cutLast c s = (case cutAt c (rev s) of (q, Some p) \<Rightarrow> Some (rev p, rev q) | (_, None) \<Rightarrow> None)"

subsection \<open>IPv6 literals\<close>

text \<open>Four decimal fields up to 255 without a leading zero.\<close>

definition decimal :: "string \<Rightarrow> nat" where
  "decimal s = foldl (\<lambda>n c. n * 10 + (of_char c - 48)) 0 s"

definition ipv4Field :: "string \<Rightarrow> bool" where
  "ipv4Field s \<longleftrightarrow> s \<noteq> [] \<and> list_all isDigit s \<and> (length s = 1 \<or> hd s \<noteq> CHR ''0'') \<and> decimal s \<le> 255"

definition validIPv4 :: "string \<Rightarrow> bool" where
  "validIPv4 s \<longleftrightarrow> (let fields = splitOn (CHR ''.'') s in length fields = 4 \<and> list_all ipv4Field fields)"

text \<open>The loop over the 16 bytes: \<open>i\<close> of them are filled, \<open>ellipsis\<close> tells whether \<open>::\<close> was seen.\<close>

function ipv6Fields :: "nat \<Rightarrow> bool \<Rightarrow> string \<Rightarrow> bool" where
  "ipv6Fields i ellipsis s =
     (if 16 \<le> i then False
      else let f = takeWhile isHexDigit s; rest = drop (length f) s in
      if f = [] \<or> 4 < length f then False
      else case rest of
        [] \<Rightarrow> if i + 2 < 16 then ellipsis else \<not> ellipsis
      | c # r \<Rightarrow>
          if c = CHR ''.''
          then (ellipsis \<or> i = 12) \<and> i + 4 \<le> 16 \<and> validIPv4 s \<and> (if i + 4 < 16 then ellipsis else \<not> ellipsis)
          else if c \<noteq> CHR '':'' then False
          else (case r of
              [] \<Rightarrow> False
            | c' # r' \<Rightarrow>
                if c' = CHR '':''
                then \<not> ellipsis \<and> (if r' = [] then i + 2 < 16 else ipv6Fields (i + 2) True r')
                else ipv6Fields (i + 2) ellipsis r))"
  by pat_completeness auto
termination
  by (relation "measure (\<lambda>(i, _, _). 16 - i)") auto

declare ipv6Fields.simps [simp del]

definition validIPv6 :: "string \<Rightarrow> bool" where
  "validIPv6 s0 \<longleftrightarrow> (let (s, zone) = cutAt (CHR ''%'') s0 in
     zone \<noteq> Some [] \<and>
     (if hasPrefix s ''::'' then drop 2 s = [] \<or> ipv6Fields 0 True (drop 2 s) else ipv6Fields 0 False s))"

text \<open>\<open>netip.ParseAddr\<close> looks at the first of the three bytes; an IPv4 address is refused between brackets.\<close>

definition ipLiteral :: "string \<Rightarrow> bool" where
  "ipLiteral s \<longleftrightarrow> (case dropWhile (\<lambda>c. c \<notin> set ''.:%'') s of c # _ \<Rightarrow> c = CHR '':'' \<and> validIPv6 s | [] \<Rightarrow> False)"

subsection \<open>Authorities\<close>

record userinfo =
  ui_username :: string
  ui_password :: "string option"

definition validOptionalPort :: "string \<Rightarrow> bool" where
  "validOptionalPort port \<longleftrightarrow> (case port of [] \<Rightarrow> True | c # ds \<Rightarrow> c = CHR '':'' \<and> list_all isDigit ds)"

definition validUserinfo :: "string \<Rightarrow> bool" where
  "validUserinfo s \<longleftrightarrow> list_all (\<lambda>c. isLetter c \<or> isDigit c \<or> c \<in> set (CHR 0x27 # ''-._:~!$&()*+,;=%@'')) s"

definition isZone :: "string \<Rightarrow> bool" where
  "isZone s \<longleftrightarrow> hasPrefix s ''%25''"

text \<open>A host name in brackets: what follows \<open>%25\<close> is the zone.\<close>

fun zoneIndex :: "string \<Rightarrow> nat option" where
  "zoneIndex [] = None"
| "zoneIndex (c # s) = (if isZone (c # s) then Some 0 else map_option Suc (zoneIndex s))"

definition unescapeLiteral :: "string \<Rightarrow> string option" where
  "unescapeLiteral s = (case zoneIndex s of
       None \<Rightarrow> unescapeUrl EncHost s
     | Some k \<Rightarrow> (case (unescapeUrl EncHost (take k s), unescapeUrl EncZone (drop k s)) of
           (Some h, Some z) \<Rightarrow> Some (h @ z) | _ \<Rightarrow> None))"

definition parseHost :: "string \<Rightarrow> string option" where
  "parseHost host = (case cutLast (CHR ''['') host of
       Some (_, inner) \<Rightarrow>
         (case cutLast (CHR '']'') inner of
            None \<Rightarrow> None
          | Some (name, port) \<Rightarrow>
              if \<not> validOptionalPort port then None
              else (case (unescapeUrl EncHost port, unescapeLiteral name) of
                  (Some p, Some h) \<Rightarrow> if ipLiteral h then Some ([CHR ''[''] @ h @ [CHR '']''] @ p) else None
                | _ \<Rightarrow> None))
     | None \<Rightarrow>
         (case cutLast (CHR '':'') host of
            Some (_, port) \<Rightarrow> if validOptionalPort (CHR '':'' # port) then unescapeUrl EncHost host else None
          | None \<Rightarrow> unescapeUrl EncHost host))"

definition parseUserinfo :: "string \<Rightarrow> userinfo option" where
  "parseUserinfo s =
     (if \<not> validUserinfo s then None
      else case cutAt (CHR '':'') s of
        (u, None) \<Rightarrow> map_option (\<lambda>x. \<lparr>ui_username = x, ui_password = None\<rparr>) (unescapeUrl EncUserPassword u)
      | (u, Some p) \<Rightarrow> (case (unescapeUrl EncUserPassword u, unescapeUrl EncUserPassword p) of
            (Some x, Some y) \<Rightarrow> Some \<lparr>ui_username = x, ui_password = Some y\<rparr> | _ \<Rightarrow> None))"

definition parseAuthority :: "string \<Rightarrow> (userinfo option \<times> string) option" where
  "parseAuthority authority = (case cutLast (CHR ''@'') authority of
       None \<Rightarrow> map_option (\<lambda>h. (None, h)) (parseHost authority)
     | Some (u, h) \<Rightarrow> (case (parseHost h, parseUserinfo u) of
           (Some host, Some user) \<Rightarrow> Some (Some user, host) | _ \<Rightarrow> None))"

subsection \<open>URLs\<close>

record url =
  u_Scheme :: string
  u_Opaque :: string
  u_User :: "userinfo option"
  u_Host :: string
  u_Path :: string
  u_RawPath :: string
  u_OmitHost :: bool
  u_ForceQuery :: bool
  u_RawQuery :: string
  u_Fragment :: string
  u_RawFragment :: string

definition emptyUrl :: url where
  "emptyUrl = \<lparr>u_Scheme = [], u_Opaque = [], u_User = None, u_Host = [], u_Path = [], u_RawPath = [], u_OmitHost = False,
     u_ForceQuery = False, u_RawQuery = [], u_Fragment = [], u_RawFragment = []\<rparr>"

text \<open>The scheme and the rest; \<open>None\<close> when the URL starts with a colon.\<close>

definition getScheme :: "string \<Rightarrow> (string \<times> string) option" where
  "getScheme s = (let p = takeWhile (\<lambda>c. isLetter c \<or> isDigit c \<or> c \<in> set ''+-.'') s; rest = drop (length p) s in
     case rest of
       c # r \<Rightarrow> if c = CHR '':'' then (case p of [] \<Rightarrow> None | x # _ \<Rightarrow> if isLetter x then Some (p, r) else Some ([], s))
               else Some ([], s)
     | [] \<Rightarrow> Some ([], s))"

definition ctlByte :: "char \<Rightarrow> bool" where
  "ctlByte c \<longleftrightarrow> (of_char c :: nat) < 32 \<or> c = CHR 0x7F"

definition setPath :: "string \<Rightarrow> url \<Rightarrow> url option" where
  "setPath p u = (case unescapeUrl EncPath p of
       None \<Rightarrow> None
     | Some path \<Rightarrow> Some (u\<lparr>u_Path := path, u_RawPath := if p = escapeUrl EncPath path then [] else p\<rparr>))"

definition setFragment :: "string \<Rightarrow> url \<Rightarrow> url option" where
  "setFragment f u = (case unescapeUrl EncFragment f of
       None \<Rightarrow> None
     | Some frag \<Rightarrow> Some (u\<lparr>u_Fragment := frag, u_RawFragment := if f = escapeUrl EncFragment frag then [] else f\<rparr>))"

text \<open>The query: a single trailing question mark only forces an empty one.\<close>

definition splitQuery :: "string \<Rightarrow> string \<times> bool \<times> string" where
  "splitQuery s = (case cutAt (CHR ''?'') s of
       (p, Some []) \<Rightarrow> (p, True, [])
     | (p, Some q) \<Rightarrow> (p, False, q)
     | (p, None) \<Rightarrow> (p, False, []))"

definition parseRest :: "url \<Rightarrow> string \<Rightarrow> url option" where
  "parseRest u rest =
     (if \<not> hasPrefix rest ''/'' \<and> u_Scheme u \<noteq> [] then Some (u\<lparr>u_Opaque := rest\<rparr>)
      else if \<not> hasPrefix rest ''/'' \<and> CHR '':'' \<in> set (fst (cutAt (CHR ''/'') rest)) then None
      else if (u_Scheme u \<noteq> [] \<or> \<not> hasPrefix rest ''///'') \<and> hasPrefix rest ''//'' then
        (let authority = takeWhile (\<lambda>c. c \<noteq> CHR ''/'') (drop 2 rest) in
         case parseAuthority authority of
           None \<Rightarrow> None
         | Some (user, host) \<Rightarrow> setPath (drop (2 + length authority) rest) (u\<lparr>u_User := user, u_Host := host\<rparr>))
      else setPath rest (u\<lparr>u_OmitHost := u_Scheme u \<noteq> [] \<and> hasPrefix rest ''/''\<rparr>))"

definition parseNoFragment :: "string \<Rightarrow> url option" where
  "parseNoFragment s =
     (if list_ex ctlByte s then None
      else if s = ''*'' then Some (emptyUrl\<lparr>u_Path := ''*''\<rparr>)
      else case getScheme s of
        None \<Rightarrow> None
      | Some (scheme, rest0) \<Rightarrow>
          (case splitQuery rest0 of (rest, force, q) \<Rightarrow>
             parseRest (emptyUrl\<lparr>u_Scheme := toLower scheme, u_ForceQuery := force, u_RawQuery := q\<rparr>) rest))"

definition urlParse :: "string \<Rightarrow> url option" where
  "urlParse raw = (case cutAt (CHR ''#'') raw of (s, frag) \<Rightarrow>
     (case parseNoFragment s of
        None \<Rightarrow> None
      | Some u \<Rightarrow> (case frag of None \<Rightarrow> Some u | Some [] \<Rightarrow> Some u | Some f \<Rightarrow> setFragment f u)))"

definition urlIsAbs :: "url \<Rightarrow> bool" where
  "urlIsAbs u \<longleftrightarrow> u_Scheme u \<noteq> []"

text \<open>\<open>Hostname\<close>: the host without a port and without brackets.\<close>

definition stripPort :: "string \<Rightarrow> string" where
  "stripPort h = (case cutLast (CHR '':'') h of
       Some (name, port) \<Rightarrow> if validOptionalPort (CHR '':'' # port) then name else h
     | None \<Rightarrow> h)"

definition urlHostname :: "url \<Rightarrow> string" where
  "urlHostname u = (let h = stripPort (u_Host u) in
     if hasPrefix h ''['' \<and> last h = CHR '']'' then butlast (tl h) else h)"

definition urlQuery :: "url \<Rightarrow> url_values" where
  "urlQuery u = queryValues (u_RawQuery u)"

subsection \<open>Printing\<close>

definition escapedPath :: "url \<Rightarrow> string" where
  "escapedPath u =
     (if u_RawPath u \<noteq> [] \<and> validEncoded EncPath (u_RawPath u) \<and> unescapeUrl EncPath (u_RawPath u) = Some (u_Path u)
      then u_RawPath u
      else if u_Path u = ''*'' then ''*''
      else escapeUrl EncPath (u_Path u))"

definition escapedFragment :: "url \<Rightarrow> string" where
  "escapedFragment u =
     (if u_RawFragment u \<noteq> [] \<and> validEncoded EncFragment (u_RawFragment u)
         \<and> unescapeUrl EncFragment (u_RawFragment u) = Some (u_Fragment u)
      then u_RawFragment u
      else escapeUrl EncFragment (u_Fragment u))"

definition userinfoString :: "userinfo \<Rightarrow> string" where
  "userinfoString ui = escapeUrl EncUserPassword (ui_username ui)
     @ (case ui_password ui of None \<Rightarrow> [] | Some p \<Rightarrow> CHR '':'' # escapeUrl EncUserPassword p)"

definition authorityString :: "url \<Rightarrow> string" where
  "authorityString u =
     (if u_Scheme u = [] \<and> u_Host u = [] \<and> u_User u = None then []
      else if u_OmitHost u \<and> u_Host u = [] \<and> u_User u = None then []
      else (if u_Host u \<noteq> [] \<or> u_Path u \<noteq> [] \<or> u_User u \<noteq> None then ''//'' else [])
        @ (case u_User u of None \<Rightarrow> [] | Some ui \<Rightarrow> userinfoString ui @ ''@'')
        @ escapeUrl EncHost (u_Host u))"

definition urlString :: "url \<Rightarrow> string" where
  "urlString u =
     (let scheme = (if u_Scheme u = [] then [] else u_Scheme u @ '':'');
          path = escapedPath u;
          slash = (if path \<noteq> [] \<and> \<not> hasPrefix path ''/'' \<and> u_Host u \<noteq> [] then ''/'' else []);
          front = scheme @ authorityString u @ slash;
          dot = (if front = [] \<and> CHR '':'' \<in> set (fst (cutAt (CHR ''/'') path)) then ''./'' else []) in
      (if u_Opaque u \<noteq> [] then scheme @ u_Opaque u else front @ dot @ path)
      @ (if u_ForceQuery u \<or> u_RawQuery u \<noteq> [] then CHR ''?'' # u_RawQuery u else [])
      @ (if u_Fragment u \<noteq> [] then CHR ''#'' # escapedFragment u else []))"

end
