(* ===== verification/Http.thy ===== *)
theory Http
  imports Access Net_Url
begin

section \<open>Requests and responses of the handlers\<close>

text \<open>
  A handler answers a request: the status, the headers it set and the body. \<open>ApiError\<close> is the JSON error that
  PocketBase renders for \<open>e.Error\<close>, \<open>e.BadRequestError\<close> and the like, with the message the code passes. Header
  names are canonical, so a header is a list with one entry per name.
\<close>

datatype 'b body = NoBody | ApiError string | Payload 'b

record 'b response =
  rs_Status :: nat
  rs_Headers :: "(string \<times> string) list"
  rs_Body :: "'b body"

record http_request =
  hr_Method :: string
  hr_Query :: string
  hr_Authorization :: string

type_synonym headers = "(string \<times> string) list"

fun setHeader :: "headers \<Rightarrow> string \<Rightarrow> string \<Rightarrow> headers" where
  "setHeader [] k v = [(k, v)]"
| "setHeader ((k', v') # hs) k v = (if k' = k then (k, v) # hs else (k', v') # setHeader hs k v)"

definition apiError :: "nat \<Rightarrow> headers \<Rightarrow> string \<Rightarrow> 'b response" where
  "apiError status hs msg = \<lparr>rs_Status = status, rs_Headers = hs, rs_Body = ApiError msg\<rparr>"

definition answer :: "nat \<Rightarrow> headers \<Rightarrow> 'b \<Rightarrow> 'b response" where
  "answer status hs b = \<lparr>rs_Status = status, rs_Headers = hs, rs_Body = Payload b\<rparr>"

definition noContent :: "nat \<Rightarrow> headers \<Rightarrow> 'b response" where
  "noContent status hs = \<lparr>rs_Status = status, rs_Headers = hs, rs_Body = NoBody\<rparr>"

lemma map_of_setHeader: "map_of (setHeader hs k v) = (map_of hs)(k \<mapsto> v)"
  by (induction hs k v rule: setHeader.induct) (auto simp: fun_eq_iff)

lemma response_simps [simp]:
  "rs_Status (apiError s h m) = s" "rs_Headers (apiError s h m) = h" "rs_Body (apiError s h m) = ApiError m"
  "rs_Status (answer s h b) = s" "rs_Headers (answer s h b) = h" "rs_Body (answer s h b) = Payload b"
  "rs_Status (noContent s h) = s" "rs_Headers (noContent s h) = h" "rs_Body (noContent s h) = NoBody"
  by (simp_all add: apiError_def answer_def noContent_def)

lemma answer_eq_simps [simp]: "answer s h b = answer s' h' b' \<longleftrightarrow> s = s' \<and> h = h' \<and> b = b'"
  "answer s h b \<noteq> apiError s' h' m" "apiError s' h' m \<noteq> answer s h b"
  by (simp_all add: answer_def apiError_def)

text \<open>\<open>if v, err := m(); err != nil { return g(err) }\<close> in a handler: an error is answered and ends it.\<close>

definition orElse :: "('o, 'w, 'a) go \<Rightarrow> (goerr \<Rightarrow> 'b response) \<Rightarrow> ('a \<Rightarrow> ('o, 'w, 'b response) go) \<Rightarrow> ('o, 'w, 'b response) go" where
  "orElse m g f = bindG (attemptG m) (\<lambda>r. case r of Inl e \<Rightarrow> returnG (g e) | Inr a \<Rightarrow> f a)"

lemma wp_orElse [wp_simps]:
  "wp (orElse m g f) Q E \<omega> w = wp m (\<lambda>a. wp (f a) Q E \<omega>) (\<lambda>e. Q (g e)) \<omega> w"
  by (simp add: wp_def orElse_def bindG_def attemptG_def returnG_def split: prod.splits sum.splits)

end
