(* ===== verification/Attestation.thy ===== *)
theory Attestation
  imports Http "HOL-Library.AList"
begin

section \<open>The attestation of the running app (runtime_attestation.go)\<close>

text \<open>
  A provider signs a statement about the application it runs in, for a nonce of the caller: at most 120 times a
  minute (\<open>allow\<close>), only for a canonical nonce, only about a snapshot that passes the checks, only when the app's
  URL is an exact HTTPS origin. The signer and the JSON of the claims are parameters (\<open>attest_envir\<close>).
\<close>

subsection \<open>Constants and structs\<close>

definition runtimeAttestationAudience :: string where
  "runtimeAttestationAudience = ''urn:facetcloud:oauth-runtime-attestation:v1''"

definition runtimeAttestationType :: string where
  "runtimeAttestationType = ''facet-oauth-runtime-attestation+jwt''"

text \<open>Both durations are 60 seconds, in microseconds.\<close>

definition runtimeAttestationLifetime :: int where "runtimeAttestationLifetime = 60 * 1000000"
definition runtimeAttestationWindow :: int where "runtimeAttestationWindow = 60 * 1000000"
definition runtimeAttestationInstanceLimit :: nat where "runtimeAttestationInstanceLimit = 120"

record attestation_claims =
  ac_AttestationVersion :: int
  ac_Audience :: string
  ac_AuthConfigSHA256 :: string
  ac_BootID :: string
  ac_ExpiresAt :: int
  ac_IssuedAt :: int
  ac_Issuer :: string
  ac_Nonce :: string
  ac_Origin :: string
  ac_Prefix :: string
  ac_ReleaseSHA :: string
  ac_SourceID :: string
  ac_SourceSHA :: string
  ac_Tenant :: string
  ac_UserCollection :: string

record attest_envir = http_envir +
  newSigner :: "json_web_key \<Rightarrow> string \<Rightarrow> string \<Rightarrow> goerr + string"
  marshalClaims :: "attestation_claims \<Rightarrow> goerr + string"
  signPayload :: "string \<Rightarrow> string \<Rightarrow> goerr + string"
  compactSerialize :: "string \<Rightarrow> goerr + string"

type_synonym ('o, 'w, 'a) attestgo = "('o attest_envir_scheme, 'w app_world_scheme, 'a) go"

subsection \<open>The rate limiter\<close>

definition allow :: "int \<Rightarrow> limiter_state \<Rightarrow> bool \<times> limiter_state" where
  "allow now l =
     (let l = (case ls_started l of
           None \<Rightarrow> \<lparr>ls_started = Some now, ls_count = 0\<rparr>
         | Some started \<Rightarrow> if now - started \<ge> runtimeAttestationWindow
             then \<lparr>ls_started = Some now, ls_count = 0\<rparr> else l) in
      if ls_count l \<ge> runtimeAttestationInstanceLimit then (False, l)
      else (True, l\<lparr>ls_count := Suc (ls_count l)\<rparr>))"

text \<open>The limiter of the instance at a prefix.\<close>

definition setInstance :: "string \<Rightarrow> op_instance \<Rightarrow> 'w app_world_scheme \<Rightarrow> 'w app_world_scheme" where
  "setInstance prefix i w = w\<lparr>w_store := AList.update (instanceStoreKey prefix) (StoredInstance i) (w_store w)\<rparr>"

definition allowInstance :: "string \<Rightarrow> int \<Rightarrow> ('o, 'w, bool) attestgo" where
  "allowInstance prefix now = bindG (readG (\<lambda>w. getInstanceAt w prefix)) (\<lambda>i. case i of
       None \<Rightarrow> returnG False
     | Some inst \<Rightarrow> (case allow now (it_limiter inst) of (ok, l) \<Rightarrow>
         bindG (modifyG (setInstance prefix (inst\<lparr>it_limiter := l\<rparr>))) (\<lambda>_. returnG ok)))"

subsection \<open>Validation\<close>

definition validRuntimeAttestationNonce :: "string \<Rightarrow> bool" where
  "validRuntimeAttestationNonce nonce \<longleftrightarrow> (case b64Decode RawURLEncoding nonce of
       None \<Rightarrow> False
     | Some decoded \<Rightarrow> length decoded = 32 \<and> b64Encode RawURLEncoding decoded = nonce)"

definition lowerHex :: "char \<Rightarrow> bool" where
  "lowerHex c \<longleftrightarrow> isDigit c \<or> c \<in> set ''abcdef''"

definition lowerAlnum :: "char \<Rightarrow> bool" where
  "lowerAlnum c \<longleftrightarrow> isDigit c \<or> (let n = of_char c :: nat in 97 \<le> n \<and> n \<le> 122)"

definition runtimeAttestationSHA :: "string \<Rightarrow> bool" where
  "runtimeAttestationSHA s \<longleftrightarrow> length s = 40 \<and> list_all lowerHex s"

definition runtimeAttestationDigest :: "string \<Rightarrow> bool" where
  "runtimeAttestationDigest s \<longleftrightarrow> length s = 64 \<and> list_all lowerHex s"

definition runtimeAttestationTenant :: "string \<Rightarrow> bool" where
  "runtimeAttestationTenant s \<longleftrightarrow> (case s of
       [] \<Rightarrow> False
     | c # r \<Rightarrow> lowerAlnum c \<and> (r = [] \<or> length (butlast r) \<le> 61
         \<and> list_all (\<lambda>x. lowerAlnum x \<or> x = CHR ''-'') (butlast r) \<and> lowerAlnum (last r)))"

definition runtimeAttestationIdentity :: "string \<Rightarrow> bool" where
  "runtimeAttestationIdentity s \<longleftrightarrow> 1 \<le> length s \<and> length s \<le> 128
     \<and> list_all (\<lambda>x. isLetter x \<or> isDigit x \<or> x \<in> set ''._:-'') s"

definition validateRuntimeAttestationSnapshot :: "attestation_snapshot \<Rightarrow> goerr option" where
  "validateRuntimeAttestationSnapshot sn =
     (if \<not> runtimeAttestationTenant (sn_Tenant sn) then Some (textErr ''runtime attestation tenant is invalid'')
      else if \<not> runtimeAttestationSHA (sn_ReleaseSHA sn) \<or> \<not> runtimeAttestationSHA (sn_SourceSHA sn)
      then Some (textErr ''runtime attestation SHA is invalid'')
      else if \<not> runtimeAttestationIdentity (sn_SourceID sn) \<or> \<not> runtimeAttestationIdentity (sn_BootID sn)
      then Some (textErr ''runtime attestation source or boot identity is invalid'')
      else if \<not> runtimeAttestationDigest (sn_AuthConfigSHA256 sn)
      then Some (textErr ''runtime attestation auth config digest is invalid'')
      else None)"

text \<open>The origin of the app's URL, without trailing slashes.\<close>

definition exactOrigin :: "string \<Rightarrow> bool" where
  "exactOrigin origin \<longleftrightarrow> (case urlParse origin of
       None \<Rightarrow> False
     | Some u \<Rightarrow> u_Scheme u = ''https'' \<and> u_Host u \<noteq> [] \<and> u_User u = None \<and> u_Path u = [] \<and> u_RawQuery u = []
         \<and> u_Fragment u = [] \<and> urlString u = origin)"

subsection \<open>Signing\<close>

definition usableKey :: "json_web_key option \<Rightarrow> bool" where
  "usableKey k \<longleftrightarrow> (case k of None \<Rightarrow> False
     | Some key \<Rightarrow> jk_Key key \<noteq> [] \<and> jk_KeyID key \<noteq> [] \<and> jk_Algorithm key = ''RS256'')"

definition claimsOf :: "string \<Rightarrow> op_instance \<Rightarrow> attestation_snapshot \<Rightarrow> string \<Rightarrow> int \<Rightarrow> attestation_claims" where
  "claimsOf url inst snapshot nonce now =
     \<lparr>ac_AttestationVersion = 1, ac_Audience = runtimeAttestationAudience,
      ac_AuthConfigSHA256 = sn_AuthConfigSHA256 snapshot, ac_BootID = sn_BootID snapshot,
      ac_ExpiresAt = unixSec (now + runtimeAttestationLifetime), ac_IssuedAt = unixSec now,
      ac_Issuer = providerIssuer url (cf_PathPrefix (it_cfg inst)), ac_Nonce = nonce,
      ac_Origin = trimRight url (CHR ''/''), ac_Prefix = normalizePrefix (cf_PathPrefix (it_cfg inst)),
      ac_ReleaseSHA = sn_ReleaseSHA snapshot, ac_SourceID = sn_SourceID snapshot,
      ac_SourceSHA = sn_SourceSHA snapshot, ac_Tenant = sn_Tenant snapshot,
      ac_UserCollection = cf_UserCollection (it_cfg inst)\<rparr>"

definition signRuntimeAttestation ::
  "op_instance \<Rightarrow> attestation_snapshot \<Rightarrow> string \<Rightarrow> int \<Rightarrow> ('o, 'w, string) attestgo" where
  "signRuntimeAttestation inst snapshot nonce now =
     (if cf_RuntimeAttestationSnapshot (it_cfg inst) = None then throwG (textErr ''runtime attestation is not configured'')
      else case validateRuntimeAttestationSnapshot snapshot of
        Some e \<Rightarrow> throwG e
      | None \<Rightarrow>
      if \<not> validRuntimeAttestationNonce nonce
      then throwG (textErr ''runtime attestation nonce must be canonical base64url for 32 bytes'')
      else if \<not> usableKey (it_privateKey inst) then throwG (textErr ''runtime attestation signing key is unavailable'')
      else bindG (askG appURL) (\<lambda>url.
      if \<not> exactOrigin (trimRight url (CHR ''/''))
      then throwG (textErr ''runtime attestation origin is not an exact HTTPS origin'')
      else let signingKey = the (it_privateKey inst) in
      bindG (mapErrG (\<lambda>e. ErrText ''create runtime attestation signer'' (Some e))
        (bindG (askG (\<lambda>\<omega>. newSigner \<omega> signingKey runtimeAttestationType (jk_KeyID signingKey))) liftSum)) (\<lambda>signer.
      bindG (mapErrG (\<lambda>e. ErrText ''encode runtime attestation'' (Some e))
        (bindG (askG (\<lambda>\<omega>. marshalClaims \<omega> (claimsOf url inst snapshot nonce now))) liftSum)) (\<lambda>payload.
      bindG (mapErrG (\<lambda>e. ErrText ''sign runtime attestation'' (Some e))
        (bindG (askG (\<lambda>\<omega>. signPayload \<omega> signer payload)) liftSum)) (\<lambda>signed.
      mapErrG (\<lambda>e. ErrText ''serialize runtime attestation'' (Some e))
        (bindG (askG (\<lambda>\<omega>. compactSerialize \<omega> signed)) liftSum))))))"

subsection \<open>The endpoint\<close>

text \<open>The values of the parameter \<open>nonce\<close>: exactly one, and canonical.\<close>

definition theNonce :: "string \<Rightarrow> string option" where
  "theNonce rawQuery = (case map_of (queryValues rawQuery) ''nonce'' of
       Some [v] \<Rightarrow> if validRuntimeAttestationNonce v then Some v else None
     | _ \<Rightarrow> None)"

text \<open>The instance is the one its routes were bound for; \<open>None\<close> of the callback is the state Register excludes.\<close>

definition apiOAuth2RuntimeAttestation :: "string \<Rightarrow> string \<Rightarrow> ('o, 'w, string response) attestgo" where
  "apiOAuth2RuntimeAttestation prefix rawQuery =
     bindG timeNow (\<lambda>now. bindG (allowInstance prefix now) (\<lambda>allowed.
     if \<not> allowed then returnG (apiError 429 [] ''runtime attestation rate limit exceeded'')
     else case theNonce rawQuery of
       None \<Rightarrow> returnG (apiError 400 [] ''invalid runtime attestation nonce'')
     | Some nonce \<Rightarrow>
       let hs = setHeader (setHeader [] ''Cache-Control'' ''no-store'') ''Pragma'' ''no-cache'' in
       bindG (readG (\<lambda>w. getInstanceAt w prefix)) (\<lambda>i. case i of
         None \<Rightarrow> returnG (apiError 500 hs ''runtime attestation unavailable'')
       | Some inst \<Rightarrow> (case cf_RuntimeAttestationSnapshot (it_cfg inst) of
           None \<Rightarrow> returnG (apiError 500 hs ''runtime attestation unavailable'')
         | Some (Inl e) \<Rightarrow> returnG (apiError 500 hs ''runtime attestation snapshot unavailable'')
         | Some (Inr snapshot) \<Rightarrow>
             orElse (signRuntimeAttestation inst snapshot nonce now)
               (\<lambda>_. apiError 500 hs ''runtime attestation unavailable'')
               (\<lambda>token. returnG (answer 200 hs token))))))"

end
