(* ===== verification/Attestation_Properties.thy ===== *)
theory Attestation_Properties
  imports Attestation Access_Properties
begin

section \<open>Properties of the attestation\<close>

subsection \<open>The rate limit\<close>

text \<open>The number of requests a sequence of arrival times is granted.\<close>

fun grants :: "int list \<Rightarrow> limiter_state \<Rightarrow> nat" where
  "grants [] l = 0"
| "grants (t # ts) l = (case allow t l of (ok, l') \<Rightarrow> (if ok then 1 else 0) + grants ts l')"

lemma allow_count: "ls_count l \<le> runtimeAttestationInstanceLimit \<Longrightarrow>
    ls_count (snd (allow t l)) \<le> runtimeAttestationInstanceLimit"
  by (auto simp: allow_def Let_def runtimeAttestationInstanceLimit_def split: option.splits)

text \<open>While a window is open, at most what is left of its limit is granted.\<close>

lemma grants_window:
  assumes "ls_started l = Some s" "list_all (\<lambda>t. t < s + runtimeAttestationWindow) ts"
  shows "grants ts l + ls_count l \<le> max (ls_count l) runtimeAttestationInstanceLimit"
  using assms
proof (induction ts arbitrary: l)
  case (Cons t ts)
  then have t: "\<not> t - s \<ge> runtimeAttestationWindow" by simp
  have ts: "list_all (\<lambda>t. t < s + runtimeAttestationWindow) ts" using Cons.prems(2) by simp
  let ?l = "l\<lparr>ls_count := Suc (ls_count l)\<rparr>"
  show ?case
    using Cons.IH [OF Cons.prems(1) ts] Cons.IH [of ?l] Cons.prems(1) ts t
    by (auto simp: allow_def Let_def split: if_splits)
qed simp

lemma grants_open: "ls_started l = Some s \<Longrightarrow> list_all (\<lambda>t. t < s + runtimeAttestationWindow) ts \<Longrightarrow>
    ls_count l \<le> runtimeAttestationInstanceLimit \<Longrightarrow> grants ts l \<le> runtimeAttestationInstanceLimit - ls_count l"
  using grants_window [of l s ts] by simp

text \<open>A call that opens a window counts as its first.\<close>

lemma grants_first: "allow t l = (ok, l') \<Longrightarrow> ls_count l \<le> runtimeAttestationInstanceLimit \<Longrightarrow>
   ls_started l' = Some t \<and> ok \<and> ls_count l' = 1
   \<or> ls_started l' = ls_started l \<and> (if ok then ls_count l' = Suc (ls_count l) else ls_count l' = ls_count l)"
  by (auto simp: allow_def Let_def runtimeAttestationInstanceLimit_def split: option.splits if_splits)

lemma grants_bound:
  assumes "list_all (\<lambda>t. a \<le> t \<and> t < a + runtimeAttestationWindow) ts" "ls_count l \<le> runtimeAttestationInstanceLimit"
  shows "grants ts l + ls_count l \<le> 2 * runtimeAttestationInstanceLimit"
  using assms
proof (induction ts arbitrary: l)
  case (Cons t ts)
  have t: "a \<le> t" and ts: "list_all (\<lambda>t. a \<le> t \<and> t < a + runtimeAttestationWindow) ts" using Cons.prems(1) by simp_all
  obtain ok l' where al: "allow t l = (ok, l')" by force
  have c: "ls_count l' \<le> runtimeAttestationInstanceLimit" using allow_count [OF Cons.prems(2), of t] al by simp
  have "list_all (\<lambda>x. x < t + runtimeAttestationWindow) ts" using t ts by (auto simp: list_all_iff)
  then have "ls_started l' = Some t \<Longrightarrow> grants ts l' \<le> runtimeAttestationInstanceLimit - ls_count l'"
    using grants_open c by blast
  then show ?case using grants_first [OF al Cons.prems(2)] Cons.IH [OF ts c] al Cons.prems(2)
    by (auto simp: runtimeAttestationInstanceLimit_def split: if_splits)
qed (simp add: runtimeAttestationInstanceLimit_def)

text \<open>C24: in any 60 seconds a provider signs at most 240 attestations, in whatever order the requests arrive, and
  never more than 120 before the clock has moved on by a full window; a request after a full window is granted.\<close>

theorem attestation_rate_bounded:
  assumes "list_all (\<lambda>t. a \<le> t \<and> t < a + runtimeAttestationWindow) ts" "ls_count l \<le> runtimeAttestationInstanceLimit"
  shows "grants ts l \<le> 240 \<and> (ls_started l = Some a \<longrightarrow> grants ts l \<le> 120)
    \<and> (case ls_started l of None \<Rightarrow> fst (allow t l) | Some s \<Rightarrow> s + runtimeAttestationWindow \<le> t \<longrightarrow> fst (allow t l))"
proof -
  have "ls_started l = Some a \<Longrightarrow> list_all (\<lambda>t. t < a + runtimeAttestationWindow) ts"
    using assms(1) by (auto simp: list_all_iff)
  then show ?thesis
    using grants_bound [OF assms] grants_open [of l a ts] assms(2)
    by (auto simp: runtimeAttestationInstanceLimit_def allow_def Let_def split: option.splits)
qed

theorem attestation_rate_bounded_witness:
  "grants [0, 59999999] \<lparr>ls_started = Some 0, ls_count = 119\<rparr> \<le> 120
     \<and> fst (allow 60000000 \<lparr>ls_started = Some 0, ls_count = 120\<rparr>)"
  using attestation_rate_bounded [of 0 "[0, 59999999]" "\<lparr>ls_started = Some 0, ls_count = 119\<rparr>" 0]
    attestation_rate_bounded [of 0 "[]" "\<lparr>ls_started = Some 0, ls_count = 120\<rparr>" 60000000]
  by (simp add: runtimeAttestationWindow_def runtimeAttestationInstanceLimit_def)

subsection \<open>The nonce\<close>

definition urlSafe :: "char \<Rightarrow> bool" where
  "urlSafe c \<longleftrightarrow> isLetter c \<or> isDigit c \<or> c = CHR ''-'' \<or> c = CHR ''_''"

lemma urlSafe_digit: "n < 64 \<Longrightarrow> urlSafe (b64Digit True n)"
  by (auto simp: urlSafe_def b64Digit_def isLetter_def isDigit_def Let_def)

lemma urlSafe_encode: "list_all urlSafe (b64Encode RawURLEncoding s)"
proof -
  have "list_all urlSafe (b64Groups True False ns)" if "list_all (\<lambda>n. n < 256) ns" for ns
    using that by (induction True False ns rule: b64Groups.induct) (auto intro!: urlSafe_digit)
  moreover have "list_all (\<lambda>n. n < (256 :: nat)) (map of_char s)" by (simp add: list_all_iff)
  ultimately show ?thesis by (simp add: b64Encode_def RawURLEncoding_def)
qed

text \<open>A nonce is accepted exactly when it is the unpadded base64url text of 32 bytes; so it has 43 characters
  of the URL alphabet, and no two texts name the same bytes.\<close>

theorem nonce_is_canonical:
  "validRuntimeAttestationNonce nonce \<longleftrightarrow>
     (\<exists>bytes. length bytes = 32 \<and> nonce = b64Encode RawURLEncoding bytes \<and> length nonce = 43 \<and> list_all urlSafe nonce)"
proof
  assume "validRuntimeAttestationNonce nonce"
  then obtain d where d: "length d = 32" "b64Encode RawURLEncoding d = nonce"
    by (auto simp: validRuntimeAttestationNonce_def split: option.splits)
  then show "\<exists>bytes. length bytes = 32 \<and> nonce = b64Encode RawURLEncoding bytes \<and> length nonce = 43 \<and> list_all urlSafe nonce"
    using length_b64Encode [of RawURLEncoding d] urlSafe_encode [of d] by (auto simp: RawURLEncoding_def)
qed (auto simp: validRuntimeAttestationNonce_def)

subsection \<open>The origin\<close>

lemma unescape_eq_Nil [simp]: "unescapeUrl m s = Some [] \<longleftrightarrow> s = []"
  by (cases "(m, s)" rule: unescapeUrl.cases) (auto split: list.splits option.splits)

lemma parsed_Opaque:
  assumes "urlParse s = Some u" "u_Host u \<noteq> []"
  shows "u_Opaque u = []"
proof -
  have "u_Opaque v = []" if "parseRest u0 r = Some v" "u_Host v \<noteq> []" "u_Opaque u0 = []" "u_Host u0 = []" for u0 v r
    using that by (auto simp: parseRest_def setPath_def Let_def split: if_splits option.splits prod.splits)
  then have "u_Opaque v = []" if "parseNoFragment r = Some v" "u_Host v \<noteq> []" for v r
    using that by (auto simp: parseNoFragment_def emptyUrl_def split: if_splits option.splits prod.splits)
  then show ?thesis
    using assms by (auto simp: urlParse_def setFragment_def split: option.splits prod.splits list.splits)
qed

text \<open>The origin an attestation names is the text https:// and a host, so that no user info, path, query
  parameter or fragment can be hidden in it; the only other text the test lets through is such an origin with a
  single question mark behind it.\<close>

theorem origin_is_exact:
  assumes "exactOrigin origin"
  shows "\<exists>host. host \<noteq> [] \<and> (origin = ''https://'' @ escapeUrl EncHost host \<or> origin = ''https://'' @ escapeUrl EncHost host @ ''?'')"
proof -
  obtain u where u: "urlParse origin = Some u" "u_Scheme u = ''https''" "u_Host u \<noteq> []" "u_User u = None" "u_Path u = []"
    "u_RawQuery u = []" "u_Fragment u = []" "urlString u = origin"
    using assms by (auto simp: exactOrigin_def split: option.splits)
  have path: "escapedPath u = []" using u(5) by (simp add: escapedPath_def escapeUrl_def)
  have "urlString u = ''https://'' @ escapeUrl EncHost (u_Host u) @ (if u_ForceQuery u then ''?'' else [])"
    using u(2-7) parsed_Opaque [OF u(1,3)] by (simp add: urlString_def authorityString_def path cutAt_def Let_def)
  then show ?thesis using u(3,8) by (cases "u_ForceQuery u") auto
qed

theorem origin_is_exact_witness:
  "\<exists>host. host \<noteq> [] \<and> (''https://app.example'' = ''https://'' @ escapeUrl EncHost host
     \<or> ''https://app.example'' = ''https://'' @ escapeUrl EncHost host @ ''?'')"
  by (rule origin_is_exact) code_simp

text \<open>The question mark is let through.\<close>

lemma origin_question_mark: "exactOrigin ''https://app.example?''"
  by code_simp

subsection \<open>What a signed attestation says\<close>

text \<open>A token that is signed over the claims of an instance for a nonce at a time.\<close>

definition attests :: "'o attest_envir_scheme \<Rightarrow> op_instance \<Rightarrow> string \<Rightarrow> int \<Rightarrow> string \<Rightarrow> bool" where
  "attests \<omega> inst nonce now token \<longleftrightarrow> (\<exists>key snapshot signer payload signed c.
     it_privateKey inst = Some key \<and> usableKey (Some key)
     \<and> cf_RuntimeAttestationSnapshot (it_cfg inst) = Some (Inr snapshot) \<and> validateRuntimeAttestationSnapshot snapshot = None
     \<and> validRuntimeAttestationNonce nonce \<and> exactOrigin (trimRight (appURL \<omega>) (CHR ''/''))
     \<and> newSigner \<omega> key runtimeAttestationType (jk_KeyID key) = Inr signer \<and> marshalClaims \<omega> c = Inr payload
     \<and> signPayload \<omega> signer payload = Inr signed \<and> compactSerialize \<omega> signed = Inr token
     \<and> ac_Nonce c = nonce \<and> ac_Tenant c = sn_Tenant snapshot \<and> ac_AuthConfigSHA256 c = sn_AuthConfigSHA256 snapshot
     \<and> ac_IssuedAt c = unixSec now \<and> ac_ExpiresAt c = ac_IssuedAt c + 60
     \<and> ac_Origin c = trimRight (appURL \<omega>) (CHR ''/'')
     \<and> ac_Issuer c = providerIssuer (appURL \<omega>) (cf_PathPrefix (it_cfg inst)))"

lemma wp_signRuntimeAttestation:
  assumes "cf_RuntimeAttestationSnapshot (it_cfg inst) = Some (Inr snapshot)" "\<And>t. attests \<omega> inst nonce now t \<Longrightarrow> Q t w" "\<And>e. E e w"
  shows "wp (signRuntimeAttestation inst snapshot nonce now) Q E \<omega> w"
proof -
  have "ac_ExpiresAt (claimsOf u inst snapshot nonce now) = unixSec now + 60" for u
    by (simp add: claimsOf_def unixSec_def runtimeAttestationLifetime_def)
  moreover have "attests \<omega> inst nonce now t"
    if "validateRuntimeAttestationSnapshot snapshot = None" "validRuntimeAttestationNonce nonce" "it_privateKey inst = Some key"
      "usableKey (Some key)" "exactOrigin (trimRight (appURL \<omega>) (CHR ''/''))"
      "newSigner \<omega> key runtimeAttestationType (jk_KeyID key) = Inr sg"
      "marshalClaims \<omega> (claimsOf (appURL \<omega>) inst snapshot nonce now) = Inr pl" "signPayload \<omega> sg pl = Inr sd"
      "compactSerialize \<omega> sd = Inr t" for t key sg pl sd
    unfolding attests_def
    by (rule exI [of _ key], rule exI [of _ snapshot], rule exI [of _ sg], rule exI [of _ pl], rule exI [of _ sd],
        rule exI [of _ "claimsOf (appURL \<omega>) inst snapshot nonce now"]) (use that assms(1) calculation in \<open>simp add: claimsOf_def\<close>)
  moreover have "usableKey (it_privateKey inst) \<Longrightarrow> \<exists>key. it_privateKey inst = Some key"
    by (simp add: usableKey_def split: option.splits)
  ultimately show ?thesis using assms
    unfolding signRuntimeAttestation_def by (auto simp: wp_simps Let_def split: option.splits sum.splits)
qed

lemma getInstanceAt_setInstance [simp]: "getInstanceAt (setInstance p i w) p = Some i"
  by (simp add: getInstanceAt_def setInstance_def update_conv)

lemma getInstanceAt_tick [simp]: "getInstanceAt (w\<lparr>tick := n\<rparr>) p = getInstanceAt w p"
  by (simp add: getInstanceAt_def)

lemma wp_allowInstance [wp_simps]: "wp (allowInstance p now) Q E \<omega> w = (case getInstanceAt w p of None \<Rightarrow> Q False w
   | Some inst \<Rightarrow> Q (fst (allow now (it_limiter inst))) (setInstance p (inst\<lparr>it_limiter := snd (allow now (it_limiter inst))\<rparr>) w))"
  by (simp add: allowInstance_def wp_simps split: option.splits prod.splits)


subsection \<open>The concrete app\<close>

definition demoSnapshot :: attestation_snapshot where
  "demoSnapshot = \<lparr>sn_Tenant = ''acme'', sn_ReleaseSHA = replicate 40 (CHR ''a''), sn_SourceSHA = replicate 40 (CHR ''0''),
     sn_SourceID = ''src'', sn_BootID = ''boot'', sn_AuthConfigSHA256 = replicate 64 (CHR ''f'')\<rparr>"

definition demoNonce :: string where
  "demoNonce = replicate 43 (CHR ''A'')"

definition demoQuery :: string where
  "demoQuery = ''nonce='' @ demoNonce"

definition demoAttestInst :: op_instance where
  "demoAttestInst = demoHosted\<lparr>it_cfg := demoConfig\<lparr>cf_RuntimeAttestationSnapshot := Some (Inr demoSnapshot)\<rparr>,
     it_privateKey := Some \<lparr>jk_Key = ''k'', jk_KeyID = ''kid'', jk_Algorithm = ''RS256'', jk_Use = ''sig''\<rparr>\<rparr>"

definition demoAttestEnv :: attest_envir where
  "demoAttestEnv = (http_envir.extend demoHttpEnv (attest_envir.fields (\<lambda>_ _ _. Inr ''s'') (\<lambda>c. Inr (ac_Nonce c))
      (\<lambda>_ payload. Inr payload) Inr))\<lparr>appURL := ''https://app.example''\<rparr>"

definition demoAttestWorld :: app_world where
  "demoAttestWorld = setInstance DefaultPathPrefix demoAttestInst (hosting demoWorld)"

lemma demoNonce_valid: "theNonce demoQuery = Some demoNonce"
  by code_simp

lemma demoSnapshot_valid: "validateRuntimeAttestationSnapshot demoSnapshot = None"
  by code_simp

lemma demoOrigin_valid: "exactOrigin (trimRight ''https://app.example'' (CHR ''/''))"
  by code_simp

lemma demo_attestation: "\<exists>r w'. apiOAuth2RuntimeAttestation DefaultPathPrefix demoQuery demoAttestEnv demoAttestWorld = (Inr r, w')
    \<and> rs_Status r = 200"
proof -
  have "validRuntimeAttestationNonce demoNonce" by code_simp
  then show ?thesis
    using demoOrigin_valid demoSnapshot_valid
    by (simp add: apiOAuth2RuntimeAttestation_def allowInstance_def orElse_def signRuntimeAttestation_def liftSum_def run_simps
        demoNonce_valid demoAttestWorld_def Let_def demoAttestInst_def demoHosted_def demoInstance_def demoConfig_def allow_def
        runtimeAttestationInstanceLimit_def usableKey_def demoAttestEnv_def http_envir.defs attest_envir.defs
        del: setHeader.simps cong: run_congs)
qed


end
