(* ===== verification/Registration.thy ===== *)
theory Registration
  imports Attestation
begin

section \<open>Dynamic client registration (oauth2_register.go, storage_client_model.go, the client hook of oauth2.go)\<close>

text \<open>
  RFC 7591: a request with client metadata creates a client row of the provider. The initial access token gate,
  the policy on redirect URIs, the defaults the server imposes, and the hook on record creation that tags the row
  with its provider and replaces the secret by its hash. Decoding and encoding JSON, and the hasher of fosite
  (bcrypt, salted: it depends on the tick), are parameters.
\<close>

subsection \<open>Metadata\<close>

text \<open>\<open>rm_Jwks\<close> is the JSON of the key set, \<open>null\<close> when the request has none; a nil slice is the empty list.\<close>

record rfc7591_request =
  rm_Scope :: string
  rm_RedirectURIs :: "string list"
  rm_TokenEndpointAuthMethod :: string
  rm_GrantTypes :: "string list"
  rm_ResponseTypes :: "string list"
  rm_Contacts :: "string list"
  rm_ClientName :: string
  rm_ClientURI :: string
  rm_LogoURI :: string
  rm_TermsOfServiceURI :: string
  rm_PolicyURI :: string
  rm_JwksURI :: string
  rm_Jwks :: string
  rm_SoftwareID :: string
  rm_SoftwareVersion :: string
  rm_RequestURIs :: "string list"

record rfc7591_metadata = rfc7591_request +
  rm_ClientID :: string
  rm_ClientSecret :: string
  rm_ClientSecretExpiresAt :: int

record reg_envir = attest_envir +
  decodeRegistration :: "string \<Rightarrow> goerr + rfc7591_request"
  marshalRegistration :: "rfc7591_request \<Rightarrow> string"
  hashSecret :: "nat \<Rightarrow> string \<Rightarrow> goerr + string"

type_synonym ('o, 'w, 'a) reggo = "('o reg_envir_scheme, 'w app_world_scheme, 'a) go"

subsection \<open>The initial access token and the redirect URIs\<close>

fun iatMatches :: "string list \<Rightarrow> string \<Rightarrow> bool" where
  "iatMatches [] presented = False"
| "iatMatches (t # ts) presented =
     (if t = [] then iatMatches ts presented else if t = presented then True else iatMatches ts presented)"

definition loopbackHosts :: "string list" where
  "loopbackHosts = [''127.0.0.1'', ''::1'', ''localhost'']"

definition validateRedirectURI :: "string \<Rightarrow> string option" where
  "validateRedirectURI raw =
     (if raw = [] then Some ''redirect_uri must be a non-empty absolute URI''
      else case urlParse raw of
        None \<Rightarrow> Some ''redirect_uri is not a valid URI''
      | Some u \<Rightarrow>
          if \<not> urlIsAbs u then Some ''redirect_uri must be an absolute URI''
          else if u_Fragment u \<noteq> [] then Some ''redirect_uri must not contain a fragment''
          else if toLower (u_Scheme u) = ''https'' then None
          else if toLower (u_Scheme u) = ''http'' then
            (if toLower (urlHostname u) \<in> set loopbackHosts then None
             else Some ''redirect_uri must use https:// (plain http is only permitted for loopback)'')
          else None)"

subsection \<open>The hook on the creation of a client record\<close>

definition clientSecretHash :: "client_row \<Rightarrow> ('o, 'w, client_row) reggo" where
  "clientSecretHash r = bindG (readG (\<lambda>w. legacyDefaultAllowed w DefaultPathPrefix)) (\<lambda>legacy.
     if cr_provider_prefix r = [] \<and> \<not> legacy
     then throwG (textErr ''provider_prefix is required for client creation when multiple providers are registered'')
     else let r = (if cr_provider_prefix r = [] then r\<lparr>cr_provider_prefix := DefaultPathPrefix\<rparr> else r);
              prefix = normalizePrefix (cr_provider_prefix r) in
     bindG (readG (\<lambda>w. getInstanceAt w prefix)) (\<lambda>i. case i of
       None \<Rightarrow> throwG (textErr ''client provider_prefix is not registered'')
     | Some _ \<Rightarrow>
         bindG (mapErrG (\<lambda>e. ErrText ''failed to hash client_secret'' (Some e))
           (bindG (askTick (\<lambda>\<omega> n. hashSecret \<omega> n (cr_client_secret r))) liftSum)) (\<lambda>h.
         returnG (r\<lparr>cr_client_secret := h\<rparr>))))"

text \<open>\<open>app.Save\<close> of a new client: the hook, then the insert under the unique index of the migrations.\<close>

definition insertClient :: "bool \<Rightarrow> client_row \<Rightarrow> ('o, 'w, client_row) reggo" where
  "insertClient valid row =
     (if \<not> valid then bindG dbCall (\<lambda>_. throwG driverErr)
      else bindG (clientSecretHash row) (\<lambda>r.
      bindG newUUID (\<lambda>i. bindG dbCall (\<lambda>_. bindG (readG w_clients) (\<lambda>cs.
        if \<exists>x \<in> set cs. cr_id x = i \<or> (cr_provider_prefix x = cr_provider_prefix r \<and> cr_client_id x = cr_client_id r)
        then throwG constraintErr
        else bindG (modifyG (\<lambda>w. w\<lparr>w_clients := cs @ [r\<lparr>cr_id := i\<rparr>]\<rparr>)) (\<lambda>_. returnG (r\<lparr>cr_id := i\<rparr>)))))))"

subsection \<open>Creating a client\<close>

text \<open>A panic ends the request as an error would: PocketBase recovers it and answers 500.\<close>

definition panicG :: "string \<Rightarrow> ('o, 'w, 'a) go" where
  "panicG msg = throwG (textErr (''panic: '' @ msg))"

definition mustGetInstanceAt :: "string \<Rightarrow> ('o, 'w, op_instance) reggo" where
  "mustGetInstanceAt prefix = bindG (readG (\<lambda>w. getInstanceAt w prefix)) (\<lambda>i. case i of
       None \<Rightarrow> panicG ''instance not initialized'' | Some inst \<Rightarrow> returnG inst)"

definition imposeDefaults :: "rfc7591_request \<Rightarrow> rfc7591_request" where
  "imposeDefaults md = md\<lparr>rm_ResponseTypes := [''code''], rm_GrantTypes := [''authorization_code'', ''refresh_token''],
     rm_TokenEndpointAuthMethod :=
       (if rm_TokenEndpointAuthMethod md = [] \<or> rm_TokenEndpointAuthMethod md = ''none'' then ''client_secret_basic''
        else rm_TokenEndpointAuthMethod md)\<rparr>"

definition defaultScope :: "string \<Rightarrow> rfc7591_request \<Rightarrow> ('o, 'w, rfc7591_request) reggo" where
  "defaultScope prefix md =
     (if rm_Scope md \<noteq> [] then returnG md
      else bindG (mustGetInstanceAt prefix) (\<lambda>inst. case it_metadata inst of
        None \<Rightarrow> panicG ''nil metadata''
      | Some d \<Rightarrow> returnG (md\<lparr>rm_Scope := joinWith '' '' (md_ScopesSupported d)\<rparr>)))"

definition clientRow :: "string \<Rightarrow> string \<Rightarrow> string \<Rightarrow> string \<Rightarrow> string \<Rightarrow> rfc7591_request \<Rightarrow> client_row" where
  "clientRow prefix clientID clientSecret issuer metadata md =
     \<lparr>cr_id = [], cr_provider_prefix = prefix, cr_client_id = clientID, cr_client_name = rm_ClientName md,
      cr_client_secret = clientSecret, cr_client_secret_expires_at = 0, cr_redirect_uris = rm_RedirectURIs md,
      cr_grant_types = rm_GrantTypes md, cr_response_types = rm_ResponseTypes md, cr_scope = rm_Scope md,
      cr_audience = [issuer], cr_owner = [], cr_policy_uri = rm_PolicyURI md, cr_tos_uri = rm_TermsOfServiceURI md,
      cr_client_uri = rm_ClientURI md, cr_logo_uri = rm_LogoURI md, cr_contacts = rm_Contacts md,
      cr_allowed_cors_origins = [], cr_subject_type = ''public'', cr_sector_identifier_uri = [],
      cr_jwks_uri = rm_JwksURI md, cr_jwks = rm_Jwks md, cr_request_uris = rm_RequestURIs md,
      cr_token_endpoint_auth_method = rm_TokenEndpointAuthMethod md, cr_token_endpoint_auth_signing_alg = [],
      cr_request_object_signing_alg = [], cr_userinfo_signed_response_alg = [], cr_metadata = metadata,
      cr_access_token_strategy = ''opaque''\<rparr>"

text \<open>The metadata is changed in place and returned with the client; \<open>None\<close> is the nil client of a failed \<open>ToClient\<close>.\<close>

definition NewClientFromRFC7591MetadataAt ::
  "string \<Rightarrow> rfc7591_request \<Rightarrow> ('o, 'w, rfc7591_request \<times> client option \<times> string) reggo" where
  "NewClientFromRFC7591MetadataAt prefix0 md0 =
     (let prefix = normalizePrefix prefix0 in
      bindG (collectionOrInvalid ClientC) (\<lambda>valid.
      bindG newUUID (\<lambda>clientID. bindG newUUID (\<lambda>clientSecret.
      bindG (defaultScope prefix (imposeDefaults md0)) (\<lambda>md.
      bindG (mustGetInstanceAt prefix) (\<lambda>inst.
      bindG (askG (\<lambda>\<omega>. providerIssuer (appURL \<omega>) (cf_PathPrefix (it_cfg inst)))) (\<lambda>issuer.
      bindG (askG (\<lambda>\<omega>. marshalRegistration \<omega> md)) (\<lambda>metadata.
      bindG (mapErrG (\<lambda>e. ErrText ''failed to save client metadata'' (Some e))
        (insertClient valid (clientRow prefix clientID clientSecret issuer metadata md))) (\<lambda>m.
      bindG (attemptG (ToClient m)) (\<lambda>c.
      returnG (md, (case c of Inl _ \<Rightarrow> None | Inr cl \<Rightarrow> Some cl), clientSecret)))))))))))"

definition NewClientFromRFC7591Metadata :: "rfc7591_request \<Rightarrow> ('o, 'w, rfc7591_request \<times> client option \<times> string) reggo" where
  "NewClientFromRFC7591Metadata md = NewClientFromRFC7591MetadataAt DefaultPathPrefix md"

definition RegisterClient :: "oauth2store \<Rightarrow> rfc7591_request \<Rightarrow> ('o, 'w, rfc7591_request \<times> client option \<times> string) reggo" where
  "RegisterClient s md = NewClientFromRFC7591MetadataAt (st_prefix s) md"

subsection \<open>The endpoint\<close>

fun firstInvalid :: "string list \<Rightarrow> string option" where
  "firstInvalid [] = None"
| "firstInvalid (u # us) = (case validateRedirectURI u of Some e \<Rightarrow> Some e | None \<Rightarrow> firstInvalid us)"

definition iatRefused :: "config \<Rightarrow> string \<Rightarrow> bool" where
  "iatRefused cfg authz \<longleftrightarrow> cf_InitialAccessTokens cfg \<noteq> [] \<and>
     (let got = bearerTokenFromHeader authz in got = [] \<or> \<not> iatMatches (cf_InitialAccessTokens cfg) got)"

definition iatChallenge :: string where
  "iatChallenge = ''Bearer realm='' @ jsonString ''OAuth Registration'' @ '', error='' @ jsonString ''invalid_token''
     @ '', error_description='' @ jsonString ''A valid Initial Access Token is required to register a client.''"

definition api_OAuth2Register ::
  "op_instance \<Rightarrow> string \<Rightarrow> string \<Rightarrow> string \<Rightarrow> ('o, 'w, rfc7591_metadata response) reggo" where
  "api_OAuth2Register inst method authz body =
     (if method \<noteq> ''POST'' then returnG (apiError 405 [] [])
      else if iatRefused (it_cfg inst) authz
      then returnG (apiError 401 (setHeader [] ''WWW-Authenticate'' iatChallenge) ''invalid_token'')
      else bindG (askG errorString) (\<lambda>text.
      orElse (bindG (askG (\<lambda>\<omega>. decodeRegistration \<omega> body)) liftSum) (\<lambda>e. apiError 400 [] (text e)) (\<lambda>md0.
      if rm_RedirectURIs md0 = [] then returnG (apiError 400 [] ''redirect_uris is required'')
      else case firstInvalid (rm_RedirectURIs md0) of
        Some e \<Rightarrow> returnG (apiError 400 [] e)
      | None \<Rightarrow> (case it_store inst of
          None \<Rightarrow> returnG (apiError 500 [] [])
        | Some store \<Rightarrow>
            orElse (RegisterClient store md0) (\<lambda>_. apiError 500 [] []) (\<lambda>(md, c, clientSecret).
            case c of
              None \<Rightarrow> returnG (apiError 500 [] [])
            | Some cl \<Rightarrow> returnG (answer 201 (setHeader [] ''Content-Type'' ''application/json'')
                (rfc7591_request.extend md (rfc7591_metadata.fields (cl_ID cl) clientSecret 0))))))))"

end
