(* ===== verification/Registration_Properties.thy ===== *)
theory Registration_Properties
  imports Registration Attestation_Properties
begin

section \<open>Properties of dynamic client registration\<close>

subsection \<open>The redirect URI policy\<close>

lemma lowerChar_idem [simp]: "lowerChar (lowerChar c) = lowerChar c"
  by (auto simp: lowerChar_def Let_def)

lemma toLower_idem [simp]: "toLower (toLower s) = toLower s"
  by (simp add: toLower_def)

lemma parsed_Scheme:
  assumes "urlParse raw = Some u"
  shows "toLower (u_Scheme u) = u_Scheme u"
proof -
  have rest: "u_Scheme v = u_Scheme u0" if "parseRest u0 r = Some v" for u0 v r
    using that by (auto simp: parseRest_def setPath_def Let_def split: if_splits option.splits prod.splits)
  have "toLower (u_Scheme v) = u_Scheme v" if v: "parseNoFragment r = Some v" for v r
    using v by (auto simp: parseNoFragment_def emptyUrl_def toLower_def [of "[]"] dest!: rest split: if_splits option.splits prod.splits)
  then show ?thesis
    using assms by (auto simp: urlParse_def setFragment_def split: option.splits prod.splits list.splits)
qed

text \<open>What the policy lets through: absolute URIs without a fragment, plain http only to the loopback.\<close>

definition safeRedirect :: "string \<Rightarrow> bool" where
  "safeRedirect raw \<longleftrightarrow> (\<exists>u. urlParse raw = Some u \<and> u_Scheme u \<noteq> [] \<and> u_Fragment u = []
     \<and> (u_Scheme u = ''http'' \<longrightarrow> toLower (urlHostname u) \<in> set loopbackHosts))"

lemma urlParse_Nil [simp]: "urlParse [] = Some emptyUrl"
  by code_simp

lemma validateRedirectURI_iff: "validateRedirectURI raw = None \<longleftrightarrow> safeRedirect raw"
proof (cases "urlParse raw")
  case (Some u)
  then show ?thesis using parsed_Scheme [OF Some]
    by (cases "raw = []") (auto simp: validateRedirectURI_def safeRedirect_def urlIsAbs_def emptyUrl_def)
qed (auto simp: validateRedirectURI_def safeRedirect_def)

lemma firstInvalid_iff: "firstInvalid us = None \<longleftrightarrow> list_all safeRedirect us"
  by (induction us rule: firstInvalid.induct) (auto simp: validateRedirectURI_iff [symmetric] split: option.splits)

lemma iatMatches_iff: "iatMatches allowed t \<longleftrightarrow> t \<noteq> [] \<and> t \<in> set allowed"
  by (induction allowed t rule: iatMatches.induct) auto

text \<open>An opaque URI is absolute for Go and passes.\<close>

lemma opaque_redirect_accepted: "validateRedirectURI ''https:opaque'' = None"
  by code_simp

subsection \<open>The row\<close>

text \<open>What the JSON library guarantees: what it marshals it reads back.\<close>

definition regLaws :: "'o reg_envir_scheme \<Rightarrow> bool" where
  "regLaws \<omega> \<longleftrightarrow> (\<forall>md. jsonValid \<omega> (marshalRegistration \<omega> md))
     \<and> (\<forall>body md. decodeRegistration \<omega> body = Inr md \<longrightarrow> jwksValid \<omega> (rm_Jwks md))"

text \<open>A new client row of a provider for the metadata of a request, with the secret hashed.\<close>

definition newClient :: "'o reg_envir_scheme \<Rightarrow> 'w app_world_scheme \<Rightarrow> string \<Rightarrow> rfc7591_request \<Rightarrow> client_row \<Rightarrow> string \<Rightarrow> bool" where
  "newClient \<omega> w p md row secret \<longleftrightarrow> cr_provider_prefix row = p \<and> getInstanceAt w p \<noteq> None
     \<and> (\<exists>n. hashSecret \<omega> n secret = Inr (cr_client_secret row))
     \<and> (\<forall>x \<in> set (w_clients w). cr_id x \<noteq> cr_id row \<and> (cr_provider_prefix x = p \<longrightarrow> cr_client_id x \<noteq> cr_client_id row))
     \<and> cr_redirect_uris row = rm_RedirectURIs md \<and> cr_grant_types row = [''authorization_code'', ''refresh_token'']
     \<and> cr_response_types row = [''code''] \<and> cr_token_endpoint_auth_method row \<notin> {[], ''none''}
     \<and> cr_client_secret_expires_at row = 0"

abbreviation (input) addClient :: "client_row \<Rightarrow> nat \<Rightarrow> 'w app_world_scheme \<Rightarrow> 'w app_world_scheme" where
  "addClient row n w \<equiv> w\<lparr>tick := n, w_clients := w_clients w @ [row]\<rparr>"

lemma wp_insertClient:
  assumes "canonicalPrefix (cr_provider_prefix r)"
    and "\<And>row n k. getInstanceAt w (cr_provider_prefix r) \<noteq> None \<Longrightarrow> hashSecret \<omega> k (cr_client_secret r) = Inr (cr_client_secret row) \<Longrightarrow>
        row = r\<lparr>cr_id := cr_id row, cr_client_secret := cr_client_secret row\<rparr> \<Longrightarrow>
        \<forall>x \<in> set (w_clients w). cr_id x \<noteq> cr_id row \<and> (cr_provider_prefix x = cr_provider_prefix r \<longrightarrow> cr_client_id x \<noteq> cr_client_id r) \<Longrightarrow>
        Q row (addClient row n w)"
    and "\<And>e n. E e (w\<lparr>tick := n\<rparr>)"
  shows "wp (insertClient valid r) Q E \<omega> w"
proof -
  have "cr_provider_prefix r \<noteq> []" using assms(1) canonicalPrefix_nonempty by auto
  then show ?thesis
    using assms(3) assms(3) [of _ "tick w"] canonicalPrefixD [OF assms(1)]
    by (auto simp: insertClient_def clientSecretHash_def wp_simps Let_def split: option.splits sum.splits intro!: assms(2))
qed

lemma wp_ToClient: "jwksValid \<omega> (cr_jwks m) \<Longrightarrow> jsonValid \<omega> (cr_metadata m) \<Longrightarrow>
    (\<And>c. cl_ID c = cr_client_id m \<Longrightarrow> Q c w) \<Longrightarrow> wp (ToClient m) Q E \<omega> w"
  by (simp add: ToClient_def wp_simps)

lemma wp_defaultScope:
  assumes "\<And>s. Q (md\<lparr>rm_Scope := s\<rparr>) w" "\<And>e. E e w"
  shows "wp (defaultScope p md) Q E \<omega> w"
  using assms assms(1) [of "rm_Scope md"]
  by (auto simp: defaultScope_def mustGetInstanceAt_def panicG_def wp_simps split: option.splits)

lemma wp_NewClient:
  assumes p: "canonicalPrefix p" and json: "jwksValid \<omega> (rm_Jwks md)" "\<forall>md. jsonValid \<omega> (marshalRegistration \<omega> md)"
    and Q: "\<And>md' c secret row n. newClient \<omega> w p md row secret \<Longrightarrow> rm_RedirectURIs md' = rm_RedirectURIs md \<Longrightarrow>
       cl_ID c = cr_client_id row \<Longrightarrow> Q (md', Some c, secret) (addClient row n w)"
    and E: "\<And>e n. E e (w\<lparr>tick := n\<rparr>)"
  shows "wp (NewClientFromRFC7591MetadataAt p md) Q E \<omega> w"
proof -
  have E0: "E e w" for e using E [of e "tick w"] by simp
  have row: "newClient \<omega> w p md row secret"
    if "getInstanceAt (w\<lparr>tick := j\<rparr>) p \<noteq> None" "hashSecret \<omega> k secret = Inr (cr_client_secret row)"
      "row = (clientRow p i secret iss meta ((imposeDefaults md)\<lparr>rm_Scope := sc\<rparr>))\<lparr>cr_id := cr_id row, cr_client_secret := cr_client_secret row\<rparr>"
      "\<forall>x \<in> set (w_clients (w\<lparr>tick := j\<rparr>)). cr_id x \<noteq> cr_id row \<and> (cr_provider_prefix x = p \<longrightarrow> cr_client_id x \<noteq> i)"
    for row secret i iss meta sc j k
    using that(1,2,4) arg_cong [OF that(3), of cr_provider_prefix] arg_cong [OF that(3), of cr_client_id]
      arg_cong [OF that(3), of cr_redirect_uris] arg_cong [OF that(3), of cr_grant_types] arg_cong [OF that(3), of cr_response_types]
      arg_cong [OF that(3), of cr_token_endpoint_auth_method] arg_cong [OF that(3), of cr_client_secret_expires_at]
    by (auto simp: newClient_def clientRow_def imposeDefaults_def)
  have insert: "wp (mapErrG g (insertClient valid (clientRow p i secret iss (marshalRegistration \<omega> md') md')))
       (\<lambda>m. wp (bindG (attemptG (ToClient m)) (\<lambda>c. returnG (md', (case c of Inl _ \<Rightarrow> None | Inr cl \<Rightarrow> Some cl), secret))) Q E \<omega>)
       E \<omega> (w\<lparr>tick := j\<rparr>)"
    if md': "md' = (imposeDefaults md)\<lparr>rm_Scope := sc\<rparr>" for md' sc g valid i secret iss j
    unfolding wp_mapErrG
  proof (rule wp_insertClient)
    fix r n k
    assume r: "getInstanceAt (w\<lparr>tick := j\<rparr>) (cr_provider_prefix (clientRow p i secret iss (marshalRegistration \<omega> md') md')) \<noteq> None"
      "hashSecret \<omega> k (cr_client_secret (clientRow p i secret iss (marshalRegistration \<omega> md') md')) = Inr (cr_client_secret r)"
      "r = (clientRow p i secret iss (marshalRegistration \<omega> md') md')\<lparr>cr_id := cr_id r, cr_client_secret := cr_client_secret r\<rparr>"
      "\<forall>x \<in> set (w_clients (w\<lparr>tick := j\<rparr>)). cr_id x \<noteq> cr_id r \<and> (cr_provider_prefix x = cr_provider_prefix (clientRow p i secret iss (marshalRegistration \<omega> md') md')
         \<longrightarrow> cr_client_id x \<noteq> cr_client_id (clientRow p i secret iss (marshalRegistration \<omega> md') md'))"
    have nc: "newClient \<omega> w p md r secret"
      by (rule row [of j k secret r i iss "marshalRegistration \<omega> md'" sc]) (use r in \<open>simp_all add: md' clientRow_def\<close>)
    have meta: "cr_metadata r = marshalRegistration \<omega> md'" "cr_jwks r = rm_Jwks md"
      using arg_cong [OF r(3), of cr_metadata] arg_cong [OF r(3), of cr_jwks] by (simp_all add: clientRow_def md' imposeDefaults_def)
    have "rm_RedirectURIs md' = rm_RedirectURIs md" by (simp add: md' imposeDefaults_def)
    then show "wp (bindG (attemptG (ToClient r)) (\<lambda>c. returnG (md', (case c of Inl _ \<Rightarrow> None | Inr cl \<Rightarrow> Some cl), secret))) Q E \<omega>
       (addClient r n (w\<lparr>tick := j\<rparr>))"
      unfolding wp_bindG wp_attemptG using nc by (intro wp_ToClient) (use json meta in \<open>auto simp: wp_returnG intro: Q\<close>)
  qed (use p E in \<open>simp_all add: clientRow_def\<close>)
  show ?thesis
    unfolding NewClientFromRFC7591MetadataAt_def canonicalPrefixD [OF p] Let_def
    by (auto simp: collectionOrInvalid_def findCollection_def mustGetInstanceAt_def panicG_def wp_readG wp_askG wp_newUUID wp_dbCall wp_throwG
        wp_returnG wp_bindG [of "collectionOrInvalid _"] wp_bindG [of newUUID] wp_bindG [of "defaultScope _ _"] wp_bindG [of "readG _"]
        wp_bindG [of "askG _"] wp_bindG [of "mapErrG _ _"] wp_bindG [of "attemptG _"]
        wp_bindG [of "bindG _ _"] wp_bindG [of "tryG _ _"] wp_tryG wp_bindG [of dbCall] E E0 intro!: wp_defaultScope insert split: option.splits)
qed

subsection \<open>The endpoint\<close>


subsection \<open>The concrete app\<close>

definition demoRegistration :: rfc7591_request where
  "demoRegistration = \<lparr>rm_Scope = ''openid'', rm_RedirectURIs = [''https://app.example/cb'', ''http://localhost:8080/cb''],
     rm_TokenEndpointAuthMethod = ''none'', rm_GrantTypes = [], rm_ResponseTypes = [], rm_Contacts = [], rm_ClientName = ''App'',
     rm_ClientURI = [], rm_LogoURI = [], rm_TermsOfServiceURI = [], rm_PolicyURI = [], rm_JwksURI = [], rm_Jwks = ''null'',
     rm_SoftwareID = [], rm_SoftwareVersion = [], rm_RequestURIs = []\<rparr>"

definition demoRegEnv :: reg_envir where
  "demoRegEnv = (attest_envir.extend demoAttestEnv (reg_envir.fields (\<lambda>_. Inr demoRegistration) rm_ClientName (\<lambda>_ _. Inr ''hashed'')))
     \<lparr>uuid := (\<lambda>n. replicate n (CHR ''u''))\<rparr>"

definition demoGated :: op_instance where
  "demoGated = demoHosted\<lparr>it_cfg := demoConfig\<lparr>cf_InitialAccessTokens := [''iat'']\<rparr>\<rparr>"

lemma demo_regLaws: "regLaws demoRegEnv"
  by (simp add: regLaws_def demoRegEnv_def demoAttestEnv_def demoHttpEnv_def demoAppEnv_def attest_envir.defs reg_envir.defs
      http_envir.defs app_envir.defs)

lemma demo_uris: "firstInvalid (rm_RedirectURIs demoRegistration) = None"
  by code_simp

lemma demo_iat: "\<not> iatRefused (it_cfg demoGated) ''Bearer iat''"
  by code_simp

lemma demo_registers: "\<exists>r w' resp. api_OAuth2Register demoGated ''POST'' ''Bearer iat'' ''{}'' demoRegEnv (hosting demoWorld) = (Inr r, w')
    \<and> rs_Body r = Payload resp"
  using demo_uris demo_iat
  by (simp add: api_OAuth2Register_def RegisterClient_def NewClientFromRFC7591MetadataAt_def collectionOrInvalid_def findCollection_def
      defaultScope_def imposeDefaults_def mustGetInstanceAt_def insertClient_def clientSecretHash_def clientRow_def ToClient_def
      orElse_def liftSum_def askTick_def nextTick_def run_simps Let_def demoRegEnv_def demoAttestEnv_def demoHttpEnv_def
      demoAppEnv_def attest_envir.defs reg_envir.defs http_envir.defs app_envir.defs demoRegistration_def demo_defs
      demoGated_def demoHosted_def demoInstance_def demoConfig_def legacyDefaultAllowed_def
      cong: run_congs)


end
