(* ===== verification/Registry.thy ===== *)
theory Registry
  imports Registration Params
begin

section \<open>Registering providers (oauth2.go, instance.go, provider_prefix.go, xpb/plugin.go)\<close>

text \<open>
  An app hosts providers under distinct path prefixes. \<open>w_guard\<close> is the registration guard of the process,
  \<open>w_registered\<close> the set behind \<open>listRegisteredPrefixes\<close>, \<open>w_store\<close> the app's store with the instances and the
  sentinels; all restricted to one app. Registering claims the guard, checks the configuration, stores the instance
  and, when the app is bootstrapped, loads the key material and builds the metadata. A pointer to an instance is
  the entry of the store under its prefix. The route table and the
  copy of the configuration are in theories of their own; fosite's composed provider is not modelled.
\<close>

subsection \<open>The store of the app\<close>

definition storeSet :: "string \<Rightarrow> stored \<Rightarrow> ('o, 'w, unit) reggo" where
  "storeSet k v = modifyG (\<lambda>w. w\<lparr>w_store := AList.update k v (w_store w)\<rparr>)"

definition storeRemove :: "string \<Rightarrow> ('o, 'w, unit) reggo" where
  "storeRemove k = modifyG (\<lambda>w. w\<lparr>w_store := AList.delete k (w_store w)\<rparr>)"

text \<open>An assignment to a field of the instance at a prefix.\<close>

definition assignInstance :: "string \<Rightarrow> (op_instance \<Rightarrow> op_instance) \<Rightarrow> ('o, 'w, unit) reggo" where
  "assignInstance prefix f = modifyG (\<lambda>w. case getInstanceAt w prefix of None \<Rightarrow> w | Some i \<Rightarrow> setInstance prefix (f i) w)"

subsection \<open>The set of registered prefixes\<close>

definition rememberRegisteredPrefix :: "string \<Rightarrow> ('o, 'w, unit) reggo" where
  "rememberRegisteredPrefix prefix = modifyG (\<lambda>w. w\<lparr>w_registered := List.insert prefix (w_registered w)\<rparr>)"

definition forgetRegisteredPrefix :: "string \<Rightarrow> ('o, 'w, unit) reggo" where
  "forgetRegisteredPrefix prefix = modifyG (\<lambda>w. w\<lparr>w_registered := removeAll prefix (w_registered w)\<rparr>)"

definition listRegisteredPrefixes :: "'w app_world_scheme \<Rightarrow> string list" where
  "listRegisteredPrefixes w = w_registered w"

definition DeregisterAt :: "string \<Rightarrow> ('o, 'w, unit) reggo" where
  "DeregisterAt prefix0 = (let prefix = normalizePrefix prefix0 in
     bindG (storeRemove (instanceStoreKey prefix)) (\<lambda>_.
     bindG (storeRemove (registeringStoreKey prefix)) (\<lambda>_.
     bindG (modifyG (\<lambda>w. w\<lparr>w_guard := removeAll prefix (w_guard w)\<rparr>)) (\<lambda>_.
     forgetRegisteredPrefix prefix))))"

definition Deregister :: "('o, 'w, unit) reggo" where
  "Deregister = bindG (readG listRegisteredPrefixes) (\<lambda>ps.
     bindG (forG ps DeregisterAt) (\<lambda>_.
     modifyG (\<lambda>w. w\<lparr>w_registered := []\<rparr>)))"

definition ResetStateForTests :: "('o, 'w, unit) reggo" where
  "ResetStateForTests = Deregister"

subsection \<open>Untagged rows of earlier versions\<close>

fun countUntagged :: "'w app_world_scheme \<Rightarrow> collection \<Rightarrow> nat" where
  "countUntagged w ClientC = length (filter (\<lambda>r. cr_provider_prefix r = []) (w_clients w))"
| "countUntagged w TombstoneC = length (filter (\<lambda>r. tb_provider_prefix r = []) (w_tombstones w))"
| "countUntagged w JTIC = length (filter (\<lambda>r. jt_provider_prefix r = []) (w_jtis w))"
| "countUntagged w InteractionC = length (filter (\<lambda>r. ir_provider_prefix r = []) (w_interactions w))"
| "countUntagged w ConsentC = length (filter (\<lambda>r. co_provider_prefix r = []) (w_consents w))"
| "countUntagged w c = length (filter (\<lambda>r. sr_provider_prefix r = []) (w_sessions w c))"

definition validateProviderPrefixState :: "('o, 'w, unit) reggo" where
  "validateProviderPrefixState = bindG (readG listRegisteredPrefixes) (\<lambda>ps.
     if length ps < 2 then returnG ()
     else forG providerScopedCollections (\<lambda>c.
       bindG (mapErrG (\<lambda>e. ErrText ''query legacy provider state'' (Some e))
         (bindG dbCall (\<lambda>_. readG (\<lambda>w. countUntagged w c)))) (\<lambda>n.
       if n \<noteq> 0 then throwG (textErr ''ambiguous legacy OAuth state; refusing multi-provider startup'') else returnG ())))"

subsection \<open>Loading the key material and the metadata\<close>

fun mergeAll :: "provider_metadata \<Rightarrow> (string \<times> protected_metadata) list \<Rightarrow> provider_metadata" where
  "mergeAll md [] = md"
| "mergeAll md ((_, pm) # ps) = mergeAll (mergeProtectedScopes md (pr_ScopesSupported pm)) ps"

definition loadParams :: "string \<Rightarrow> ('o, 'w, unit) reggo" where
  "loadParams prefix =
     bindG (mapErrG (\<lambda>e. ErrText ''provider-prefix validation failed'' (Some e)) validateProviderPrefixState) (\<lambda>_.
     bindG (tryG (loadPrivateKeyFromAppStorageAt prefix) (\<lambda>e.
         bindG (assignInstance prefix (it_privateKey_update (\<lambda>_. None))) (\<lambda>_.
         throwG (ErrText ''Failed to load or generate private key'' (Some e))))) (\<lambda>key.
     bindG (assignInstance prefix (it_privateKey_update (\<lambda>_. Some key))) (\<lambda>_.
     bindG (tryG (loadGlobalSecretFromAppStorageAt prefix) (\<lambda>e.
         bindG (assignInstance prefix (it_cfg_update (cf_GlobalSecret_update (\<lambda>_. [])))) (\<lambda>_.
         throwG (ErrText ''Failed to load or generate global secret'' (Some e))))) (\<lambda>secret.
     bindG (assignInstance prefix (it_cfg_update (cf_GlobalSecret_update (\<lambda>_. secret)))) (\<lambda>_.
     bindG (assignInstance prefix (it_store_update (\<lambda>_. Some (NewOAuth2StoreAt prefix)))) (\<lambda>_.
     bindG (askG appURL) (\<lambda>url.
     assignInstance prefix (\<lambda>i. i\<lparr>it_metadata :=
       Some (mergeAll (buildProviderMetadata url (cf_PathPrefix (it_cfg i))) (it_protected i))\<rparr>))))))))"

subsection \<open>Registering\<close>

definition normalizeDefaults :: "string \<Rightarrow> config \<Rightarrow> config" where
  "normalizeDefaults prefix cfg =
     (let cfg = cfg\<lparr>cf_PathPrefix := prefix\<rparr>;
          cfg = (if cf_UserInfoClaimStrategy cfg = None
                 then cfg\<lparr>cf_UserInfoClaimStrategy := Some DefaultUserInfoClaimStrategy\<rparr> else cfg) in
      if \<not> cf_EnforcePKCE cfg \<and> \<not> cf_EnforcePKCEForPublicClients cfg then cfg\<lparr>cf_EnforcePKCE := True\<rparr> else cfg)"

definition openDCR :: "config \<Rightarrow> bool" where
  "openDCR cfg \<longleftrightarrow> cf_EnableDCR cfg \<and> length (cf_InitialAccessTokens cfg) = 0 \<and> \<not> cf_AllowUnauthenticatedDCR cfg"

definition newInstance :: "config \<Rightarrow> op_instance" where
  "newInstance cfg = \<lparr>it_cfg = cfg, it_store = None, it_privateKey = None, it_metadata = None, it_protected = [],
     it_limiter = \<lparr>ls_started = None, ls_count = 0\<rparr>\<rparr>"

text \<open>
  A nil configuration passes the guard and panics in \<open>cloneConfig\<close>; the copy it makes of any other is that
  configuration as a value (the theory Clone models what the copy shares).\<close>

definition Register :: "bool \<Rightarrow> config option \<Rightarrow> ('o, 'w, unit) reggo" where
  "Register bootstrapped config =
     (let prefix = (case config of None \<Rightarrow> DefaultPathPrefix | Some c \<Rightarrow> normalizePrefix (cf_PathPrefix c)) in
      bindG (readG (\<lambda>w. prefix \<in> set (w_guard w))) (\<lambda>loaded.
      if loaded then throwG (textErr (''already registered for this app at prefix='' @ prefix))
      else bindG (modifyG (\<lambda>w. w\<lparr>w_guard := prefix # w_guard w\<rparr>)) (\<lambda>_.
      bindG (storeSet (registeringStoreKey prefix) Registering) (\<lambda>_.
      case config of
        None \<Rightarrow> panicG ''nil configuration''
      | Some c \<Rightarrow> let cfg = normalizeDefaults prefix c in
      if openDCR cfg then
        bindG (modifyG (\<lambda>w. w\<lparr>w_guard := removeAll prefix (w_guard w)\<rparr>)) (\<lambda>_.
        bindG (storeRemove (registeringStoreKey prefix)) (\<lambda>_.
        throwG (textErr ''refusing to expose an unauthenticated /register endpoint'')))
      else
        bindG (storeSet (instanceStoreKey prefix) (StoredInstance (newInstance cfg))) (\<lambda>_.
        bindG (rememberRegisteredPrefix prefix) (\<lambda>_.
        if bootstrapped
        then tryG (loadParams prefix) (\<lambda>e. bindG (DeregisterAt prefix) (\<lambda>_. throwG e))
        else returnG ()))))))"

definition MustRegister :: "bool \<Rightarrow> config option \<Rightarrow> ('o, 'w, unit) reggo" where
  "MustRegister bootstrapped config = tryG (Register bootstrapped config) (\<lambda>e. panicG ''Failed to register OAuth2 plugin'')"

subsection \<open>Protected resources and the accessors\<close>

definition RegisterProtectedResourceMetadataAt :: "string \<Rightarrow> protected_metadata \<Rightarrow> ('o, 'w, unit) reggo" where
  "RegisterProtectedResourceMetadataAt prefix md = bindG (mustGetInstanceAt prefix) (\<lambda>inst.
     if \<not> cf_EnableRFC9728 (it_cfg inst) then returnG ()
     else case urlParse (pr_Resource md) of
       None \<Rightarrow> panicG ''nil url''
     | Some u \<Rightarrow>
       let key = trimBoth (u_Path u) (CHR ''/'') in
       bindG (assignInstance prefix (\<lambda>i. i\<lparr>it_protected := AList.update key md (it_protected i)\<rparr>)) (\<lambda>_.
       assignInstance prefix (\<lambda>i. case it_metadata i of None \<Rightarrow> i
         | Some d \<Rightarrow> i\<lparr>it_metadata := Some (mergeProtectedScopes d (pr_ScopesSupported md))\<rparr>)))"

definition RegisterProtectedResourceMetadata :: "protected_metadata \<Rightarrow> ('o, 'w, unit) reggo" where
  "RegisterProtectedResourceMetadata md = RegisterProtectedResourceMetadataAt DefaultPathPrefix md"

text \<open>The resource the serve hook announces: the user info endpoint.\<close>

definition userinfoResource :: "string \<Rightarrow> string \<Rightarrow> protected_metadata" where
  "userinfoResource url prefix = \<lparr>pr_Resource = url @ prefix @ ''/userinfo'', pr_AuthorizationServers = [providerIssuer url prefix],
     pr_JwksURI = [], pr_ScopesSupported = [''openid'', ''profile'', ''email''], pr_BearerMethodsSupported = [''header''],
     pr_ResourceSigningAlgValuesSupported = [], pr_ResourceName = [], pr_ResourceDocumentation = [], pr_ResourcePolicyURI = [],
     pr_ResourceTOSURI = [], pr_TLSClientCertificateBoundAccessTokens = False, pr_AuthorizationDetailsTypesSupported = [],
     pr_DPOPSigningAlgValuesSupported = [], pr_DPOPBoundAccessTokensRequired = False\<rparr>"

definition onServe :: "string \<Rightarrow> ('o, 'w, unit) reggo" where
  "onServe prefix = bindG (askG appURL) (\<lambda>url. RegisterProtectedResourceMetadataAt prefix (userinfoResource url prefix))"

definition GetOAuth2ConfigAt :: "string \<Rightarrow> ('o, 'w, config) reggo" where
  "GetOAuth2ConfigAt prefix = bindG (mustGetInstanceAt prefix) (\<lambda>i. returnG (it_cfg i))"

definition GetOAuth2Config :: "('o, 'w, config) reggo" where
  "GetOAuth2Config = GetOAuth2ConfigAt DefaultPathPrefix"

definition GetOAuth2StoreAt :: "string \<Rightarrow> ('o, 'w, oauth2store option) reggo" where
  "GetOAuth2StoreAt prefix = bindG (mustGetInstanceAt prefix) (\<lambda>i. returnG (it_store i))"

definition GetOAuth2Store :: "('o, 'w, oauth2store option) reggo" where
  "GetOAuth2Store = GetOAuth2StoreAt DefaultPathPrefix"

subsection \<open>The plugin for xpb\<close>

record plugin =
  pl_PathPrefix :: string
  pl_UserCollection :: string
  pl_EnableRFC7591 :: bool
  pl_EnableRFC9728 :: bool
  pl_EnforcePKCE :: string

definition defaultPlugin :: plugin where
  "defaultPlugin = \<lparr>pl_PathPrefix = ''/oauth2'', pl_UserCollection = ''users'', pl_EnableRFC7591 = False,
     pl_EnableRFC9728 = True, pl_EnforcePKCE = ''none''\<rparr>"

definition pluginConfig :: "plugin \<Rightarrow> config" where
  "pluginConfig p = \<lparr>cf_PathPrefix = pl_PathPrefix p, cf_UserCollection = pl_UserCollection p, cf_UserInfoClaimStrategy = None,
     cf_EnableDCR = pl_EnableRFC7591 p, cf_EnableRFC9728 = pl_EnableRFC9728 p, cf_MasterKeyProvider = None,
     cf_InitialAccessTokens = [], cf_AllowUnauthenticatedDCR = False, cf_LoginRedirectURL = [],
     cf_RuntimeAttestationSnapshot = None, cf_GlobalSecret = [], cf_EnforcePKCE = pl_EnforcePKCE p = ''all'',
     cf_EnforcePKCEForPublicClients = pl_EnforcePKCE p = ''public'', cf_SendDebugMessagesToClients = False,
     cf_UseLegacyErrorFormat = False\<rparr>"

definition Init :: "bool \<Rightarrow> plugin \<Rightarrow> ('o, 'w, unit) reggo" where
  "Init bootstrapped p = Register bootstrapped (Some (pluginConfig p))"

end
