(* ===== verification/Registry_Properties.thy ===== *)
theory Registry_Properties
  imports Registry Param_Load Registration_Properties
begin

section \<open>Properties of the registry of providers\<close>

subsection \<open>What the steps of a registration touch\<close>

text \<open>Loading key material changes the _params table and the tick, nothing else.\<close>

definition onlyParams :: "'w app_world_scheme \<Rightarrow> 'w app_world_scheme \<Rightarrow> bool" where
  "onlyParams w w' \<longleftrightarrow> (\<exists>n ps. w' = w\<lparr>tick := n, w_params := ps\<rparr>)"

lemma onlyParams_tick: "onlyParams w (w\<lparr>tick := n\<rparr>)"
  unfolding onlyParams_def by (rule exI [of _ n], rule exI [of _ "w_params w"]) simp

lemma onlyParams_rel: "preorderR onlyParams" "tickfree onlyParams"
proof -
  have "onlyParams u w" if "onlyParams u v" "onlyParams v w" for u v w
    using that unfolding onlyParams_def by (elim exE) (simp, blast)
  moreover have "onlyParams w w" for w using onlyParams_tick [of w "tick w"] by simp
  ultimately show "preorderR onlyParams" unfolding preorderR_def by blast
qed (simp add: tickfree_def onlyParams_tick)

lemma keeps_params_write: "keeps onlyParams (modifyG (\<lambda>w. w\<lparr>w_params := f w\<rparr>))"
proof (rule keeps_modifyG)
  fix w show "onlyParams w (w\<lparr>w_params := f w\<rparr>)"
    unfolding onlyParams_def by (rule exI [of _ "tick w"], rule exI [of _ "f w"]) simp
qed

lemma keeps_load:
  "keeps onlyParams gen \<Longrightarrow> keeps onlyParams (loadParamFromAppStorageAt prefix i codec gen)"
  unfolding load_defs by (intro keeps_intros onlyParams_rel keeps_params_write | assumption)+

lemma keeps_loadKey: "keeps onlyParams (loadPrivateKeyFromAppStorageAt p)"
  unfolding loadPrivateKeyFromAppStorageAt_def generateSigningKey_def
  by (intro keeps_intros onlyParams_rel keeps_load)

lemma keeps_loadSecret: "keeps onlyParams (loadGlobalSecretFromAppStorageAt p)"
  unfolding loadGlobalSecretFromAppStorageAt_def randomBytes_def Let_def
  by (intro keeps_intros onlyParams_rel keeps_load)

text \<open>
  \<open>sameSetup p w w'\<close>: the same prefixes are claimed and registered, under every prefix there is an instance
  with the same configuration, up to the loaded secret, and the same instance under every prefix but \<open>p\<close>.
\<close>

definition setupOf :: "config \<Rightarrow> config" where
  "setupOf c = c\<lparr>cf_GlobalSecret := []\<rparr>"

definition setupAt :: "'w app_world_scheme \<Rightarrow> string \<Rightarrow> config option" where
  "setupAt w p = map_option (\<lambda>i. setupOf (it_cfg i)) (getInstanceAt w p)"

definition sameSetup :: "string \<Rightarrow> 'w app_world_scheme \<Rightarrow> 'w app_world_scheme \<Rightarrow> bool" where
  "sameSetup p w w' \<longleftrightarrow> w_guard w' = w_guard w \<and> w_registered w' = w_registered w \<and> setupAt w' = setupAt w
     \<and> (\<forall>q. normalizePrefix q \<noteq> normalizePrefix p \<longrightarrow> getInstanceAt w' q = getInstanceAt w q)
     \<and> (\<exists>n ps st. w' = w\<lparr>tick := n, w_params := ps, w_store := st\<rparr>)"

lemma sameSetupD:
  assumes "sameSetup p w w'"
  shows "w_guard w' = w_guard w" "w_registered w' = w_registered w" "setupAt w' = setupAt w"
    "normalizePrefix q \<noteq> normalizePrefix p \<Longrightarrow> getInstanceAt w' q = getInstanceAt w q"
    "\<exists>n ps st. w' = w\<lparr>tick := n, w_params := ps, w_store := st\<rparr>"
  using assms unfolding sameSetup_def by blast+

lemma sameSetup_rel:
  "preorderR (sameSetup p :: 'a app_world_scheme \<Rightarrow> _)" "tickfree (sameSetup p :: 'a app_world_scheme \<Rightarrow> _)"
proof -
  have same: "\<exists>n' ps st. w\<lparr>tick := n\<rparr> = w\<lparr>tick := n', w_params := ps, w_store := st\<rparr>" for w :: "'a app_world_scheme" and n
    by (rule exI [of _ n], rule exI [of _ "w_params w"], rule exI [of _ "w_store w"]) simp
  have s: "sameSetup p w (w\<lparr>tick := n\<rparr>)" for w :: "'a app_world_scheme" and n
    unfolding sameSetup_def using same by (simp add: setupAt_def fun_eq_iff)
  have tr: "sameSetup p u w" if uv: "sameSetup p u v" and vw: "sameSetup p v w" for u v w :: "'a app_world_scheme"
  proof -
    obtain n ps st n' ps' st' where "v = u\<lparr>tick := n, w_params := ps, w_store := st\<rparr>" "w = v\<lparr>tick := n', w_params := ps', w_store := st'\<rparr>"
      using sameSetupD(5) [OF uv] sameSetupD(5) [OF vw] by blast
    then have "w = u\<lparr>tick := n', w_params := ps', w_store := st'\<rparr>" by simp
    then have "\<exists>n ps st. w = u\<lparr>tick := n, w_params := ps, w_store := st\<rparr>" by blast
    moreover have "w_guard w = w_guard u" "w_registered w = w_registered u" "setupAt w = setupAt u"
      "\<forall>q. normalizePrefix q \<noteq> normalizePrefix p \<longrightarrow> getInstanceAt w q = getInstanceAt u q"
      using sameSetupD(1-4) [OF uv] sameSetupD(1-4) [OF vw] by simp_all
    ultimately show ?thesis unfolding sameSetup_def by (intro conjI)
  qed
  have re: "sameSetup p w w" for w :: "'a app_world_scheme" using s [of w "tick w"] by simp
  show "preorderR (sameSetup p :: 'a app_world_scheme \<Rightarrow> _)"
    unfolding preorderR_def by (intro conjI allI impI; (rule re | erule (1) tr))
  show "tickfree (sameSetup p :: 'a app_world_scheme \<Rightarrow> _)" by (simp add: tickfree_def s)
qed

lemma keeps_mono: "keeps R m \<Longrightarrow> (\<And>w w'. R w w' \<Longrightarrow> S w w') \<Longrightarrow> keeps S m"
  by (auto simp: keeps_def)

lemma onlyParams_sameSetup: "onlyParams w w' \<Longrightarrow> sameSetup p w w'"
proof -
  assume "onlyParams w w'"
  then obtain n ps where w': "w' = w\<lparr>tick := n, w_params := ps\<rparr>" by (auto simp: onlyParams_def)
  then show ?thesis unfolding sameSetup_def
    by (simp add: setupAt_def getInstanceAt_def fun_eq_iff)
      (rule exI [of _ n], rule exI [of _ ps], rule exI [of _ "w_store w"], simp)
qed

lemma getInstanceAt_setInstance_eq:
  "getInstanceAt (setInstance p i w) q = (if normalizePrefix q = normalizePrefix p then Some i else getInstanceAt w q)"
  by (simp add: getInstanceAt_def setInstance_def update_conv)

lemma setInstance_fields [simp]: "w_guard (setInstance p i w) = w_guard w" "w_registered (setInstance p i w) = w_registered w"
  by (simp_all add: setInstance_def)

lemma getInstanceAt_cong: "normalizePrefix p = normalizePrefix q \<Longrightarrow> getInstanceAt w p = getInstanceAt w q"
  by (simp add: getInstanceAt_def instanceStoreKey_def)

lemma keeps_assign:
  assumes "\<And>i. setupOf (it_cfg (f i)) = setupOf (it_cfg i)"
  shows "keeps (sameSetup p) (assignInstance p f)"
  unfolding assignInstance_def
proof (rule keeps_modifyG, goal_cases)
  case (1 w)
  show ?case
  proof (cases "getInstanceAt w p")
    case None
    then show ?thesis by (simp add: preorderR_refl [OF sameSetup_rel(1)])
  next
    case (Some i)
    have "setupAt (setInstance p (f i) w) q = setupAt w q" for q
      using assms Some getInstanceAt_cong [of q p w] by (auto simp: setupAt_def getInstanceAt_setInstance_eq)
    moreover have "\<exists>n ps st. setInstance p (f i) w = w\<lparr>tick := n, w_params := ps, w_store := st\<rparr>"
      unfolding setInstance_def
      by (rule exI [of _ "tick w"], rule exI [of _ "w_params w"], rule exI, rule trans [rotated]) (rule refl, simp)
    ultimately show ?thesis using Some by (simp add: sameSetup_def fun_eq_iff getInstanceAt_setInstance_eq)
  qed
qed

lemma keeps_validate: "keeps onlyParams validateProviderPrefixState"
  unfolding validateProviderPrefixState_def by (intro keeps_intros onlyParams_rel)

lemma keeps_loadParams: "keeps (sameSetup p) (loadParams p)"
proof -
  note [keeps_intros] = keeps_mono [OF keeps_loadKey onlyParams_sameSetup] keeps_mono [OF keeps_loadSecret onlyParams_sameSetup]
    keeps_mono [OF keeps_validate onlyParams_sameSetup]
  show ?thesis unfolding loadParams_def
    by (intro keeps_intros sameSetup_rel keeps_assign) (simp_all add: setupOf_def)
qed

subsection \<open>The invariant\<close>

text \<open>A configuration that is safe to serve: PKCE is enforced and an open registration endpoint was asked for.\<close>

definition safeConfig :: "string \<Rightarrow> config \<Rightarrow> bool" where
  "safeConfig p c \<longleftrightarrow> cf_PathPrefix c = p \<and> (cf_EnforcePKCE c \<or> cf_EnforcePKCEForPublicClients c) \<and> \<not> openDCR c
     \<and> cf_UserInfoClaimStrategy c \<noteq> None"

text \<open>The guard, the set of prefixes and the store name the same providers, once each, and all are safe.\<close>

definition registryOk :: "'w app_world_scheme \<Rightarrow> bool" where
  "registryOk w \<longleftrightarrow> distinct (w_guard w) \<and> distinct (w_registered w) \<and> set (w_registered w) = set (w_guard w)
     \<and> (\<forall>p \<in> set (w_guard w). canonicalPrefix p)
     \<and> (\<forall>p. canonicalPrefix p \<longrightarrow> (case setupAt w p of None \<Rightarrow> p \<notin> set (w_guard w)
          | Some c \<Rightarrow> p \<in> set (w_guard w) \<and> safeConfig p c))"

lemma registryOkD:
  assumes "registryOk w"
  shows "distinct (w_guard w)" "distinct (w_registered w)" "set (w_registered w) = set (w_guard w)"
    "p \<in> set (w_guard w) \<Longrightarrow> canonicalPrefix p"
    "canonicalPrefix p \<Longrightarrow> getInstanceAt w p = None \<longleftrightarrow> p \<notin> set (w_guard w)"
    "canonicalPrefix p \<Longrightarrow> getInstanceAt w p = Some i \<Longrightarrow> safeConfig p (it_cfg i)"
proof -
  show "canonicalPrefix p \<Longrightarrow> getInstanceAt w p = None \<longleftrightarrow> p \<notin> set (w_guard w)"
    using assms by (cases "getInstanceAt w p") (fastforce simp: registryOk_def setupAt_def)+
  show "canonicalPrefix p \<Longrightarrow> getInstanceAt w p = Some i \<Longrightarrow> safeConfig p (it_cfg i)"
    using assms by (fastforce simp: registryOk_def setupAt_def safeConfig_def setupOf_def openDCR_def)
qed (use assms in \<open>auto simp: registryOk_def\<close>)

lemma registryOk_cong: "w_guard w' = w_guard w \<Longrightarrow> w_registered w' = w_registered w \<Longrightarrow> setupAt w' = setupAt w \<Longrightarrow>
    registryOk w' = registryOk w"
  by (simp only: registryOk_def)

lemma registryOk_sameSetup:
  assumes "sameSetup p w w'" shows "registryOk w' = registryOk w"
  by (rule registryOk_cong [OF sameSetupD(1) [OF assms] sameSetupD(2) [OF assms] sameSetupD(3) [OF assms]])

lemma registered_Nil: "w_registered w = [] \<Longrightarrow> w\<lparr>w_registered := []\<rparr> = w"
  by (cases w) simp

definition deregistered :: "string \<Rightarrow> 'w app_world_scheme \<Rightarrow> 'w app_world_scheme" where
  "deregistered p w = w\<lparr>w_store := AList.delete (registeringStoreKey p) (AList.delete (instanceStoreKey p) (w_store w)),
     w_guard := removeAll p (w_guard w), w_registered := removeAll p (w_registered w)\<rparr>"

lemma wp_DeregisterAt [wp_simps]: "canonicalPrefix p \<Longrightarrow> wp (DeregisterAt p) Q E \<omega> w = Q () (deregistered p w)"
  by (simp add: DeregisterAt_def canonicalPrefixD storeRemove_def forgetRegisteredPrefix_def wp_simps deregistered_def Let_def)

lemma deregistered_fields [simp]: "w_guard (deregistered p w) = removeAll p (w_guard w)"
  "w_registered (deregistered p w) = removeAll p (w_registered w)"
  by (simp_all add: deregistered_def)

lemma getInstanceAt_deregistered:
  "canonicalPrefix p \<Longrightarrow> getInstanceAt (deregistered p w) q = (if normalizePrefix q = p then None else getInstanceAt w q)"
  by (simp add: getInstanceAt_def deregistered_def delete_conv canonicalPrefixD)

lemma registryOk_deregistered: "registryOk w \<Longrightarrow> canonicalPrefix p \<Longrightarrow> registryOk (deregistered p w)"
  unfolding registryOk_def
  by (auto simp: setupAt_def getInstanceAt_deregistered canonicalPrefixD distinct_removeAll split: option.splits)

text \<open>The world once the guard is claimed and the instance is stored.\<close>

definition claimed_by :: "string \<Rightarrow> config \<Rightarrow> 'w app_world_scheme \<Rightarrow> 'w app_world_scheme" where
  "claimed_by p c w = w\<lparr>w_guard := p # w_guard w, w_registered := List.insert p (w_registered w),
     w_store := AList.update (instanceStoreKey p) (StoredInstance (newInstance (normalizeDefaults p c)))
        (AList.update (registeringStoreKey p) Registering (w_store w))\<rparr>"

lemma claimed_fields [simp]: "w_guard (claimed_by p c w) = p # w_guard w" "w_registered (claimed_by p c w) = List.insert p (w_registered w)"
  by (simp_all add: claimed_by_def)

lemma getInstanceAt_claimed:
  "canonicalPrefix p \<Longrightarrow> getInstanceAt (claimed_by p c w) q =
     (if normalizePrefix q = p then Some (newInstance (normalizeDefaults p c)) else getInstanceAt w q)"
  by (simp add: getInstanceAt_def claimed_by_def update_conv canonicalPrefixD)

lemma safe_normalizeDefaults: "\<not> openDCR (normalizeDefaults p c) \<Longrightarrow> safeConfig p (normalizeDefaults p c)"
  by (simp add: safeConfig_def normalizeDefaults_def Let_def openDCR_def)

lemma registryOk_claimed:
  assumes "registryOk w" "canonicalPrefix p" "p \<notin> set (w_guard w)" "\<not> openDCR (normalizeDefaults p c)"
  shows "registryOk (claimed_by p c w)"
proof -
  have "safeConfig p (setupOf (normalizeDefaults p c))"
    using safe_normalizeDefaults [OF assms(4)] by (simp add: safeConfig_def setupOf_def openDCR_def)
  then show ?thesis
    using assms(1-3) unfolding registryOk_def
    by (auto simp: setupAt_def getInstanceAt_claimed [OF assms(2)] canonicalPrefixD newInstance_def split: option.splits)
qed

subsection \<open>Registering\<close>

lemma tryG_keeps:
  assumes "keeps R m" "preorderR R" "\<And>u a. R w u \<Longrightarrow> Q a u" "\<And>u e. R w u \<Longrightarrow> wp (h e) Q E \<omega> u"
  shows "wp (tryG m h) Q E \<omega> w"
  unfolding wp_tryG using assms by (intro wp_mono [OF keeps_wp [OF assms(1)]]) blast+

text \<open>Every outcome of a registration with a configuration.\<close>

lemma wp_Register:
  assumes c: "canonicalPrefix (normalizePrefix (cf_PathPrefix c))" and p: "p = normalizePrefix (cf_PathPrefix c)"
    and dup: "\<And>e. p \<in> set (w_guard w) \<Longrightarrow> E e w"
    and dcr: "\<And>e u. p \<notin> set (w_guard w) \<Longrightarrow> openDCR (normalizeDefaults p c) \<Longrightarrow>
         u = w\<lparr>w_store := AList.delete (registeringStoreKey p) (AList.update (registeringStoreKey p) Registering (w_store w))\<rparr> \<Longrightarrow> E e u"
    and ok: "\<And>u. p \<notin> set (w_guard w) \<Longrightarrow> \<not> openDCR (normalizeDefaults p c) \<Longrightarrow> sameSetup p (claimed_by p c w) u \<Longrightarrow> Q () u"
    and bad: "\<And>u e. p \<notin> set (w_guard w) \<Longrightarrow> \<not> openDCR (normalizeDefaults p c) \<Longrightarrow> sameSetup p (claimed_by p c w) u \<Longrightarrow> E e (deregistered p u)"
  shows "wp (Register b (Some c)) Q E \<omega> w"
proof -
  have cp: "canonicalPrefix p" using c p by simp
  have refl: "sameSetup p (claimed_by p c w) (claimed_by p c w)" by (rule preorderR_refl [OF sameSetup_rel(1)])
  have load: "wp (tryG (loadParams p) (\<lambda>e. bindG (DeregisterAt p) (\<lambda>_. throwG e))) Q E \<omega> (claimed_by p c w)"
    if "p \<notin> set (w_guard w)" "\<not> openDCR (normalizeDefaults p c)"
    by (rule tryG_keeps [OF keeps_loadParams sameSetup_rel(1)])
      (use that cp ok bad in \<open>auto simp: wp_bindG wp_DeregisterAt wp_throwG\<close>)
  have world: "(w\<lparr>w_guard := p # w_guard w\<rparr>\<lparr>w_store := AList.update (registeringStoreKey p) Registering (w_store w)\<rparr>
      \<lparr>w_store := AList.update (instanceStoreKey p) (StoredInstance (newInstance (normalizeDefaults p c)))
        (AList.update (registeringStoreKey p) Registering (w_store w))\<rparr>
      \<lparr>w_registered := List.insert p (w_registered w)\<rparr>) = claimed_by p c w" by (simp add: claimed_by_def)
  have restore: "p \<notin> set (w_guard w) \<Longrightarrow> removeAll p (p # w_guard w) = w_guard w" by (simp add: removeAll_id)
  show ?thesis
  proof (cases "p \<in> set (w_guard w)")
    case True
    then show ?thesis by (simp add: Register_def p [symmetric] wp_simps Let_def dup)
  next
    case False
    then show ?thesis
      using load ok refl dcr [OF False] restore [OF False] world
      by (auto simp: Register_def p [symmetric] wp_bindG wp_readG wp_modifyG wp_throwG wp_if wp_returnG storeSet_def storeRemove_def
          rememberRegisteredPrefix_def Let_def)
  qed
qed

subsection \<open>Any sequence of registry calls\<close>

datatype registry_op =
    DoRegister bool config
  | DoBootstrap string
  | DoServe string
  | DoProtect string protected_metadata
  | DoDeregisterAt string
  | DoDeregister

fun execRegistry :: "registry_op \<Rightarrow> ('o, 'w, unit) reggo" where
  "execRegistry (DoRegister b c) = Register b (Some c)"
| "execRegistry (DoBootstrap p) = loadParams p"
| "execRegistry (DoServe p) = onServe p"
| "execRegistry (DoProtect p md) = RegisterProtectedResourceMetadataAt p md"
| "execRegistry (DoDeregisterAt p) = DeregisterAt p"
| "execRegistry DoDeregister = Deregister"

text \<open>The prefixes in a call become canonical once normalised: no white space before a trailing slash.\<close>

fun canonicalOp :: "registry_op \<Rightarrow> bool" where
  "canonicalOp (DoRegister b c) = canonicalPrefix (normalizePrefix (cf_PathPrefix c))"
| "canonicalOp (DoDeregisterAt p) = canonicalPrefix (normalizePrefix p)"
| "canonicalOp _ = True"

inductive registry_run :: "app_world \<Rightarrow> app_world \<Rightarrow> bool" where
  reg_refl: "registry_run w w"
| reg_step: "registry_run w u \<Longrightarrow> canonicalOp op \<Longrightarrow> execRegistry op (\<omega> :: reg_envir) u = (r, v) \<Longrightarrow> registry_run w v"
| reg_other: "registry_run w u \<Longrightarrow> w_guard v = w_guard u \<Longrightarrow> w_registered v = w_registered u \<Longrightarrow> w_store v = w_store u \<Longrightarrow>
    registry_run w v"

inductive_cases registry_runE: "registry_run w v"

lemma keeps_protect: "keeps (sameSetup p) (RegisterProtectedResourceMetadataAt p md)"
  unfolding RegisterProtectedResourceMetadataAt_def mustGetInstanceAt_def panicG_def Let_def
  by (intro keeps_intros sameSetup_rel keeps_assign) (simp_all add: setupOf_def split: option.splits)

lemma keeps_onServe: "keeps (sameSetup p) (onServe p)"
  unfolding onServe_def by (intro keeps_intros sameSetup_rel keeps_protect)

lemma wp_Deregister:
  assumes "registryOk w"
  shows "wp Deregister (\<lambda>_ w'. registryOk w' \<and> w_guard w' = []) (\<lambda>_ _. False) \<omega> w"
proof -
  let ?J = "\<lambda>xs w'. registryOk w' \<and> set (w_registered w') \<subseteq> set xs \<and> (\<forall>x \<in> set xs. canonicalPrefix x)"
  have "wp (forG (w_registered w) DeregisterAt) (\<lambda>_. ?J []) (\<lambda>_ _. False) \<omega> w"
    by (rule wp_forG [where J = ?J])
      (use assms registryOkD(3,4) [OF assms] in \<open>auto simp: wp_DeregisterAt registryOk_deregistered\<close>)
  then show ?thesis
    unfolding Deregister_def listRegisteredPrefixes_def wp_bindG wp_readG wp_modifyG
    by (elim wp_mono) (auto dest: registryOkD(3) simp: registered_Nil)
qed

lemma DeregisterAt_normalize: "canonicalPrefix (normalizePrefix p) \<Longrightarrow> DeregisterAt p = DeregisterAt (normalizePrefix p)"
  by (simp add: DeregisterAt_def canonicalPrefixD)

lemma execRegistry_ok:
  assumes ok: "registryOk w" and op: "canonicalOp op"
  shows "wp (execRegistry op) (\<lambda>_. registryOk) (\<lambda>_. registryOk) \<omega> w"
proof (cases op)
  case (DoRegister b c)
  let ?p = "normalizePrefix (cf_PathPrefix c)"
  have p: "canonicalPrefix ?p" using op DoRegister by simp
  note new = registryOk_claimed [OF ok p]
  show ?thesis unfolding DoRegister execRegistry.simps
  proof (rule wp_Register [OF p refl])
    fix e u assume "u = w\<lparr>w_store := AList.delete (registeringStoreKey ?p) (AList.update (registeringStoreKey ?p) Registering (w_store w))\<rparr>"
    then have "getInstanceAt u q = getInstanceAt w q" for q by (simp add: getInstanceAt_def delete_conv update_conv)
    then have "setupAt u = setupAt w" by (simp add: setupAt_def fun_eq_iff)
    then show "registryOk u" using ok registryOk_cong [of u w] \<open>u = _\<close> by simp
  next
    fix u assume "?p \<notin> set (w_guard w)" "\<not> openDCR (normalizeDefaults ?p c)" "sameSetup ?p (claimed_by ?p c w) u"
    then show "registryOk u" and "registryOk (deregistered ?p u)"
      using new registryOk_sameSetup registryOk_deregistered [OF _ p] by blast+
  qed (rule ok)
next
  case (DoBootstrap p)
  then show ?thesis using ok keeps_wp [OF keeps_loadParams [of p], of w \<omega>] by (auto elim!: wp_mono simp: registryOk_sameSetup)
next
  case (DoServe p)
  then show ?thesis using ok keeps_wp [OF keeps_onServe [of p], of w \<omega>] by (auto elim!: wp_mono simp: registryOk_sameSetup)
next
  case (DoProtect p md)
  then show ?thesis using ok keeps_wp [OF keeps_protect [of p md], of w \<omega>] by (auto elim!: wp_mono simp: registryOk_sameSetup)
next
  case (DoDeregisterAt p)
  then show ?thesis using ok op by (simp add: DeregisterAt_normalize wp_DeregisterAt registryOk_deregistered)
next
  case DoDeregister
  then show ?thesis using wp_Deregister [OF ok, where \<omega> = \<omega>] by (auto elim!: wp_mono)
qed



text \<open>The check for untagged rows.\<close>

lemma wp_validate:
  assumes "\<And>n. length (w_registered w) < 2 \<or> (\<forall>c. countUntagged w c = 0) \<Longrightarrow> Q () (w\<lparr>tick := n\<rparr>)" "\<And>e n. E e (w\<lparr>tick := n\<rparr>)"
  shows "wp validateProviderPrefixState Q E \<omega> w"
proof (cases "length (w_registered w) < 2")
  case True
  then show ?thesis using assms(1) [of "tick w"]
    by (simp add: validateProviderPrefixState_def listRegisteredPrefixes_def wp_simps)
next
  case False
  let ?J = "\<lambda>cs w'. (\<exists>n. w' = w\<lparr>tick := n\<rparr>) \<and> (\<forall>c. c \<in> set cs \<or> countUntagged w c = 0)"
  have count: "countUntagged (w\<lparr>tick := n\<rparr>) c = countUntagged w c" for n c by (cases c) simp_all
  have "wp (forG providerScopedCollections (\<lambda>c. bindG (mapErrG (\<lambda>e. ErrText ''query legacy provider state'' (Some e))
         (bindG dbCall (\<lambda>_. readG (\<lambda>w. countUntagged w c)))) (\<lambda>n.
       if n \<noteq> 0 then throwG (textErr ''ambiguous legacy OAuth state; refusing multi-provider startup'') else returnG ())))
      (\<lambda>_. ?J []) E \<omega> w"
    by (rule wp_forG [where J = ?J])
      (auto simp: wp_simps count providerScopedCollections_all assms(2) intro: exI [of _ "tick w"], metis not_gr_zero)
  then show ?thesis using False assms(1)
    by (auto simp: validateProviderPrefixState_def listRegisteredPrefixes_def wp_bindG [of "readG _"] wp_readG elim!: wp_mono)
qed

lemma wp_loadParams_validated:
  "wp (loadParams p) (\<lambda>_ _. length (w_registered w) < 2 \<or> (\<forall>c. countUntagged w c = 0)) (\<lambda>_ _. True) \<omega> w"
  unfolding loadParams_def wp_bindG [of "mapErrG _ _"] wp_mapErrG
  by (rule wp_validate) (auto intro: wp_trivial)

lemma countUntagged_claimed [simp]: "countUntagged (claimed_by p c w) k = countUntagged w k"
  by (cases k) (simp_all add: claimed_by_def)

text \<open>A second provider does not start over rows of an earlier version that name no provider: if registering it
  on a running app succeeds, every collection is free of untagged rows; otherwise it is refused.\<close>

theorem legacy_rows_block_second_provider:
  fixes \<omega> :: reg_envir and w :: app_world
  assumes "registryOk w" "canonicalPrefix (normalizePrefix (cf_PathPrefix c))" "w_registered w \<noteq> []" "0 < countUntagged w k"
  shows "\<exists>e. fst (Register True (Some c) \<omega> w) = Inl e"
proof -
  let ?p = "normalizePrefix (cf_PathPrefix c)"
  have two: "\<not> length (w_registered (claimed_by ?p c w)) < 2" if "?p \<notin> set (w_guard w)"
    using assms(3) that registryOkD(3) [OF assms(1)] by (cases "w_registered w") (auto simp: List.insert_def)
  have bad: "\<not> (\<forall>c. countUntagged w c = 0)" using assms(4) by (metis not_gr_zero)
  have world: "(w\<lparr>w_guard := ?p # w_guard w\<rparr>\<lparr>w_store := AList.update (registeringStoreKey ?p) Registering (w_store w)\<rparr>
      \<lparr>w_store := AList.update (instanceStoreKey ?p) (StoredInstance (newInstance (normalizeDefaults ?p c)))
        (AList.update (registeringStoreKey ?p) Registering (w_store w))\<rparr>
      \<lparr>w_registered := List.insert ?p (w_registered w)\<rparr>) = claimed_by ?p c w" by (simp add: claimed_by_def)
  have load: "wp (loadParams ?p) (\<lambda>_ _. False) (\<lambda>_ _. True) \<omega> (claimed_by ?p c w)" if "?p \<notin> set (w_guard w)"
    using wp_loadParams_validated [of ?p "claimed_by ?p c w" \<omega>] two [OF that] bad by (elim wp_mono) auto
  have "wp (Register True (Some c)) (\<lambda>_ _. False) (\<lambda>_ _. True) \<omega> w"
    using load world
    by (auto simp: Register_def wp_bindG wp_readG wp_modifyG wp_throwG wp_if wp_returnG storeSet_def storeRemove_def
        rememberRegisteredPrefix_def Let_def wp_tryG wp_DeregisterAt [OF assms(2)] elim!: wp_mono)
  then show ?thesis by (auto simp: wp_def split: prod.splits sum.splits)
qed

subsection \<open>Where the registry is not what its callers expect\<close>

text \<open>A nil configuration panics with the guard claimed: the default prefix can never be registered again.\<close>

lemma nil_config_keeps_guard:
  fixes \<omega> :: reg_envir and w :: app_world
  assumes "DefaultPathPrefix \<notin> set (w_guard w)"
  shows "\<exists>e w'. Register b None \<omega> w = (Inl e, w') \<and> DefaultPathPrefix \<in> set (w_guard w')
    \<and> (\<forall>c. normalizePrefix (cf_PathPrefix c) = DefaultPathPrefix \<longrightarrow> (\<exists>e. fst (Register b (Some c) \<omega> w') = Inl e))"
  using assms by (simp add: Register_def run_simps storeSet_def panicG_def)

text \<open>A prefix with white space before its trailing slash is registered but never deregistered.\<close>

lemma noncanonical_prefix_leaks:
  fixes \<omega> :: reg_envir and w :: app_world
  assumes "w_guard w = []" "w_registered w = []" "cf_PathPrefix c = ''/a /''" "\<not> cf_EnableDCR c"
  shows "\<exists>w'. bindG (Register False (Some c)) (\<lambda>_. Deregister) \<omega> w = (Inr (), w') \<and> w_guard w' = [''/a '']"
proof -
  have n: "normalizePrefix ''/a /'' = ''/a ''" "normalizePrefix ''/a '' = ''/a''" by code_simp+
  show ?thesis using assms
    by (simp add: Register_def n run_simps storeSet_def storeRemove_def rememberRegisteredPrefix_def normalizeDefaults_def Let_def
        openDCR_def Deregister_def listRegisteredPrefixes_def DeregisterAt_def forgetRegisteredPrefix_def)
qed

text \<open>The plugin: "none" still enforces PKCE, and its client registration can never be enabled.\<close>

lemma plugin_none_enforces_pkce: "cf_EnforcePKCE (normalizeDefaults p (pluginConfig pl)) \<or> cf_EnforcePKCEForPublicClients (normalizeDefaults p (pluginConfig pl))"
  by (simp add: normalizeDefaults_def Let_def)

lemma plugin_registration_never_starts:
  fixes \<omega> :: reg_envir and w :: app_world
  assumes "pl_EnableRFC7591 p"
  shows "\<exists>e. fst (Init b p \<omega> w) = Inl e"
  using assms by (simp add: Init_def Register_def run_simps storeSet_def storeRemove_def Let_def openDCR_def normalizeDefaults_def
      pluginConfig_def)

subsection \<open>The concrete app\<close>

text \<open>An app without providers over a client row that names none, and the same app with one provider registered.\<close>

definition demoFresh :: app_world where
  "demoFresh = world.extend ((emptyWorld [])\<lparr>w_clients := [demoClientRow\<lparr>cr_provider_prefix := []\<rparr>]\<rparr>) (app_world.fields [] [] [])"

definition demoTenant :: config where
  "demoTenant = demoConfig\<lparr>cf_PathPrefix := ''/tenant''\<rparr>"

definition demoFirst :: app_world where
  "demoFirst = snd (Register False (Some demoTenant) demoRegEnv demoFresh)"

lemma demo_registryOk_fresh: "registryOk demoFresh"
  by (simp add: registryOk_def demoFresh_def emptyWorld_def world.defs app_world.defs setupAt_def getInstanceAt_def)

lemma demo_first: "Register False (Some demoTenant) demoRegEnv demoFresh = (Inr (), claimed_by ''/tenant'' demoTenant demoFresh)"
  by (simp add: Register_def demoTenant_def demoConfig_def canonicalPrefixD run_simps storeSet_def rememberRegisteredPrefix_def
      openDCR_def normalizeDefaults_def Let_def demoFresh_def emptyWorld_def world.defs app_world.defs claimed_by_def)

lemma demo_registryOk_first: "registryOk demoFirst"
  unfolding demoFirst_def demo_first snd_conv
  by (rule registryOk_claimed [OF demo_registryOk_fresh])
    (simp_all add: demoFresh_def emptyWorld_def world.defs app_world.defs demoTenant_def demoConfig_def openDCR_def normalizeDefaults_def Let_def)



theorem legacy_rows_block_second_provider_witness:
  "\<exists>e. fst (Register True (Some demoConfig) demoRegEnv demoFirst) = Inl e"
  by (rule legacy_rows_block_second_provider [OF demo_registryOk_first, where k = ClientC])
    (simp_all add: demoConfig_def demoFirst_def demo_first,
      simp_all add: claimed_by_def demoFresh_def emptyWorld_def app_world.defs world.defs List.insert_def)

end
