(* ===== verification/User_Info.thy ===== *)
theory User_Info
  imports Http Interactions
begin

section \<open>The user info endpoint (oauth2_userinfo.go)\<close>

text \<open>
  OpenID claims about the authenticated user, filtered by the scopes of the presented access token. The default
  strategy reads the fields of the user record that have the name and the type of a claim. The record that
  PocketBase's token middleware has authenticated (\<open>e.Auth\<close>), the token that fosite finds in the request and the
  strategies of embedding applications are parameters.
\<close>

subsection \<open>Claims\<close>

record address_claim =
  ad_Formatted :: string
  ad_StreetAddress :: string
  ad_Locality :: string
  ad_Region :: string
  ad_PostalCode :: string
  ad_Country :: string

record userinfo_claims =
  uc_Sub :: string
  uc_Name :: string
  uc_GivenName :: string
  uc_FamilyName :: string
  uc_MiddleName :: string
  uc_Nickname :: string
  uc_PreferredUsername :: string
  uc_Profile :: string
  uc_Picture :: string
  uc_Website :: string
  uc_Email :: string
  uc_EmailVerified :: bool
  uc_Gender :: string
  uc_Birthdate :: string
  uc_ZoneInfo :: string
  uc_Locale :: string
  uc_PhoneNumber :: string
  uc_PhoneNumberVerified :: bool
  uc_Address :: "address_claim option"
  uc_UpdatedAt :: int

definition emptyAddress :: address_claim where
  "emptyAddress = \<lparr>ad_Formatted = [], ad_StreetAddress = [], ad_Locality = [], ad_Region = [], ad_PostalCode = [], ad_Country = []\<rparr>"

definition emptyClaims :: userinfo_claims where
  "emptyClaims = \<lparr>uc_Sub = [], uc_Name = [], uc_GivenName = [], uc_FamilyName = [], uc_MiddleName = [], uc_Nickname = [],
     uc_PreferredUsername = [], uc_Profile = [], uc_Picture = [], uc_Website = [], uc_Email = [], uc_EmailVerified = False,
     uc_Gender = [], uc_Birthdate = [], uc_ZoneInfo = [], uc_Locale = [], uc_PhoneNumber = [], uc_PhoneNumberVerified = False,
     uc_Address = None, uc_UpdatedAt = 0\<rparr>"

definition IsEmpty :: "address_claim \<Rightarrow> bool" where
  "IsEmpty a \<longleftrightarrow> a = emptyAddress"

subsection \<open>Fields\<close>

text \<open>The type names of PocketBase.\<close>

definition FieldTypeText :: string where "FieldTypeText = ''text''"
definition FieldTypeURL :: string where "FieldTypeURL = ''url''"
definition FieldTypeEmail :: string where "FieldTypeEmail = ''email''"
definition FieldTypeFile :: string where "FieldTypeFile = ''file''"
definition FieldTypeDate :: string where "FieldTypeDate = ''date''"
definition FieldTypeAutodate :: string where "FieldTypeAutodate = ''autodate''"
definition FieldTypeNumber :: string where "FieldTypeNumber = ''number''"
definition FieldTypeBool :: string where "FieldTypeBool = ''bool''"

definition hasType :: "auth_record \<Rightarrow> string \<Rightarrow> string list \<Rightarrow> bool" where
  "hasType auth claimName types \<longleftrightarrow> (case map_of (co_Fields (au_Collection auth)) claimName of
       None \<Rightarrow> False | Some t \<Rightarrow> slicesContains types t)"

definition getString :: "auth_record \<Rightarrow> string \<Rightarrow> string" where "getString auth f = fv_String (au_Values auth f)"
definition getBool :: "auth_record \<Rightarrow> string \<Rightarrow> bool" where "getBool auth f = fv_Bool (au_Values auth f)"
definition getDateTime :: "auth_record \<Rightarrow> string \<Rightarrow> int" where "getDateTime auth f = fv_Time (au_Values auth f)"

text \<open>\<open>Format("2006-01-02")\<close>: the proleptic Gregorian date of a time in microseconds, UTC.\<close>

definition civilDate :: "int \<Rightarrow> int \<times> int \<times> int" where
  "civilDate t = (let z = unixSec t div 86400 + 719468; era = z div 146097; doe = z - era * 146097;
     yoe = (doe - doe div 1460 + doe div 36524 - doe div 146096) div 365;
     doy = doe - (365 * yoe + yoe div 4 - yoe div 100); mp = (5 * doy + 2) div 153;
     d = doy - (153 * mp + 2) div 5 + 1; m = (if mp < 10 then mp + 3 else mp - 9) in
     (yoe + era * 400 + (if m \<le> 2 then 1 else 0), m, d))"

definition padInt :: "nat \<Rightarrow> int \<Rightarrow> string" where
  "padInt k n = (let s = showInt n in replicate (k - length s) (CHR ''0'') @ s)"

definition formatDate :: "int \<Rightarrow> string" where
  "formatDate t = (case civilDate t of (y, m, d) \<Rightarrow> padInt 4 y @ ''-'' @ padInt 2 m @ ''-'' @ padInt 2 d)"

subsection \<open>The default strategy\<close>

definition profileClaims :: "string \<Rightarrow> auth_record \<Rightarrow> userinfo_claims \<Rightarrow> userinfo_claims" where
  "profileClaims url auth c =
     (let str = (\<lambda>f types old. if hasType auth f types then getString auth f else old) in
      c\<lparr>uc_Name := str ''name'' [FieldTypeText] (uc_Name c),
        uc_GivenName := str ''given_name'' [FieldTypeText] (uc_GivenName c),
        uc_FamilyName := str ''family_name'' [FieldTypeText] (uc_FamilyName c),
        uc_MiddleName := str ''middle_name'' [FieldTypeText] (uc_MiddleName c),
        uc_Nickname := str ''nickname'' [FieldTypeText] (uc_Nickname c),
        uc_PreferredUsername := str ''preferred_username'' [FieldTypeText] (uc_PreferredUsername c),
        uc_Profile := str ''profile'' [FieldTypeText, FieldTypeURL] (uc_Profile c),
        uc_Picture := (if hasType auth ''avatar'' [FieldTypeFile]
          then (let fn = getString auth ''avatar'' in
                if length fn > 0 then url @ ''/api/files/'' @ au_BaseFilesPath auth @ ''/'' @ fn else uc_Picture c)
          else str ''picture'' [FieldTypeText, FieldTypeURL] (uc_Picture c)),
        uc_Website := str ''website'' [FieldTypeText, FieldTypeURL] (uc_Website c),
        uc_Gender := str ''gender'' [FieldTypeText] (uc_Gender c),
        uc_ZoneInfo := str ''zoneinfo'' [FieldTypeText] (uc_ZoneInfo c),
        uc_Locale := str ''locale'' [FieldTypeText] (uc_Locale c),
        uc_Birthdate := (if hasType auth ''birthdate'' [FieldTypeDate, FieldTypeNumber] then formatDate (getDateTime auth ''birthdate'')
          else if hasType auth ''dob'' [FieldTypeDate, FieldTypeNumber] then formatDate (getDateTime auth ''dob'')
          else uc_Birthdate c),
        uc_UpdatedAt := (if hasType auth ''updated'' [FieldTypeAutodate, FieldTypeDate, FieldTypeNumber]
          then unixSec (getDateTime auth ''updated'')
          else if hasType auth ''updated_at'' [FieldTypeAutodate, FieldTypeDate, FieldTypeNumber]
          then unixSec (getDateTime auth ''updated_at'') else uc_UpdatedAt c)\<rparr>)"

definition emailClaims :: "auth_record \<Rightarrow> userinfo_claims \<Rightarrow> userinfo_claims" where
  "emailClaims auth c =
     c\<lparr>uc_Email := (if hasType auth ''email'' [FieldTypeText, FieldTypeEmail] then getString auth ''email'' else uc_Email c),
       uc_EmailVerified := (if hasType auth ''verified'' [FieldTypeBool] then getBool auth ''verified''
         else if hasType auth ''email_verified'' [FieldTypeBool, FieldTypeNumber] then getBool auth ''email_verified''
         else uc_EmailVerified c)\<rparr>"

definition phoneClaims :: "auth_record \<Rightarrow> userinfo_claims \<Rightarrow> userinfo_claims" where
  "phoneClaims auth c =
     c\<lparr>uc_PhoneNumber := (if hasType auth ''phone_number'' [FieldTypeText] then getString auth ''phone_number'' else uc_PhoneNumber c),
       uc_PhoneNumberVerified := (if hasType auth ''phone_number_verified'' [FieldTypeBool, FieldTypeNumber]
         then getBool auth ''phone_number_verified'' else uc_PhoneNumberVerified c)\<rparr>"

definition addressOf :: "auth_record \<Rightarrow> address_claim" where
  "addressOf auth = (let str = (\<lambda>f. if hasType auth f [FieldTypeText] then getString auth f else []) in
     emptyAddress\<lparr>ad_StreetAddress := str ''address_street'', ad_Locality := str ''address_locality'',
       ad_Region := str ''address_region'', ad_PostalCode := str ''address_postal_code'', ad_Country := str ''address_country''\<rparr>)"

definition GetUserInfoClaims :: "string \<Rightarrow> auth_record \<Rightarrow> string list \<Rightarrow> userinfo_claims" where
  "GetUserInfoClaims url auth scopes =
     (let c = emptyClaims\<lparr>uc_Sub := au_Id auth\<rparr>;
          c = (if slicesContains scopes ''profile'' then profileClaims url auth c else c);
          c = (if slicesContains scopes ''email'' then emailClaims auth c else c);
          c = (if slicesContains scopes ''phone'' then phoneClaims auth c else c) in
      if slicesContains scopes ''address''
      then c\<lparr>uc_Address := (if IsEmpty (addressOf auth) then None else Some (addressOf auth))\<rparr> else c)"

subsection \<open>The endpoint\<close>

datatype claims_info = StandardClaims userinfo_claims | CustomClaims string

record info_envir = http_envir +
  customClaims :: "string \<Rightarrow> auth_record \<Rightarrow> string list \<Rightarrow> goerr + string"

type_synonym ('o, 'w, 'a) infogo = "('o info_envir_scheme, 'w app_world_scheme, 'a) go"

definition grantedScopes :: "string \<Rightarrow> ('o, 'w, string list) infogo" where
  "grantedScopes token = bindG
     (if token = [] then returnG []
      else bindG (askTick (\<lambda>\<omega> n. introspectToken \<omega> n token)) (\<lambda>r.
        returnG (case (ip_Error r, ip_Granted r) of (None, Some granted) \<Rightarrow> granted | _ \<Rightarrow> [])))
     (\<lambda>granted. returnG (if length granted = 0 then [''openid''] else granted))"

definition userClaims :: "op_instance \<Rightarrow> auth_record \<Rightarrow> string list \<Rightarrow> ('o, 'w, claims_info) infogo" where
  "userClaims inst auth scopes = (case cf_UserInfoClaimStrategy (it_cfg inst) of
       None \<Rightarrow> throwG (textErr ''panic: nil strategy'')
     | Some DefaultUserInfoClaimStrategy \<Rightarrow> askG (\<lambda>\<omega>. StandardClaims (GetUserInfoClaims (appURL \<omega>) auth scopes))
     | Some (CustomStrategy s) \<Rightarrow> bindG (bindG (askG (\<lambda>\<omega>. customClaims \<omega> s auth scopes)) liftSum) (\<lambda>j. returnG (CustomClaims j)))"

definition api_OAuth2UserInfo :: "op_instance \<Rightarrow> auth_record \<Rightarrow> string \<Rightarrow> ('o, 'w, claims_info response) infogo" where
  "api_OAuth2UserInfo inst auth token =
     bindG (attemptG (ValidateAccessTokenAuthorityAt False (cf_PathPrefix (it_cfg inst)) token)) (\<lambda>r. case r of
       Inl _ \<Rightarrow> returnG (apiError 401 [] ''invalid OAuth access-token authority'')
     | Inr authority \<Rightarrow>
         if aa_UserCollection authority \<noteq> cf_UserCollection (it_cfg inst)
         then returnG (apiError 401 [] ''invalid OAuth access-token authority'')
         else bindG (grantedScopes token) (\<lambda>scopes.
         orElse (userClaims inst auth scopes) (\<lambda>_. apiError 500 [] []) (\<lambda>info. returnG (answer 200 [] info))))"

end
