(* ===== verification/User_Info_Properties.thy ===== *)
theory User_Info_Properties
  imports User_Info Access_Properties
begin

section \<open>Properties of the user info endpoint\<close>

subsection \<open>Claims by scope\<close>

definition noProfile :: "userinfo_claims \<Rightarrow> bool" where
  "noProfile c \<longleftrightarrow> uc_Name c = [] \<and> uc_GivenName c = [] \<and> uc_FamilyName c = [] \<and> uc_MiddleName c = [] \<and> uc_Nickname c = []
     \<and> uc_PreferredUsername c = [] \<and> uc_Profile c = [] \<and> uc_Picture c = [] \<and> uc_Website c = [] \<and> uc_Gender c = []
     \<and> uc_Birthdate c = [] \<and> uc_ZoneInfo c = [] \<and> uc_Locale c = [] \<and> uc_UpdatedAt c = 0"

text \<open>Every claim but the subject belongs to a granted scope.\<close>

definition claimsWithin :: "string list \<Rightarrow> userinfo_claims \<Rightarrow> bool" where
  "claimsWithin scopes c \<longleftrightarrow> (''profile'' \<in> set scopes \<or> noProfile c)
     \<and> (''email'' \<in> set scopes \<or> uc_Email c = [] \<and> \<not> uc_EmailVerified c)
     \<and> (''phone'' \<in> set scopes \<or> uc_PhoneNumber c = [] \<and> \<not> uc_PhoneNumberVerified c)
     \<and> (''address'' \<in> set scopes \<or> uc_Address c = None)"

lemma GetUserInfoClaims_within: "claimsWithin scopes (GetUserInfoClaims url auth scopes)"
  by (simp add: claimsWithin_def GetUserInfoClaims_def Let_def noProfile_def profileClaims_def emailClaims_def phoneClaims_def emptyClaims_def)

lemma GetUserInfoClaims_sub: "uc_Sub (GetUserInfoClaims url auth scopes) = au_Id auth"
  by (simp add: GetUserInfoClaims_def Let_def profileClaims_def emailClaims_def phoneClaims_def)

subsection \<open>Claims by field type\<close>

text \<open>The text claims and the fields, with their types, that a claim may come from.\<close>

definition claimSources :: "((userinfo_claims \<Rightarrow> string) \<times> (string \<times> string list) list) list" where
  "claimSources =
     [(uc_Name, [(''name'', [FieldTypeText])]), (uc_GivenName, [(''given_name'', [FieldTypeText])]),
      (uc_FamilyName, [(''family_name'', [FieldTypeText])]), (uc_MiddleName, [(''middle_name'', [FieldTypeText])]),
      (uc_Nickname, [(''nickname'', [FieldTypeText])]), (uc_PreferredUsername, [(''preferred_username'', [FieldTypeText])]),
      (uc_Profile, [(''profile'', [FieldTypeText, FieldTypeURL])]),
      (uc_Picture, [(''avatar'', [FieldTypeFile]), (''picture'', [FieldTypeText, FieldTypeURL])]),
      (uc_Website, [(''website'', [FieldTypeText, FieldTypeURL])]), (uc_Gender, [(''gender'', [FieldTypeText])]),
      (uc_ZoneInfo, [(''zoneinfo'', [FieldTypeText])]), (uc_Locale, [(''locale'', [FieldTypeText])]),
      (uc_Birthdate, [(''birthdate'', [FieldTypeDate, FieldTypeNumber]), (''dob'', [FieldTypeDate, FieldTypeNumber])]),
      (uc_Email, [(''email'', [FieldTypeText, FieldTypeEmail])]), (uc_PhoneNumber, [(''phone_number'', [FieldTypeText])])]"


subsection \<open>The endpoint\<close>

lemma wp_grantedScopes:
  "wp (grantedScopes token) (\<lambda>s w'. (\<exists>n. w' = w\<lparr>tick := n\<rparr>) \<and> (s = [''openid'']
      \<or> (\<exists>k. ip_Granted (introspectToken \<omega> k token) = Some s \<and> ip_Error (introspectToken \<omega> k token) = None))) (\<lambda>_ _. False) \<omega> w"
  by (auto simp: grantedScopes_def wp_simps wp_askTick split: option.splits)


subsection \<open>The concrete app\<close>

definition demoInfoEnv :: info_envir where
  "demoInfoEnv = http_envir.extend demoHttpEnv (info_envir.fields (\<lambda>_ _ _. Inr []))"

definition demoInfoInst :: op_instance where
  "demoInfoInst = demoHosted\<lparr>it_cfg := demoConfig\<lparr>cf_UserInfoClaimStrategy := Some DefaultUserInfoClaimStrategy\<rparr>\<rparr>"

text \<open>The endpoint answers about the user of the session middleware, whoever the access token belongs to.\<close>

lemma userinfo_subject_unchecked: "\<exists>w'. api_OAuth2UserInfo demoInfoInst auth ''h.p.t1'' demoInfoEnv demoLive
    = (Inr (answer 200 [] (StandardClaims (GetUserInfoClaims (appURL demoInfoEnv) auth [''openid'']))), w')"
  by (simp add: api_OAuth2UserInfo_def grantedScopes_def userClaims_def orElse_def access_defs op_defs run_simps demo_defs demoLive_def
      demoInfoEnv_def demoHttpEnv_def demoAppEnv_def app_envir.defs http_envir.defs info_envir.defs demoUser_def demoCollection_def
      demoHosted_def demoInstance_def demoConfig_def zeroSession_def demoInfoInst_def cong: run_congs)

text \<open>An empty date field is the zero time, and is released as a date of birth.\<close>

lemma empty_birthdate_released: "formatDate zeroTime = ''0001-01-01''"
  by code_simp



end
