(* ===== verification/Authorize.thy ===== *)
theory Authorize
  imports Http Interactions
begin

section \<open>The authorization endpoint (oauth2_auth.go)\<close>

text \<open>
  An authorization request is parsed by fosite, stored as a pending interaction, and the browser is sent to the
  login page with nothing but the id of the interaction. The composed fosite provider is an argument of the
  handlers: its methods are computations on the same world, since they work on the storage of this library. The
  conversion of an error to its RFC 6749 form is a field of \<open>login_envir\<close>.
\<close>

subsection \<open>What fosite hands over\<close>

text \<open>
  \<open>fosite.AuthorizeRequester\<close>. \<open>ar_OwnClient\<close> tells whether the client is the one of this repository, so that
  the type assertion \<open>ar.GetClient().(*client.Client)\<close> succeeds.
\<close>

record authorize_request = requester +
  ar_OwnClient :: bool
  ar_State :: string
  ar_RedirectURI :: url
  ar_RedirectURIValid :: bool
  ar_ResponseMode :: responseMode

record authorize_response =
  rp_Header :: headers
  rp_Parameters :: url_values

text \<open>An error in the form of RFC 6749: the status, the parameters of a redirect, the JSON unless marshalling fails.\<close>

record rfc_error =
  rf_Code :: nat
  rf_Values :: url_values
  rf_JSON :: "string option"

text \<open>
  \<open>fosite.OAuth2Provider\<close>. \<open>NewAuthorizeRequest\<close> returns its request also when it fails, and leaves the form of
  the HTTP request as the second component; \<open>NewAuthorizeResponse\<close> leaves the form as the first.
\<close>

record ('o, 'w) provider =
  pv_NewAuthorizeRequest :: "url_values \<Rightarrow> ('o, 'w, authorize_request \<times> url_values \<times> goerr option) go"
  pv_GrantScope :: "string \<Rightarrow> authorize_request \<Rightarrow> authorize_request"
  pv_GrantAudience :: "string \<Rightarrow> authorize_request \<Rightarrow> authorize_request"
  pv_NewAuthorizeResponse :: "authorize_request \<Rightarrow> session \<Rightarrow> url_values \<Rightarrow>
    ('o, 'w, url_values \<times> (goerr + authorize_response)) go"
  pv_AddParameter :: "string \<Rightarrow> string \<Rightarrow> authorize_response \<Rightarrow> authorize_response"
  pv_WriteAuthorizeResponse :: "authorize_request \<Rightarrow> authorize_response \<Rightarrow> headers"
  pv_FormPost :: "string \<Rightarrow> url_values \<Rightarrow> string"

record login_complete_request =
  lq_InteractionID :: string
  lq_PBToken :: string
  lq_PBTokenIAT :: int
  lq_Decision :: string
  lq_ConsentedScopes :: "string list"

text \<open>\<open>rfcError\<close> gets the legacy and the debug setting when the code sets them, and none for a bare conversion.\<close>

record login_envir = http_envir +
  rfcError :: "goerr \<Rightarrow> (bool \<times> bool) option \<Rightarrow> rfc_error"
  decodeLoginComplete :: "string \<Rightarrow> goerr + login_complete_request"

type_synonym ('o, 'w, 'a) logingo = "('o login_envir_scheme, 'w app_world_scheme, 'a) go"
type_synonym ('o, 'w) op_provider = "('o login_envir_scheme, 'w app_world_scheme) provider"

record login_state_response =
  lr_ClientID :: string
  lr_ClientName :: string
  lr_UserCollection :: string
  lr_RequestedScopes :: "string list"
  lr_GrantedScopes :: "string list"
  lr_RequestedAcrValues :: "string list"
  lr_Prompt :: string
  lr_ExpiresAt :: int

datatype login_body = LoginState login_state_response | LoginRedirect string | Bytes string

subsection \<open>Forms and parameters\<close>

definition cloneForm :: "url_values \<Rightarrow> url_values" where
  "cloneForm f = map (\<lambda>(k, vs). (k, [] @ vs)) f"

definition parseAcrValues :: "string \<Rightarrow> string list" where
  "parseAcrValues raw = (let raw = trimSpace raw in
     if raw = [] then [] else filter (\<lambda>p. p \<noteq> []) (Go_Strings.fields raw))"

text \<open>\<open>strconv.ParseInt(s, 10, 64)\<close>, with an error as \<open>None\<close>.\<close>

definition parseInt64 :: "string \<Rightarrow> int option" where
  "parseInt64 s = (let neg = hasPrefix s ''-''; ds = (if neg \<or> hasPrefix s ''+'' then drop 1 s else s) in
     if ds = [] \<or> \<not> list_all isDigit ds then None
     else let n = (if neg then - int (decimal ds) else int (decimal ds)) in
       if - (2 ^ 63) \<le> n \<and> n < 2 ^ 63 then Some n else None)"

text \<open>The nested loops that add every value of one form to another.\<close>

definition addValues :: "url_values \<Rightarrow> url_values \<Rightarrow> url_values" where
  "addValues params f = fold (\<lambda>(k, vs) ps. fold (\<lambda>v ps. valuesAdd ps k v) vs ps) f params"

subsection \<open>Error responses\<close>

definition errorFlags :: "config \<Rightarrow> (bool \<times> bool) option" where
  "errorFlags cfg = Some (cf_UseLegacyErrorFormat cfg, cf_SendDebugMessagesToClients cfg)"

definition queryRedirect :: "url \<Rightarrow> url_values \<Rightarrow> url" where
  "queryRedirect u params = u\<lparr>u_RawQuery := valuesEncode (addValues params (urlQuery u))\<rparr>"

definition writeAuthorizeErrorWithIss ::
  "('o, 'w) op_provider \<Rightarrow> op_instance \<Rightarrow> authorize_request \<Rightarrow> goerr \<Rightarrow> ('o, 'w, login_body response) logingo" where
  "writeAuthorizeErrorWithIss P inst ar oerr =
     bindG (askG (\<lambda>\<omega>. providerIssuer (appURL \<omega>) (cf_PathPrefix (it_cfg inst)))) (\<lambda>iss.
     bindG (askG (\<lambda>\<omega>. rfcError \<omega> oerr (errorFlags (it_cfg inst)))) (\<lambda>rfcerr.
     let hs = setHeader (setHeader [] ''Cache-Control'' ''no-store'') ''Pragma'' ''no-cache'' in
     if \<not> ar_RedirectURIValid ar then
       (let hs = setHeader hs ''Content-Type'' ''application/json;charset=UTF-8'' in
        returnG (case rf_JSON rfcerr of
          None \<Rightarrow> answer 500 (setHeader (setHeader hs ''Content-Type'' ''text/plain; charset=utf-8'')
                    ''X-Content-Type-Options'' ''nosniff'')
                    (Bytes (''{'' @ jsonString ''error'' @ '':'' @ jsonString ''server_error'' @ ''}'' @ [CHR 0x0A]))
        | Some js \<Rightarrow> answer (rf_Code rfcerr) hs (Bytes js)))
     else
       (let redirectURI = (ar_RedirectURI ar)\<lparr>u_Fragment := []\<rparr>;
            params = valuesSet (valuesSet (rf_Values rfcerr) ''state'' (ar_State ar)) ''iss'' iss in
        if ar_ResponseMode ar = ResponseModeFormPost
        then returnG (answer 200 (setHeader hs ''Content-Type'' ''text/html;charset=UTF-8'')
               (Bytes (pv_FormPost P (urlString redirectURI) params)))
        else returnG (noContent 303 (setHeader hs ''Location''
               (if ar_ResponseMode ar = ResponseModeFragment
                then urlString redirectURI @ ''#'' @ valuesEncode params
                else urlString (queryRedirect redirectURI params)))))))"

subsection \<open>The endpoint\<close>

text \<open>The error that a login page reports back through the form.\<close>

definition reportedError :: "string \<Rightarrow> goerr" where
  "reportedError err =
     (if err \<in> {''account_selection_required'', ''consent_required'', ''interaction_required''}
      then plainErr ErrInteractionRequired
      else if err = ''login_required'' then plainErr ErrLoginRequired
      else if err = ''access_denied'' then plainErr ErrAccessDenied
      else Err ErrServerError (''Unknown error: '' @ err) None)"

definition ratTime :: "url_values \<Rightarrow> int \<Rightarrow> int" where
  "ratTime form requestedAt = (let rat = valuesGet form ''rat'' in
     if length rat > 0 then (case parseInt64 rat of Some n \<Rightarrow> n * 1000000 | None \<Rightarrow> requestedAt)
     else requestedAt)"

text \<open>What is left of the form: no token, and the time of the request.\<close>

definition stripToken :: "url_values \<Rightarrow> url_values" where
  "stripToken form = valuesDel (valuesDel form ''pb_token'') ''pb_token_iat''"

definition stampRat :: "url_values \<Rightarrow> int \<Rightarrow> url_values" where
  "stampRat form t = (if \<not> valuesHas form ''rat'' then valuesSet form ''rat'' (showInt (unixSec t)) else form)"

definition newInteraction :: "config \<Rightarrow> authorize_request \<Rightarrow> string \<Rightarrow> interaction" where
  "newInteraction cfg ar redirect =
     (let requestedAt = ratTime (rq_Form ar) (rq_RequestedAt ar);
          form = stampRat (stripToken (rq_Form ar)) requestedAt in
      \<lparr>in_ID = [], in_ClientID = cl_ID (rq_Client ar), in_ClientName = cl_Name (rq_Client ar),
       in_UserCollection = cf_UserCollection cfg, in_RedirectURI = redirect,
       in_RequestForm = stripToken (cloneForm form), in_RequestedScopes = rq_RequestedScopes ar,
       in_RequestedAcrValues = parseAcrValues (valuesGet form ''acr_values''), in_Prompt = valuesGet form ''prompt'',
       in_RequestedAt = requestedAt, in_ExpiresAt = zeroTime, in_ProviderPrefix = []\<rparr>)"

definition storeRequest ::
  "op_instance \<Rightarrow> authorize_request \<Rightarrow> string \<Rightarrow> ('o, 'w, login_body response) logingo" where
  "storeRequest inst ar redirect = bindG (askG appURL) (\<lambda>url.
     orElse (CreateInteractionAt (cf_PathPrefix (it_cfg inst)) (newInteraction (it_cfg inst) ar redirect))
       (\<lambda>_. apiError 500 [] ''failed to create interaction'')
       (\<lambda>i. returnG (noContent 307 (setHeader [] ''Location''
          (url @ cf_PathPrefix (it_cfg inst) @ ''/login?interaction_id='' @ i)))))"

text \<open>A panic ends the request as an error would: PocketBase recovers it and answers 500.\<close>

definition api_OAuth2Authorize ::
  "('o, 'w) op_provider \<Rightarrow> op_instance \<Rightarrow> url_values \<Rightarrow> ('o, 'w, login_body response) logingo" where
  "api_OAuth2Authorize P inst form =
     bindG (pv_NewAuthorizeRequest P form) (\<lambda>(ar, _, err). case err of
       Some e \<Rightarrow> writeAuthorizeErrorWithIss P inst ar e
     | None \<Rightarrow>
         if valuesGet (rq_Form ar) ''error'' \<noteq> []
         then writeAuthorizeErrorWithIss P inst ar (reportedError (valuesGet (rq_Form ar) ''error''))
         else if \<not> ar_OwnClient ar then throwG (textErr ''panic: nil client'')
         else (case cl_RedirectURIs (rq_Client ar) of
           [] \<Rightarrow> throwG (textErr ''panic: index out of range'')
         | redirect # _ \<Rightarrow> storeRequest inst ar redirect))"

end
