(* ===== verification/Login.thy ===== *)
theory Login
  imports Authorize
begin

section \<open>The login endpoints (oauth2_login.go)\<close>

text \<open>
  The login page reads a pending interaction and completes it once: with a denial, or with a token of PocketBase
  and the scopes the user consented to. The redirect comes from the stored interaction and from fosite, never
  from the request.
\<close>

definition setLoginCORS :: "headers \<Rightarrow> headers" where
  "setLoginCORS hs = setHeader (setHeader (setHeader hs ''Access-Control-Allow-Origin'' ''*'')
     ''Access-Control-Allow-Methods'' ''GET, POST, OPTIONS'') ''Access-Control-Allow-Headers'' ''Content-Type''"

definition jsonHeaders :: "headers \<Rightarrow> headers" where
  "jsonHeaders hs = setHeader (setHeader hs ''Content-Type'' ''application/json'') ''Cache-Control'' ''no-store''"

definition api_OAuth2LoginState ::
  "op_instance \<Rightarrow> string \<Rightarrow> string \<Rightarrow> ('o, 'w, login_body response) logingo" where
  "api_OAuth2LoginState inst method query =
     (if method = ''OPTIONS'' then returnG (noContent 204 (setLoginCORS []))
      else if method \<noteq> ''GET'' then returnG (apiError 405 [] [])
      else let hs = setLoginCORS []; i = valuesGet (queryValues query) ''id'' in
      if i = [] then returnG (apiError 400 hs ''missing interaction id'')
      else orElse (FindInteractionAt (cf_PathPrefix (it_cfg inst)) i)
        (\<lambda>_. apiError 404 hs ''interaction not found or expired'')
        (\<lambda>inn. returnG (answer 200 (jsonHeaders hs) (LoginState
          \<lparr>lr_ClientID = in_ClientID inn, lr_ClientName = in_ClientName inn, lr_UserCollection = in_UserCollection inn,
           lr_RequestedScopes = in_RequestedScopes inn, lr_GrantedScopes = [],
           lr_RequestedAcrValues = in_RequestedAcrValues inn, lr_Prompt = in_Prompt inn,
           lr_ExpiresAt = unixSec (in_ExpiresAt inn)\<rparr>))))"

subsection \<open>Errors\<close>

text \<open>The redirect URL: a fragment mode sets only the raw fragment.\<close>

definition interactionErrorURL :: "url \<Rightarrow> string \<Rightarrow> url_values \<Rightarrow> url" where
  "interactionErrorURL u mode params =
     (let u = u\<lparr>u_Fragment := []\<rparr> in
      if mode = ''fragment'' then u\<lparr>u_RawFragment := valuesEncode params\<rparr>
      else u\<lparr>u_RawQuery := valuesEncode (addValues (urlQuery u) params)\<rparr>)"

definition errorParams :: "string \<Rightarrow> url_values \<Rightarrow> url_values \<Rightarrow> url_values" where
  "errorParams iss form vals = valuesSet
     (if valuesGet form ''state'' \<noteq> [] then valuesSet vals ''state'' (valuesGet form ''state'') else vals) ''iss'' iss"

definition writeInteractionError ::
  "op_instance \<Rightarrow> headers \<Rightarrow> url_values \<Rightarrow> string \<Rightarrow> goerr \<Rightarrow> ('o, 'w, login_body response) logingo" where
  "writeInteractionError inst hs form redirectURI oerr =
     (if redirectURI = []
      then bindG (askG (\<lambda>\<omega>. rfcError \<omega> oerr None)) (\<lambda>rfcerr.
        let hs = setHeader hs ''Content-Type'' ''application/json'' in
        returnG (case rf_JSON rfcerr of
          None \<Rightarrow> noContent (rf_Code rfcerr) hs
        | Some js \<Rightarrow> answer (rf_Code rfcerr) hs (Bytes (js @ [CHR 0x0A]))))
      else bindG (askG (\<lambda>\<omega>. providerIssuer (appURL \<omega>) (cf_PathPrefix (it_cfg inst)))) (\<lambda>iss.
        bindG (askG (\<lambda>\<omega>. rfcError \<omega> oerr (errorFlags (it_cfg inst)))) (\<lambda>rfcerr.
        returnG (case urlParse redirectURI of
          None \<Rightarrow> apiError 500 hs ''stored redirect_uri is not parseable''
        | Some u \<Rightarrow> answer 200 (jsonHeaders hs) (LoginRedirect (urlString
            (interactionErrorURL u (valuesGet form ''response_mode'') (errorParams iss form (rf_Values rfcerr)))))))))"

subsection \<open>Completion\<close>

text \<open>The methods of the user's collection, and the level of assurance they are taken for.\<close>

definition authMethods :: "auth_collection \<Rightarrow> string list" where
  "authMethods c = (if co_PasswordAuth c then [''pwd''] else []) @ (if co_OTP c then [''otp''] else [])
     @ (if co_MFA c then [''mfa''] else [])"

definition assuranceLevel :: "auth_collection \<Rightarrow> string" where
  "assuranceLevel c = ''loa'' @ showInt (if co_MFA c then 1 + 1 else 1)"

definition loginSession ::
  "string \<Rightarrow> string \<Rightarrow> auth_record \<Rightarrow> login_complete_request \<Rightarrow> interaction \<Rightarrow> int \<Rightarrow> session" where
  "loginSession url iss u req inn now =
     (let s = NewSession url (au_Id u) (co_Id (au_Collection u)) now in
      s\<lparr>ses_Claims := map_option (\<lambda>c. c\<lparr>ic_Issuer := iss, ic_AuthTime := lq_PBTokenIAT req * 1000000,
          ic_RequestedAt := in_RequestedAt inn, ic_AMR := authMethods (au_Collection u),
          ic_ACR := assuranceLevel (au_Collection u)\<rparr>) (ses_Claims s)\<rparr>)"

definition grantAll :: "('o, 'w) op_provider \<Rightarrow> authorize_request \<Rightarrow> authorize_request" where
  "grantAll P ar = (let ar' = fold (pv_GrantScope P) (rq_RequestedScopes ar) ar in
     fold (pv_GrantAudience P) (rq_RequestedAudience ar') ar')"

text \<open>The last part: the authorize request is replayed with the stored form and answered. \<open>rec\<close> is the header of
  the writer that only captures the redirect.\<close>

definition redirectAnswer :: "headers \<Rightarrow> headers \<Rightarrow> login_body response" where
  "redirectAnswer hs rec = (case map_of rec ''Location'' of
       None \<Rightarrow> apiError 500 hs ''form_post response mode is not supported by the built-in login UI''
     | Some redirect \<Rightarrow>
         if redirect = [] then apiError 500 hs ''form_post response mode is not supported by the built-in login UI''
         else answer 200 (jsonHeaders hs) (LoginRedirect redirect))"

definition answerRequest ::
  "('o, 'w) op_provider \<Rightarrow> op_instance \<Rightarrow> headers \<Rightarrow> login_complete_request \<Rightarrow> interaction \<Rightarrow> auth_record \<Rightarrow>
     authorize_request \<Rightarrow> url_values \<Rightarrow> ('o, 'w, login_body response) logingo" where
  "answerRequest P inst hs req inn u ar form =
     bindG timeNow (\<lambda>now. bindG (askG appURL) (\<lambda>url.
     bindG (askG (\<lambda>\<omega>. providerIssuer (appURL \<omega>) (cf_PathPrefix (it_cfg inst)))) (\<lambda>iss.
     bindG (pv_NewAuthorizeResponse P ar (loginSession url iss u req inn now) form) (\<lambda>(form, r). case r of
       Inl e \<Rightarrow> writeInteractionError inst hs form (in_RedirectURI inn) e
     | Inr response \<Rightarrow>
         returnG (redirectAnswer hs (pv_WriteAuthorizeResponse P ar (pv_AddParameter P ''iss'' iss response)))))))"

definition replayRequest ::
  "('o, 'w) op_provider \<Rightarrow> op_instance \<Rightarrow> headers \<Rightarrow> login_complete_request \<Rightarrow> interaction \<Rightarrow> auth_record \<Rightarrow>
     ('o, 'w, login_body response) logingo" where
  "replayRequest P inst hs req inn u =
     bindG (pv_NewAuthorizeRequest P (stampRat (in_RequestForm inn) (in_RequestedAt inn))) (\<lambda>(ar, form, err). case err of
       Some e \<Rightarrow> writeInteractionError inst hs form (in_RedirectURI inn) e
     | None \<Rightarrow> answerRequest P inst hs req inn u (grantAll P ar) form)"

text \<open>The middle part: consent. A failed lookup counts as no consent, a failed record is only logged.\<close>

definition consentAndReplay ::
  "('o, 'w) op_provider \<Rightarrow> op_instance \<Rightarrow> headers \<Rightarrow> login_complete_request \<Rightarrow> interaction \<Rightarrow> auth_record \<Rightarrow>
     ('o, 'w, login_body response) logingo" where
  "consentAndReplay P inst hs req inn u =
     (let prefix = cf_PathPrefix (it_cfg inst); uc = co_Name (au_Collection u) in
      bindG (attemptG (FindConsentAt prefix (au_Id u) uc (in_ClientID inn))) (\<lambda>r.
      let available = (case r of
            Inr (Some prior) \<Rightarrow> mergeScopes (cn_GrantedScopes prior) (lq_ConsentedScopes req)
          | _ \<Rightarrow> lq_ConsentedScopes req) in
      if \<not> ConsentCovers available (in_RequestedScopes inn)
      then writeInteractionError inst hs (in_RequestForm inn) (in_RedirectURI inn) (plainErr ErrConsentRequired)
      else bindG (attemptG (UpsertConsentAt prefix (au_Id u) uc (in_ClientID inn) available)) (\<lambda>_.
        replayRequest P inst hs req inn u)))"

text \<open>What follows the claim of the interaction.\<close>

definition decide ::
  "('o, 'w) op_provider \<Rightarrow> op_instance \<Rightarrow> headers \<Rightarrow> login_complete_request \<Rightarrow> interaction \<Rightarrow>
     ('o, 'w, login_body response) logingo" where
  "decide P inst hs req inn =
     (let refuse = writeInteractionError inst hs (in_RequestForm inn) (in_RedirectURI inn) in
      if lq_Decision req = ''deny'' then refuse (plainErr ErrAccessDenied)
      else if lq_Decision req \<noteq> ''approve''
      then returnG (apiError 400 hs (''decision must be '' @ jsonString ''approve'' @ '' or '' @ jsonString ''deny''))
      else if lq_PBToken req = [] then refuse (plainErr ErrLoginRequired)
      else bindG (attemptG (FindAuthRecordByToken (lq_PBToken req))) (\<lambda>r. case r of
        Inl err \<Rightarrow> if errorsIs err ErrNoRows then refuse (plainErr ErrLoginRequired)
                   else returnG (apiError 500 hs ''token lookup failed'')
      | Inr u \<Rightarrow>
          if co_Name (au_Collection u) \<noteq> in_UserCollection inn
          then refuse (Err ErrAccessDenied ''user collection mismatch'' None)
          else consentAndReplay P inst hs req inn u))"

definition api_OAuth2LoginComplete ::
  "('o, 'w) op_provider \<Rightarrow> op_instance \<Rightarrow> string \<Rightarrow> string \<Rightarrow> ('o, 'w, login_body response) logingo" where
  "api_OAuth2LoginComplete P inst method body =
     (if method = ''OPTIONS'' then returnG (noContent 204 (setLoginCORS []))
      else if method \<noteq> ''POST'' then returnG (apiError 405 [] [])
      else let hs = setLoginCORS [] in
      orElse (bindG (askG (\<lambda>\<omega>. decodeLoginComplete \<omega> body)) liftSum) (\<lambda>_. apiError 400 hs ''invalid JSON body'') (\<lambda>req.
      if lq_InteractionID req = [] then returnG (apiError 400 hs ''interaction_id is required'')
      else orElse (ConsumeInteractionAt (cf_PathPrefix (it_cfg inst)) (lq_InteractionID req))
        (\<lambda>_. apiError 404 hs ''interaction not found or expired'')
        (decide P inst hs req)))"

end
