(* ===== verification/Login_Properties.thy ===== *)
theory Login_Properties
  imports Login Interaction_Properties Access_Properties
begin

section \<open>Properties of the authorization and login endpoints\<close>

subsection \<open>What fosite may do\<close>

text \<open>
  fosite works on the storage interface of this library, which has no access to the tables of interactions and
  consents; and its two methods return their errors as values.
\<close>

definition leavesPending :: "'w world_scheme \<Rightarrow> 'w world_scheme \<Rightarrow> bool" where
  "leavesPending w w' \<longleftrightarrow> w_interactions w' = w_interactions w \<and> w_consents w' = w_consents w
     \<and> w_registered w' = w_registered w"

definition providerLaws :: "('o, 'w) op_provider \<Rightarrow> bool" where
  "providerLaws P \<longleftrightarrow> (\<forall>form. keeps leavesPending (pv_NewAuthorizeRequest P form))
     \<and> (\<forall>ar s form. keeps leavesPending (pv_NewAuthorizeResponse P ar s form))
     \<and> (\<forall>form \<omega> w. \<exists>r w'. pv_NewAuthorizeRequest P form \<omega> w = (Inr r, w'))
     \<and> (\<forall>ar s form \<omega> w. \<exists>r w'. pv_NewAuthorizeResponse P ar s form \<omega> w = (Inr r, w'))"

lemma leavesPending_simps [simp]: "leavesPending w w" "leavesPending w (w\<lparr>tick := n\<rparr>)"
  by (simp_all add: leavesPending_def)

lemma leavesPending_trans: "leavesPending u v \<Longrightarrow> leavesPending v w \<Longrightarrow> leavesPending u w"
  by (simp add: leavesPending_def)

text \<open>The two calls, for whatever they return.\<close>

lemma wp_NewAuthorizeRequest:
  assumes "providerLaws P" "\<And>r v. pv_NewAuthorizeRequest P form \<omega> w = (Inr r, v) \<Longrightarrow> leavesPending w v \<Longrightarrow> Q r v"
  shows "wp (pv_NewAuthorizeRequest P form) Q E \<omega> w"
proof -
  obtain r v where run: "pv_NewAuthorizeRequest P form \<omega> w = (Inr r, v)"
    using assms(1) unfolding providerLaws_def by blast
  have "leavesPending w v" using assms(1) run unfolding providerLaws_def by (blast dest: keeps_outcome)
  with run assms(2) show ?thesis by (simp add: wp_def)
qed

lemma wp_NewAuthorizeResponse:
  assumes "providerLaws P" "\<And>r v. pv_NewAuthorizeResponse P ar s form \<omega> w = (Inr r, v) \<Longrightarrow> leavesPending w v \<Longrightarrow> Q r v"
  shows "wp (pv_NewAuthorizeResponse P ar s form) Q E \<omega> w"
proof -
  obtain r v where run: "pv_NewAuthorizeResponse P ar s form \<omega> w = (Inr r, v)"
    using assms(1) unfolding providerLaws_def by blast
  have "leavesPending w v" using assms(1) run unfolding providerLaws_def by (blast dest: keeps_outcome)
  with run assms(2) show ?thesis by (simp add: wp_def)
qed

subsection \<open>Storing the request\<close>

lemma cloneForm_id [simp]: "cloneForm f = f"
  by (simp add: cloneForm_def)

lemma stripToken_has [simp]: "valuesHas (stripToken f) k \<longleftrightarrow> k \<noteq> ''pb_token'' \<and> k \<noteq> ''pb_token_iat'' \<and> valuesHas f k"
  by (auto simp: stripToken_def)

lemma stampRat_has [simp]: "valuesHas (stampRat f t) k \<longleftrightarrow> k = ''rat'' \<or> valuesHas f k"
  by (auto simp: stampRat_def)

text \<open>One row at the end of the table, with the fields of the interaction.\<close>

definition storedAs :: "string \<Rightarrow> interaction \<Rightarrow> interaction_row \<Rightarrow> bool" where
  "storedAs p inn r \<longleftrightarrow> ir_provider_prefix r = p \<and> ir_client_id r = in_ClientID inn \<and> ir_redirect_uri r = in_RedirectURI inn
     \<and> ir_request_form r = in_RequestForm inn \<and> ir_requested_scopes r = in_RequestedScopes inn
     \<and> ir_user_collection r = in_UserCollection inn"

lemma wp_storeInteraction:
  assumes "canonicalPrefix p" "in_ID inn = []"
    and "\<And>e n. E e (w\<lparr>tick := n\<rparr>)"
    and "\<And>r n. ir_id r \<notin> ir_id ` set (w_interactions w) \<Longrightarrow> storedAs p inn r \<Longrightarrow>
       Q (ir_id r) (w\<lparr>tick := n, w_interactions := w_interactions w @ [r]\<rparr>)"
  shows "wp (CreateInteractionAt p inn) Q E \<omega> w"
proof -
  have eq: "normalizePrefix p = p" using assms(1) by (rule canonicalPrefixD)
  have Q': "Q i (w\<lparr>tick := n, w_interactions := w_interactions w @ [r]\<rparr>)"
    if "ir_id r = i" "i \<notin> ir_id ` set (w_interactions w)" "storedAs p inn r" for r i n
    using assms(4) [of r n] that by blast
  show ?thesis
    by (auto simp: CreateInteractionAt_def insertInteraction_def wp_simps Let_def eq assms(2) image_iff
        intro!: Q' assms(3) simp: storedAs_def)
qed

lemma wp_answerError: "(\<And>resp. Q resp w) \<Longrightarrow> wp (writeAuthorizeErrorWithIss P inst ar e) Q E \<omega> w"
  by (simp add: writeAuthorizeErrorWithIss_def wp_simps Let_def)

text \<open>What a successful authorization request leaves behind.\<close>

definition pendingFor :: "string \<Rightarrow> config \<Rightarrow> authorize_request \<Rightarrow> interaction_row \<Rightarrow> bool" where
  "pendingFor p cfg ar r \<longleftrightarrow> ir_provider_prefix r = p \<and> ir_client_id r = cl_ID (rq_Client ar)
     \<and> ir_redirect_uri r \<in> set (cl_RedirectURIs (rq_Client ar)) \<and> ir_requested_scopes r = rq_RequestedScopes ar
     \<and> ir_user_collection r = cf_UserCollection cfg
     \<and> (\<forall>k. valuesHas (ir_request_form r) k \<longleftrightarrow>
          k = ''rat'' \<or> valuesHas (rq_Form ar) k \<and> k \<notin> {''pb_token'', ''pb_token_iat''})"

lemma newInteraction_form: "in_RequestForm (newInteraction cfg ar redirect) =
    stripToken (stampRat (stripToken (rq_Form ar)) (ratTime (rq_Form ar) (rq_RequestedAt ar)))"
  by (simp add: newInteraction_def Let_def)

lemma storedAs_pendingFor:
  "storedAs p (newInteraction cfg ar redirect) r \<Longrightarrow> cl_RedirectURIs (rq_Client ar) = redirect # us \<Longrightarrow> pendingFor p cfg ar r"
  by (auto simp: storedAs_def pendingFor_def newInteraction_form) (simp_all add: newInteraction_def Let_def)

definition storesRequest ::
  "('o, 'w) op_provider \<Rightarrow> op_instance \<Rightarrow> url_values \<Rightarrow> 'o login_envir_scheme \<Rightarrow> 'w app_world_scheme \<Rightarrow>
     goerr + login_body response \<Rightarrow> 'w app_world_scheme \<Rightarrow> bool" where
  "storesRequest P inst form \<omega> w r w' \<longleftrightarrow>
     (\<exists>ar f v row. pv_NewAuthorizeRequest P form \<omega> w = (Inr (ar, f, None), v)
       \<and> w_interactions w' = w_interactions w @ [row] \<and> ir_id row \<notin> ir_id ` set (w_interactions w)
       \<and> pendingFor (cf_PathPrefix (it_cfg inst)) (it_cfg inst) ar row
       \<and> r = Inr (noContent 307 [(''Location'', appURL \<omega> @ cf_PathPrefix (it_cfg inst) @ ''/login?interaction_id='' @ ir_id row)]))"

lemma wp_storeRequest:
  fixes \<omega> :: "'o login_envir_scheme" and w v :: "'w app_world_scheme"
  assumes p: "canonicalPrefix (cf_PathPrefix (it_cfg inst))" and us: "cl_RedirectURIs (rq_Client ar) = redirect # us"
    and q: "pv_NewAuthorizeRequest P form \<omega> w = (Inr (ar, f, None), v)" "w_interactions v = w_interactions w"
  shows "wp (storeRequest inst ar redirect)
    (\<lambda>a w'. w_interactions w' = w_interactions w \<or> storesRequest P inst form \<omega> w (Inr a) w') (\<lambda>_ _. False) \<omega> v"
proof -
  have i: "in_ID (newInteraction (it_cfg inst) ar redirect) = []" by (simp add: newInteraction_def Let_def)
  show ?thesis unfolding storeRequest_def wp_bindG wp_askG wp_orElse
    by (rule wp_storeInteraction [OF p i]) (use q us in \<open>auto simp: wp_simps storedAs_pendingFor storesRequest_def\<close>)
qed

text \<open>C30: the authorization endpoint either stores nothing, or exactly one interaction of its provider, under a fresh id: for
  the client and the scopes that fosite accepted, with a redirect URI that the client registered, and with the form
  of the request from which every token of the user has been removed. The browser is then sent to the login page of
  the provider with the id and nothing else.\<close>

theorem authorize_stores_no_token:
  assumes P: "providerLaws P" and p: "canonicalPrefix (cf_PathPrefix (it_cfg inst))"
    and run: "api_OAuth2Authorize P inst form (\<omega> :: login_envir) (w :: app_world) = (r, w')"
  shows "w_interactions w' = w_interactions w \<or> storesRequest P inst form \<omega> w r w'"
proof -
  let ?G = "\<lambda>r w'. w_interactions w' = w_interactions w \<or> storesRequest P inst form \<omega> w r w'"
  have "wp (api_OAuth2Authorize P inst form) (\<lambda>a. ?G (Inr a)) (\<lambda>e. ?G (Inl e)) \<omega> w"
    unfolding api_OAuth2Authorize_def wp_bindG
  proof (rule wp_NewAuthorizeRequest [OF P], clarify)
    fix ar f err v
    assume q: "pv_NewAuthorizeRequest P form \<omega> w = (Inr (ar, f, err), v)" and "leavesPending w v"
    then have v: "w_interactions v = w_interactions w" by (simp add: leavesPending_def)
    have store: "wp (storeRequest inst ar redirect) (\<lambda>a. ?G (Inr a)) (\<lambda>e. ?G (Inl e)) \<omega> v"
      if "err = None" "cl_RedirectURIs (rq_Client ar) = redirect # us" for redirect us
      by (rule wp_mono [OF wp_storeRequest [OF p that(2) _ v]]) (use q that(1) in auto)
    show "wp (case err of
        Some e \<Rightarrow> writeAuthorizeErrorWithIss P inst ar e
      | None \<Rightarrow> if valuesGet (rq_Form ar) ''error'' \<noteq> []
          then writeAuthorizeErrorWithIss P inst ar (reportedError (valuesGet (rq_Form ar) ''error''))
          else if \<not> ar_OwnClient ar then throwG (textErr ''panic: nil client'')
          else (case cl_RedirectURIs (rq_Client ar) of
            [] \<Rightarrow> throwG (textErr ''panic: index out of range'')
          | redirect # _ \<Rightarrow> storeRequest inst ar redirect)) (\<lambda>a. ?G (Inr a)) (\<lambda>e. ?G (Inl e)) \<omega> v"
      using v by (auto simp: wp_throwG intro!: wp_answerError store split: option.split list.split)
  qed
  from wp_outcome [OF this run] show ?thesis by (cases r) auto
qed

subsection \<open>Completing the request\<close>

text \<open>The redirect of an error goes to the stored URI.\<close>

definition errorRedirect :: "'o login_envir_scheme \<Rightarrow> op_instance \<Rightarrow> string \<Rightarrow> string \<Rightarrow> bool" where
  "errorRedirect \<omega> inst stored url \<longleftrightarrow> (\<exists>u form e. urlParse stored = Some u
     \<and> url = urlString (interactionErrorURL u (valuesGet form ''response_mode'')
         (errorParams (providerIssuer (appURL \<omega>) (cf_PathPrefix (it_cfg inst))) form
            (rf_Values (rfcError \<omega> e (errorFlags (it_cfg inst)))))))"

text \<open>What a replay answers with: the redirect that fosite writes for the stored form and for the session of the user.\<close>

definition replayed ::
  "('o, 'w) op_provider \<Rightarrow> op_instance \<Rightarrow> 'o login_envir_scheme \<Rightarrow> login_complete_request \<Rightarrow> interaction \<Rightarrow> auth_record \<Rightarrow>
     string \<Rightarrow> bool" where
  "replayed P inst \<omega> req inn u url \<longleftrightarrow> (\<exists>ar f v v1 now v2 f' response v3.
     let iss = providerIssuer (appURL \<omega>) (cf_PathPrefix (it_cfg inst)) in
       pv_NewAuthorizeRequest P (stampRat (in_RequestForm inn) (in_RequestedAt inn)) \<omega> v = (Inr (ar, f, None), v1)
     \<and> pv_NewAuthorizeResponse P (grantAll P ar) (loginSession (appURL \<omega>) iss u req inn now) f \<omega> v2
         = (Inr (f', Inr response), v3)
     \<and> map_of (pv_WriteAuthorizeResponse P (grantAll P ar) (pv_AddParameter P ''iss'' iss response)) ''Location'' = Some url)"

definition answers :: "(string \<Rightarrow> bool) \<Rightarrow> login_body response \<Rightarrow> bool" where
  "answers R resp \<longleftrightarrow> (\<forall>url. rs_Body resp = Payload (LoginRedirect url) \<longrightarrow> R url)"

lemma answers_simps [simp]: "answers R (apiError s h m)" "answers R (noContent s h)" "answers R (answer s h (Bytes b))"
  "answers R (answer s h (LoginRedirect url)) \<longleftrightarrow> R url" "answers R (answer s h (LoginState x))"
  by (simp_all add: answers_def)

lemma errorRedirectI: "urlParse stored = Some u \<Longrightarrow> errorRedirect \<omega> inst stored
    (urlString (interactionErrorURL u (valuesGet form ''response_mode'')
       (errorParams (providerIssuer (appURL \<omega>) (cf_PathPrefix (it_cfg inst))) form
          (rf_Values (rfcError \<omega> e (errorFlags (it_cfg inst)))))))"
  unfolding errorRedirect_def by blast

lemma wp_interactionError:
  fixes \<omega> :: "'o login_envir_scheme"
  assumes "\<And>resp. answers (errorRedirect \<omega> inst redirect) resp \<Longrightarrow> Q resp w"
  shows "wp (writeInteractionError inst hs form redirect e) Q E \<omega> w"
  unfolding writeInteractionError_def
  by (auto simp: wp_simps Let_def intro!: assms errorRedirectI split: option.splits)

lemma answers_mono: "answers R resp \<Longrightarrow> (\<And>url. R url \<Longrightarrow> R' url) \<Longrightarrow> answers R' resp"
  by (simp add: answers_def)

lemma wp_redirectAnswer:
  "answers (\<lambda>url. map_of rec ''Location'' = Some url) (redirectAnswer hs rec)"
  by (simp add: redirectAnswer_def split: option.splits)

lemma wp_replayRequest:
  fixes \<omega> :: "'o login_envir_scheme" and w :: "'w app_world_scheme"
  assumes "providerLaws P"
  shows "wp (replayRequest P inst hs req inn u)
    (\<lambda>resp w'. answers (\<lambda>url. errorRedirect \<omega> inst (in_RedirectURI inn) url \<or> replayed P inst \<omega> req inn u url) resp
       \<and> w_interactions w' = w_interactions w) (\<lambda>_ _. False) \<omega> w"
  unfolding replayRequest_def wp_bindG
proof (rule wp_NewAuthorizeRequest [OF assms], clarify)
  let ?Q = "\<lambda>resp w'. answers (\<lambda>url. errorRedirect \<omega> inst (in_RedirectURI inn) url \<or> replayed P inst \<omega> req inn u url) resp
       \<and> w_interactions w' = w_interactions w"
  fix ar f err v
  assume q: "pv_NewAuthorizeRequest P (stampRat (in_RequestForm inn) (in_RequestedAt inn)) \<omega> w = (Inr (ar, f, err), v)"
    and "leavesPending w v"
  then have v: "w_interactions v = w_interactions w" by (simp add: leavesPending_def)
  have failed: "wp (writeInteractionError inst hs form (in_RedirectURI inn) e) ?Q E \<omega> v'"
    if "w_interactions v' = w_interactions w" for form e v' and E :: "goerr \<Rightarrow> 'w app_world_scheme \<Rightarrow> bool"
    by (rule wp_interactionError) (auto simp: that elim: answers_mono)
  have "wp (answerRequest P inst hs req inn u (grantAll P ar) f) ?Q (\<lambda>_ _. False) \<omega> v" if "err = None"
    unfolding answerRequest_def wp_bindG wp_timeNow wp_askG
  proof (rule wp_NewAuthorizeResponse [OF assms], clarify)
    fix form r v'
    assume s: "pv_NewAuthorizeResponse P (grantAll P ar) (loginSession (appURL \<omega>)
         (providerIssuer (appURL \<omega>) (cf_PathPrefix (it_cfg inst))) u req inn (clock \<omega> (tick v))) f \<omega> (v\<lparr>tick := Suc (tick v)\<rparr>)
       = (Inr (form, r), v')" and "leavesPending (v\<lparr>tick := Suc (tick v)\<rparr>) v'"
    then have v': "w_interactions v' = w_interactions w" by (simp add: leavesPending_def v)
    have "replayed P inst \<omega> req inn u url"
      if "r = Inr response" "map_of (pv_WriteAuthorizeResponse P (grantAll P ar)
           (pv_AddParameter P ''iss'' (providerIssuer (appURL \<omega>) (cf_PathPrefix (it_cfg inst))) response)) ''Location'' = Some url"
      for response url unfolding replayed_def Let_def using q s that \<open>err = None\<close> by blast
    then show "wp (case r of
          Inl e \<Rightarrow> writeInteractionError inst hs form (in_RedirectURI inn) e
        | Inr response \<Rightarrow> returnG (redirectAnswer hs (pv_WriteAuthorizeResponse P (grantAll P ar)
            (pv_AddParameter P ''iss'' (providerIssuer (appURL \<omega>) (cf_PathPrefix (it_cfg inst))) response))))
        ?Q (\<lambda>_ _. False) \<omega> v'"
      using v' by (cases r) (auto simp: wp_returnG intro!: failed answers_mono [OF wp_redirectAnswer])
  qed
  then show "wp (case err of
      Some e \<Rightarrow> writeInteractionError inst hs f (in_RedirectURI inn) e
    | None \<Rightarrow> answerRequest P inst hs req inn u (grantAll P ar) f) ?Q (\<lambda>_ _. False) \<omega> v"
    by (cases err) (auto simp: failed v)
qed

text \<open>The scopes are covered by what the user consented to now and by the consent on record.\<close>

definition consented :: "'w app_world_scheme \<Rightarrow> string \<Rightarrow> login_complete_request \<Rightarrow> interaction \<Rightarrow> auth_record \<Rightarrow> bool" where
  "consented w p req inn u \<longleftrightarrow> set (in_RequestedScopes inn) \<subseteq> set (lq_ConsentedScopes req)
     \<union> set (oldScopes (consentRows w p (au_Id u) (co_Name (au_Collection u)) (in_ClientID inn)))"

definition authorizedBy ::
  "('o, 'w) op_provider \<Rightarrow> op_instance \<Rightarrow> 'o login_envir_scheme \<Rightarrow> 'w app_world_scheme \<Rightarrow> login_complete_request \<Rightarrow>
     interaction \<Rightarrow> string \<Rightarrow> bool" where
  "authorizedBy P inst \<omega> w req inn url \<longleftrightarrow> lq_Decision req = ''approve'' \<and> lq_PBToken req \<noteq> []
     \<and> (\<exists>u n. findAuthByToken \<omega> n (lq_PBToken req) = Inr u \<and> co_Name (au_Collection u) = in_UserCollection inn
          \<and> consented w (cf_PathPrefix (it_cfg inst)) req inn u \<and> replayed P inst \<omega> req inn u url)"

lemma sameInteractions_rel: "preorderR (\<lambda>w w' :: 'w world_scheme. w_interactions w' = w_interactions w)"
  "tickfree (\<lambda>w w' :: 'w world_scheme. w_interactions w' = w_interactions w)"
  by (simp_all add: preorderR_def tickfree_def)

lemma keeps_UpsertConsentAt: "keeps (\<lambda>w w'. w_interactions w' = w_interactions w) (UpsertConsentAt p u uc cl ss)"
  unfolding UpsertConsentAt_def FindConsentAt_def findConsentById_def updateConsent_def insertConsent_def findCollection_def Let_def
  by (intro keeps_intros keeps_modifyG sameInteractions_rel) simp_all

text \<open>A step that a caller only logs when it fails.\<close>

lemma wp_ignored: "keeps R m \<Longrightarrow> (\<And>a v. R w v \<Longrightarrow> Q a v) \<Longrightarrow> wp (attemptG m) Q E \<omega> w"
  unfolding wp_attemptG by (rule wp_mono, erule keeps_wp) auto

lemma wp_priorConsent:
  assumes "\<And>r n. (\<And>c. r = Inr (Some c) \<Longrightarrow> cn_GrantedScopes c = oldScopes (consentRows w p u uc cl)) \<Longrightarrow> Q r (w\<lparr>tick := n\<rparr>)"
  shows "wp (attemptG (FindConsentAt p u uc cl)) Q E \<omega> w"
  unfolding wp_attemptG
  by (auto simp: wp_FindConsentAt Let_def oldScopes_def toConsent_def intro!: assms split: list.splits)

lemma wp_consentAndReplay:
  fixes \<omega> :: "'o login_envir_scheme" and w :: "'w app_world_scheme"
  assumes P: "providerLaws P"
  shows "wp (consentAndReplay P inst hs req inn u)
    (\<lambda>resp w'. answers (\<lambda>url. errorRedirect \<omega> inst (in_RedirectURI inn) url
         \<or> consented w (cf_PathPrefix (it_cfg inst)) req inn u \<and> replayed P inst \<omega> req inn u url) resp
       \<and> w_interactions w' = w_interactions w) (\<lambda>_ _. False) \<omega> w"
    (is "wp _ ?Q _ _ _")
proof -
  let ?old = "consentRows w (cf_PathPrefix (it_cfg inst)) (au_Id u) (co_Name (au_Collection u)) (in_ClientID inn)"
  let ?given = "\<lambda>r. case r of
      Inr (Some prior) \<Rightarrow> mergeScopes (cn_GrantedScopes prior) (lq_ConsentedScopes req)
    | _ \<Rightarrow> lq_ConsentedScopes req"
  let ?rest = "\<lambda>r. if \<not> ConsentCovers (?given r) (in_RequestedScopes inn)
      then writeInteractionError inst hs (in_RequestForm inn) (in_RedirectURI inn) (plainErr ErrConsentRequired)
      else bindG (attemptG (UpsertConsentAt (cf_PathPrefix (it_cfg inst)) (au_Id u) (co_Name (au_Collection u)) (in_ClientID inn) (?given r)))
        (\<lambda>_. replayRequest P inst hs req inn u)"
  have replay: "wp (replayRequest P inst hs req inn u) ?Q (\<lambda>_ _. False) \<omega> v"
    if "consented w (cf_PathPrefix (it_cfg inst)) req inn u" "w_interactions v = w_interactions w" for v
    by (rule wp_mono [OF wp_replayRequest [OF P]]) (use that in \<open>auto elim: answers_mono\<close>)
  have rest: "wp (?rest r) ?Q (\<lambda>_ _. False) \<omega> v"
    if "set (?given r) \<subseteq> set (lq_ConsentedScopes req) \<union> set (oldScopes ?old)" "w_interactions v = w_interactions w"
    for r and v :: "'w app_world_scheme"
  proof (cases "ConsentCovers (?given r) (in_RequestedScopes inn)")
    case True
    with that(1) have "consented w (cf_PathPrefix (it_cfg inst)) req inn u" by (auto simp: consented_def ConsentCovers_iff)
    then have "wp (attemptG (UpsertConsentAt (cf_PathPrefix (it_cfg inst)) (au_Id u) (co_Name (au_Collection u)) (in_ClientID inn) (?given r)))
       (\<lambda>_. wp (replayRequest P inst hs req inn u) ?Q (\<lambda>_ _. False) \<omega>) (\<lambda>_ _. False) \<omega> v"
      by (intro wp_ignored [OF keeps_UpsertConsentAt] replay) (simp_all add: that(2))
    with True show ?thesis by (simp only: not_True_eq_False if_False wp_bindG)
  next
    case False
    then show ?thesis using that(2) by (auto intro!: wp_interactionError elim: answers_mono)
  qed
  have sums: "set (mergeScopes (oldScopes ?old) ss) \<subseteq> set ss \<union> set (oldScopes ?old)" for ss
    using mergeInto_spec [of "oldScopes ?old" ss] by (auto simp: mergeScopes_def)
  show ?thesis unfolding consentAndReplay_def Let_def wp_bindG [of "attemptG (FindConsentAt _ _ _ _)"]
    by (rule wp_priorConsent, rule rest) (use sums in \<open>auto split: sum.split option.split\<close>)
qed

lemma consented_tick [simp]: "consented (w\<lparr>tick := n\<rparr>) p req inn u = consented w p req inn u"
  by (simp add: consented_def)

lemma authorizedByI:
  "lq_Decision req = ''approve'' \<Longrightarrow> lq_PBToken req \<noteq> [] \<Longrightarrow> findAuthByToken \<omega> n (lq_PBToken req) = Inr u \<Longrightarrow>
    co_Name (au_Collection u) = in_UserCollection inn \<Longrightarrow> consented w (cf_PathPrefix (it_cfg inst)) req inn u \<Longrightarrow>
    replayed P inst \<omega> req inn u url \<Longrightarrow> authorizedBy P inst \<omega> w req inn url"
  unfolding authorizedBy_def by blast

lemma wp_decide:
  fixes \<omega> :: "'o login_envir_scheme" and w :: "'w app_world_scheme"
  assumes P: "providerLaws P"
  shows "wp (decide P inst hs req inn)
    (\<lambda>resp w'. answers (\<lambda>url. errorRedirect \<omega> inst (in_RedirectURI inn) url \<or> authorizedBy P inst \<omega> w req inn url) resp
       \<and> w_interactions w' = w_interactions w) (\<lambda>_ _. False) \<omega> w"
    (is "wp _ ?Q _ _ _")
proof -
  have refuse: "wp (writeInteractionError inst hs form (in_RedirectURI inn) e) ?Q E \<omega> v"
    if "w_interactions v = w_interactions w" for form e v and E :: "goerr \<Rightarrow> 'w app_world_scheme \<Rightarrow> bool"
    by (rule wp_interactionError) (auto simp: that elim: answers_mono)
  have other: "wp (returnG (apiError s hs msg)) ?Q E \<omega> v" if "w_interactions v = w_interactions w"
    for s msg v and E :: "goerr \<Rightarrow> 'w app_world_scheme \<Rightarrow> bool"
    using that by (simp add: wp_returnG)
  have accept: "wp (consentAndReplay P inst hs req inn u) ?Q (\<lambda>_ _. False) \<omega> (w\<lparr>tick := n\<rparr>)"
    if "lq_Decision req = ''approve''" "lq_PBToken req \<noteq> []" "findAuthByToken \<omega> k (lq_PBToken req) = Inr u"
      "co_Name (au_Collection u) = in_UserCollection inn" for u n k
    by (rule wp_mono [OF wp_consentAndReplay [OF P]])
      (use that in \<open>auto intro: authorizedByI elim!: answers_mono\<close>)
  show ?thesis
    unfolding decide_def Let_def
    by (auto simp: wp_bindG wp_attemptG wp_FindAuthRecordByToken intro!: refuse other accept split: sum.split)
qed

text \<open>The rows that a completion of \<open>i\<close> leaves.\<close>

lemma removeClaimed_rows [simp]: "w_interactions (removeClaimed p i w) =
    filter (\<lambda>r. \<not> (ir_id r = i \<and> providerPrefixExp w p (ir_provider_prefix r))) (w_interactions w)"
  by (simp add: removeClaimed_def)

lemma consented_removeClaimed [simp]: "consented (removeClaimed p i w) q req inn u = consented w q req inn u"
  by (simp add: consented_def consentRows_def removeClaimed_def)

lemma authorizedBy_removeClaimed [simp]:
  "authorizedBy P inst \<omega> (removeClaimed p i (w\<lparr>tick := n\<rparr>)) req inn url = authorizedBy P inst \<omega> w req inn url"
  by (simp add: authorizedBy_def)

lemma wp_consumed:
  assumes "canonicalPrefix p"
    and "\<And>row n. pendingRow w p i = Some row \<Longrightarrow> Q (toInteraction p row) (removeClaimed p i (w\<lparr>tick := n\<rparr>))"
    and "\<And>e v. E e v"
  shows "wp (ConsumeInteractionAt p i) Q E \<omega> w"
  using assms(2,3) unfolding ConsumeInteractionAt_def wp_bindG
  by (auto simp: wp_FindInteractionAt wp_claimInteraction [OF assms(1)] Let_def split: option.split)

text \<open>C31: completing an interaction redirects the browser only after the pending row of the provider has been claimed, and
  only to one of two places: to the redirect URI stored with the interaction, with an error; or to where fosite
  redirects the replay of the stored form, and then the request says so, its token is that of a user of the
  collection the interaction was created for, every requested scope is covered by the consent given now and the
  consent on record, and the session carries that user. The call leaves every other interaction as it was.\<close>

theorem completion_needs_consent:
  assumes P: "providerLaws P" and p: "canonicalPrefix (cf_PathPrefix (it_cfg inst))"
    and run: "api_OAuth2LoginComplete P inst m body (\<omega> :: login_envir) (w :: app_world) = (r, w')"
    and redirected: "r = Inr resp" "rs_Body resp = Payload (LoginRedirect url)"
  shows "\<exists>req row. m = ''POST'' \<and> decodeLoginComplete \<omega> body = Inr req
    \<and> pendingRow w (cf_PathPrefix (it_cfg inst)) (lq_InteractionID req) = Some row
    \<and> w_interactions w' = filter (\<lambda>x. \<not> (ir_id x = lq_InteractionID req
         \<and> providerPrefixExp w (cf_PathPrefix (it_cfg inst)) (ir_provider_prefix x))) (w_interactions w)
    \<and> (errorRedirect \<omega> inst (ir_redirect_uri row) url
       \<or> authorizedBy P inst \<omega> w req (toInteraction (cf_PathPrefix (it_cfg inst)) row) url)"
proof -
  let ?p = "cf_PathPrefix (it_cfg inst)"
  define R where "R req row w' url \<longleftrightarrow> pendingRow w ?p (lq_InteractionID req) = Some row
    \<and> w_interactions w' = w_interactions (removeClaimed ?p (lq_InteractionID req) w)
    \<and> (errorRedirect \<omega> inst (ir_redirect_uri row) url \<or> authorizedBy P inst \<omega> w req (toInteraction ?p row) url)"
    for req row url and w' :: app_world
  have found: "in_RedirectURI (toInteraction ?p row) = ir_redirect_uri row" for row by (simp add: toInteraction_def)
  have body: "wp (decide P inst hs req (toInteraction ?p row)) (\<lambda>resp w'. answers (R req row w') resp) (\<lambda>_ _. True) \<omega>
      (removeClaimed ?p (lq_InteractionID req) (w\<lparr>tick := n\<rparr>))"
    if "pendingRow w ?p (lq_InteractionID req) = Some row" for hs req row n
    by (rule wp_mono [OF wp_decide [OF P]]) (use that in \<open>auto simp: R_def found answers_def\<close>)
  have "wp (api_OAuth2LoginComplete P inst m body)
     (\<lambda>resp w'. answers (\<lambda>url. \<exists>req row. m = ''POST'' \<and> decodeLoginComplete \<omega> body = Inr req \<and> R req row w' url) resp)
     (\<lambda>_ _. True) \<omega> w"
    by (auto simp: api_OAuth2LoginComplete_def wp_simps wp_returnG Let_def intro!: wp_consumed [OF p] wp_mono [OF body]
        elim!: answers_mono split: sum.split)
  from wp_outcome [OF this run] redirected have "\<exists>req row. m = ''POST'' \<and> decodeLoginComplete \<omega> body = Inr req \<and> R req row w' url"
    by (simp add: answers_def)
  then show ?thesis by (auto simp: R_def)
qed

subsection \<open>One completion\<close>

definition sameRegistered :: "'w world_scheme \<Rightarrow> 'w world_scheme \<Rightarrow> bool" where
  "sameRegistered w w' \<longleftrightarrow> w_registered w' = w_registered w"

lemma sameRegistered_rel: "preorderR sameRegistered" "tickfree sameRegistered"
  by (simp_all add: preorderR_def tickfree_def sameRegistered_def)

lemma keeps_registered_provider:
  assumes "providerLaws P"
  shows "keeps sameRegistered (pv_NewAuthorizeRequest P form)" "keeps sameRegistered (pv_NewAuthorizeResponse P ar s form)"
  using assms unfolding providerLaws_def keeps_def leavesPending_def sameRegistered_def by blast+

lemma keeps_registered_store:
  "keeps sameRegistered (FindConsentAt p u uc cl)" "keeps sameRegistered (UpsertConsentAt p u uc cl ss)"
  "keeps sameRegistered (ConsumeInteractionAt p i)" "keeps sameRegistered (FindAuthRecordByToken t)"
proof -
  have find: "keeps sameRegistered (FindConsentAt p u uc cl)" for p
    unfolding FindConsentAt_def findCollection_def Let_def by (intro keeps_intros sameRegistered_rel)
  then show "keeps sameRegistered (FindConsentAt p u uc cl)" .
  show "keeps sameRegistered (UpsertConsentAt p u uc cl ss)"
    unfolding UpsertConsentAt_def findConsentById_def updateConsent_def insertConsent_def findCollection_def Let_def
    by (intro keeps_intros find keeps_modifyG sameRegistered_rel) (simp_all add: sameRegistered_def)
  show "keeps sameRegistered (ConsumeInteractionAt p i)"
    unfolding ConsumeInteractionAt_def FindInteractionAt_def claimInteraction_def execClaim_def queryInteractions_def
      findCollection_def Let_def
    by (intro keeps_intros keeps_modifyG sameRegistered_rel) (simp_all add: sameRegistered_def)
  show "keeps sameRegistered (FindAuthRecordByToken t)"
    unfolding FindAuthRecordByToken_def askTick_def liftSum_def by (intro keeps_intros sameRegistered_rel)
qed

lemma keeps_registered_complete:
  assumes "providerLaws P"
  shows "keeps sameRegistered (api_OAuth2LoginComplete P inst m body)"
proof -
  note rules = keeps_intros sameRegistered_rel keeps_registered_provider [OF assms] keeps_registered_store
  have refuse: "keeps sameRegistered (writeInteractionError inst hs form u e)" for hs form u e
    unfolding writeInteractionError_def Let_def by (intro rules)
  have replay: "keeps sameRegistered (replayRequest P inst hs req inn u)" for hs req inn u
    unfolding replayRequest_def answerRequest_def by (intro rules refuse)
  have "keeps sameRegistered (consentAndReplay P inst hs req inn u)" for hs req inn u
    unfolding consentAndReplay_def Let_def by (intro rules refuse replay)
  then have "keeps sameRegistered (decide P inst hs req inn)" for hs req inn
    unfolding decide_def Let_def by (intro rules refuse)
  then show ?thesis
    unfolding api_OAuth2LoginComplete_def orElse_def liftSum_def Let_def by (intro rules)
qed

lemma wp_notFound:
  assumes "\<forall>x \<in> set (w_interactions w). ir_id x = i \<longrightarrow> \<not> providerPrefixExp w p (ir_provider_prefix x)"
    and "\<And>e v. E e v"
  shows "wp (ConsumeInteractionAt p i) Q E \<omega> w"
proof -
  have "pendingRow w p i = None" using assms(1) by (auto simp: pendingRow_None)
  with assms(2) show ?thesis unfolding ConsumeInteractionAt_def wp_bindG by (simp add: wp_FindInteractionAt Let_def)
qed


subsection \<open>Every request is answered\<close>

lemma wp_total: "wp m (\<lambda>_ _. True) (\<lambda>_ _. False) \<omega> w \<Longrightarrow> \<exists>a w'. m \<omega> w = (Inr a, w')"
  by (auto simp: wp_def split: prod.splits sum.splits)


subsection \<open>Error redirects of the authorization endpoint\<close>

lemma fold_add_first:
  "map_of ps k = Some (v # vs) \<Longrightarrow> \<exists>us. map_of (fold (\<lambda>v ps. valuesAdd ps k' v) ws ps) k = Some (v # us)"
proof (induction ws arbitrary: ps vs)
  case (Cons x ws)
  have "\<exists>vs'. map_of (valuesAdd ps k' x) k = Some (v # vs')"
    using Cons.prems by (induction ps k' x rule: valuesAdd.induct) (auto split: if_splits)
  with Cons.IH show ?case by auto
qed simp

lemma addValues_first: "map_of ps k = Some (v # vs) \<Longrightarrow> valuesGet (addValues ps f) k = v"
proof -
  have "\<exists>us. map_of (addValues ps f) k = Some (v # us)" if "map_of ps k = Some (v # vs)" for vs
    using that unfolding addValues_def
  proof (induction f arbitrary: ps vs)
    case (Cons p f)
    obtain k' ws where "p = (k', ws)" by force
    with Cons.IH fold_add_first [OF Cons.prems, of k' ws] show ?case by auto
  qed simp
  then show "map_of ps k = Some (v # vs) \<Longrightarrow> valuesGet (addValues ps f) k = v" unfolding valuesGet_def by fastforce
qed

definition valuesFull :: "url_values \<Rightarrow> bool" where
  "valuesFull f \<longleftrightarrow> valuesOk f \<and> list_all (\<lambda>p. snd p \<noteq> []) f"

lemma nonempty_valuesAdd: "list_all (\<lambda>p. snd p \<noteq> []) f \<Longrightarrow> list_all (\<lambda>p. snd p \<noteq> []) (valuesAdd f k v)"
  by (induction f k v rule: valuesAdd.induct) auto

lemma nonempty_valuesSet: "list_all (\<lambda>p. snd p \<noteq> []) f \<Longrightarrow> list_all (\<lambda>p. snd p \<noteq> []) (valuesSet f k v)"
  by (induction f k v rule: valuesSet.induct) auto

lemma valuesFull_ops: "valuesFull f \<Longrightarrow> valuesFull (valuesSet f k v)" "valuesFull f \<Longrightarrow> valuesFull (valuesAdd f k v)"
  by (simp_all add: valuesFull_def valuesOk_ops nonempty_valuesSet nonempty_valuesAdd)

lemma valuesFull_fold: "valuesFull f \<Longrightarrow> valuesFull (fold (\<lambda>v ps. valuesAdd ps k v) ws f)"
  by (induction ws arbitrary: f) (simp_all add: valuesFull_ops)

lemma valuesFull_addValues: "valuesFull f \<Longrightarrow> valuesFull (addValues f g)"
  unfolding addValues_def by (induction g arbitrary: f) (auto simp: valuesFull_fold)

text \<open>What a query that was encoded from a form answers.\<close>

lemma queryValues_encoded:
  assumes "valuesFull f"
  shows "valuesGet (queryValues (valuesEncode f)) k = valuesGet f k"
proof -
  have "parseQuery (valuesEncode f) = Some (sort_key fst f)"
    using assms by (intro parseQuery_valuesEncode) (auto simp: valuesFull_def list_all_iff)
  then have "queryValues (valuesEncode f) = sort_key fst f"
    by (simp add: parseQuery_def queryValues_def Let_def split: if_splits)
  then show ?thesis using assms by (simp add: valuesGet_def valuesFull_def valuesOk_def map_of_sort_key)
qed

text \<open>C33: an error that the authorization endpoint redirects in query mode tells the client the issuer and its own state:
  parsing the query of the redirect URL gives both back, whatever the registered URI already had in its query, and
  every parameter of the error with its first value. The URL has no fragment, and nothing is stored.\<close>

theorem error_redirect_names_issuer:
  assumes "ar_RedirectURIValid ar" "ar_ResponseMode ar \<notin> {ResponseModeFormPost, ResponseModeFragment}"
    and "valuesFull (rf_Values (rfcError \<omega> e (errorFlags (it_cfg inst))))"
  shows "\<exists>u. writeAuthorizeErrorWithIss P inst ar e (\<omega> :: login_envir) (w :: app_world)
      = (Inr (noContent 303 [(''Cache-Control'', ''no-store''), (''Pragma'', ''no-cache''), (''Location'', urlString u)]), w)
    \<and> u_Fragment u = [] \<and> u_Host u = u_Host (ar_RedirectURI ar) \<and> u_Path u = u_Path (ar_RedirectURI ar)
    \<and> valuesGet (urlQuery u) ''iss'' = providerIssuer (appURL \<omega>) (cf_PathPrefix (it_cfg inst))
    \<and> valuesGet (urlQuery u) ''state'' = ar_State ar
    \<and> (\<forall>k v vs. k \<notin> {''iss'', ''state''} \<longrightarrow> map_of (rf_Values (rfcError \<omega> e (errorFlags (it_cfg inst)))) k = Some (v # vs)
         \<longrightarrow> valuesGet (urlQuery u) k = v)"
proof -
  let ?vals = "rf_Values (rfcError \<omega> e (errorFlags (it_cfg inst)))" and ?iss = "providerIssuer (appURL \<omega>) (cf_PathPrefix (it_cfg inst))"
  define params where "params = valuesSet (valuesSet ?vals ''state'' (ar_State ar)) ''iss'' ?iss"
  define own where "own = urlQuery ((ar_RedirectURI ar)\<lparr>u_Fragment := []\<rparr>)"
  define u where "u = queryRedirect ((ar_RedirectURI ar)\<lparr>u_Fragment := []\<rparr>) params"
  have "valuesFull (addValues params own)" using assms(3) by (simp add: params_def valuesFull_ops valuesFull_addValues)
  moreover have "u_RawQuery u = valuesEncode (addValues params own)" by (simp add: u_def own_def queryRedirect_def)
  ultimately have get: "valuesGet (urlQuery u) k = valuesGet (addValues params own) k" for k
    by (simp add: urlQuery_def queryValues_encoded)
  have vals: "map_of params ''iss'' = Some [?iss]" "map_of params ''state'' = Some [ar_State ar]"
    "k \<notin> {''iss'', ''state''} \<Longrightarrow> map_of params k = map_of ?vals k" for k
    by (simp_all add: params_def map_of_valuesSet)
  have "writeAuthorizeErrorWithIss P inst ar e \<omega> w
      = (Inr (noContent 303 [(''Cache-Control'', ''no-store''), (''Pragma'', ''no-cache''), (''Location'', urlString u)]), w)"
    using assms(1,2) by (simp add: writeAuthorizeErrorWithIss_def bindG_run basic_run Let_def u_def params_def)
  moreover have "u_Fragment u = []" "u_Host u = u_Host (ar_RedirectURI ar)" "u_Path u = u_Path (ar_RedirectURI ar)"
    by (simp_all add: u_def queryRedirect_def)
  moreover have "valuesGet (urlQuery u) ''iss'' = ?iss" "valuesGet (urlQuery u) ''state'' = ar_State ar"
    unfolding get by (rule addValues_first [OF vals(1)], rule addValues_first [OF vals(2)])
  moreover have "\<forall>k v vs. k \<notin> {''iss'', ''state''} \<longrightarrow> map_of ?vals k = Some (v # vs) \<longrightarrow> valuesGet (urlQuery u) k = v"
    unfolding get
  proof (intro allI impI)
    fix k v vs
    assume "k \<notin> {''iss'', ''state''}" "map_of ?vals k = Some (v # vs)"
    then have "map_of params k = Some (v # vs)" by (simp only: vals(3) not_False_eq_True)
    then show "valuesGet (addValues params own) k = v" by (rule addValues_first)
  qed
  ultimately show ?thesis by (intro exI [of _ u] conjI)
qed

subsection \<open>What the model shows besides\<close>

text \<open>The time of a request, and with it its expiry, is whatever the form says.\<close>

lemma rat_controls_expiry:
  assumes "parseInt64 (valuesGet (rq_Form ar) ''rat'') = Some n" "n * 1000000 \<noteq> zeroTime"
  shows "in_ExpiresAt (storedInteraction p i (newInteraction cfg ar redirect)) = fromUnix (n + 600)"
proof -
  have "parseInt64 [] = None" by (simp add: parseInt64_def Let_def)
  then have "valuesGet (rq_Form ar) ''rat'' \<noteq> []" using assms(1) by auto
  with assms(1) have "in_RequestedAt (newInteraction cfg ar redirect) = n * 1000000"
    "in_ExpiresAt (newInteraction cfg ar redirect) = zeroTime"
    by (simp_all add: newInteraction_def ratTime_def Let_def)
  moreover have "unixSec (n * 1000000 + interactionLifespan) = n + 600" by (simp add: unixSec_def interactionLifespan_def)
  ultimately show ?thesis by (simp add: storedInteraction_def)
qed

text \<open>In fragment mode the parameters of an error are lost: every error is redirected to the same bare URL.\<close>

lemma fragment_errors_lost: "urlString (interactionErrorURL u ''fragment'' params) = urlString (u\<lparr>u_Fragment := []\<rparr>)"
  by (simp add: interactionErrorURL_def urlString_def Let_def escapedPath_def authorityString_def)

text \<open>A decision other than the two is refused after the interaction has been consumed.\<close>

lemma other_decision_consumes:
  assumes "lq_Decision req \<notin> {''approve'', ''deny''}"
  shows "\<exists>msg. decide P inst hs req inn \<omega> w = (Inr (apiError 400 hs msg), w)"
  using assms by (intro exI) (simp add: decide_def Let_def basic_run)

subsection \<open>The concrete login\<close>

definition demoAuthorize :: "url_values \<Rightarrow> authorize_request" where
  "demoAuthorize form = requester.extend ((demoRequest ''q'')\<lparr>rq_Form := form\<rparr>)
     (authorize_request.fields True (valuesGet form ''state'') (emptyUrl\<lparr>u_Scheme := ''https'', u_Host := ''app'', u_Path := ''/cb''\<rparr>)
        True ResponseModeDefault)"

definition demoProvider :: "(unit, unit) op_provider" where
  "demoProvider = \<lparr>pv_NewAuthorizeRequest = (\<lambda>form. returnG (demoAuthorize form, form, None)),
     pv_GrantScope = (\<lambda>s ar. ar\<lparr>rq_GrantedScopes := List.insert s (rq_GrantedScopes ar)\<rparr>),
     pv_GrantAudience = (\<lambda>s ar. ar\<lparr>rq_GrantedAudience := List.insert s (rq_GrantedAudience ar)\<rparr>),
     pv_NewAuthorizeResponse = (\<lambda>ar s form. returnG (form, Inr \<lparr>rp_Header = [], rp_Parameters = [(''code'', [''c''])]\<rparr>)),
     pv_AddParameter = (\<lambda>k v r. r\<lparr>rp_Parameters := valuesAdd (rp_Parameters r) k v\<rparr>),
     pv_WriteAuthorizeResponse = (\<lambda>ar r. [(''Location'', ''https://app/cb'')]),
     pv_FormPost = (\<lambda>u params. u)\<rparr>"

text \<open>The body of a POST is taken for its decision.\<close>

definition demoLoginEnv :: login_envir where
  "demoLoginEnv = http_envir.extend demoHttpEnv (login_envir.fields
     (\<lambda>e flags. \<lparr>rf_Code = 400, rf_Values = [(''error'', [''access_denied''])], rf_JSON = Some ''{}''\<rparr>)
     (\<lambda>body. Inr \<lparr>lq_InteractionID = ''i1'', lq_PBToken = ''h.p.t1'', lq_PBTokenIAT = 0, lq_Decision = body,
        lq_ConsentedScopes = [''openid'']\<rparr>))"

definition loginPendingRow :: interaction_row where
  "loginPendingRow = \<lparr>ir_id = ''i1'', ir_provider_prefix = DefaultPathPrefix, ir_client_id = ''app'', ir_client_name = ''App'',
     ir_user_collection = ''users'', ir_redirect_uri = ''https://app/cb'', ir_request_form = [(''rat'', [''1'']), (''state'', [''s''])],
     ir_requested_scopes = [''openid''], ir_requested_acr_values = [], ir_requested_at = 1, ir_expires_at = 1800000000, ir_prompt = []\<rparr>"

definition loginPending :: app_world where
  "loginPending = hosting (demoWorld\<lparr>w_interactions := [loginPendingRow]\<rparr>)"

lemma demo_providerLaws: "providerLaws demoProvider"
  by (simp add: providerLaws_def demoProvider_def keeps_def basic_run)

lemmas login_run_defs = api_OAuth2LoginComplete_def orElse_def decide_def consentAndReplay_def replayRequest_def answerRequest_def
  redirectAnswer_def ConsumeInteractionAt_def FindInteractionAt_def claimInteraction_def execClaim_def claimed_def
  queryInteractions_def FindConsentAt_def UpsertConsentAt_def insertConsent_def consentFor_def mergeScopes_def
  toInteraction_def access_defs demo_defs op_defs

lemmas login_world_defs = loginPending_def loginPendingRow_def hosting_def world.defs app_world.defs demoHosted_def demoInstance_def
  demoConfig_def

lemma demo_pendingRow: "pendingRow loginPending DefaultPathPrefix ''i1'' = Some loginPendingRow"
  by (simp add: pendingRow_def login_world_defs providerPrefixExp_def providerPrefixExpWithLegacy_def)

lemmas login_env_defs = demoLoginEnv_def demoHttpEnv_def demoAppEnv_def app_envir.defs http_envir.defs login_envir.defs
  demoUser_def demoCollection_def demoProvider_def demoAuthorize_def

abbreviation "demoAnswer \<equiv> answer 200 (jsonHeaders (setLoginCORS [])) (LoginRedirect ''https://app/cb'')"

lemma demo_complete: "\<exists>w'. api_OAuth2LoginComplete demoProvider demoHosted ''POST'' ''approve'' demoLoginEnv loginPending
     = (Inr demoAnswer, w')"
  by (simp add: login_run_defs login_world_defs run_simps login_env_defs cong: run_congs)

lemma demo_hosted [simp]: "cf_PathPrefix (it_cfg demoHosted) = DefaultPathPrefix"
  by (simp add: demoHosted_def demoInstance_def demoConfig_def)

lemma demo_decode [simp]: "decodeLoginComplete demoLoginEnv body = Inr \<lparr>lq_InteractionID = ''i1'', lq_PBToken = ''h.p.t1'',
    lq_PBTokenIAT = 0, lq_Decision = body, lq_ConsentedScopes = [''openid'']\<rparr>"
  by (simp add: demoLoginEnv_def login_envir.defs http_envir.defs)

theorem authorize_stores_no_token_witness:
  "\<exists>r w'. api_OAuth2Authorize demoProvider demoHosted [(''pb_token'', [''secret'']), (''state'', [''s''])] demoLoginEnv (hosting demoWorld) = (r, w')
     \<and> storesRequest demoProvider demoHosted [(''pb_token'', [''secret'']), (''state'', [''s''])] demoLoginEnv (hosting demoWorld) r w'"
proof -
  let ?form = "[(''pb_token'', [''secret'']), (''state'', [''s''])]"
  obtain r w' where run: "api_OAuth2Authorize demoProvider demoHosted ?form demoLoginEnv (hosting demoWorld) = (r, w')" by force
  have "length (w_interactions (snd (api_OAuth2Authorize demoProvider demoHosted ?form demoLoginEnv (hosting demoWorld)))) = 1"
    by (simp add: api_OAuth2Authorize_def storeRequest_def CreateInteractionAt_def insertInteraction_def newInteraction_def
        valuesGet_def demoRequest_def demoClient_def requester.defs authorize_request.defs zeroTime_def ratTime_def
        login_run_defs login_world_defs run_simps login_env_defs cong: run_congs)
  then have "w_interactions w' \<noteq> w_interactions (hosting demoWorld)"
    using run by (auto simp: login_world_defs demo_defs)
  with authorize_stores_no_token [OF demo_providerLaws _ run] run show ?thesis by auto
qed

theorem completion_needs_consent_witness:
  "\<exists>w'. api_OAuth2LoginComplete demoProvider demoHosted ''POST'' ''approve'' demoLoginEnv loginPending = (Inr demoAnswer, w')
     \<and> w_interactions w' = []
     \<and> (errorRedirect demoLoginEnv demoHosted ''https://app/cb'' ''https://app/cb'' \<or>
         (\<exists>req. authorizedBy demoProvider demoHosted demoLoginEnv loginPending req (toInteraction DefaultPathPrefix loginPendingRow) ''https://app/cb''))"
proof -
  obtain w' where run: "api_OAuth2LoginComplete demoProvider demoHosted ''POST'' ''approve'' demoLoginEnv loginPending = (Inr demoAnswer, w')"
    using demo_complete by blast
  have rows: "filter (\<lambda>x. \<not> (ir_id x = ''i1'' \<and> providerPrefixExp loginPending DefaultPathPrefix (ir_provider_prefix x)))
      (w_interactions loginPending) = []"
    by (simp add: login_world_defs demo_defs providerPrefixExp_def providerPrefixExpWithLegacy_def)
  from completion_needs_consent [OF demo_providerLaws _ run refl] demo_pendingRow run rows show ?thesis
    by (auto simp: loginPendingRow_def)
qed



theorem error_redirect_names_issuer_witness:
  "\<exists>u. writeAuthorizeErrorWithIss demoProvider demoHosted (demoAuthorize [(''state'', [''s''])]) (plainErr ErrAccessDenied) demoLoginEnv loginPending
      = (Inr (noContent 303 [(''Cache-Control'', ''no-store''), (''Pragma'', ''no-cache''), (''Location'', urlString u)]), loginPending)
    \<and> valuesGet (urlQuery u) ''iss'' = ''https://auth.example'' \<and> valuesGet (urlQuery u) ''state'' = ''s''
    \<and> valuesGet (urlQuery u) ''error'' = ''access_denied''"
proof -
  let ?ar = "demoAuthorize [(''state'', [''s''])]"
  have env: "rf_Values (rfcError demoLoginEnv e f) = [(''error'', [''access_denied''])]" for e f
    by (simp add: demoLoginEnv_def login_envir.defs http_envir.defs)
  have ar: "ar_RedirectURIValid ?ar" "ar_ResponseMode ?ar = ResponseModeDefault" "ar_State ?ar = ''s''"
    by (simp_all add: demoAuthorize_def authorize_request.defs requester.defs valuesGet_def)
  have iss: "providerIssuer (appURL demoLoginEnv) DefaultPathPrefix = ''https://auth.example''"
    by (simp add: login_env_defs providerIssuer_canonical trimRight_def)
  have full: "valuesFull (rf_Values (rfcError demoLoginEnv (plainErr ErrAccessDenied) (errorFlags (it_cfg demoHosted))))"
    by (simp add: env valuesFull_def valuesOk_def)
  have "ar_ResponseMode ?ar \<notin> {ResponseModeFormPost, ResponseModeFragment}" by (simp add: ar)
  note law = error_redirect_names_issuer [OF ar(1) this full, where P = demoProvider and w = loginPending, unfolded ar env demo_hosted iss]
  from law obtain u where u:
    "writeAuthorizeErrorWithIss demoProvider demoHosted ?ar (plainErr ErrAccessDenied) demoLoginEnv loginPending
      = (Inr (noContent 303 [(''Cache-Control'', ''no-store''), (''Pragma'', ''no-cache''), (''Location'', urlString u)]), loginPending)"
    "valuesGet (urlQuery u) ''iss'' = ''https://auth.example''" "valuesGet (urlQuery u) ''state'' = ''s''"
    "\<forall>k v vs. k \<notin> {''iss'', ''state''} \<longrightarrow> map_of [(''error'', [''access_denied''])] k = Some (v # vs) \<longrightarrow> valuesGet (urlQuery u) k = v"
    by blast
  have "valuesGet (urlQuery u) ''error'' = ''access_denied''"
    by (rule u(4) [rule_format, where vs = "[]"]) simp_all
  with u(1-3) show ?thesis by (intro exI conjI)
qed

end
