(* ===== verification/Endpoints.thy ===== *)
theory Endpoints
  imports Login
begin

section \<open>The token endpoints (oauth2_token.go, oauth2_introspect.go, oauth2_revoke.go)\<close>

text \<open>
  The three endpoints that only drive fosite: they call its methods in order, hand an error to its error writer, and
  otherwise let it write the response. What is logged on the way is left out. As for the authorization endpoint, the
  methods of the composed provider are computations on the world.
\<close>

text \<open>What the methods read of the HTTP request: the form and the \<open>Authorization\<close> header.\<close>

record token_request =
  tr_Form :: url_values
  tr_Authorization :: string

record ('o, 'w) token_provider =
  tp_NewAccessRequest :: "token_request \<Rightarrow> session \<Rightarrow> ('o, 'w, requester \<times> goerr option) go"
  tp_NewAccessResponse :: "requester \<Rightarrow> ('o, 'w, goerr + url_values) go"
  tp_WriteAccessError :: "requester \<Rightarrow> goerr \<Rightarrow> login_body response"
  tp_WriteAccessResponse :: "requester \<Rightarrow> url_values \<Rightarrow> login_body response"
  tp_NewIntrospectionRequest :: "token_request \<Rightarrow> session \<Rightarrow> ('o, 'w, goerr + introspection) go"
  tp_WriteIntrospectionError :: "goerr \<Rightarrow> login_body response"
  tp_WriteIntrospectionResponse :: "introspection \<Rightarrow> login_body response"
  tp_NewRevocationRequest :: "token_request \<Rightarrow> ('o, 'w, goerr option) go"
  tp_WriteRevocationResponse :: "goerr option \<Rightarrow> login_body response"

type_synonym ('o, 'w) op_tokens = "('o login_envir_scheme, 'w app_world_scheme) token_provider"

text \<open>\<open>NewSession(e.App, "", "")\<close>.\<close>

definition blankSession :: "('o, 'w, session) logingo" where
  "blankSession = bindG timeNow (\<lambda>now. askG (\<lambda>\<omega>. NewSession (appURL \<omega>) [] [] now))"

definition api_OAuth2Token :: "('o, 'w) op_tokens \<Rightarrow> token_request \<Rightarrow> ('o, 'w, login_body response) logingo" where
  "api_OAuth2Token T req = bindG blankSession (\<lambda>mySessionData.
     bindG (tp_NewAccessRequest T req mySessionData) (\<lambda>(accessRequest, err). case err of
       Some e \<Rightarrow> returnG (tp_WriteAccessError T accessRequest e)
     | None \<Rightarrow> bindG (tp_NewAccessResponse T accessRequest) (\<lambda>r. case r of
         Inl e \<Rightarrow> returnG (tp_WriteAccessError T accessRequest e)
       | Inr response \<Rightarrow> returnG (tp_WriteAccessResponse T accessRequest response))))"

definition api_OAuth2Introspect :: "('o, 'w) op_tokens \<Rightarrow> token_request \<Rightarrow> ('o, 'w, login_body response) logingo" where
  "api_OAuth2Introspect T req = bindG blankSession (\<lambda>mySessionData.
     bindG (tp_NewIntrospectionRequest T req mySessionData) (\<lambda>r. returnG (case r of
       Inl e \<Rightarrow> tp_WriteIntrospectionError T e
     | Inr ir \<Rightarrow> tp_WriteIntrospectionResponse T ir)))"

definition api_OAuth2Revoke :: "('o, 'w) op_tokens \<Rightarrow> token_request \<Rightarrow> ('o, 'w, login_body response) logingo" where
  "api_OAuth2Revoke T req = bindG (tp_NewRevocationRequest T req) (\<lambda>err. returnG (tp_WriteRevocationResponse T err))"

subsection \<open>Requests to the app\<close>

text \<open>A request to one of the endpoints of a provider, each with what it reads of the HTTP request.\<close>

datatype endpoint_call =
    AuthorizeCall url_values
  | LoginStateCall string string
  | LoginCompleteCall string string
  | TokenCall token_request
  | IntrospectCall token_request
  | RevokeCall token_request

fun serve :: "('o, 'w) op_provider \<Rightarrow> ('o, 'w) op_tokens \<Rightarrow> op_instance \<Rightarrow> endpoint_call \<Rightarrow> ('o, 'w, login_body response) logingo" where
  "serve P T inst (AuthorizeCall form) = api_OAuth2Authorize P inst form"
| "serve P T inst (LoginStateCall m query) = api_OAuth2LoginState inst m query"
| "serve P T inst (LoginCompleteCall m body) = api_OAuth2LoginComplete P inst m body"
| "serve P T inst (TokenCall req) = api_OAuth2Token T req"
| "serve P T inst (IntrospectCall req) = api_OAuth2Introspect T req"
| "serve P T inst (RevokeCall req) = api_OAuth2Revoke T req"

end
