(* ===== verification/Endpoint_Properties.thy ===== *)
theory Endpoint_Properties
  imports Endpoints Login_Properties Refresh_Properties
begin

section \<open>What the endpoints keep of the promises of the storage\<close>

text \<open>
  The endpoints call fosite, and fosite calls the storage. Whatever order the calls come in, the tables of tokens only
  change by runs of storage calls; the rest of the handlers writes to other tables. So what the storage promises along
  its runs holds along every sequence of requests to the endpoints of all providers.
\<close>

definition sameTokens :: "world \<Rightarrow> world \<Rightarrow> bool" where
  "sameTokens w w' \<longleftrightarrow> w_sessions w' = w_sessions w \<and> w_tombstones w' = w_tombstones w \<and> w_jtis w' = w_jtis w
     \<and> w_registered w' = w_registered w"

inductive token_run :: "string set \<Rightarrow> world \<Rightarrow> world \<Rightarrow> bool" for A :: "string set" where
  token_refl: "token_run A w w"
| token_store: "token_run A w u \<Longrightarrow> store_run A u v \<Longrightarrow> token_run A w v"
| token_other: "token_run A w u \<Longrightarrow> sameTokens u v \<Longrightarrow> token_run A w v"

lemma token_run_trans:
  assumes "token_run A v u" "token_run A w v" shows "token_run A w u"
  using assms by (induction rule: token_run.induct) (auto intro: token_run.intros)

definition tokensBetween :: "string set \<Rightarrow> app_world \<Rightarrow> app_world \<Rightarrow> bool" where
  "tokensBetween A w w' \<longleftrightarrow> token_run A (world.truncate w) (world.truncate w')"

lemma tokensBetween_same: "sameTokens (world.truncate w) (world.truncate w') \<Longrightarrow> tokensBetween A w w'"
  unfolding tokensBetween_def by (rule token_other [OF token_refl])

lemma truncate_simps [simp]:
  "w_sessions (world.truncate w) = w_sessions w" "w_tombstones (world.truncate w) = w_tombstones w"
  "w_jtis (world.truncate w) = w_jtis w" "w_registered (world.truncate w) = w_registered w"
  by (simp_all add: world.defs)

lemma tokensBetween_rel: "preorderR (tokensBetween A)" "tickfree (tokensBetween A)"
proof -
  show "preorderR (tokensBetween A)"
    unfolding preorderR_def tokensBetween_def using token_refl token_run_trans by blast
  show "tickfree (tokensBetween A)" unfolding tickfree_def by (auto intro!: tokensBetween_same simp: sameTokens_def)
qed

subsection \<open>What the library does\<close>

text \<open>The methods of the composed provider reach the tables only through the storage of the providers in \<open>A\<close>.\<close>

definition throughStorage :: "string set \<Rightarrow> (login_envir, app_world, 'a) go \<Rightarrow> bool" where
  "throughStorage A m \<longleftrightarrow> (\<forall>\<omega> w r w'. m \<omega> w = (r, w') \<longrightarrow> store_run A (world.truncate w) (world.truncate w'))"

definition providerStorage :: "string set \<Rightarrow> (unit, unit) op_provider \<Rightarrow> bool" where
  "providerStorage A P \<longleftrightarrow> (\<forall>form. throughStorage A (pv_NewAuthorizeRequest P form))
     \<and> (\<forall>ar s form. throughStorage A (pv_NewAuthorizeResponse P ar s form))"

definition tokenStorage :: "string set \<Rightarrow> (unit, unit) op_tokens \<Rightarrow> bool" where
  "tokenStorage A T \<longleftrightarrow> (\<forall>req s. throughStorage A (tp_NewAccessRequest T req s)) \<and> (\<forall>rq. throughStorage A (tp_NewAccessResponse T rq))
     \<and> (\<forall>req s. throughStorage A (tp_NewIntrospectionRequest T req s)) \<and> (\<forall>req. throughStorage A (tp_NewRevocationRequest T req))"

lemma keeps_throughStorage: "throughStorage A m \<Longrightarrow> keeps (tokensBetween A) m"
  unfolding throughStorage_def tokensBetween_def by (rule keepsI) (blast intro: token_store [OF token_refl])

lemmas token_rules = keeps_intros tokensBetween_rel

lemma keeps_other: "(\<And>w. sameTokens (world.truncate w) (world.truncate (f w))) \<Longrightarrow> keeps (tokensBetween A) (modifyG f)"
  by (rule keeps_modifyG) (rule tokensBetween_same)

lemma keeps_tokens_pending:
  "keeps (tokensBetween A) (CreateInteractionAt p inn)" "keeps (tokensBetween A) (FindInteractionAt p i)"
  "keeps (tokensBetween A) (ConsumeInteractionAt p i)" "keeps (tokensBetween A) (FindConsentAt p u uc cl)"
  "keeps (tokensBetween A) (UpsertConsentAt p u uc cl ss)" "keeps (tokensBetween A) (FindAuthRecordByToken t)"
proof -
  show "keeps (tokensBetween A) (CreateInteractionAt p inn)"
    unfolding CreateInteractionAt_def insertInteraction_def findCollection_def Let_def
    by (intro token_rules keeps_other) (simp add: sameTokens_def)
  show find: "keeps (tokensBetween A) (FindInteractionAt p i)"
    unfolding FindInteractionAt_def queryInteractions_def findCollection_def Let_def by (intro token_rules)
  show "keeps (tokensBetween A) (ConsumeInteractionAt p i)"
    unfolding ConsumeInteractionAt_def claimInteraction_def execClaim_def Let_def
    by (intro token_rules find keeps_other) (simp add: sameTokens_def)
  have consent: "keeps (tokensBetween A) (FindConsentAt p u uc cl)" for p
    unfolding FindConsentAt_def findCollection_def Let_def by (intro token_rules)
  then show "keeps (tokensBetween A) (FindConsentAt p u uc cl)" .
  show "keeps (tokensBetween A) (UpsertConsentAt p u uc cl ss)"
    unfolding UpsertConsentAt_def findConsentById_def updateConsent_def insertConsent_def findCollection_def Let_def
    by (intro token_rules consent keeps_other) (simp_all add: sameTokens_def)
  show "keeps (tokensBetween A) (FindAuthRecordByToken t)"
    unfolding FindAuthRecordByToken_def askTick_def liftSum_def by (intro token_rules)
qed

text \<open>Every handler is a run of storage calls and of changes to other tables.\<close>

lemma keeps_serve:
  assumes P: "providerStorage A P" and T: "tokenStorage A T"
  shows "keeps (tokensBetween A) (serve P T inst call)"
proof -
  note fosite = keeps_throughStorage [OF P [unfolded providerStorage_def, THEN conjunct1, rule_format]]
    keeps_throughStorage [OF P [unfolded providerStorage_def, THEN conjunct2, rule_format]]
  have tokens: "keeps (tokensBetween A) (tp_NewAccessRequest T req s)" "keeps (tokensBetween A) (tp_NewAccessResponse T rq)"
    "keeps (tokensBetween A) (tp_NewIntrospectionRequest T req s)" "keeps (tokensBetween A) (tp_NewRevocationRequest T req)"
    for req s rq using T unfolding tokenStorage_def by (auto intro: keeps_throughStorage)
  note rules = token_rules fosite tokens keeps_tokens_pending
  have refuse: "keeps (tokensBetween A) (writeInteractionError inst hs form u e)" for hs form u e
    unfolding writeInteractionError_def Let_def by (intro rules)
  have complete: "keeps (tokensBetween A) (api_OAuth2LoginComplete P inst m body)" for m body
    unfolding api_OAuth2LoginComplete_def decide_def consentAndReplay_def replayRequest_def answerRequest_def orElse_def
      liftSum_def Let_def by (intro rules refuse)
  have authorize: "keeps (tokensBetween A) (api_OAuth2Authorize P inst form)" for form
    unfolding api_OAuth2Authorize_def storeRequest_def writeAuthorizeErrorWithIss_def orElse_def Let_def by (intro rules)
  have state: "keeps (tokensBetween A) (api_OAuth2LoginState inst m q)" for m q
    unfolding api_OAuth2LoginState_def orElse_def Let_def by (intro rules)
  have blank: "keeps (tokensBetween A) (blankSession :: (unit, unit, session) logingo)"
    unfolding blankSession_def by (intro rules)
  have "keeps (tokensBetween A) (api_OAuth2Token T req)" "keeps (tokensBetween A) (api_OAuth2Introspect T req)"
    "keeps (tokensBetween A) (api_OAuth2Revoke T req)" for req
    unfolding api_OAuth2Token_def api_OAuth2Introspect_def api_OAuth2Revoke_def by (intro rules blank)+
  then show ?thesis by (cases call) (simp_all add: complete authorize state)
qed

subsection \<open>Sequences of requests\<close>

text \<open>Requests to any providers of the app, each under its own environment and with any outcome.\<close>

inductive endpoint_run :: "string set \<Rightarrow> app_world \<Rightarrow> app_world \<Rightarrow> bool" for A :: "string set" where
  endpoint_refl: "endpoint_run A w w"
| endpoint_step: "endpoint_run A w u \<Longrightarrow> providerStorage A P \<Longrightarrow> tokenStorage A T \<Longrightarrow>
    serve P T inst call \<omega> u = (r, v) \<Longrightarrow> endpoint_run A w v"

inductive_cases endpoint_runE: "endpoint_run A w v"

lemma endpoint_run_tokens: "endpoint_run A w v \<Longrightarrow> token_run A (world.truncate w) (world.truncate v)"
proof (induction rule: endpoint_run.induct)
  case (endpoint_refl w)
  show ?case by (rule token_refl)
next
  case (endpoint_step w u P T inst call \<omega> r v)
  then have "tokensBetween A u v" by (blast intro: keeps_outcome [OF keeps_serve])
  with endpoint_step.IH show ?case unfolding tokensBetween_def by (rule token_run_trans [rotated])
qed

text \<open>A relation that runs of storage calls respect, and that only looks at the tables of tokens.\<close>

lemma token_run_guarded:
  assumes "token_run A w w'" and R: "preorderR R" and same: "\<And>u v. sameTokens u v \<Longrightarrow> R u v"
    and store: "\<And>u v. store_run A u v \<Longrightarrow> guarded R u v"
  shows "guarded R w w'"
  using assms(1)
proof (induction rule: token_run.induct)
  case (token_refl w)
  then show ?case using R by (simp add: guarded_def preorderR_refl)
next
  case (token_store w u v)
  have "guarded R u v" using token_store(2) by (rule store)
  with token_store.IH show ?case unfolding guarded_def using preorderR_trans [OF R] by metis
next
  case (token_other w u v)
  have "guarded R u v" using same [OF token_other(2)] token_other(2) by (simp add: guarded_def sameTokens_def idsOk_def tbWf_def)
  with token_other.IH show ?case unfolding guarded_def using preorderR_trans [OF R] by metis
qed

text \<open>C35: the promises of the storage are promises of the endpoints. Under any sequence of authorization, login, token,
  introspection and revocation requests to the providers of an app, whatever fails on the way: a request that became
  terminal stays terminal, no access token is issued for it and none of its refresh tokens is active again; and no
  request ever has two active refresh tokens.\<close>

theorem endpoints_keep_promises:
  assumes "endpoint_run A w w'" "idsOk w" "q \<noteq> []"
  shows "(terminal w p q \<longrightarrow> terminal w' p q
      \<and> (\<forall>r \<in> set (w_sessions w' AccessC). sr_provider_prefix r = p \<and> sr_request_id r = q \<longrightarrow> r \<in> set (w_sessions w AccessC))
      \<and> (\<forall>r \<in> set (w_sessions w' RefreshC). sr_provider_prefix r = p \<and> sr_request_id r = q \<and> GetStatus r = RefreshStatusActive
           \<longrightarrow> r \<in> set (w_sessions w RefreshC)))
    \<and> (oneActive w \<longrightarrow> oneActive w')"
proof -
  note run = endpoint_run_tokens [OF assms(1)]
  have ids: "idsOk (world.truncate w)" using assms(2) by (simp add: idsOk_def tbWf_def)
  have "guarded (noIssue p q) (world.truncate w) (world.truncate w')"
    by (rule token_run_guarded [OF run noIssue_pre _ store_run_noIssue [OF _ assms(3)]])
      (auto intro: noIssue_refl simp: sameTokens_def)
  moreover have "guarded oneActiveR (world.truncate w) (world.truncate w')"
    by (rule token_run_guarded [OF run oneActiveR_pre])
      (auto intro: oneActiveR_same store_run_guarded frame_oneActive oneActiveR_pre simp: sameTokens_def)
  ultimately have "noIssue p q (world.truncate w) (world.truncate w')" "oneActiveR (world.truncate w) (world.truncate w')"
    using ids by (simp_all add: guarded_def)
  then show ?thesis by (simp add: noIssue_def oneActiveR_def oneActive_def activeRows_def terminal_def)
qed

subsection \<open>A concrete run\<close>

text \<open>A computation of the storage, run on the tables of an app.\<close>

definition liftStore :: "(store_envir, world, 'a) go \<Rightarrow> (login_envir, app_world, 'a) go" where
  "liftStore m \<omega> w = (case m (store_envir.truncate \<omega>) (world.truncate w) of
     (r, v) \<Rightarrow> (r, world.extend v (app_world.fields (w_params w) (w_guard w) (w_store w))))"

lemma truncate_extend: "world.truncate (world.extend v x) = v"
  by (simp add: world.defs)

lemma throughStorage_lift:
  assumes "st_prefix s \<in> A" "canonicalPrefix (st_prefix s)" shows "throughStorage A (liftStore (execOp s op))"
  unfolding throughStorage_def liftStore_def
  by (auto simp: truncate_extend split: prod.splits intro: store_run_one [OF assms])

definition demoTokens :: "(unit, unit) op_tokens" where
  "demoTokens = \<lparr>
     tp_NewAccessRequest = (\<lambda>req s. bindG (attemptG (liftStore (execOp demoStore (RotateRefreshTokenOp ''q'' ''s2''))))
       (\<lambda>r. returnG (demoRequest ''q'', case r of Inl e \<Rightarrow> Some e | Inr _ \<Rightarrow> None))),
     tp_NewAccessResponse = (\<lambda>rq. bindG (attemptG (liftStore (execOp demoStore (CreateAccessTokenOp ''t2'' rq))))
       (\<lambda>r. returnG (case r of Inl e \<Rightarrow> Inl e | Inr _ \<Rightarrow> Inr [(''access_token'', [''h.p.t2''])]))),
     tp_WriteAccessError = (\<lambda>rq e. apiError 400 [] ''invalid_grant''), tp_WriteAccessResponse = (\<lambda>rq f. answer 200 [] (Bytes (valuesEncode f))),
     tp_NewIntrospectionRequest = (\<lambda>req s. returnG (Inl (plainErr ErrInactiveToken))),
     tp_WriteIntrospectionError = (\<lambda>e. apiError 401 [] ''inactive''), tp_WriteIntrospectionResponse = (\<lambda>ir. noContent 200 []),
     tp_NewRevocationRequest = (\<lambda>req. bindG (attemptG (liftStore (execOp demoStore (RevokeRefreshTokenOp ''q''))))
       (\<lambda>r. returnG (case r of Inl e \<Rightarrow> Some e | Inr _ \<Rightarrow> None))),
     tp_WriteRevocationResponse = (\<lambda>e. noContent (if e = None then 200 else 503) [])\<rparr>"

lemma throughStorage_attempt: "throughStorage A m \<Longrightarrow> throughStorage A (bindG (attemptG m) (\<lambda>r. returnG (f r)))"
  unfolding throughStorage_def by (auto simp: bindG_run attemptG_run basic_run split: prod.splits)

lemma throughStorage_return: "throughStorage A (returnG x)"
  by (simp add: throughStorage_def basic_run run_refl)

lemma demo_acting: "st_prefix demoStore \<in> {DefaultPathPrefix}"
  by (simp add: demoStore_def)

lemma demo_storage: "providerStorage {DefaultPathPrefix} demoProvider" "tokenStorage {DefaultPathPrefix} demoTokens"
  unfolding providerStorage_def tokenStorage_def demoProvider_def demoTokens_def
  by (simp_all add: throughStorage_return del: execOp.simps)
    (intro conjI allI throughStorage_attempt throughStorage_lift demo_acting demo_canonical)

text \<open>A client refreshes, the user revokes, the client tries again, and a login is completed.\<close>

theorem endpoints_keep_promises_witness:
  "let refresh = TokenCall \<lparr>tr_Form = [], tr_Authorization = []\<rparr>;
       after = (\<lambda>call w. snd (serve demoProvider demoTokens demoHosted call demoLoginEnv w));
       w1 = after (RevokeCall \<lparr>tr_Form = [], tr_Authorization = []\<rparr>) (after refresh (hosting demoWorld));
       w2 = after (LoginCompleteCall ''POST'' ''approve'') (after refresh w1) in
   endpoint_run {DefaultPathPrefix} (hosting demoWorld) w2 \<and> oneActive w2"
proof -
  let ?refresh = "TokenCall \<lparr>tr_Form = [], tr_Authorization = []\<rparr>"
  let ?after = "\<lambda>call w. snd (serve demoProvider demoTokens demoHosted call demoLoginEnv w)"
  have step: "endpoint_run {DefaultPathPrefix} w (?after call u)" if "endpoint_run {DefaultPathPrefix} w u" for w u call
    by (rule endpoint_step [OF that demo_storage, of demoHosted call demoLoginEnv "fst (serve demoProvider demoTokens demoHosted call demoLoginEnv u)"]) simp
  let ?w2 = "?after (LoginCompleteCall ''POST'' ''approve'') (?after ?refresh
     (?after (RevokeCall \<lparr>tr_Form = [], tr_Authorization = []\<rparr>) (?after ?refresh (hosting demoWorld))))"
  have run: "endpoint_run {DefaultPathPrefix} (hosting demoWorld) ?w2" by (intro step endpoint_refl)
  have ids: "idsOk (hosting demoWorld)" using demo_idsOk by (simp add: idsOk_def tbWf_def)
  have one: "oneActive (hosting demoWorld)"
    by (simp add: oneActive_def activeRows_def demoWorld_def demoRow_def GetStatus_def status_defs)
  have "oneActive ?w2" using endpoints_keep_promises [OF run ids, of "''q''" DefaultPathPrefix] one by blast
  with run show ?thesis unfolding Let_def by blast
qed

end
