(* ===== verification/Routes.thy ===== *)
theory Routes
  imports Http
begin

section \<open>The routes of a provider (bindOAuth2Handlers, bindOAuth2WellKnownHandlers and handleJSON in oauth2.go)\<close>

text \<open>
  A provider binds its endpoints under its path prefix and its documents under the well-known paths. A route is a
  method, a path pattern and a handler; the handlers of the endpoints are named, they are defined in the other
  theories. A pattern is a literal path or a literal prefix followed by one segment, as in \<open>http.ServeMux\<close>.
\<close>

datatype handler =
    RuntimeAttestationH | AuthorizeH | TokenH | RevokeH | IntrospectH | UserInfoH | RegisterH | LoginPageH
  | LoginStateH | LoginCompleteH | DocumentH getter
and getter = AuthorizationServerG | OpenIDConfigurationG | KeySetG "json_web_key list" | ProtectedResourceG

datatype pattern = Literal string | Segment string

type_synonym route = "string \<times> pattern \<times> handler"

definition bindOAuth2Handlers :: "config \<Rightarrow> route list" where
  "bindOAuth2Handlers cfg =
     (let rg = (\<lambda>m path h. (m, Literal (cf_PathPrefix cfg @ path), h)) in
      (if cf_RuntimeAttestationSnapshot cfg \<noteq> None then [rg ''GET'' ''/runtime-attestation'' RuntimeAttestationH] else [])
      @ [rg ''GET'' ''/auth'' AuthorizeH, rg ''POST'' ''/auth'' AuthorizeH,
         rg ''GET'' ''/token'' TokenH, rg ''POST'' ''/token'' TokenH,
         rg ''POST'' ''/revoke'' RevokeH, rg ''POST'' ''/introspect'' IntrospectH,
         rg ''GET'' ''/userinfo'' UserInfoH, rg ''POST'' ''/userinfo'' UserInfoH]
      @ (if cf_EnableDCR cfg then [rg ''POST'' ''/register'' RegisterH] else [])
      @ [rg ''GET'' ''/login'' LoginPageH, rg ''POST'' ''/login'' LoginPageH,
         rg ''GET'' ''/login/state'' LoginStateH, rg ''OPTIONS'' ''/login/state'' LoginStateH,
         rg ''POST'' ''/login/complete'' LoginCompleteH, rg ''OPTIONS'' ''/login/complete'' LoginCompleteH])"

text \<open>\<open>handleJSON\<close> binds its handler for three methods.\<close>

definition jsonRoutes :: "pattern \<Rightarrow> getter \<Rightarrow> route list" where
  "jsonRoutes path g = [(''OPTIONS'', path, DocumentH g), (''GET'', path, DocumentH g), (''POST'', path, DocumentH g)]"

text \<open>
  The key set is built when the routes are bound, from the public part of the signing key (a function of the JOSE
  library); the other documents are read from the instance at every request.
\<close>

definition bindOAuth2WellKnownHandlers :: "(json_web_key \<Rightarrow> json_web_key) \<Rightarrow> config \<Rightarrow> json_web_key \<Rightarrow> route list" where
  "bindOAuth2WellKnownHandlers publicKey cfg privateKey =
     (let base = wellKnownBase (cf_PathPrefix cfg) in
      jsonRoutes (Literal (base @ ''/.well-known/oauth-authorization-server'')) AuthorizationServerG
      @ jsonRoutes (Literal (base @ ''/.well-known/openid-configuration'')) OpenIDConfigurationG
      @ jsonRoutes (Literal (jwksPath (cf_PathPrefix cfg))) (KeySetG [publicKey privateKey])
      @ (if cf_EnableRFC9728 cfg then jsonRoutes (Segment (protectedResourceRoute (cf_PathPrefix cfg))) ProtectedResourceG else []))"

fun matches :: "pattern \<Rightarrow> string \<Rightarrow> bool" where
  "matches (Literal p) path \<longleftrightarrow> path = p"
| "matches (Segment p) path \<longleftrightarrow> hasPrefix path p \<and> drop (length p) path \<noteq> [] \<and> CHR ''/'' \<notin> set (drop (length p) path)"

fun dispatch :: "route list \<Rightarrow> string \<Rightarrow> string \<Rightarrow> handler option" where
  "dispatch [] m path = None"
| "dispatch ((m', p, h) # rs) m path = (if m' = m \<and> matches p path then Some h else dispatch rs m path)"

subsection \<open>The documents\<close>

datatype document =
    AuthorizationServerDoc as_metadata
  | OpenIDConfigurationDoc "provider_metadata option"
  | KeySetDoc "json_web_key list"
  | ProtectedResourceDoc protected_metadata

text \<open>\<open>inst.metadata.AuthorizationServerMetadata\<close> of a nil pointer panics; PocketBase answers 500.\<close>

datatype getter_error = NotFoundError | PanicError

definition getDocument :: "op_instance \<Rightarrow> getter \<Rightarrow> string \<Rightarrow> getter_error + document" where
  "getDocument inst g resource = (case g of
       AuthorizationServerG \<Rightarrow> (case it_metadata inst of
           None \<Rightarrow> Inl PanicError | Some d \<Rightarrow> Inr (AuthorizationServerDoc (as_metadata.truncate d)))
     | OpenIDConfigurationG \<Rightarrow> Inr (OpenIDConfigurationDoc (it_metadata inst))
     | KeySetG keys \<Rightarrow> Inr (KeySetDoc keys)
     | ProtectedResourceG \<Rightarrow> (case map_of (it_protected inst) (trimBoth resource (CHR ''/'')) of
           Some md \<Rightarrow> Inr (ProtectedResourceDoc md) | None \<Rightarrow> Inl NotFoundError))"

definition documentCORS :: headers where
  "documentCORS = setHeader (setHeader (setHeader [] ''Access-Control-Allow-Origin'' ''*'')
     ''Access-Control-Allow-Methods'' ''GET, OPTIONS'') ''Access-Control-Allow-Headers'' ''Content-Type''"

definition handleJSON :: "string \<Rightarrow> getter_error + document \<Rightarrow> document response" where
  "handleJSON method result =
     (if method = ''OPTIONS'' then noContent 204 documentCORS
      else if method \<noteq> ''GET'' then apiError 405 documentCORS []
      else case result of
        Inl NotFoundError \<Rightarrow> apiError 404 documentCORS []
      | Inl PanicError \<Rightarrow> apiError 500 documentCORS []
      | Inr d \<Rightarrow> answer 200 (setHeader documentCORS ''Content-Type'' ''application/json'') d)"

subsection \<open>The login page\<close>

text \<open>The embedded page, or a redirect to the configured one that keeps the query.\<close>

definition uiHandler :: "config \<Rightarrow> string \<Rightarrow> string response" where
  "uiHandler cfg rawQuery =
     (if cf_LoginRedirectURL cfg \<noteq> []
      then let dest = cf_LoginRedirectURL cfg;
               sep = (if containsChar dest (CHR ''?'') then ''&'' else ''?'') in
        noContent 302 (setHeader [] ''Location'' (if rawQuery \<noteq> [] then dest @ sep @ rawQuery else dest))
      else answer 200 [] ''login.html'')"

subsection \<open>Serving a document\<close>

definition segmentOf :: "pattern \<Rightarrow> string \<Rightarrow> string" where
  "segmentOf p path = (case p of Literal _ \<Rightarrow> [] | Segment q \<Rightarrow> drop (length q) path)"

text \<open>The answer of a provider to a request for one of its documents.\<close>

definition serveDocument :: "(json_web_key \<Rightarrow> json_web_key) \<Rightarrow> op_instance \<Rightarrow> json_web_key \<Rightarrow> string \<Rightarrow> string \<Rightarrow> document response option" where
  "serveDocument publicKey inst privateKey method path =
     (case dispatch (bindOAuth2WellKnownHandlers publicKey (it_cfg inst) privateKey) method path of
        Some (DocumentH g) \<Rightarrow> Some (handleJSON method (getDocument inst g
          (segmentOf (Segment (protectedResourceRoute (cf_PathPrefix (it_cfg inst)))) path)))
      | _ \<Rightarrow> None)"

end
