(* ===== verification/Route_Properties.thy ===== *)
theory Route_Properties
  imports Routes Access_Properties
begin

section \<open>Properties of the routes\<close>

text \<open>An advertised URL is that of the app followed by a path, and a request to the path reaches the handler.\<close>

definition routed :: "string \<Rightarrow> route list \<Rightarrow> string \<Rightarrow> string \<Rightarrow> handler \<Rightarrow> bool" where
  "routed url rs endpoint m h \<longleftrightarrow> (\<exists>path. endpoint = url @ path \<and> dispatch rs m path = Some h)"

lemma routedI: "dispatch rs m path = Some h \<Longrightarrow> routed url rs (url @ path) m h"
  unfolding routed_def by blast

text \<open>What the discovery document advertises is bound. Each advertised endpoint is a path of the provider that the
  router hands to the handler of that endpoint, the page that the authorization endpoint redirects to is bound, and
  the registration endpoint is bound exactly when client registration is enabled.\<close>

theorem advertised_endpoints_are_routed:
  "let md = buildProviderMetadata url (cf_PathPrefix cfg); rs = bindOAuth2Handlers cfg in
     routed url rs (md_AuthzEndpoint md) ''GET'' AuthorizeH \<and> routed url rs (md_AuthzEndpoint md) ''POST'' AuthorizeH
    \<and> routed url rs (md_TokenEndpoint md) ''POST'' TokenH \<and> routed url rs (md_RevocationEndpoint md) ''POST'' RevokeH
    \<and> routed url rs (md_IntrospectionEndpoint md) ''POST'' IntrospectH
    \<and> routed url rs (op_UserInfoEndpoint md) ''GET'' UserInfoH \<and> routed url rs (op_UserInfoEndpoint md) ''POST'' UserInfoH
    \<and> routed url rs (url @ cf_PathPrefix cfg @ ''/login'') ''GET'' LoginPageH
    \<and> (routed url rs (md_RegistrationEndpoint md) ''POST'' RegisterH \<longleftrightarrow> cf_EnableDCR cfg)"
  unfolding Let_def buildProviderMetadata_def bindOAuth2Handlers_def
  by (intro conjI) (auto simp: routed_def)

text \<open>The document of the issuer, and the key set where the document says.\<close>

lemma wellKnownBase_canonical: "canonicalPrefix p \<Longrightarrow> wellKnownBase p = (if p = DefaultPathPrefix then [] else p)"
  by (simp add: wellKnownBase_def canonicalPrefixD)

lemma canonical_ne: "canonicalPrefix p \<Longrightarrow> p \<noteq> []"
  using canonicalPrefixD [of "[]"] by auto

lemma trimBoth_plain: "c \<notin> set s \<Longrightarrow> trimBoth s c = s"
proof -
  have drop: "dropWhile (\<lambda>x. x = c) xs = xs" if "c \<notin> set xs" for xs
    using that by (cases xs) auto
  show "c \<notin> set s \<Longrightarrow> trimBoth s c = s" by (simp add: trimBoth_def trimLeft_def trimRight_def drop)
qed

lemmas document_defs = serveDocument_def bindOAuth2WellKnownHandlers_def jsonRoutes_def handleJSON_def getDocument_def
  segmentOf_def protectedResourceRoute_def jwksPath_def


definition demoDocument :: protected_metadata where
  "demoDocument = \<lparr>pr_Resource = ''https://auth.example/api'', pr_AuthorizationServers = [''https://auth.example''], pr_JwksURI = [],
     pr_ScopesSupported = [], pr_BearerMethodsSupported = [''header''], pr_ResourceSigningAlgValuesSupported = [],
     pr_ResourceName = [], pr_ResourceDocumentation = [], pr_ResourcePolicyURI = [], pr_ResourceTOSURI = [],
     pr_TLSClientCertificateBoundAccessTokens = False, pr_AuthorizationDetailsTypesSupported = [],
     pr_DPOPSigningAlgValuesSupported = [], pr_DPOPBoundAccessTokensRequired = False\<rparr>"

definition demoDocumented :: op_instance where
  "demoDocumented = demoHosted\<lparr>it_cfg := demoConfig\<lparr>cf_PathPrefix := ''/tenant'', cf_EnableRFC9728 := True\<rparr>,
     it_protected := [(''api'', demoDocument)]\<rparr>"


text \<open>The registration endpoint is advertised whether or not it is bound.\<close>

lemma registration_advertised_unrouted:
  assumes "\<not> cf_EnableDCR cfg"
  shows "\<exists>path. md_RegistrationEndpoint (buildProviderMetadata url (cf_PathPrefix cfg)) = url @ path
    \<and> dispatch (bindOAuth2Handlers cfg) ''POST'' path = None"
  using assms by (intro exI [of _ "cf_PathPrefix cfg @ ''/register''"]) (simp add: buildProviderMetadata_def Let_def bindOAuth2Handlers_def)

text \<open>The login page keeps the query, and with it the id of the interaction.\<close>

lemma uiHandler_keeps_query:
  assumes "cf_LoginRedirectURL cfg = dest" "dest \<noteq> []" "CHR ''?'' \<notin> set dest" "q \<noteq> []"
  shows "uiHandler cfg q = noContent 302 [(''Location'', dest @ ''?'' @ q)]"
  using assms by (simp add: uiHandler_def Let_def)

end
