(* ===== verification/Clone.thy ===== *)
theory Clone
  imports Session
begin

section \<open>Copies that share nothing (cloneConfig in oauth2.go, Clone in session.go)\<close>

text \<open>
  Slices, maps and pointers of Go are references, so a copied struct shares what they refer to. This theory keeps an
  explicit heap: an address holds the array of a slice, a map or a struct, and a reference is an address or nil. The
  copies are computations on the heap, and their correctness is that the copy reads as the original and that no
  address it reaches is one that existed before. Fields that hold no reference are kept as one value.
\<close>

subsection \<open>The heap\<close>

type_synonym ref = "nat option"

text \<open>A value of type \<open>any\<close> may itself be a reference.\<close>

datatype any_value = Scalar string | Pointer nat

text \<open>The slice fields of \<open>fosite.Config\<close> that the code copies, in its order.\<close>

datatype slice_field =
    GlobalSecret | RotatedGlobalSecrets | AllowedPromptValues | RefreshTokenScopes | SanitationWhiteList
  | AuthorizeEndpointHandlers | TokenEndpointHandlers | TokenIntrospectionHandlers | RevocationHandlers
  | PushedAuthorizeEndpointHandlers

record claims_cell =
  cc_Scalars :: id_claims
  cc_Audience :: ref
  cc_AMR :: ref
  cc_Extra :: ref

datatype cell =
    BytesCell string
  | StringsCell "string list"
  | SlicesCell "ref list"
  | TimesCell "(token_type \<times> int) list"
  | AnyCell "(string \<times> any_value) list"
  | ClaimsCell claims_cell
  | HeadersCell ref
  | BaseCell string "slice_field \<Rightarrow> ref"

record heap =
  hp_next :: nat
  hp_cells :: "nat \<Rightarrow> cell option"

definition heapOk :: "heap \<Rightarrow> bool" where
  "heapOk h \<longleftrightarrow> (\<forall>a. hp_cells h a \<noteq> None \<longrightarrow> a < hp_next h)"

definition deref :: "heap \<Rightarrow> ref \<Rightarrow> cell option" where
  "deref h r = (case r of None \<Rightarrow> None | Some a \<Rightarrow> hp_cells h a)"

definition alloc :: "cell \<Rightarrow> heap \<Rightarrow> ref \<times> heap" where
  "alloc c h = (Some (hp_next h), h\<lparr>hp_next := Suc (hp_next h), hp_cells := (hp_cells h)(hp_next h \<mapsto> c)\<rparr>)"

definition store :: "nat \<Rightarrow> cell \<Rightarrow> heap \<Rightarrow> heap" where
  "store a c h = h\<lparr>hp_cells := (hp_cells h)(a \<mapsto> c)\<rparr>"

subsection \<open>Copying slices and maps\<close>

text \<open>\<open>slices.Clone\<close>, \<open>maps.Clone\<close>, and a new slice filled by \<open>copy\<close>: nil stays nil.\<close>

definition cloneCell :: "ref \<Rightarrow> heap \<Rightarrow> ref \<times> heap" where
  "cloneCell r h = (case deref h r of None \<Rightarrow> (None, h) | Some c \<Rightarrow> alloc c h)"

definition cloneBytes :: "ref \<Rightarrow> heap \<Rightarrow> ref \<times> heap" where "cloneBytes r h = cloneCell r h"
definition cloneStrings :: "ref \<Rightarrow> heap \<Rightarrow> ref \<times> heap" where "cloneStrings r h = cloneCell r h"
definition cloneTimeMap :: "ref \<Rightarrow> heap \<Rightarrow> ref \<times> heap" where "cloneTimeMap r h = cloneCell r h"

text \<open>\<open>append([]string(nil), s...)\<close>: an empty slice becomes nil.\<close>

definition cloneAppend :: "ref \<Rightarrow> heap \<Rightarrow> ref \<times> heap" where
  "cloneAppend r h = (case deref h r of
       Some (StringsCell (s # ss)) \<Rightarrow> alloc (StringsCell (s # ss)) h | _ \<Rightarrow> (None, h))"

fun cloneEach :: "ref list \<Rightarrow> heap \<Rightarrow> ref list \<times> heap" where
  "cloneEach [] h = ([], h)"
| "cloneEach (r # rs) h = (case cloneBytes r h of (r', h1) \<Rightarrow> case cloneEach rs h1 of (rs', h2) \<Rightarrow> (r' # rs', h2))"

definition cloneByteSlices :: "ref \<Rightarrow> heap \<Rightarrow> ref \<times> heap" where
  "cloneByteSlices r h = (case deref h r of
       Some (SlicesCell rs) \<Rightarrow> (case cloneEach rs h of (rs', h') \<Rightarrow> alloc (SlicesCell rs') h') | _ \<Rightarrow> (None, h))"

subsection \<open>cloneConfig\<close>

text \<open>The outer struct: its scalars, the slice of initial access tokens, and the pointer to fosite's configuration.\<close>

record heap_config =
  hc_Scalars :: string
  hc_InitialAccessTokens :: ref
  hc_BaseConfig :: ref

definition cloneField :: "slice_field \<Rightarrow> ref \<Rightarrow> heap \<Rightarrow> ref \<times> heap" where
  "cloneField f = (case f of GlobalSecret \<Rightarrow> cloneBytes | RotatedGlobalSecrets \<Rightarrow> cloneByteSlices
     | AllowedPromptValues \<Rightarrow> cloneStrings | RefreshTokenScopes \<Rightarrow> cloneStrings | SanitationWhiteList \<Rightarrow> cloneStrings
     | _ \<Rightarrow> cloneCell)"

fun cloneFields :: "slice_field list \<Rightarrow> (slice_field \<Rightarrow> ref) \<Rightarrow> heap \<Rightarrow> (slice_field \<Rightarrow> ref) \<times> heap" where
  "cloneFields [] base h = (base, h)"
| "cloneFields (f # fs) base h = (case cloneField f (base f) h of (r, h') \<Rightarrow> cloneFields fs (base(f := r)) h')"

definition clonedFields :: "slice_field list" where
  "clonedFields = [GlobalSecret, RotatedGlobalSecrets, AllowedPromptValues, RefreshTokenScopes, SanitationWhiteList,
     AuthorizeEndpointHandlers, TokenEndpointHandlers, TokenIntrospectionHandlers, RevocationHandlers,
     PushedAuthorizeEndpointHandlers]"

definition cloneBase :: "ref \<Rightarrow> heap \<Rightarrow> ref \<times> heap" where
  "cloneBase r h = (case deref h r of
       Some (BaseCell scalars base) \<Rightarrow> (case cloneFields clonedFields base h of
         (base', h1) \<Rightarrow> alloc (BaseCell scalars base') h1)
     | _ \<Rightarrow> (None, h))"

definition cloneConfig :: "heap_config \<Rightarrow> heap \<Rightarrow> heap_config \<times> heap" where
  "cloneConfig src h = (case cloneBase (hc_BaseConfig src) h of (r, h') \<Rightarrow> (src\<lparr>hc_BaseConfig := r\<rparr>, h'))"

subsection \<open>Session.Clone\<close>

record heap_session =
  hs_Subject :: string
  hs_Username :: string
  hs_ExpiresAt :: ref
  hs_Claims :: ref
  hs_Headers :: ref
  hs_CollectionId :: string

definition cloneClaims :: "ref \<Rightarrow> heap \<Rightarrow> ref \<times> heap" where
  "cloneClaims r h = (case deref h r of
       Some (ClaimsCell c) \<Rightarrow>
         (case cloneAppend (cc_Audience c) h of (aud, h1) \<Rightarrow>
          case cloneAppend (cc_AMR c) h1 of (amr, h2) \<Rightarrow>
          case cloneCell (cc_Extra c) h2 of (extra, h3) \<Rightarrow>
          alloc (ClaimsCell (c\<lparr>cc_Audience := aud, cc_AMR := amr, cc_Extra := extra\<rparr>)) h3)
     | _ \<Rightarrow> (None, h))"

definition cloneHeaders :: "ref \<Rightarrow> heap \<Rightarrow> ref \<times> heap" where
  "cloneHeaders r h = (case deref h r of
       Some (HeadersCell e) \<Rightarrow> (case cloneCell e h of (extra, h1) \<Rightarrow> alloc (HeadersCell extra) h1)
     | _ \<Rightarrow> (None, h))"

definition cloneSession :: "heap_session option \<Rightarrow> heap \<Rightarrow> heap_session option \<times> heap" where
  "cloneSession s h = (case s of
       None \<Rightarrow> (None, h)
     | Some s \<Rightarrow>
         (case cloneTimeMap (hs_ExpiresAt s) h of (expiresAt, h1) \<Rightarrow>
          case cloneClaims (hs_Claims s) h1 of (claims, h2) \<Rightarrow>
          case cloneHeaders (hs_Headers s) h2 of (headers, h3) \<Rightarrow>
          (Some \<lparr>hs_Subject = hs_Subject s, hs_Username = hs_Username s, hs_ExpiresAt = expiresAt, hs_Claims = claims,
             hs_Headers = headers, hs_CollectionId = hs_CollectionId s\<rparr>, h3)))"

end
