(* ===== verification/Clone_Properties.thy ===== *)
theory Clone_Properties
  imports Clone
begin

section \<open>Copies share nothing with the original\<close>

text \<open>
  A copy of a reference is described by two functions of the heap: what the reference reads as, and the addresses that
  reading looks at. The locale states what a copying function owes: the copy reads as the original, what existed
  before is left as it was, and the copy looks at new addresses only. That the two are independent follows once and
  for all: whatever is written through the copy afterwards, the original reads as before, and conversely.
\<close>

definition extends :: "heap \<Rightarrow> heap \<Rightarrow> bool" where
  "extends h h' \<longleftrightarrow> hp_next h \<le> hp_next h' \<and> (\<forall>a < hp_next h. hp_cells h' a = hp_cells h a)"

lemma extends_refl [simp]: "extends h h"
  by (simp add: extends_def)

lemma extends_trans: "extends h h1 \<Longrightarrow> extends h1 h2 \<Longrightarrow> extends h h2"
  by (auto simp: extends_def)

lemma alloc_facts:
  assumes "alloc c h = (r, h')" "heapOk h"
  shows "r = Some (hp_next h)" "heapOk h'" "extends h h'" "hp_next h' = Suc (hp_next h)" "deref h' r = Some c"
  using assms by (auto simp: alloc_def heapOk_def extends_def deref_def less_Suc_eq)

text \<open>The addresses of \<open>A\<close> were allocated between the two heaps.\<close>

definition newIn :: "heap \<Rightarrow> heap \<Rightarrow> nat set \<Rightarrow> bool" where
  "newIn h h' A \<longleftrightarrow> (\<forall>a \<in> A. hp_next h \<le> a \<and> a < hp_next h')"

lemma newIn_simps [simp]: "newIn h h' {}" "newIn h h' (insert a A) \<longleftrightarrow> hp_next h \<le> a \<and> a < hp_next h' \<and> newIn h h' A"
  "newIn h h' (A \<union> B) \<longleftrightarrow> newIn h h' A \<and> newIn h h' B"
  by (auto simp: newIn_def)

lemma newIn_wider: "newIn h1 h2 A \<Longrightarrow> extends h h1 \<Longrightarrow> extends h2 h3 \<Longrightarrow> newIn h h3 A"
  by (fastforce simp: newIn_def extends_def)

text \<open>The addresses of \<open>A\<close> are allocated: no reference dangles.\<close>

definition valid :: "heap \<Rightarrow> nat set \<Rightarrow> bool" where
  "valid h A \<longleftrightarrow> (\<forall>a \<in> A. a < hp_next h)"

lemma valid_simps [simp]: "valid h {}" "valid h (insert a A) \<longleftrightarrow> a < hp_next h \<and> valid h A" "valid h (A \<union> B) \<longleftrightarrow> valid h A \<and> valid h B"
  by (auto simp: valid_def)

lemma valid_later: "valid h A \<Longrightarrow> extends h h' \<Longrightarrow> valid h' A"
  by (auto simp: valid_def extends_def)

locale copying =
  fixes view :: "heap \<Rightarrow> ref \<Rightarrow> 'v" and reach :: "heap \<Rightarrow> ref \<Rightarrow> nat set" and clone :: "ref \<Rightarrow> heap \<Rightarrow> ref \<times> heap"
  assumes local: "(\<And>a. a \<in> reach h r \<Longrightarrow> hp_cells h' a = hp_cells h a) \<Longrightarrow> view h' r = view h r \<and> reach h' r = reach h r"
    and copies: "heapOk h \<Longrightarrow> valid h (reach h r) \<Longrightarrow> clone r h = (r', h') \<Longrightarrow>
      heapOk h' \<and> extends h h' \<and> view h' r' = view h r \<and> newIn h h' (reach h' r')"
begin

text \<open>What is allocated later changes nothing.\<close>

lemma later:
  assumes "valid h (reach h r)" "extends h h'"
  shows "view h' r = view h r" "reach h' r = reach h r"
  using local [of h r h'] assms by (auto simp: valid_def extends_def)

lemma copied:
  assumes "heapOk h" "valid h (reach h r)" "clone r h = (r', h')" "extends h' h''"
  shows "view h'' r' = view h r" "newIn h h'' (reach h'' r')"
proof -
  note c = copies [OF assms(1-3)]
  then have "valid h' (reach h' r')" by (auto simp: newIn_def valid_def)
  from later [OF this assms(4)] c show "view h'' r' = view h r" "newIn h h'' (reach h'' r')"
    using assms(4) by (auto simp: newIn_def extends_def)
qed

lemma disjoint:
  assumes "heapOk h" "valid h (reach h r)" "clone r h = (r', h')"
  shows "reach h' r' \<inter> reach h r = {}"
proof -
  have "False" if "a \<in> reach h' r'" "a \<in> reach h r" for a
  proof -
    have "hp_next h \<le> a" using copies [OF assms] that(1) by (auto simp: newIn_def)
    moreover have "a < hp_next h" using assms(2) that(2) by (simp add: valid_def)
    ultimately show False by simp
  qed
  then show ?thesis by blast
qed

lemma original_kept:
  assumes "heapOk h" "valid h (reach h r)" "clone r h = (r', h')" "a \<in> reach h' r'"
  shows "view (store a c h') r = view h r"
proof -
  note copy = copies [OF assms(1-3)]
  have "hp_cells (store a c h') b = hp_cells h b" if "b \<in> reach h r" for b
  proof -
    have "b < hp_next h" using that assms(2) by (simp add: valid_def)
    moreover have "hp_next h \<le> a" using copy assms(4) by (auto simp: newIn_def)
    ultimately show ?thesis using copy by (auto simp: store_def extends_def)
  qed
  from local [OF this] show ?thesis by blast
qed

lemma copy_kept:
  assumes "heapOk h" "valid h (reach h r)" "clone r h = (r', h')" "a < hp_next h"
  shows "view (store a c h') r' = view h r"
proof -
  note copy = copies [OF assms(1-3)]
  have "hp_cells (store a c h') b = hp_cells h' b" if "b \<in> reach h' r'" for b
    using that copy assms(4) by (auto simp: newIn_def store_def)
  from local [OF this] copy show ?thesis by simp
qed

end

subsection \<open>Slices and maps\<close>

lemma alloc_new: "alloc c h = (r, h') \<Longrightarrow> heapOk h \<Longrightarrow> newIn h h' (set_option r)"
  using alloc_facts [of c h r h'] by simp

lemma nil_facts [simp]: "deref h None = None"
  by (simp add: deref_def)

lemma cloneCell_ok:
  assumes "heapOk h" "cloneCell r h = (r', h')"
  shows "heapOk h' \<and> extends h h' \<and> deref h' r' = deref h r \<and> newIn h h' (set_option r')"
proof (cases "deref h r")
  case None
  then show ?thesis using assms by (auto simp: cloneCell_def)
next
  case (Some c)
  then have "alloc c h = (r', h')" using assms(2) by (simp add: cloneCell_def)
  then show ?thesis using alloc_facts alloc_new assms(1) Some by simp
qed

lemma deref_local: "(\<And>a. a \<in> set_option r \<Longrightarrow> hp_cells h' a = hp_cells h a) \<Longrightarrow> deref h' r = deref h r"
  by (cases r) (simp_all add: deref_def)

interpretation cells: copying deref "\<lambda>h. set_option" cloneCell
proof unfold_locales
  show "deref h' r = deref h r \<and> set_option r = set_option r" if "\<And>a. a \<in> set_option r \<Longrightarrow> hp_cells h' a = hp_cells h a" for h r h'
    using deref_local that by blast
  show "heapOk h' \<and> extends h h' \<and> deref h' r' = deref h r \<and> newIn h h' (set_option r')"
    if "heapOk h" "cloneCell r h = (r', h')" for h r r' h' using cloneCell_ok that .
qed

text \<open>A slice of strings reads as its elements: a nil slice as none.\<close>

definition stringsAt :: "heap \<Rightarrow> ref \<Rightarrow> string list" where
  "stringsAt h r = (case deref h r of Some (StringsCell ss) \<Rightarrow> ss | _ \<Rightarrow> [])"

interpretation strings: copying stringsAt "\<lambda>h. set_option" cloneAppend
proof unfold_locales
  show "stringsAt h' r = stringsAt h r \<and> set_option r = set_option r" if "\<And>a. a \<in> set_option r \<Longrightarrow> hp_cells h' a = hp_cells h a" for h r h'
    using deref_local [of r h' h] that by (simp add: stringsAt_def)
  show "heapOk h' \<and> extends h h' \<and> stringsAt h' r' = stringsAt h r \<and> newIn h h' (set_option r')"
    if h: "heapOk h" and c: "cloneAppend r h = (r', h')" for h r r' h'
  proof (cases "stringsAt h r")
    case Nil
    then have "cloneAppend r h = (None, h)" by (auto simp: cloneAppend_def stringsAt_def split: option.splits cell.splits list.splits)
    then show ?thesis using c h Nil by (auto simp: stringsAt_def)
  next
    case (Cons s ss)
    then have "alloc (StringsCell (s # ss)) h = (r', h')"
      using c by (auto simp: cloneAppend_def stringsAt_def split: option.splits cell.splits)
    then show ?thesis using alloc_facts alloc_new h Cons by (simp add: stringsAt_def)
  qed
qed

text \<open>A slice of byte slices reads as their contents.\<close>

definition slicesAt :: "heap \<Rightarrow> ref \<Rightarrow> cell option list option" where
  "slicesAt h r = (case deref h r of Some (SlicesCell rs) \<Rightarrow> Some (map (deref h) rs) | _ \<Rightarrow> None)"

definition slicesReach :: "heap \<Rightarrow> ref \<Rightarrow> nat set" where
  "slicesReach h r = set_option r \<union> (case deref h r of Some (SlicesCell rs) \<Rightarrow> \<Union> (set_option ` set rs) | _ \<Rightarrow> {})"

lemma cloneEach_ok:
  assumes "heapOk h" "valid h (\<Union> (set_option ` set rs))" "cloneEach rs h = (rs', h')"
  shows "heapOk h' \<and> extends h h' \<and> map (deref h') rs' = map (deref h) rs \<and> newIn h h' (\<Union> (set_option ` set rs'))"
  using assms
proof (induction rs arbitrary: h rs')
  case (Cons r rs)
  obtain r1 h1 where r1: "cloneCell r h = (r1, h1)" by force
  obtain rs2 where rs2: "cloneEach rs h1 = (rs2, h')" "rs' = r1 # rs2"
    using Cons.prems(3) r1 by (auto simp: cloneBytes_def split: prod.splits)
  have v: "valid h (set_option r)" "valid h (\<Union> (set_option ` set rs))" using Cons.prems(2) by simp_all
  note one = cells.copies [OF Cons.prems(1) v(1) r1]
  then have e: "extends h h1" "heapOk h1" by simp_all
  note more = Cons.IH [OF e(2) valid_later [OF v(2) e(1)] rs2(1)]
  then have e': "extends h1 h'" by simp
  have "map (deref h1) rs = map (deref h) rs" using v(2) e(1) by (auto intro!: cells.later simp: valid_def)
  moreover have "newIn h h' (\<Union> (set_option ` set rs2))" using newIn_wider [OF _ e(1) extends_refl] more by blast
  ultimately show ?case
    using more rs2(2) cells.copied [OF Cons.prems(1) v(1) r1 e'] extends_trans [OF e(1) e'] by simp
qed simp

lemma slices_copies:
  assumes "heapOk h" "valid h (slicesReach h r)" "cloneByteSlices r h = (r', h')"
  shows "heapOk h' \<and> extends h h' \<and> slicesAt h' r' = slicesAt h r \<and> newIn h h' (slicesReach h' r')"
proof (cases "\<exists>rs. deref h r = Some (SlicesCell rs)")
  case True
  then obtain rs rs' h1 where rs: "deref h r = Some (SlicesCell rs)" "cloneEach rs h = (rs', h1)" "alloc (SlicesCell rs') h1 = (r', h')"
    using assms(3) by (auto simp: cloneByteSlices_def split: prod.splits)
  have "valid h (\<Union> (set_option ` set rs))" using assms(2) rs(1) by (simp add: slicesReach_def)
  note each = cloneEach_ok [OF assms(1) this rs(2)]
  note new = alloc_facts [OF rs(3) conjunct1 [OF each]]
  have "map (deref h') rs' = map (deref h1) rs'"
    using each new(3) by (intro map_cong refl cells.later) (auto simp: newIn_def valid_def)
  moreover have "newIn h h' (\<Union> (set_option ` set rs'))" using newIn_wider [OF _ extends_refl new(3)] each by blast
  moreover have "hp_next h \<le> hp_next h1" using each by (simp add: extends_def)
  ultimately show ?thesis using each new rs(1) extends_trans [of h h1 h'] by (simp add: slicesAt_def slicesReach_def)
next
  case False
  then have "cloneByteSlices r h = (None, h)" "slicesAt h r = None"
    by (auto simp: cloneByteSlices_def slicesAt_def split: option.splits cell.splits)
  then show ?thesis using assms(1,3) by (simp add: slicesAt_def slicesReach_def deref_def)
qed

interpretation slices: copying slicesAt slicesReach cloneByteSlices
proof unfold_locales
  show "slicesAt h' r = slicesAt h r \<and> slicesReach h' r = slicesReach h r"
    if same: "\<And>a. a \<in> slicesReach h r \<Longrightarrow> hp_cells h' a = hp_cells h a" for h r h'
  proof -
    have top: "deref h' r = deref h r" using same by (intro deref_local) (simp add: slicesReach_def)
    have "deref h' x = deref h x" if "deref h r = Some (SlicesCell rs)" "x \<in> set rs" for rs x
      using same that by (intro deref_local) (auto simp: slicesReach_def)
    then show ?thesis using top by (auto simp: slicesAt_def slicesReach_def split: option.splits cell.splits)
  qed
qed (rule slices_copies)

subsection \<open>The configuration of fosite\<close>

definition fieldAt :: "slice_field \<Rightarrow> heap \<Rightarrow> ref \<Rightarrow> cell option + cell option list option" where
  "fieldAt f h r = (if f = RotatedGlobalSecrets then Inr (slicesAt h r) else Inl (deref h r))"

definition fieldReach :: "slice_field \<Rightarrow> heap \<Rightarrow> ref \<Rightarrow> nat set" where
  "fieldReach f h r = (if f = RotatedGlobalSecrets then slicesReach h r else set_option r)"

text \<open>Reading the same through another function that the view determines.\<close>

lemma copying_map:
  assumes "copying view reach clone" shows "copying (\<lambda>h r. g (view h r)) reach clone"
proof unfold_locales
  show "g (view h' r) = g (view h r) \<and> reach h' r = reach h r" if "\<And>a. a \<in> reach h r \<Longrightarrow> hp_cells h' a = hp_cells h a" for h r h'
    using copying.local [OF assms, of h r h'] that by simp
  show "heapOk h' \<and> extends h h' \<and> g (view h' r') = g (view h r) \<and> newIn h h' (reach h' r')"
    if "heapOk h" "valid h (reach h r)" "clone r h = (r', h')" for h r r' h'
    using copying.copies [OF assms that] by simp
qed

lemma copying_field: "copying (fieldAt f) (fieldReach f) (cloneField f)"
proof (cases "f = RotatedGlobalSecrets")
  case True
  then have "fieldAt f = (\<lambda>h r. Inr (slicesAt h r))" "fieldReach f = slicesReach" "cloneField f = cloneByteSlices"
    by (simp_all add: fieldAt_def fieldReach_def cloneField_def fun_eq_iff)
  then show ?thesis using copying_map [OF slices.copying_axioms, of Inr] by simp
next
  case False
  then have "fieldAt f = (\<lambda>h r. Inl (deref h r))" "fieldReach f = (\<lambda>h. set_option)" "cloneField f = cloneCell"
    by (cases f; simp add: fieldAt_def fieldReach_def cloneField_def cloneBytes_def cloneStrings_def fun_eq_iff)+
  then show ?thesis using copying_map [OF cells.copying_axioms, of Inl] by simp
qed

lemmas field_copies = copying.copies [OF copying_field]
lemmas field_copied = copying.copied [OF copying_field]
lemmas field_later = copying.later [OF copying_field]
lemmas field_local = copying.local [OF copying_field]

lemma cloneFields_ok:
  assumes "heapOk h" "distinct fs" "\<And>f. f \<in> set fs \<Longrightarrow> valid h (fieldReach f h (base f))" "cloneFields fs base h = (base', h')"
  shows "heapOk h' \<and> extends h h' \<and> (\<forall>f. f \<notin> set fs \<longrightarrow> base' f = base f)
    \<and> (\<forall>f \<in> set fs. fieldAt f h' (base' f) = fieldAt f h (base f) \<and> newIn h h' (fieldReach f h' (base' f)))"
  using assms
proof (induction fs arbitrary: base h)
  case (Cons f fs)
  obtain r h1 where r: "cloneField f (base f) h = (r, h1)" by force
  have v: "valid h (fieldReach f h (base f))" using Cons.prems(3) by simp
  note one = field_copies [OF Cons.prems(1) v r]
  then have e: "heapOk h1" "extends h h1" by simp_all
  have same: "(base(f := r)) g = base g" if "g \<in> set fs" for g using that Cons.prems(2) by auto
  have kept: "fieldAt g h1 (base g) = fieldAt g h (base g)" "fieldReach g h1 (base g) = fieldReach g h (base g)" if "g \<in> set fs" for g
    using field_later [OF _ e(2), of g "base g"] Cons.prems(3) that by simp_all
  have valid1: "valid h1 (fieldReach g h1 ((base(f := r)) g))" if "g \<in> set fs" for g
    using Cons.prems(3) [of g] that same [OF that] kept(2) [OF that] valid_later [OF _ e(2)] by simp
  have rest: "cloneFields fs (base(f := r)) h1 = (base', h')" using Cons.prems(4) r by simp
  have "distinct fs" "f \<notin> set fs" using Cons.prems(2) by simp_all
  note more = Cons.IH [OF e(1) this(1) valid1 rest]
  have e': "extends h1 h'" and at_f: "base' f = r" using more \<open>f \<notin> set fs\<close> by simp_all
  have "fieldAt f h' r = fieldAt f h (base f)" "newIn h h' (fieldReach f h' r)"
    using field_copied [OF Cons.prems(1) v r e'] .
  moreover have "fieldAt g h' (base' g) = fieldAt g h (base g)" "newIn h h' (fieldReach g h' (base' g))" if "g \<in> set fs" for g
    using more that same kept newIn_wider [OF _ e(2) extends_refl, of h'] by auto
  ultimately show ?case using more at_f extends_trans [OF e(2) e'] by auto
qed simp

definition baseAt :: "heap \<Rightarrow> ref \<Rightarrow> (string \<times> (slice_field \<Rightarrow> cell option + cell option list option)) option" where
  "baseAt h r = (case deref h r of Some (BaseCell s b) \<Rightarrow> Some (s, \<lambda>f. fieldAt f h (b f)) | _ \<Rightarrow> None)"

definition baseReach :: "heap \<Rightarrow> ref \<Rightarrow> nat set" where
  "baseReach h r = set_option r \<union> (case deref h r of Some (BaseCell s b) \<Rightarrow> \<Union>f. fieldReach f h (b f) | _ \<Rightarrow> {})"

lemma every_field: "f \<in> set clonedFields" "distinct clonedFields"
  by (cases f; simp add: clonedFields_def) (simp add: clonedFields_def)

lemma base_copies:
  assumes "heapOk h" "valid h (baseReach h r)" "cloneBase r h = (r', h')"
  shows "heapOk h' \<and> extends h h' \<and> baseAt h' r' = baseAt h r \<and> newIn h h' (baseReach h' r')"
proof (cases "\<exists>s b. deref h r = Some (BaseCell s b)")
  case True
  then obtain s b b' h1 where b: "deref h r = Some (BaseCell s b)" "cloneFields clonedFields b h = (b', h1)"
    "alloc (BaseCell s b') h1 = (r', h')"
    using assms(3) by (auto simp: cloneBase_def split: prod.splits)
  have "valid h (fieldReach f h (b f))" for f using assms(2) b(1) by (auto simp: baseReach_def valid_def)
  note fs = cloneFields_ok [OF assms(1) every_field(2) this b(2)]
  then have h1: "heapOk h1" "extends h h1" by simp_all
  have f: "fieldAt f h1 (b' f) = fieldAt f h (b f)" "newIn h h1 (fieldReach f h1 (b' f))" for f
    using fs every_field(1) [of f] by simp_all
  note new = alloc_facts [OF b(3) h1(1)]
  have "valid h1 (fieldReach f h1 (b' f))" for f using f(2) [of f] by (auto simp: newIn_def valid_def)
  note kept = field_later [OF this new(3)]
  have "newIn h h' (fieldReach f h' (b' f))" for f
    using newIn_wider [OF f(2) extends_refl new(3)] kept(2) by simp
  then have "newIn h h' (\<Union>f. fieldReach f h' (b' f))" by (simp add: newIn_def)
  moreover have "hp_next h \<le> hp_next h1" using h1(2) by (simp add: extends_def)
  moreover have "baseAt h' r' = baseAt h r" using new(5) b(1) f(1) kept(1) by (simp add: baseAt_def)
  moreover have "baseReach h' r' = insert (hp_next h1) (\<Union>f. fieldReach f h' (b' f))" using new(1,5) by (simp add: baseReach_def)
  ultimately show ?thesis using new(2,4) extends_trans [OF h1(2) new(3)] by simp
next
  case False
  then have "cloneBase r h = (None, h)" "baseAt h r = None"
    by (auto simp: cloneBase_def baseAt_def split: option.splits cell.splits)
  then show ?thesis using assms(1,3) by (simp add: baseAt_def baseReach_def)
qed

interpretation base: copying baseAt baseReach cloneBase
proof unfold_locales
  show "baseAt h' r = baseAt h r \<and> baseReach h' r = baseReach h r"
    if same: "\<And>a. a \<in> baseReach h r \<Longrightarrow> hp_cells h' a = hp_cells h a" for h r h'
  proof -
    have top: "deref h' r = deref h r" using same by (intro deref_local) (simp add: baseReach_def)
    have "fieldAt f h' (b f) = fieldAt f h (b f) \<and> fieldReach f h' (b f) = fieldReach f h (b f)"
      if "deref h r = Some (BaseCell s b)" for s b f
      using same that by (intro field_local) (auto simp: baseReach_def)
    then show ?thesis using top by (auto simp: baseAt_def baseReach_def fun_eq_iff split: option.splits cell.splits)
  qed
qed (rule base_copies)

text \<open>C37: a registered provider does not share secrets with the configuration it was given, nor with another provider of
  the same configuration: the copy of fosite's configuration reads as the original, every slice of it is new, and
  whatever is written through the copy afterwards the original reads as before, and conversely.\<close>

theorem config_copy_is_isolated:
  assumes "heapOk h" "valid h (baseReach h (hc_BaseConfig src))" "cloneConfig src h = (cfg, h')"
  shows "baseAt h' (hc_BaseConfig cfg) = baseAt h (hc_BaseConfig src)
    \<and> baseReach h' (hc_BaseConfig cfg) \<inter> baseReach h (hc_BaseConfig src) = {}
    \<and> (\<forall>a c. a \<in> baseReach h' (hc_BaseConfig cfg) \<longrightarrow> baseAt (store a c h') (hc_BaseConfig src) = baseAt h (hc_BaseConfig src))
    \<and> (\<forall>a c. a \<in> baseReach h (hc_BaseConfig src) \<longrightarrow> baseAt (store a c h') (hc_BaseConfig cfg) = baseAt h (hc_BaseConfig src))"
proof -
  have run: "cloneBase (hc_BaseConfig src) h = (hc_BaseConfig cfg, h')"
    using assms(3) by (auto simp: cloneConfig_def split: prod.splits)
  note copy = base.copies [OF assms(1,2) run]
  show ?thesis
    using copy base.disjoint [OF assms(1,2) run] base.original_kept [OF assms(1,2) run] base.copy_kept [OF assms(1,2) run] assms(2)
    by (simp add: valid_def)
qed

text \<open>The initial access tokens of the outer struct are shared with the caller.\<close>

lemma tokens_are_shared:
  assumes "cloneConfig src h = (cfg, h')"
  shows "hc_InitialAccessTokens cfg = hc_InitialAccessTokens src
    \<and> deref (store a c h') (hc_InitialAccessTokens cfg) = deref (store a c h') (hc_InitialAccessTokens src)"
  using assms by (auto simp: cloneConfig_def split: prod.splits)

subsection \<open>Sessions\<close>

text \<open>The claims read as their scalars, two lists and the map of extra claims; the headers as their map.\<close>

definition claimsAt :: "heap \<Rightarrow> ref \<Rightarrow> (id_claims \<times> string list \<times> string list \<times> cell option) option" where
  "claimsAt h r = (case deref h r of
       Some (ClaimsCell c) \<Rightarrow> Some (cc_Scalars c, stringsAt h (cc_Audience c), stringsAt h (cc_AMR c), deref h (cc_Extra c))
     | _ \<Rightarrow> None)"

definition claimsReach :: "heap \<Rightarrow> ref \<Rightarrow> nat set" where
  "claimsReach h r = set_option r \<union> (case deref h r of
       Some (ClaimsCell c) \<Rightarrow> set_option (cc_Audience c) \<union> set_option (cc_AMR c) \<union> set_option (cc_Extra c) | _ \<Rightarrow> {})"

lemma claims_copies:
  assumes "heapOk h" "valid h (claimsReach h r)" "cloneClaims r h = (r', h')"
  shows "heapOk h' \<and> extends h h' \<and> claimsAt h' r' = claimsAt h r \<and> newIn h h' (claimsReach h' r')"
proof (cases "\<exists>c. deref h r = Some (ClaimsCell c)")
  case True
  then obtain c aud h1 amr h2 ext h3 where c: "deref h r = Some (ClaimsCell c)" "cloneAppend (cc_Audience c) h = (aud, h1)"
    "cloneAppend (cc_AMR c) h1 = (amr, h2)" "cloneCell (cc_Extra c) h2 = (ext, h3)"
    "alloc (ClaimsCell (c\<lparr>cc_Audience := aud, cc_AMR := amr, cc_Extra := ext\<rparr>)) h3 = (r', h')"
    using assms(3) by (auto simp: cloneClaims_def split: prod.splits)
  have v: "valid h (set_option (cc_Audience c))" "valid h (set_option (cc_AMR c))" "valid h (set_option (cc_Extra c))"
    using assms(2) c(1) by (simp_all add: claimsReach_def)
  have h1: "heapOk h1" "extends h h1" using strings.copies [OF assms(1) v(1) c(2)] by simp_all
  note v2 = valid_later [OF v(2) h1(2)] and v3 = valid_later [OF v(3) h1(2)]
  have h2: "heapOk h2" "extends h1 h2" using strings.copies [OF h1(1) v2 c(3)] by simp_all
  note v4 = valid_later [OF v3 h2(2)]
  have h3: "heapOk h3" "extends h2 h3" using cells.copies [OF h2(1) v4 c(4)] by simp_all
  note new = alloc_facts [OF c(5) h3(1)]
  have e: "extends h h2" "extends h2 h'" "extends h1 h'" "extends h h'"
    using h1 h2 h3 new(3) by (blast intro: extends_trans)+
  have views: "stringsAt h' aud = stringsAt h (cc_Audience c)" "stringsAt h' amr = stringsAt h (cc_AMR c)" "deref h' ext = deref h (cc_Extra c)"
    using strings.copied [OF assms(1) v(1) c(2) e(3)] strings.copied [OF h1(1) v2 c(3) e(2)] cells.copied [OF h2(1) v4 c(4) new(3)]
      strings.later [OF v(2) h1(2)] cells.later [OF v(3) e(1)] by simp_all
  have "newIn h h' (set_option aud)" "newIn h h' (set_option amr)" "newIn h h' (set_option ext)"
    using strings.copied(2) [OF assms(1) v(1) c(2) e(3)] newIn_wider [OF strings.copied(2) [OF h1(1) v2 c(3) e(2)] h1(2) extends_refl]
      newIn_wider [OF cells.copied(2) [OF h2(1) v4 c(4) new(3)] e(1) extends_refl] by simp_all
  moreover have "hp_next h \<le> hp_next h3" using extends_trans [OF e(1) h3(2)] by (simp add: extends_def)
  ultimately show ?thesis using new e(4) views c(1) by (simp add: claimsAt_def claimsReach_def)
next
  case False
  then have "cloneClaims r h = (None, h)" "claimsAt h r = None"
    by (auto simp: cloneClaims_def claimsAt_def split: option.splits cell.splits)
  then show ?thesis using assms(1,3) by (simp add: claimsAt_def claimsReach_def)
qed

interpretation claims: copying claimsAt claimsReach cloneClaims
proof unfold_locales
  show "claimsAt h' r = claimsAt h r \<and> claimsReach h' r = claimsReach h r"
    if same: "\<And>a. a \<in> claimsReach h r \<Longrightarrow> hp_cells h' a = hp_cells h a" for h r h'
  proof -
    have top: "deref h' r = deref h r" using same by (intro deref_local) (simp add: claimsReach_def)
    have "stringsAt h' (cc_Audience c) = stringsAt h (cc_Audience c)" "stringsAt h' (cc_AMR c) = stringsAt h (cc_AMR c)"
      "deref h' (cc_Extra c) = deref h (cc_Extra c)" if "deref h r = Some (ClaimsCell c)" for c
      unfolding stringsAt_def using deref_local [of _ h' h] same that by (simp_all add: claimsReach_def)
    then show ?thesis using top by (auto simp: claimsAt_def claimsReach_def split: option.splits cell.splits)
  qed
qed (rule claims_copies)

definition headersAt :: "heap \<Rightarrow> ref \<Rightarrow> cell option option" where
  "headersAt h r = (case deref h r of Some (HeadersCell e) \<Rightarrow> Some (deref h e) | _ \<Rightarrow> None)"

definition headersReach :: "heap \<Rightarrow> ref \<Rightarrow> nat set" where
  "headersReach h r = set_option r \<union> (case deref h r of Some (HeadersCell e) \<Rightarrow> set_option e | _ \<Rightarrow> {})"

interpretation headers: copying headersAt headersReach cloneHeaders
proof unfold_locales
  show "headersAt h' r = headersAt h r \<and> headersReach h' r = headersReach h r"
    if same: "\<And>a. a \<in> headersReach h r \<Longrightarrow> hp_cells h' a = hp_cells h a" for h r h'
  proof -
    have top: "deref h' r = deref h r" using same by (intro deref_local) (simp add: headersReach_def)
    have "deref h' e = deref h e" if "deref h r = Some (HeadersCell e)" for e
      using same that by (intro deref_local) (simp add: headersReach_def)
    then show ?thesis using top by (auto simp: headersAt_def headersReach_def split: option.splits cell.splits)
  qed
  show "heapOk h' \<and> extends h h' \<and> headersAt h' r' = headersAt h r \<and> newIn h h' (headersReach h' r')"
    if h: "heapOk h" and v: "valid h (headersReach h r)" and c: "cloneHeaders r h = (r', h')" for h r r' h'
  proof (cases "\<exists>e. deref h r = Some (HeadersCell e)")
    case True
    then obtain e e' h1 where e: "deref h r = Some (HeadersCell e)" "cloneCell e h = (e', h1)" "alloc (HeadersCell e') h1 = (r', h')"
      using c by (auto simp: cloneHeaders_def split: prod.splits)
    have ve: "valid h (set_option e)" using v e(1) by (simp add: headersReach_def)
    have h1: "heapOk h1" "extends h h1" using cells.copies [OF h ve e(2)] by simp_all
    note new = alloc_facts [OF e(3) h1(1)]
    have "hp_next h \<le> hp_next h1" using h1(2) by (simp add: extends_def)
    then show ?thesis using new extends_trans [OF h1(2) new(3)] cells.copied [OF h ve e(2) new(3)] e(1)
      by (simp add: headersAt_def headersReach_def)
  next
    case False
    then have "cloneHeaders r h = (None, h)" "headersAt h r = None"
      by (auto simp: cloneHeaders_def headersAt_def split: option.splits cell.splits)
    then show ?thesis using h c by (simp add: headersAt_def headersReach_def)
  qed
qed

definition sessionAt :: "heap \<Rightarrow> heap_session \<Rightarrow> (string \<times> string \<times> string) \<times> cell option
    \<times> (id_claims \<times> string list \<times> string list \<times> cell option) option \<times> cell option option" where
  "sessionAt h s = ((hs_Subject s, hs_Username s, hs_CollectionId s), deref h (hs_ExpiresAt s), claimsAt h (hs_Claims s),
     headersAt h (hs_Headers s))"

definition sessionReach :: "heap \<Rightarrow> heap_session \<Rightarrow> nat set" where
  "sessionReach h s = set_option (hs_ExpiresAt s) \<union> claimsReach h (hs_Claims s) \<union> headersReach h (hs_Headers s)"

lemma sessionAt_local:
  assumes "\<And>a. a \<in> sessionReach h s \<Longrightarrow> hp_cells h' a = hp_cells h a" shows "sessionAt h' s = sessionAt h s"
  using assms cells.local [of "hs_ExpiresAt s" h' h] claims.local [of h "hs_Claims s" h'] headers.local [of h "hs_Headers s" h']
  by (simp add: sessionAt_def sessionReach_def)

lemma cloneSession_ok:
  assumes "heapOk h" "valid h (sessionReach h s)" "cloneSession (Some s) h = (q, h')"
  shows "\<exists>s'. q = Some s' \<and> extends h h' \<and> sessionAt h' s' = sessionAt h s \<and> newIn h h' (sessionReach h' s')"
proof -
  obtain e h1 c h2 d where run: "cloneCell (hs_ExpiresAt s) h = (e, h1)" "cloneClaims (hs_Claims s) h1 = (c, h2)"
    "cloneHeaders (hs_Headers s) h2 = (d, h')"
    and q: "q = Some \<lparr>hs_Subject = hs_Subject s, hs_Username = hs_Username s, hs_ExpiresAt = e, hs_Claims = c, hs_Headers = d,
      hs_CollectionId = hs_CollectionId s\<rparr>"
    using assms(3) by (auto simp: cloneSession_def cloneTimeMap_def split: prod.splits)
  have v: "valid h (set_option (hs_ExpiresAt s))" "valid h (claimsReach h (hs_Claims s))" "valid h (headersReach h (hs_Headers s))"
    using assms(2) by (simp_all add: sessionReach_def)
  have h1: "heapOk h1" "extends h h1" using cells.copies [OF assms(1) v(1) run(1)] by simp_all
  note at1 = claims.later [OF v(2) h1(2)]
  have v2: "valid h1 (claimsReach h1 (hs_Claims s))" using valid_later [OF v(2) h1(2)] at1(2) by simp
  have h2: "heapOk h2" "extends h1 h2" using claims.copies [OF h1(1) v2 run(2)] by simp_all
  have e2: "extends h h2" using h1(2) h2(2) by (rule extends_trans)
  note at2 = headers.later [OF v(3) e2]
  have v3: "valid h2 (headersReach h2 (hs_Headers s))" using valid_later [OF v(3) e2] at2(2) by simp
  note last = headers.copies [OF h2(1) v3 run(3)]
  then have e3: "extends h2 h'" by simp
  have e1: "extends h1 h'" "extends h h'" using h1(2) h2(2) e2 e3 by (blast intro: extends_trans)+
  note cells.copied [OF assms(1) v(1) run(1) e1(1)] claims.copied [OF h1(1) v2 run(2) e3] last at1(1) at2(1)
  moreover have "newIn h h' (claimsReach h' c)" "newIn h h' (headersReach h' d)"
    using newIn_wider [OF claims.copied(2) [OF h1(1) v2 run(2) e3] h1(2) extends_refl] newIn_wider [OF _ e2 extends_refl] last by blast+
  ultimately show ?thesis using q e1(2) by (simp add: sessionAt_def sessionReach_def)
qed


text \<open>The copy of the extra claims is shallow: a value that is itself a map or a slice is shared.\<close>

lemma nested_extra_shared:
  assumes "deref h r = Some (AnyCell kvs)" "(k, Pointer p) \<in> set kvs" "cloneCell r h = (r', h')"
  shows "\<exists>kvs'. deref h' r' = Some (AnyCell kvs') \<and> (k, Pointer p) \<in> set kvs'"
  using assms by (auto simp: cloneCell_def alloc_def deref_def)

subsection \<open>A concrete heap\<close>

definition demoHeap :: heap where
  "demoHeap = \<lparr>hp_next = 8, hp_cells = (\<lambda>_. None)(0 \<mapsto> BytesCell ''secret'', 1 \<mapsto> BytesCell ''old'', 2 \<mapsto> SlicesCell [Some 1],
     3 \<mapsto> BaseCell ''rest'' ((\<lambda>_. None)(GlobalSecret := Some 0, RotatedGlobalSecrets := Some 2)),
     4 \<mapsto> TimesCell [(AccessToken, 1)], 5 \<mapsto> StringsCell [''pwd''],
     6 \<mapsto> ClaimsCell \<lparr>cc_Scalars = \<lparr>ic_Issuer = ''iss'', ic_Subject = ''u1'', ic_Audience = [], ic_IssuedAt = 0, ic_RequestedAt = 0,
        ic_AuthTime = 0, ic_ExpiresAt = 0, ic_AMR = [], ic_ACR = ''loa1'', ic_Extra = []\<rparr>, cc_Audience = None, cc_AMR = Some 5, cc_Extra = None\<rparr>,
     7 \<mapsto> HeadersCell None)\<rparr>"

definition demoShared :: heap_config where
  "demoShared = \<lparr>hc_Scalars = ''scalars'', hc_InitialAccessTokens = None, hc_BaseConfig = Some 3\<rparr>"

definition demoHeapSession :: heap_session where
  "demoHeapSession = \<lparr>hs_Subject = ''u1'', hs_Username = [], hs_ExpiresAt = Some 4, hs_Claims = Some 6, hs_Headers = Some 7, hs_CollectionId = ''users''\<rparr>"

lemma demo_heapOk: "heapOk demoHeap"
  by (auto simp: heapOk_def demoHeap_def split: if_splits)

lemma demo_valid: "valid demoHeap (baseReach demoHeap (hc_BaseConfig demoShared))" "valid demoHeap (sessionReach demoHeap demoHeapSession)"
  by (auto simp: valid_def demoHeap_def demoShared_def demoHeapSession_def baseReach_def fieldReach_def slicesReach_def sessionReach_def
      claimsReach_def headersReach_def deref_def split: if_splits)

theorem config_copy_is_isolated_witness:
  "\<exists>cfg h'. cloneConfig demoShared demoHeap = (cfg, h') \<and> baseAt h' (hc_BaseConfig cfg) = baseAt demoHeap (Some 3)
     \<and> baseAt (store 0 (BytesCell ''changed'') h') (hc_BaseConfig cfg) = baseAt demoHeap (Some 3)"
proof -
  obtain cfg h' where run: "cloneConfig demoShared demoHeap = (cfg, h')" by force
  have "0 \<in> baseReach demoHeap (hc_BaseConfig demoShared)"
    by (auto simp: baseReach_def demoShared_def deref_def demoHeap_def fieldReach_def intro!: exI [of _ GlobalSecret])
  with config_copy_is_isolated [OF demo_heapOk demo_valid(1) run] run show ?thesis by (auto simp: demoShared_def)
qed


end
