(* ===== verification/Migrations.thy ===== *)
theory Migrations
  imports World "HOL-Library.AList"
begin

section \<open>The schema of the tables (migrations/)\<close>

text \<open>
  Six migrations create the collections of the provider and extend them over time. The catalog maps the name of a
  collection to its schema: its fields, its indexes, whether it is a base collection and a system one. The \<open>id\<close> field
  that PocketBase adds to every collection is left out. A migration is a program on the catalog; PocketBase runs each
  in a transaction, those registered as system migrations first. The columns of an index are kept as a list of names
  instead of the SQL text.
\<close>

subsection \<open>Collections\<close>

text \<open>A text field with \<open>Required\<close> and \<open>Max\<close>, a number field with \<open>Required\<close> and \<open>OnlyInt\<close>.\<close>

datatype field_kind = TextField bool nat | NumberField bool bool | JSONField | OtherField

record index_def =
  ix_Name :: string
  ix_Unique :: bool
  ix_Columns :: "string list"

record schema =
  sc_Name :: string
  sc_Base :: bool
  sc_System :: bool
  sc_New :: bool
  sc_Fields :: "(string \<times> field_kind) list"
  sc_Indexes :: "index_def list"

record catalog_world = base_world +
  w_catalog :: "string \<Rightarrow> schema option"

type_synonym ('o, 'w, 'a) mgo = "('o envir_scheme, 'w catalog_world_scheme, 'a) go"

definition NewBaseCollection :: "string \<Rightarrow> schema" where
  "NewBaseCollection name = \<lparr>sc_Name = name, sc_Base = True, sc_System = False, sc_New = True, sc_Fields = [], sc_Indexes = []\<rparr>"

text \<open>\<open>Fields.GetByName\<close>, \<open>Fields.Add\<close>, \<open>Fields.RemoveByName\<close>, \<open>AddIndex\<close>: a field or index of the same name is replaced.\<close>

definition fieldOf :: "schema \<Rightarrow> string \<Rightarrow> field_kind option" where
  "fieldOf c name = map_of (sc_Fields c) name"

definition addField :: "string \<times> field_kind \<Rightarrow> schema \<Rightarrow> schema" where
  "addField f c = c\<lparr>sc_Fields := AList.update (fst f) (snd f) (sc_Fields c)\<rparr>"

definition addFields :: "(string \<times> field_kind) list \<Rightarrow> schema \<Rightarrow> schema" where
  "addFields fs c = fold addField fs c"

definition removeField :: "string \<Rightarrow> schema \<Rightarrow> schema" where
  "removeField name c = c\<lparr>sc_Fields := AList.delete name (sc_Fields c)\<rparr>"

definition AddIndex :: "string \<Rightarrow> bool \<Rightarrow> string list \<Rightarrow> schema \<Rightarrow> schema" where
  "AddIndex name unique columns c = c\<lparr>sc_Indexes := filter (\<lambda>i. ix_Name i \<noteq> name) (sc_Indexes c)
     @ [\<lparr>ix_Name = name, ix_Unique = unique, ix_Columns = columns\<rparr>]\<rparr>"

text \<open>A new collection must not have the name of another. Saving and deleting may fail for other reasons too.\<close>

definition FindCollection :: "string \<Rightarrow> ('o, 'w, schema) mgo" where
  "FindCollection name = bindG dbCall (\<lambda>_. bindG (readG (\<lambda>w. w_catalog w name)) (\<lambda>r. case r of
     None \<Rightarrow> throwG (plainErr ErrNoRows) | Some c \<Rightarrow> returnG c))"

definition SaveCollection :: "schema \<Rightarrow> ('o, 'w, unit) mgo" where
  "SaveCollection c = bindG dbCall (\<lambda>_. bindG (readG (\<lambda>w. w_catalog w (sc_Name c))) (\<lambda>old.
     if sc_New c \<and> old \<noteq> None then throwG constraintErr
     else modifyG (\<lambda>w. w\<lparr>w_catalog := (w_catalog w)(sc_Name c \<mapsto> c\<lparr>sc_New := False\<rparr>)\<rparr>)))"

definition DeleteCollection :: "schema \<Rightarrow> ('o, 'w, unit) mgo" where
  "DeleteCollection c = bindG dbCall (\<lambda>_. modifyG (\<lambda>w. w\<lparr>w_catalog := (w_catalog w)(sc_Name c := None)\<rparr>))"

definition plainText :: "string \<Rightarrow> string \<times> field_kind" where "plainText name = (name, TextField False 0)"
definition plainNumber :: "string \<Rightarrow> string \<times> field_kind" where "plainNumber name = (name, NumberField False False)"
definition plainJSON :: "string \<Rightarrow> string \<times> field_kind" where "plainJSON name = (name, JSONField)"

definition systemCollection :: "string \<Rightarrow> schema" where
  "systemCollection name = (NewBaseCollection name)\<lparr>sc_System := True\<rparr>"

subsection \<open>1770364898: sessions, JTIs, clients\<close>

definition sessionNames :: "string list" where
  "sessionNames = map collectionName [AccessC, RefreshC, AuthCodeC, PKCEC, OpenIDC]"

definition sessionFields :: "(string \<times> field_kind) list" where
  "sessionFields = [plainText ''signature'', plainText ''client_id'', plainText ''request_id'', plainNumber ''requested_at'',
     plainNumber ''expires_at'', plainText ''scopes'', plainText ''granted_scopes'', plainText ''requested_audience'',
     plainText ''granted_audience'', plainText ''form_data'', plainText ''session_data'', plainText ''subject'']"

definition createSessionCollection :: "string \<Rightarrow> ('o, 'w, unit) mgo" where
  "createSessionCollection name = SaveCollection (addFields sessionFields (systemCollection name))"

definition jtiFields :: "(string \<times> field_kind) list" where
  "jtiFields = [plainText ''jti'', plainNumber ''expires_at'']"

definition clientFields :: "(string \<times> field_kind) list" where
  "clientFields = [plainText ''client_id'', plainText ''client_name'', plainText ''client_secret'',
     plainNumber ''client_secret_expires_at'', plainJSON ''redirect_uris'', plainJSON ''grant_types'', plainJSON ''response_types'',
     plainText ''scope'', plainJSON ''audience'', plainText ''owner'', plainText ''policy_uri'', plainText ''tos_uri'',
     plainText ''client_uri'', plainText ''logo_uri'', plainJSON ''contacts'', plainJSON ''allowed_cors_origins'',
     plainText ''subject_type'', plainText ''sector_identifier_uri'', plainText ''jwks_uri'', plainJSON ''jwks'',
     plainJSON ''request_uris'', plainText ''token_endpoint_auth_method'', plainText ''token_endpoint_auth_signing_alg'',
     plainText ''request_object_signing_alg'', plainText ''userinfo_signed_response_alg'', plainJSON ''metadata'',
     plainText ''access_token_strategy'']"

definition initUp :: "('o, 'w, unit) mgo" where
  "initUp = bindG (forG sessionNames createSessionCollection) (\<lambda>_.
     bindG (SaveCollection (addFields jtiFields (systemCollection (collectionName JTIC)))) (\<lambda>_.
     SaveCollection (addFields clientFields (systemCollection (collectionName ClientC)))))"

definition dropIfFound :: "string \<Rightarrow> ('o, 'w, unit) mgo" where
  "dropIfFound name = bindG (attemptG (FindCollection name)) (\<lambda>r. case r of
     Inl _ \<Rightarrow> returnG () | Inr c \<Rightarrow> bindG (attemptG (DeleteCollection c)) (\<lambda>_. returnG ()))"

definition initDown :: "('o, 'w, unit) mgo" where
  "initDown = bindG (forG sessionNames dropIfFound) (\<lambda>_.
     bindG (dropIfFound (collectionName JTIC)) (\<lambda>_. dropIfFound (collectionName ClientC)))"

subsection \<open>1770365000: refresh families\<close>

definition familyFields :: "(string \<times> field_kind) list" where
  "familyFields = [plainText ''family_id'', plainText ''parent_refresh_id'', plainText ''status'',
     plainNumber ''rotated_at'', plainNumber ''reused_at'']"

definition refreshFamilyUp :: "('o, 'w, unit) mgo" where
  "refreshFamilyUp = bindG (FindCollection (collectionName RefreshC)) (\<lambda>c. SaveCollection (addFields familyFields c))"

definition refreshFamilyDown :: "('o, 'w, unit) mgo" where
  "refreshFamilyDown = returnG ()"

subsection \<open>1770366000: interactions and consents\<close>

definition interactionFields :: "(string \<times> field_kind) list" where
  "interactionFields = [plainText ''client_id'', plainText ''client_name'', plainText ''user_collection'', plainText ''redirect_uri'',
     plainJSON ''request_form'', plainJSON ''requested_scopes'', plainNumber ''requested_at'', plainNumber ''expires_at'',
     plainText ''prompt'']"

definition consentFields :: "(string \<times> field_kind) list" where
  "consentFields = [plainText ''user_id'', plainText ''user_collection'', plainText ''client_id'', plainJSON ''granted_scopes'',
     plainNumber ''granted_at'']"

definition interactionsUp :: "('o, 'w, unit) mgo" where
  "interactionsUp = bindG (SaveCollection (addFields interactionFields (systemCollection (collectionName InteractionC)))) (\<lambda>_.
     SaveCollection (addFields consentFields (systemCollection (collectionName ConsentC))))"

definition interactionsDown :: "('o, 'w, unit) mgo" where
  "interactionsDown = forG [collectionName InteractionC, collectionName ConsentC] (\<lambda>name.
     bindG (attemptG (FindCollection name)) (\<lambda>r. case r of Inl _ \<Rightarrow> returnG () | Inr c \<Rightarrow> DeleteCollection c))"

subsection \<open>1770367000: requested acr values\<close>

definition acrValuesUp :: "('o, 'w, unit) mgo" where
  "acrValuesUp = bindG (FindCollection (collectionName InteractionC)) (\<lambda>c.
     if fieldOf c ''requested_acr_values'' \<noteq> None then returnG ()
     else SaveCollection (addField (plainJSON ''requested_acr_values'') c))"

definition acrValuesDown :: "('o, 'w, unit) mgo" where
  "acrValuesDown = bindG (FindCollection (collectionName InteractionC)) (\<lambda>c.
     SaveCollection (removeField ''requested_acr_values'' c))"

subsection \<open>1770368000: provider prefixes\<close>

definition prefixedCollections :: "collection list" where
  "prefixedCollections = [ClientC, AccessC, RefreshC, AuthCodeC, PKCEC, OpenIDC, JTIC, InteractionC, ConsentC]"

definition withPrefixField :: "schema \<Rightarrow> schema" where
  "withPrefixField c = (if fieldOf c ''provider_prefix'' = None then addField (''provider_prefix'', TextField False 255) c else c)"

definition prefixIndexes :: "collection \<Rightarrow> schema \<Rightarrow> schema" where
  "prefixIndexes col c = (case col of
       ClientC \<Rightarrow> AddIndex ''idx_oauth2_client_provider'' True [''provider_prefix'', ''client_id''] c
     | JTIC \<Rightarrow> AddIndex ''idx_oauth2_jti_provider'' True [''provider_prefix'', ''jti''] c
     | ConsentC \<Rightarrow> AddIndex ''idx_oauth2_consent_provider'' True [''provider_prefix'', ''user_collection'', ''user_id'', ''client_id''] c
     | InteractionC \<Rightarrow> AddIndex ''idx_oauth2_interaction_provider'' False [''provider_prefix'', ''expires_at''] c
     | _ \<Rightarrow> (let base = ''idx_oauth2_'' @ drop 7 (collectionName col) in
         AddIndex (base @ ''_provider_request'') False [''provider_prefix'', ''request_id'']
           (AddIndex (base @ ''_provider_sig'') True [''provider_prefix'', ''signature''] c)))"

definition providerPrefixUp :: "('o, 'w, unit) mgo" where
  "providerPrefixUp = forG prefixedCollections (\<lambda>col. bindG (FindCollection (collectionName col)) (\<lambda>c.
     SaveCollection (prefixIndexes col (withPrefixField c))))"

definition providerPrefixDown :: "('o, 'w, unit) mgo" where
  "providerPrefixDown = returnG ()"

subsection \<open>1770369000: tombstones\<close>

definition ensureRefreshTombstoneTextField :: "string \<Rightarrow> bool \<Rightarrow> schema \<Rightarrow> ('o, 'w, schema) mgo" where
  "ensureRefreshTombstoneTextField name required c = (case fieldOf c name of
       None \<Rightarrow> returnG (addField (name, TextField required 255) c)
     | Some (TextField _ _) \<Rightarrow> returnG (addField (name, TextField required 255) c)
     | Some _ \<Rightarrow> throwG (textErr ''must be a text field''))"

definition ensureRefreshTombstoneExpiryField :: "schema \<Rightarrow> ('o, 'w, schema) mgo" where
  "ensureRefreshTombstoneExpiryField c = (case fieldOf c ''expires_at'' of
       None \<Rightarrow> returnG (addField (''expires_at'', NumberField True True) c)
     | Some (NumberField _ _) \<Rightarrow> returnG (addField (''expires_at'', NumberField True True) c)
     | Some _ \<Rightarrow> throwG (textErr ''must be a number field''))"

definition tombstonesUp :: "('o, 'w, unit) mgo" where
  "tombstonesUp = bindG (attemptG (FindCollection (collectionName TombstoneC))) (\<lambda>r.
     bindG (case r of Inr c \<Rightarrow> returnG c
       | Inl e \<Rightarrow> if \<not> errorsIs e ErrNoRows then throwG e else returnG (NewBaseCollection (collectionName TombstoneC))) (\<lambda>c.
     if \<not> sc_Base c then throwG (textErr ''must be a base collection'')
     else bindG (ensureRefreshTombstoneTextField ''provider_prefix'' True (c\<lparr>sc_System := True\<rparr>)) (\<lambda>c.
     bindG (ensureRefreshTombstoneTextField ''request_id'' True c) (\<lambda>c.
     bindG (ensureRefreshTombstoneTextField ''family_id'' False c) (\<lambda>c.
     bindG (ensureRefreshTombstoneExpiryField c) (\<lambda>c.
     SaveCollection (AddIndex ''idx_oauth2_refresh_tombstone_request'' True [''provider_prefix'', ''request_id''] c)))))))"

definition tombstonesDown :: "('o, 'w, unit) mgo" where
  "tombstonesDown = returnG ()"

subsection \<open>Running them\<close>

datatype migration = InitialTables | RefreshFamily | InteractionsAndConsents | AcrValues | ProviderPrefix | RefreshTombstones

fun migrationUp :: "migration \<Rightarrow> ('o, 'w, unit) mgo" where
  "migrationUp InitialTables = initUp"
| "migrationUp RefreshFamily = refreshFamilyUp"
| "migrationUp InteractionsAndConsents = interactionsUp"
| "migrationUp AcrValues = acrValuesUp"
| "migrationUp ProviderPrefix = providerPrefixUp"
| "migrationUp RefreshTombstones = tombstonesUp"

fun migrationDown :: "migration \<Rightarrow> ('o, 'w, unit) mgo" where
  "migrationDown InitialTables = initDown"
| "migrationDown RefreshFamily = refreshFamilyDown"
| "migrationDown InteractionsAndConsents = interactionsDown"
| "migrationDown AcrValues = acrValuesDown"
| "migrationDown ProviderPrefix = providerPrefixDown"
| "migrationDown RefreshTombstones = tombstonesDown"

text \<open>The system migrations in the order of their names, then the one that is registered with the app's.\<close>

definition allMigrations :: "migration list" where
  "allMigrations = [InitialTables, RefreshFamily, InteractionsAndConsents, ProviderPrefix, RefreshTombstones, AcrValues]"

definition upgrade :: "migration list \<Rightarrow> ('o, 'w, unit) mgo" where
  "upgrade ms = forG ms (\<lambda>m. transactionG (migrationUp m))"

end
