(* ===== verification/Migration_Properties.thy ===== *)
theory Migration_Properties
  imports Migrations Interactions Code_Store
begin

section \<open>Properties of the migrations\<close>

subsection \<open>Statements on the catalog\<close>

lemma schema_simps [simp]:
  "sc_Name (addField f c) = sc_Name c" "sc_Name (removeField n c) = sc_Name c" "sc_Name (AddIndex i u k c) = sc_Name c"
  "sc_Base (addField f c) = sc_Base c" "sc_System (addField f c) = sc_System c" "sc_New (addField f c) = sc_New c"
  "sc_Base (AddIndex i u k c) = sc_Base c" "sc_System (AddIndex i u k c) = sc_System c"
  "sc_Indexes (addField f c) = sc_Indexes c" "sc_Fields (AddIndex i u k c) = sc_Fields c"
  "sc_New (AddIndex i u k c) = sc_New c" "sc_Name (NewBaseCollection n) = n" "sc_Base (NewBaseCollection n)" "sc_New (NewBaseCollection n)"
  "sc_Name (systemCollection n) = n" "sc_New (systemCollection n)"
  by (simp_all add: addField_def removeField_def AddIndex_def NewBaseCollection_def systemCollection_def)

lemma addFields_simps [simp]: "sc_Name (addFields fs c) = sc_Name c" "sc_New (addFields fs c) = sc_New c"
  by (induction fs arbitrary: c) (simp_all add: addFields_def)

lemma fieldOf_simps [simp]:
  "fieldOf (addField f c) n = (if n = fst f then Some (snd f) else fieldOf c n)"
  "fieldOf (AddIndex i u k c) n = fieldOf c n" "fieldOf (c\<lparr>sc_New := b\<rparr>) n = fieldOf c n" "fieldOf (c\<lparr>sc_System := b\<rparr>) n = fieldOf c n"
  "fieldOf (NewBaseCollection m) n = None" "fieldOf (systemCollection m) n = None"
  by (simp_all add: fieldOf_def addField_def AddIndex_def update_conv' NewBaseCollection_def systemCollection_def)

lemma prefix_names [simp]: "sc_Name (withPrefixField c) = sc_Name c" "sc_Name (prefixIndexes col c) = sc_Name c"
  "sc_New (withPrefixField c) = sc_New c" "sc_New (prefixIndexes col c) = sc_New c"
  by (cases col; simp add: prefixIndexes_def withPrefixField_def Let_def)+

lemma wp_FindCollection [wp_simps]: "wp (FindCollection name) Q E \<omega> w = (let w' = w\<lparr>tick := Suc (tick w)\<rparr> in
   if dbfail \<omega> (tick w) then E driverErr w' else case w_catalog w name of None \<Rightarrow> E (plainErr ErrNoRows) w' | Some c \<Rightarrow> Q c w')"
  by (simp add: FindCollection_def wp_simps Let_def split: option.split)

lemma wp_SaveCollection [wp_simps]: "wp (SaveCollection c) Q E \<omega> w = (let w' = w\<lparr>tick := Suc (tick w)\<rparr> in
   if dbfail \<omega> (tick w) then E driverErr w' else if sc_New c \<and> w_catalog w (sc_Name c) \<noteq> None then E constraintErr w'
   else Q () (w'\<lparr>w_catalog := (w_catalog w)(sc_Name c \<mapsto> c\<lparr>sc_New := False\<rparr>)\<rparr>))"
  by (auto simp: SaveCollection_def wp_simps Let_def)

lemma wp_DeleteCollection [wp_simps]: "wp (DeleteCollection c) Q E \<omega> w = (let w' = w\<lparr>tick := Suc (tick w)\<rparr> in
   if dbfail \<omega> (tick w) then E driverErr w' else Q () (w'\<lparr>w_catalog := (w_catalog w)(sc_Name c := None)\<rparr>))"
  by (simp add: DeleteCollection_def wp_simps Let_def)

lemma wp_ensureText [wp_simps]: "wp (ensureRefreshTombstoneTextField n r c) Q E \<omega> w =
   (if fieldOf c n = None \<or> (\<exists>q m. fieldOf c n = Some (TextField q m)) then Q (addField (n, TextField r 255) c) w
    else E (textErr ''must be a text field'') w)"
  by (auto simp: ensureRefreshTombstoneTextField_def wp_simps split: option.splits field_kind.splits)

lemma wp_ensureExpiry [wp_simps]: "wp (ensureRefreshTombstoneExpiryField c) Q E \<omega> w =
   (if fieldOf c ''expires_at'' = None \<or> (\<exists>q m. fieldOf c ''expires_at'' = Some (NumberField q m))
    then Q (addField (''expires_at'', NumberField True True) c) w else E (textErr ''must be a number field'') w)"
  by (auto simp: ensureRefreshTombstoneExpiryField_def wp_simps split: option.splits field_kind.splits)

subsection \<open>A full upgrade\<close>

text \<open>The schema of each collection as the catalog holds it; a stage gives the schemas of the collections so far.\<close>

abbreviation saved :: "schema \<Rightarrow> schema" where "saved c \<equiv> c\<lparr>sc_New := False\<rparr>"

definition holds :: "'w catalog_world_scheme \<Rightarrow> (collection \<Rightarrow> schema option) \<Rightarrow> bool" where
  "holds w f \<longleftrightarrow> (\<forall>c. w_catalog w (collectionName c) = f c)"

lemma holds_tick [simp]: "holds (w\<lparr>tick := n\<rparr>) f = holds w f"
  by (simp add: holds_def)

lemma save_rule:
  assumes "holds w f" "sc_Name s = collectionName c" "sc_New s \<longrightarrow> f c = None" "\<And>v. holds v (f(c \<mapsto> saved s)) \<Longrightarrow> Q () v"
    "\<And>n e v. dbfail \<omega> n \<Longrightarrow> E e v"
  shows "wp (SaveCollection s) Q E \<omega> w"
  using assms by (auto simp: wp_SaveCollection Let_def holds_def collectionName_inj fun_upd_def)

lemma find_rule:
  assumes "holds w f" "f c = Some s" "\<And>v. holds v f \<Longrightarrow> Q s v" "\<And>n e v. dbfail \<omega> n \<Longrightarrow> E e v"
  shows "wp (FindCollection (collectionName c)) Q E \<omega> w"
  using assms(1,2) assms(3) [of "w\<lparr>tick := Suc (tick w)\<rparr>"] assms(4) by (simp add: wp_FindCollection Let_def holds_def)

definition baseSchema :: "collection \<Rightarrow> schema option" where
  "baseSchema c = map_option (\<lambda>fs. saved (addFields fs (systemCollection (collectionName c)))) (case c of
       ClientC \<Rightarrow> Some clientFields | JTIC \<Rightarrow> Some jtiFields | TombstoneC \<Rightarrow> None | InteractionC \<Rightarrow> None | ConsentC \<Rightarrow> None
     | _ \<Rightarrow> Some sessionFields)"

definition familySchema :: "collection \<Rightarrow> schema option" where
  "familySchema = baseSchema(RefreshC := map_option (\<lambda>c. saved (addFields familyFields c)) (baseSchema RefreshC))"

definition pendingSchema :: "collection \<Rightarrow> schema option" where
  "pendingSchema = familySchema(InteractionC \<mapsto> saved (addFields interactionFields (systemCollection (collectionName InteractionC))),
     ConsentC \<mapsto> saved (addFields consentFields (systemCollection (collectionName ConsentC))))"

definition prefixedSchema :: "collection \<Rightarrow> schema option" where
  "prefixedSchema c = map_option (\<lambda>s. saved (prefixIndexes c (withPrefixField s))) (pendingSchema c)"

definition tombstoneSchema :: schema where
  "tombstoneSchema = saved (AddIndex ''idx_oauth2_refresh_tombstone_request'' True [''provider_prefix'', ''request_id'']
     (addFields [(''provider_prefix'', TextField True 255), (''request_id'', TextField True 255), (''family_id'', TextField False 255),
        (''expires_at'', NumberField True True)] (systemCollection (collectionName TombstoneC))))"

definition finalSchema :: "collection \<Rightarrow> schema option" where
  "finalSchema = prefixedSchema(TombstoneC \<mapsto> tombstoneSchema,
     InteractionC := map_option (\<lambda>c. saved (addField (plainJSON ''requested_acr_values'') c)) (prefixedSchema InteractionC))"

abbreviation arrives :: "('o, 'w, unit) mgo \<Rightarrow> (collection \<Rightarrow> schema option) \<Rightarrow> (collection \<Rightarrow> schema option) \<Rightarrow> bool" where
  "arrives m f g \<equiv> \<forall>\<omega> w. holds w f \<longrightarrow> wp m (\<lambda>_ v. holds v g) (\<lambda>_ _. \<exists>n. dbfail \<omega> n) \<omega> w"

lemma arrivesI: "(\<And>\<omega> w. holds w f \<Longrightarrow> wp m (\<lambda>_ v. holds v g) (\<lambda>_ _. \<exists>n. dbfail \<omega> n) \<omega> w) \<Longrightarrow> arrives m f g"
  by blast

lemma init_arrives: "arrives initUp (\<lambda>_. None) baseSchema"
proof (rule arrivesI)
  fix \<omega> :: "'a envir_scheme" and w :: "'b catalog_world_scheme"
  assume w: "holds w (\<lambda>_. None)"
  let ?new = "\<lambda>fs c. addFields fs (systemCollection (collectionName c))"
  have same: "Map.empty(AccessC \<mapsto> saved (?new sessionFields AccessC), RefreshC \<mapsto> saved (?new sessionFields RefreshC),
      AuthCodeC \<mapsto> saved (?new sessionFields AuthCodeC), PKCEC \<mapsto> saved (?new sessionFields PKCEC),
      OpenIDC \<mapsto> saved (?new sessionFields OpenIDC), JTIC \<mapsto> saved (?new jtiFields JTIC), ClientC \<mapsto> saved (?new clientFields ClientC)) = baseSchema"
  proof
    fix c show "(Map.empty(AccessC \<mapsto> saved (?new sessionFields AccessC), RefreshC \<mapsto> saved (?new sessionFields RefreshC),
      AuthCodeC \<mapsto> saved (?new sessionFields AuthCodeC), PKCEC \<mapsto> saved (?new sessionFields PKCEC),
      OpenIDC \<mapsto> saved (?new sessionFields OpenIDC), JTIC \<mapsto> saved (?new jtiFields JTIC), ClientC \<mapsto> saved (?new clientFields ClientC))) c = baseSchema c"
      by (cases c) (simp_all add: baseSchema_def del: collectionName.simps)
  qed
  show "wp initUp (\<lambda>_ v. holds v baseSchema) (\<lambda>_ _. \<exists>n. dbfail \<omega> n) \<omega> w"
    unfolding initUp_def sessionNames_def list.map forG.simps createSessionCollection_def wp_bindG wp_returnG same [symmetric]
    by (rule save_rule [OF w], simp del: collectionName.simps, simp, (rule save_rule, assumption, simp del: collectionName.simps, simp)+)
      (assumption | rule exI, assumption)+
qed

lemma family_arrives: "arrives refreshFamilyUp baseSchema familySchema"
  unfolding refreshFamilyUp_def wp_bindG
  by (auto simp: familySchema_def baseSchema_def intro!: find_rule save_rule simp del: collectionName.simps)

lemma interactions_arrive: "arrives interactionsUp familySchema pendingSchema"
  unfolding interactionsUp_def wp_bindG
  by (auto simp: pendingSchema_def familySchema_def baseSchema_def intro!: save_rule simp del: collectionName.simps)

lemma pendingSchema_tagged:
  "c \<noteq> TombstoneC \<Longrightarrow> \<exists>s. pendingSchema c = Some s" "pendingSchema TombstoneC = None"
  by (cases c) (simp_all add: pendingSchema_def familySchema_def baseSchema_def)

lemma pendingSchema_name: "pendingSchema c = Some s \<Longrightarrow> sc_Name s = collectionName c \<and> \<not> sc_New s"
  by (cases c) (auto simp: pendingSchema_def familySchema_def baseSchema_def simp del: collectionName.simps)

definition tagged :: "collection list \<Rightarrow> collection \<Rightarrow> schema option" where
  "tagged todo c = (if c \<in> set todo then pendingSchema c else prefixedSchema c)"

lemma prefix_arrives: "arrives providerPrefixUp pendingSchema prefixedSchema"
proof (rule arrivesI)
  fix \<omega> :: "'a envir_scheme" and w :: "'b catalog_world_scheme"
  assume w: "holds w pendingSchema"
  let ?J = "\<lambda>todo v. holds v (tagged todo) \<and> distinct todo \<and> TombstoneC \<notin> set todo"
  have all: "tagged prefixedCollections = pendingSchema"
  proof
    show "tagged prefixedCollections c = pendingSchema c" for c
      using pendingSchema_tagged(2) by (cases c) (simp_all add: tagged_def prefixedCollections_def prefixedSchema_def)
  qed
  have step: "wp (bindG (FindCollection (collectionName c)) (\<lambda>s. SaveCollection (prefixIndexes c (withPrefixField s))))
      (\<lambda>_. ?J cs) (\<lambda>_ _. \<exists>n. dbfail \<omega> n) \<omega> v" if J: "?J (c # cs) v" for c cs v
  proof -
    obtain s where s: "pendingSchema c = Some s" using J pendingSchema_tagged(1) [of c] by auto
    have after: "(tagged (c # cs))(c \<mapsto> saved (prefixIndexes c (withPrefixField s))) = tagged cs"
      using J s by (auto simp: tagged_def fun_eq_iff prefixedSchema_def)
    show ?thesis unfolding wp_bindG
    proof (rule find_rule [where f = "tagged (c # cs)"])
      show "holds v (tagged (c # cs))" using J by simp
      show "tagged (c # cs) c = Some s" using s by (simp add: tagged_def)
      show "wp (SaveCollection (prefixIndexes c (withPrefixField s))) (\<lambda>_. ?J cs) (\<lambda>_ _. \<exists>n. dbfail \<omega> n) \<omega> u"
        if "holds u (tagged (c # cs))" for u
        by (rule save_rule [OF that, where c = c]) (use J s in \<open>auto simp: pendingSchema_name after\<close>)
    qed auto
  qed
  have start: "?J prefixedCollections w" using w all by (simp add: prefixedCollections_def)
  have "wp providerPrefixUp (\<lambda>_. ?J []) (\<lambda>_ _. \<exists>n. dbfail \<omega> n) \<omega> w"
    unfolding providerPrefixUp_def by (rule wp_forG [where J = ?J, OF step start])
  moreover have "tagged [] = prefixedSchema" by (simp add: tagged_def fun_eq_iff)
  ultimately show "wp providerPrefixUp (\<lambda>_ v. holds v prefixedSchema) (\<lambda>_ _. \<exists>n. dbfail \<omega> n) \<omega> w"
    by (simp add: wp_iff_outcome)
qed

lemma tombstones_arrive: "arrives tombstonesUp prefixedSchema (prefixedSchema(TombstoneC \<mapsto> tombstoneSchema))"
proof (rule arrivesI)
  fix \<omega> :: "'a envir_scheme" and w :: "'b catalog_world_scheme"
  assume w: "holds w prefixedSchema"
  then have absent: "w_catalog w (collectionName TombstoneC) = None"
    using pendingSchema_tagged(2) by (simp add: holds_def prefixedSchema_def del: collectionName.simps)
  show "wp tombstonesUp (\<lambda>_ v. holds v (prefixedSchema(TombstoneC \<mapsto> tombstoneSchema))) (\<lambda>_ _. \<exists>n. dbfail \<omega> n) \<omega> w"
    using absent w unfolding tombstonesUp_def
    by (auto simp: wp_simps Let_def tombstoneSchema_def holds_def collectionName_inj systemCollection_def addFields_def
        simp del: collectionName.simps)
qed

lemma acr_arrives: "arrives acrValuesUp (prefixedSchema(TombstoneC \<mapsto> tombstoneSchema)) finalSchema"
proof (rule arrivesI)
  fix \<omega> :: "'a envir_scheme" and w :: "'b catalog_world_scheme"
  assume w: "holds w (prefixedSchema(TombstoneC \<mapsto> tombstoneSchema))"
  obtain s where s: "prefixedSchema InteractionC = Some s" "fieldOf s ''requested_acr_values'' = None" "sc_Name s = collectionName InteractionC" "\<not> sc_New s"
    by (simp add: prefixedSchema_def pendingSchema_def withPrefixField_def prefixIndexes_def addFields_def interactionFields_def
        plainText_def plainNumber_def plainJSON_def)
  show "wp acrValuesUp (\<lambda>_ v. holds v finalSchema) (\<lambda>_ _. \<exists>n. dbfail \<omega> n) \<omega> w"
    unfolding acrValuesUp_def wp_bindG
  proof (rule find_rule [OF w, where c = InteractionC])
    show "(prefixedSchema(TombstoneC \<mapsto> tombstoneSchema)) InteractionC = Some s" using s by simp
    show "wp (if fieldOf s ''requested_acr_values'' \<noteq> None then returnG () else SaveCollection (addField (plainJSON ''requested_acr_values'') s))
        (\<lambda>_ v. holds v finalSchema) (\<lambda>_ _. \<exists>n. dbfail \<omega> n) \<omega> u" if "holds u (prefixedSchema(TombstoneC \<mapsto> tombstoneSchema))" for u
      using s by (auto intro!: save_rule [OF that, where c = InteractionC] simp: finalSchema_def)
  qed auto
qed

lemma upgrade_step:
  assumes "arrives (migrationUp m :: ('a, 'b, unit) mgo) f g" "arrives (upgrade ms :: ('a, 'b, unit) mgo) g h"
  shows "arrives (upgrade (m # ms) :: ('a, 'b, unit) mgo) f h"
proof (rule arrivesI)
  fix \<omega> :: "'a envir_scheme" and w :: "'b catalog_world_scheme"
  assume w: "holds w f"
  have "wp (transactionG (migrationUp m)) (\<lambda>_ v. holds v g) (\<lambda>_ _. \<exists>n. dbfail \<omega> n) \<omega> w"
  proof -
    have "wp (migrationUp m) (\<lambda>_ v. holds v g) (\<lambda>_ _. \<exists>n. dbfail \<omega> n) \<omega> (w\<lparr>tick := Suc (tick w)\<rparr>)"
      using assms(1) w by simp
    then show ?thesis unfolding wp_transactionG by (auto elim!: wp_mono)
  qed
  then show "wp (upgrade (m # ms)) (\<lambda>_ v. holds v h) (\<lambda>_ _. \<exists>n. dbfail \<omega> n) \<omega> w"
    unfolding upgrade_def forG.simps wp_bindG
    by (rule wp_mono) (use assms(2) in \<open>simp_all add: upgrade_def\<close>)
qed

lemma upgrade_none: "arrives (upgrade []) f f"
  by (simp add: upgrade_def wp_simps)

lemma upgrade_arrives: "arrives (upgrade allMigrations) (\<lambda>_. None) finalSchema"
  unfolding allMigrations_def
  by (rule upgrade_step [OF _ upgrade_step [OF _ upgrade_step [OF _ upgrade_step [OF _ upgrade_step [OF _ upgrade_step [OF _ upgrade_none]]]]]],
      unfold migrationUp.simps,
      rule init_arrives, rule family_arrives, rule interactions_arrive, rule prefix_arrives, rule tombstones_arrive, rule acr_arrives)

subsection \<open>The tables of the model\<close>

text \<open>The columns of the rows of the model, apart from the record id.\<close>

definition sessionColumns :: "string list" where
  "sessionColumns = [''provider_prefix'', ''signature'', ''client_id'', ''request_id'', ''requested_at'', ''expires_at'', ''scopes'',
     ''granted_scopes'', ''requested_audience'', ''granted_audience'', ''form_data'', ''session_data'', ''subject'']"

definition modelColumns :: "collection \<Rightarrow> string list" where
  "modelColumns c = (case c of
       ClientC \<Rightarrow> [''provider_prefix'', ''client_id'', ''client_name'', ''client_secret'', ''client_secret_expires_at'', ''redirect_uris'',
         ''grant_types'', ''response_types'', ''scope'', ''audience'', ''owner'', ''policy_uri'', ''tos_uri'', ''client_uri'', ''logo_uri'',
         ''contacts'', ''allowed_cors_origins'', ''subject_type'', ''sector_identifier_uri'', ''jwks_uri'', ''jwks'', ''request_uris'',
         ''token_endpoint_auth_method'', ''token_endpoint_auth_signing_alg'', ''request_object_signing_alg'',
         ''userinfo_signed_response_alg'', ''metadata'', ''access_token_strategy'']
     | RefreshC \<Rightarrow> sessionColumns @ [''family_id'', ''parent_refresh_id'', ''status'', ''rotated_at'', ''reused_at'']
     | TombstoneC \<Rightarrow> [''provider_prefix'', ''request_id'', ''family_id'', ''expires_at'']
     | JTIC \<Rightarrow> [''provider_prefix'', ''jti'', ''expires_at'']
     | InteractionC \<Rightarrow> [''provider_prefix'', ''client_id'', ''client_name'', ''user_collection'', ''redirect_uri'', ''request_form'',
         ''requested_scopes'', ''requested_acr_values'', ''requested_at'', ''expires_at'', ''prompt'']
     | ConsentC \<Rightarrow> [''provider_prefix'', ''user_id'', ''user_collection'', ''client_id'', ''granted_scopes'', ''granted_at'']
     | _ \<Rightarrow> sessionColumns)"

definition uniqueKeys :: "schema \<Rightarrow> string list list" where
  "uniqueKeys s = map ix_Columns (filter ix_Unique (sc_Indexes s))"

lemma finalSchema_eval:
  "list_all (\<lambda>c. case finalSchema c of None \<Rightarrow> False | Some s \<Rightarrow> sc_Base s \<and> sc_System s
      \<and> set (map fst (sc_Fields s)) = set (modelColumns c)) providerScopedCollections"
  by code_simp

definition modelKey :: "collection \<Rightarrow> string list list" where
  "modelKey c = (case c of ClientC \<Rightarrow> [[''provider_prefix'', ''client_id'']] | TombstoneC \<Rightarrow> [[''provider_prefix'', ''request_id'']]
     | JTIC \<Rightarrow> [[''provider_prefix'', ''jti'']] | ConsentC \<Rightarrow> [[''provider_prefix'', ''user_collection'', ''user_id'', ''client_id'']]
     | InteractionC \<Rightarrow> [] | _ \<Rightarrow> [[''provider_prefix'', ''signature'']])"

lemma finalSchema_keys: "list_all (\<lambda>c. map_option uniqueKeys (finalSchema c) = Some (modelKey c)) providerScopedCollections"
  by code_simp

text \<open>An insert of the model enforces keys: it fails with a constraint error exactly when the new record id is taken or some row
  agrees with the new one in all columns of a key.\<close>

definition enforces :: "('r \<Rightarrow> ('o envir_scheme, 'w world_scheme, 'a) go) \<Rightarrow> ('w world_scheme \<Rightarrow> 'r list) \<Rightarrow> ('r \<Rightarrow> string)
    \<Rightarrow> ('r \<Rightarrow> string \<Rightarrow> string option) \<Rightarrow> string list list \<Rightarrow> bool" where
  "enforces ins rows ident column keys \<longleftrightarrow> (\<forall>\<omega> w row. \<not> dbfail \<omega> (Suc (tick w)) \<longrightarrow>
     (fst (ins row \<omega> w) = Inl constraintErr \<longleftrightarrow>
       (\<exists>r \<in> set (rows w). ident r = uuid \<omega> (tick w) \<or> (\<exists>key \<in> set keys. \<forall>k \<in> set key. column r k = column row k))))"

definition sessionKeyColumn :: "session_row \<Rightarrow> string \<Rightarrow> string option" where
  "sessionKeyColumn r = map_of [(''provider_prefix'', sr_provider_prefix r), (''signature'', sr_signature r)]"

definition jtiKeyColumn :: "jti_row \<Rightarrow> string \<Rightarrow> string option" where
  "jtiKeyColumn r = map_of [(''provider_prefix'', jt_provider_prefix r), (''jti'', jt_jti r)]"

definition consentKeyColumn :: "consent_row \<Rightarrow> string \<Rightarrow> string option" where
  "consentKeyColumn r = map_of [(''provider_prefix'', co_provider_prefix r), (''user_collection'', co_user_collection r),
     (''user_id'', co_user_id r), (''client_id'', co_client_id r)]"

lemma inserts_enforce:
  "enforces (insertSession c) (\<lambda>w. w_sessions w c) sr_id sessionKeyColumn [[''provider_prefix'', ''signature'']]"
  "enforces (insertJTI True) w_jtis jt_id jtiKeyColumn (modelKey JTIC)"
  "enforces insertConsent w_consents co_id consentKeyColumn (modelKey ConsentC)"
  by (auto simp: enforces_def insertSession_def insertJTI_def insertConsent_def run_simps modelKey_def sessionKeyColumn_def jtiKeyColumn_def
      consentKeyColumn_def consentFor_def split: if_splits)

text \<open>C39: the tables of the model are those that the migrations create. When an upgrade of an empty database succeeds, every
  collection has exactly the columns of the model's rows and the unique indexes the model assumes, and the inserts of
  sessions, JTIs and consents fail exactly where a unique index of the upgraded catalog would make them.\<close>

theorem migrations_create_the_tables:
  assumes "upgrade allMigrations \<omega> w = (Inr (), w')" "\<And>c. w_catalog w (collectionName c) = None"
  shows "\<exists>schemas. (\<forall>c. w_catalog w' (collectionName c) = Some (schemas c)
        \<and> fst ` set (sc_Fields (schemas c)) = set (modelColumns c) \<and> uniqueKeys (schemas c) = modelKey c)
    \<and> (\<forall>c \<in> {AccessC, RefreshC, AuthCodeC, PKCEC, OpenIDC}.
         enforces (insertSession c) (\<lambda>w. w_sessions w c) sr_id sessionKeyColumn (uniqueKeys (schemas c)))
    \<and> enforces (insertJTI True) w_jtis jt_id jtiKeyColumn (uniqueKeys (schemas JTIC))
    \<and> enforces insertConsent w_consents co_id consentKeyColumn (uniqueKeys (schemas ConsentC))"
proof -
  have "holds w (\<lambda>_. None)" using assms(2) by (simp add: holds_def)
  then have "holds w' finalSchema" using upgrade_arrives assms(1) by (auto dest: wp_outcome_Inr)
  moreover have final: "\<exists>s. finalSchema c = Some s \<and> fst ` set (sc_Fields s) = set (modelColumns c) \<and> uniqueKeys s = modelKey c" for c
    using finalSchema_eval finalSchema_keys providerScopedCollections_all [of c]
    by (fastforce simp: list_all_iff split: option.splits)
  ultimately have at: "w_catalog w' (collectionName c) = Some (the (finalSchema c))
      \<and> fst ` set (sc_Fields (the (finalSchema c))) = set (modelColumns c) \<and> uniqueKeys (the (finalSchema c)) = modelKey c" for c
  proof -
    obtain s where "finalSchema c = Some s" "fst ` set (sc_Fields s) = set (modelColumns c)" "uniqueKeys s = modelKey c"
      using final by blast
    with \<open>holds w' finalSchema\<close> show ?thesis by (simp add: holds_def del: collectionName.simps)
  qed
  have session: "modelKey c = [[''provider_prefix'', ''signature'']]" if "c \<in> {AccessC, RefreshC, AuthCodeC, PKCEC, OpenIDC}" for c
    using that by (auto simp: modelKey_def)
  show ?thesis
    by (rule exI [of _ "\<lambda>c. the (finalSchema c)"]) (use at session in \<open>simp add: inserts_enforce del: collectionName.simps\<close>)
qed

definition calmEnv :: envir where
  "calmEnv = \<lparr>dbfail = (\<lambda>_. False), clock = int, uuid = (\<lambda>n. replicate n (CHR ''u''))\<rparr>"

definition emptyCatalog :: catalog_world where
  "emptyCatalog = \<lparr>tick = 0, w_catalog = Map.empty\<rparr>"

lemma calm_upgrade: "\<exists>v. upgrade allMigrations calmEnv emptyCatalog = (Inr (), v)"
proof -
  have "holds emptyCatalog (\<lambda>_. None)" by (simp add: holds_def emptyCatalog_def)
  then have "wp (upgrade allMigrations) (\<lambda>_ v. holds v finalSchema) (\<lambda>_ _. \<exists>n. dbfail calmEnv n) calmEnv emptyCatalog"
    using upgrade_arrives by blast
  then show ?thesis by (simp add: wp_def calmEnv_def split: prod.splits sum.splits)
qed

theorem migrations_create_the_tables_witness:
  "\<exists>s. w_catalog (snd (upgrade allMigrations calmEnv emptyCatalog)) ''_oauth2JTI'' = Some s \<and> uniqueKeys s = [[''provider_prefix'', ''jti'']]"
proof -
  obtain v where v: "upgrade allMigrations calmEnv emptyCatalog = (Inr (), v)"
    using calm_upgrade by blast
  have "w_catalog emptyCatalog (collectionName c) = None" for c by (simp add: emptyCatalog_def)
  from migrations_create_the_tables [OF v this] show ?thesis
    by (auto simp: v modelKey_def dest: spec [of _ JTIC])
qed

subsection \<open>Rolling back and forth\<close>

text \<open>What the storage needs of the collection of tombstones: its required columns and the unique index of a request.\<close>

definition closingTable :: "schema \<Rightarrow> bool" where
  "closingTable s \<longleftrightarrow> sc_Base s \<and> sc_System s \<and> fieldOf s ''provider_prefix'' = Some (TextField True 255)
     \<and> fieldOf s ''request_id'' = Some (TextField True 255) \<and> fieldOf s ''expires_at'' = Some (NumberField True True)
     \<and> [''provider_prefix'', ''request_id''] \<in> set (uniqueKeys s)"

definition named :: "'w catalog_world_scheme \<Rightarrow> bool" where
  "named w \<longleftrightarrow> (\<forall>n s. w_catalog w n = Some s \<longrightarrow> sc_Name s = n)"

definition guarded_tombstones :: "'w catalog_world_scheme \<Rightarrow> bool" where
  "guarded_tombstones w \<longleftrightarrow> named w \<and> (\<exists>s. w_catalog w (collectionName TombstoneC) = Some s \<and> closingTable s)"

text \<open>One migration, forwards or back, with any failures; PocketBase runs it in a transaction.\<close>

inductive migration_run :: "catalog_world \<Rightarrow> catalog_world \<Rightarrow> bool" where
  run_done: "migration_run w w"
| run_up: "migration_run u v \<Longrightarrow> snd (transactionG (migrationUp m) (\<omega> :: envir) v) = w \<Longrightarrow> migration_run u w"
| run_down: "migration_run u v \<Longrightarrow> snd (transactionG (migrationDown m) (\<omega> :: envir) v) = w \<Longrightarrow> migration_run u w"

inductive_cases migration_runE: "migration_run u w"

lemma guarded_tick [simp]: "named (w\<lparr>tick := n\<rparr>) = named w" "guarded_tombstones (w\<lparr>tick := n\<rparr>) = guarded_tombstones w"
  by (simp_all add: named_def guarded_tombstones_def)

text \<open>What a program keeps: named collections and the guarded tombstones.\<close>

abbreviation guardKept :: "'w catalog_world_scheme \<Rightarrow> 'w catalog_world_scheme \<Rightarrow> bool" where
  "guardKept w w' \<equiv> guarded_tombstones w \<longrightarrow> guarded_tombstones w'"

lemma guardKept_rel [keeps_intros]: "preorderR guardKept" "tickfree guardKept"
  by (simp_all add: preorderR_def tickfree_def)

lemma guarded_found: "guarded_tombstones w \<Longrightarrow> w_catalog w n = Some s \<Longrightarrow> sc_Name s = n"
  by (simp add: guarded_tombstones_def named_def)

lemma guarded_update:
  assumes "guarded_tombstones w" "n \<noteq> collectionName TombstoneC" "\<forall>s. new = Some s \<longrightarrow> sc_Name s = n"
  shows "guarded_tombstones (w\<lparr>tick := k, w_catalog := (w_catalog w)(n := new)\<rparr>)"
  using assms by (auto simp: guarded_tombstones_def named_def)

lemma keeps_save: "sc_Name s \<noteq> collectionName TombstoneC \<Longrightarrow> keeps guardKept (SaveCollection s)"
  by (rule keepsI_wp) (auto simp: wp_simps Let_def intro!: guarded_update simp del: collectionName.simps)

lemma keeps_delete: "sc_Name s \<noteq> collectionName TombstoneC \<Longrightarrow> keeps guardKept (DeleteCollection s)"
  by (rule keepsI_wp) (auto simp: wp_simps Let_def guarded_update simp del: collectionName.simps)

text \<open>Finding a collection and working on what was found.\<close>

lemma keeps_find:
  assumes "\<And>s. sc_Name s = n \<Longrightarrow> keeps guardKept (f s)"
  shows "keeps guardKept (bindG (FindCollection n) f)"
proof (rule keepsI_wp)
  fix \<omega> w
  have "wp (f s) (\<lambda>_ v. guarded_tombstones v) (\<lambda>_ v. guarded_tombstones v) \<omega> (w\<lparr>tick := Suc (tick w)\<rparr>)"
    if w: "guarded_tombstones w" "w_catalog w n = Some s" for s
    using keeps_wp [OF assms [OF guarded_found [OF w]], of "w\<lparr>tick := Suc (tick w)\<rparr>" \<omega>] w(1) by simp
  then show "wp (bindG (FindCollection n) f) (\<lambda>_. guardKept w) (\<lambda>_. guardKept w) \<omega> w"
    by (cases "guarded_tombstones w") (auto simp: wp_simps Let_def wp_trivial split: option.split)
qed

lemma keeps_tryFind:
  assumes "\<And>s. sc_Name s = n \<Longrightarrow> keeps guardKept (f s)"
  shows "keeps guardKept (bindG (attemptG (FindCollection n)) (\<lambda>r. case r of Inl _ \<Rightarrow> returnG () | Inr s \<Rightarrow> f s))"
proof (rule keepsI_wp)
  fix \<omega> w
  have "wp (f s) (\<lambda>_ v. guarded_tombstones v) (\<lambda>_ v. guarded_tombstones v) \<omega> (w\<lparr>tick := Suc (tick w)\<rparr>)"
    if w: "guarded_tombstones w" "w_catalog w n = Some s" for s
    using keeps_wp [OF assms [OF guarded_found [OF w]], of "w\<lparr>tick := Suc (tick w)\<rparr>" \<omega>] w(1) by simp
  then show "wp (bindG (attemptG (FindCollection n)) (\<lambda>r. case r of Inl _ \<Rightarrow> returnG () | Inr s \<Rightarrow> f s))
      (\<lambda>_. guardKept w) (\<lambda>_. guardKept w) \<omega> w"
    by (cases "guarded_tombstones w") (auto simp: wp_simps Let_def wp_trivial split: option.split)
qed

lemmas guard_rules = keeps_intros guardKept_rel keeps_save keeps_delete keeps_find keeps_tryFind

lemma keeps_simple_migrations:
  "keeps guardKept initUp" "keeps guardKept initDown" "keeps guardKept refreshFamilyUp" "keeps guardKept interactionsUp"
  "keeps guardKept interactionsDown" "keeps guardKept acrValuesUp" "keeps guardKept acrValuesDown"
proof -
  note drop = keeps_tryFind [where f = "\<lambda>c. bindG (attemptG (DeleteCollection c)) (\<lambda>_. returnG ())"]
  have new: "keeps guardKept (createSessionCollection n)" if "n \<noteq> collectionName TombstoneC" for n
    using that by (simp add: createSessionCollection_def keeps_save)
  have old: "keeps guardKept (dropIfFound n)" if "n \<noteq> collectionName TombstoneC" for n
    unfolding dropIfFound_def using that by (intro drop guard_rules) simp
  show "keeps guardKept initUp" unfolding initUp_def sessionNames_def list.map forG.simps by (intro guard_rules new) simp_all
  show "keeps guardKept initDown" unfolding initDown_def sessionNames_def list.map forG.simps by (intro guard_rules old) simp_all
  show "keeps guardKept refreshFamilyUp" unfolding refreshFamilyUp_def by (intro keeps_find keeps_save) simp
  show "keeps guardKept interactionsUp" unfolding interactionsUp_def by (intro guard_rules) simp_all
  show "keeps guardKept interactionsDown" unfolding interactionsDown_def forG.simps
    by (intro keeps_bindG keeps_tryFind keeps_delete guard_rules) simp_all
  show "keeps guardKept acrValuesUp" unfolding acrValuesUp_def by (intro keeps_find keeps_if keeps_returnG keeps_save guardKept_rel) simp
  show "keeps guardKept acrValuesDown" unfolding acrValuesDown_def by (intro keeps_find keeps_save) (simp add: removeField_def)
qed

lemma keeps_prefix: "keeps guardKept providerPrefixUp"
  unfolding providerPrefixUp_def prefixedCollections_def forG.simps
  by (intro keeps_bindG keeps_find keeps_save keeps_returnG guardKept_rel) simp_all

lemma save_closing:
  assumes "named w" "sc_Name s = collectionName TombstoneC" "closingTable (saved s)"
  shows "wp (SaveCollection s) (\<lambda>_. guarded_tombstones) (\<lambda>_ v. w_catalog v = w_catalog w) \<omega> w"
  using assms by (auto simp: wp_SaveCollection Let_def guarded_tombstones_def named_def simp del: collectionName.simps)

lemma closing_closes:
  assumes "sc_Base c" "sc_System c"
  shows "closingTable (saved (AddIndex i True [''provider_prefix'', ''request_id'']
    (addField (''expires_at'', NumberField True True) (addField (''family_id'', TextField False 255)
      (addField (''request_id'', TextField True 255) (addField (''provider_prefix'', TextField True 255) c))))))"
proof -
  have "sc_Indexes (AddIndex i True k d) = filter (\<lambda>j. ix_Name j \<noteq> i) (sc_Indexes d) @ [\<lparr>ix_Name = i, ix_Unique = True, ix_Columns = k\<rparr>]" for k d
    by (simp add: AddIndex_def)
  then show ?thesis using assms by (simp add: closingTable_def uniqueKeys_def)
qed

lemma tombstones_outcome:
  assumes "named w"
  shows "wp tombstonesUp (\<lambda>_. guarded_tombstones) (\<lambda>_ v. w_catalog v = w_catalog w) \<omega> w"
proof -
  let ?T = "collectionName TombstoneC" and ?w = "w\<lparr>tick := Suc (tick w)\<rparr>"
  have w: "named ?w" "w_catalog ?w = w_catalog w" using assms by simp_all
  note save = save_closing [OF w(1), unfolded w(2)]
  note steps = wp_bindG wp_attemptG wp_FindCollection wp_returnG wp_throwG wp_if wp_ensureText wp_ensureExpiry Let_def
  show ?thesis
  proof (cases "w_catalog w ?T")
    case None
    then show ?thesis unfolding tombstonesUp_def by (simp add: steps save closing_closes del: collectionName.simps)
  next
    case (Some s)
    moreover from this have "sc_Name s = ?T" using assms by (simp add: named_def)
    ultimately show ?thesis unfolding tombstonesUp_def by (simp add: steps save closing_closes del: collectionName.simps)
  qed
qed

lemma keeps_tombstones: "keeps guardKept tombstonesUp"
proof (rule keepsI_wp)
  fix \<omega> w
  show "wp tombstonesUp (\<lambda>_. guardKept w) (\<lambda>_. guardKept w) \<omega> w"
  proof (cases "guarded_tombstones w")
    case True
    then have "named w" by (simp add: guarded_tombstones_def)
    from True show ?thesis
      by (intro wp_mono [OF tombstones_outcome [OF \<open>named w\<close>]]) (simp_all add: guarded_tombstones_def named_def)
  qed (simp add: wp_trivial)
qed

lemma keeps_empty_migrations:
  "keeps guardKept refreshFamilyDown" "keeps guardKept providerPrefixDown" "keeps guardKept tombstonesDown"
  unfolding refreshFamilyDown_def providerPrefixDown_def tombstonesDown_def by (rule keeps_returnG [OF guardKept_rel(1)])+

lemma keeps_migrations: "keeps guardKept (migrationUp m)" "keeps guardKept (migrationDown m)"
  by (cases m; simp only: migrationUp.simps migrationDown.simps keeps_simple_migrations keeps_prefix keeps_tombstones keeps_empty_migrations)+

lemma run_keeps_guard: "migration_run u v \<Longrightarrow> guarded_tombstones u \<Longrightarrow> guarded_tombstones v"
proof (induction rule: migration_run.induct)
  case (run_up u v m \<omega> w)
  then show ?case using keepsD [OF keeps_transactionG [OF guardKept_rel keeps_migrations(1)]] by metis
next
  case (run_down u v m \<omega> w)
  then show ?case using keepsD [OF keeps_transactionG [OF guardKept_rel keeps_migrations(2)]] by metis
qed

text \<open>C40: a rollback of the schema does not reopen terminated requests. Once the last migration has succeeded, the collection of
  tombstones exists with its required columns and the unique index of a request, whatever migrations are run afterwards,
  forwards or back, in any order and with any failures. When it fails instead, it changes no collection.\<close>

theorem terminal_authority_survives_rollback:
  assumes "\<And>n s. w_catalog w n = Some s \<Longrightarrow> sc_Name s = n" "transactionG (migrationUp RefreshTombstones) \<omega> w = (r, u)" "migration_run u v"
  shows "case r of Inr _ \<Rightarrow> \<exists>s. w_catalog v (collectionName TombstoneC) = Some s \<and> sc_Base s
        \<and> (\<forall>n \<in> {''provider_prefix'', ''request_id''}. fieldOf s n = Some (TextField True 255))
        \<and> fieldOf s ''expires_at'' = Some (NumberField True True) \<and> [''provider_prefix'', ''request_id''] \<in> set (uniqueKeys s)
      | Inl _ \<Rightarrow> w_catalog u = w_catalog w"
proof -
  have "named (w\<lparr>tick := Suc (tick w)\<rparr>)" using assms(1) by (simp add: named_def)
  then have "wp (transactionG tombstonesUp) (\<lambda>_. guarded_tombstones) (\<lambda>_ v. w_catalog v = w_catalog w) \<omega> w"
    unfolding wp_transactionG by (auto intro: wp_mono [OF tombstones_outcome])
  from wp_outcome [OF this] assms(2) have "case r of Inr _ \<Rightarrow> guarded_tombstones u | Inl _ \<Rightarrow> w_catalog u = w_catalog w"
    by (simp split: sum.splits)
  with run_keeps_guard [OF assms(3)] show ?thesis
    by (auto simp: guarded_tombstones_def closingTable_def split: sum.splits simp del: collectionName.simps)
qed

theorem terminal_authority_survives_rollback_witness:
  "\<exists>u v. transactionG (migrationUp RefreshTombstones) calmEnv emptyCatalog = (Inr (), u)
     \<and> v = snd (transactionG (migrationDown InitialTables) calmEnv u) \<and> w_catalog v ''_oauth2RefreshTombstones'' \<noteq> None"
proof -
  have "named emptyCatalog" by (simp add: named_def emptyCatalog_def)
  obtain r u where u: "transactionG (migrationUp RefreshTombstones) calmEnv emptyCatalog = (r, u)" by force
  have r: "r = Inr ()"
    using u by (auto simp: transactionG_def dbCall_def calmEnv_def emptyCatalog_def tombstonesUp_def FindCollection_def SaveCollection_def
        ensureRefreshTombstoneTextField_def ensureRefreshTombstoneExpiryField_def run_simps split: prod.splits)
  let ?v = "snd (transactionG (migrationDown InitialTables) calmEnv u)"
  have "migration_run u ?v" by (rule run_down [OF run_done refl])
  from terminal_authority_survives_rollback [OF _ u this] r show ?thesis using u by (fastforce simp: emptyCatalog_def)
qed

text \<open>The migration of the acr values may be repeated.\<close>

lemma acr_repeats:
  assumes "w_catalog w (collectionName InteractionC) = Some s" "fieldOf s ''requested_acr_values'' \<noteq> None"
  shows "wp acrValuesUp (\<lambda>_ v. w_catalog v = w_catalog w) (\<lambda>_ v. w_catalog v = w_catalog w) \<omega> w"
  using assms by (simp add: acrValuesUp_def wp_simps Let_def del: collectionName.simps)

end
