(* ===== verification/Spec2Isabelle.thy ===== *)
theory Spec2Isabelle
  imports Refresh_Properties Interaction_Properties Cleanup_Properties Param_Properties Metadata_Properties
    Access_Properties Attestation_Properties Registration_Properties Registry_Properties User_Info_Properties
    Login_Properties Endpoint_Properties Route_Properties Clone_Properties Migration_Properties
begin

text \<open>
  This library verifies an OAuth 2.0 and OpenID Connect provider for PocketBase: the Go package under src/, a plugin
  that puts the fosite library on top of PocketBase's records. An app may host several providers, each under its own
  path prefix; they share the tables, and every row names the prefix it belongs to.

  \<^bold>\<open>The program and how its parts interact.\<close>
  \<open>Register\<close> (oauth2.go) claims the prefix, copies the configuration, stores an instance in the app's store, and, once
  the app is bootstrapped, loads the signing key and the global secret from the \<open>_params\<close> table (params.go, sealed by
  crypto.go) and builds the discovery metadata; the serve hook binds the routes, the cron hook the cleanup job. A
  browser starts at the authorization endpoint (oauth2_auth.go), which has fosite check the request and stores it as
  a pending interaction (storage_interactions.go); the login endpoints (oauth2_login.go) show it, claim it
  once, record the consent and have fosite answer with a code. The token, introspection and revocation endpoints drive
  fosite, and fosite calls the storage (storage.go), where refresh tokens form families with a terminal
  authority: once a token is replayed or revoked, a tombstone closes the request for good. Access tokens are
  accepted by the strategy, the middlewares and the attestation of a token (strategy.go, middleware.go,
  access_authority.go), all of which ask the storage.

  \<^bold>\<open>How code is modelled.\<close>
  A Go function that may fail and works on the database is a value of type \<open>('o, 'w, 'a) go\<close> (Prelude): it reads an
  oracle, changes a world, and ends with an error or a result; a panic is an error of its own. The world is a record
  of tables (World) and, for the app, of the parameters, the registration guard, the app's store and the
  registered prefixes (App_State). Every database statement, reading of the clock and generated identifier advances a
  tick, and the oracle says for each tick whether the statement fails, what the clock shows and which identifier or
  random bytes come out; so a theorem about all oracles is one about all failures, also between two statements of
  one function. \<open>transactionG\<close> is the only thing that rolls back. Every unique index is checked where a row is inserted. Times are
  integers of microseconds, counters and byte strings are unbounded: the code has no arithmetic near its widths. A
  Go string is a list of bytes. Programs are analysed by \<open>wp\<close>, the weakest precondition, whose equations are in
  \<open>wp_simps\<close>, and by \<open>keeps\<close>, the relations that a program keeps between its worlds, whose rules are in
  \<open>keeps_intros\<close>.

  \<^bold>\<open>Theories and sources.\<close>
  \<^item> Go's standard library, as far as it is used: Go_Strings (strings, slices), Go_Url (url.Values, query encoding),
    Net_Url (url.Parse and URL.String), Codec (encoding/hex, encoding/base64), Http (requests, headers, answers).
  \<^item> Data and tables: Provider_Prefix (consts, provider_prefix.go, instance.go), Session (client/client.go, session.go
    and fosite's requester), World (the tables and the statements on them), Session_Model (storage_session_model.go,
    storage_client_model.go, the generic helpers of storage.go), App_State (Config, Instance, the state of an app).
  \<^item> Token storage (storage.go): Refresh_Authority (tombstones), Refresh_Store (access and refresh tokens), Code_Store
    (codes, PKCE, OpenID sessions, JTIs, storage_jti_model.go).
  \<^item> Interactions and consents: Interactions. The hourly job: Cleanup.
  \<^item> Key material: Envelope (crypto.go), Params (params.go).
  \<^item> Documents: Metadata (rfc8414, openid, rfc9728, buildProviderMetadata), Routes (the route table, handleJSON).
  \<^item> Acceptance of tokens: Access. The signed statement about the running app: Attestation (runtime_attestation.go).
  \<^item> Handlers: Registration (oauth2_register.go and the hook that hashes secrets), User_Info (oauth2_userinfo.go),
    Authorize (oauth2_auth.go), Login (oauth2_login.go), Endpoints (oauth2_token.go, oauth2_introspect.go,
    oauth2_revoke.go).
  \<^item> Registering and deregistering providers: Registry (oauth2.go, instance.go, provider_prefix.go, xpb/plugin.go).
  \<^item> The schema: Migrations (migrations/), programs on a catalog of collections.
  \<^item> Copies: Clone (cloneConfig of oauth2.go, Session.Clone of session.go), on an explicit heap of references.

  Definitions carry the names of the functions they model; a column or field is prefixed by a short
  form of its struct. Where a definition is a part of a function, its text names it.

  \<^bold>\<open>What is shown.\<close>
  \<^item> Provider_Frame states, as the locale \<open>provider_frame\<close>, which atomic steps the storage of one provider may take and
    what it has checked before; Provider_Steps proves that every storage method takes only these; Store_Machine is
    the step relation of all storage calls of all providers in any order. Store_Safety interprets the locale with one
    relation per property. Refresh_Properties concludes: terminal authority is permanent, nothing is
    issued for a terminal request, a request has at most one active refresh token, rotation has one winner,
    replay is detected, providers do not touch each other's rows, codes are single use. Family and Lineage refine the
    loops to atomic steps and characterise the lineage decision; Refresh_Outcomes has the outcome of each
    operation on each branch.
  \<^item> Interaction_Properties: any number of concurrent completions of an interaction has one winner; interactions read
    back as stored; consents are a union of sets. Cleanup_Properties: the job deletes only what is expired and
    never reopens a request; Cleanup states the purge once, in the locale \<open>table\<close>, for three kinds of tables.
  \<^item> Param_Facts (locale \<open>param_value\<close>, interpreted for the secret's bytes and used for every admissible codec), Param_Load,
    Param_Rotation, Param_Properties: a load never loses a stored key, whatever fails; sealing and opening are
    inverse; without failures rotation ends in rows of the active master; a wrong master key stops the load.
  \<^item> Metadata_Properties, Route_Properties: issuers, key sets, advertised endpoints and served documents agree.
  \<^item> Access_Properties, User_Info_Properties: accepted tokens are live, terminal ones are rejected everywhere, claims are
    released within the granted scopes. Attestation_Properties: statements are bound to the nonce and limited.
  \<^item> Registration_Properties, Registry_Properties: registration is guarded; guard, prefixes and instances stay consistent
    under any sequence of calls, and a failed registration rolls back.
  \<^item> Login_Properties, Endpoint_Properties: the handlers store no user token, redirect only with a consent that covers
    the scopes, complete an interaction once, always answer, and keep the promises of the storage under any sequence of
    requests.
  \<^item> Clone_Properties: the locale \<open>copying\<close> says what a copy owes; it is interpreted for every copying function of the code.
  \<^item> Migration_Properties: an upgrade creates exactly the columns and unique indexes that World assumes, and no rollback
    loses the table of tombstones.

  Demo and Param_Demo hold the concrete environments, worlds and toy primitives at which the properties with hypotheses
  are instantiated.

  \<^bold>\<open>Parameters and what is assumed of them.\<close>
  Code that is not in the repository is a field of the oracle or an argument. Its documented behaviour is stated
  as named hypotheses where a property needs it: \<open>cryptoLaws\<close> (lengths of digests, opening what was sealed, JSON
  round trips), \<open>keyBinding\<close> (what one key sealed no other opens), \<open>appLaws\<close> (identifiers, the JSON of a key), \<open>regLaws\<close> (the
  JSON of a client), \<open>providerLaws\<close>, \<open>providerStorage\<close>, \<open>tokenStorage\<close> (fosite has no access to interactions and
  consents, and reaches token tables only through the storage interface of this package). PocketBase's user
  records and tokens, its password hasher, fosite's error conversion and introspection, the JOSE signer and the JSON of
  sessions are unconstrained unless a statement says so.

  \<^bold>\<open>Bounds.\<close>
  No definition needs fuel: the loops of the code run over query results, configuration lists or strings, so all
  functions are structural or have a measure. The limits are those of the code: 120 attestations per window of a minute
  (hence 240 in any minute), 24 hours for a tombstone without artifacts, ten minutes for a pending interaction.

  \<^bold>\<open>Not modelled.\<close>
  The embedded login page; the example
  programs; the composition of fosite's handlers; the validation of the xpb plugin, which is that of a third-party
  library; logging. Calls interleave call by call, and the completions of an interaction also between lookup and claim;
  finer interleavings, between the statements of one call, are not modelled, nor are mutexes. The conditional updates
  that decide a race (a rotation, a claim, a spent code, a parameter) are single statements in the code and in the model.
\<close>

end
